(* ===== verification/Prelude.thy ===== *)
theory Prelude
  imports Main "HOL-Library.Sublist" "HOL-Library.List_Lexorder" "HOL-Library.Char_ord"
begin

section \<open>Shared vocabulary: results, sorted key lists, finite tables\<close>

text \<open>
  What every component of the model uses. A Python function that may raise is a function
  into \<open>'e + 'a\<close>: \<open>Inl\<close> carries the exception, \<open>Inr\<close> the returned value, and
  \<open>rbind\<close> is "call, and let an exception pass". A Django table is a list of rows in
  insertion order; \<open>row_of\<close> reads the first row with a key (primary keys are unique, so
  it is the row), \<open>upd_row\<close> is the save of a row. \<open>canon\<close> is Python's
  \<open>sorted(set(xs))\<close>. Strings compare by code point, as Python's do.
\<close>

named_theorems result_simps \<open>how results are taken apart\<close>
named_theorems table_simps \<open>reads of a table after a write\<close>

subsection \<open>Results\<close>

type_synonym ('e, 'a) result = "'e + 'a"

definition rbind :: "('e, 'a) result \<Rightarrow> ('a \<Rightarrow> ('e, 'b) result) \<Rightarrow> ('e, 'b) result" where
  "rbind m f = (case m of Inl e \<Rightarrow> Inl e | Inr x \<Rightarrow> f x)"

lemma rbind_simps [simp]: "rbind (Inl e) f = Inl e" "rbind (Inr x) f = f x"
  by (simp_all add: rbind_def)

lemma rbind_eq_Inr [result_simps]: "rbind m f = Inr y \<longleftrightarrow> (\<exists>x. m = Inr x \<and> f x = Inr y)"
  by (cases m) auto

lemma rbind_eq_Inl [result_simps]:
  "rbind m f = Inl e \<longleftrightarrow> m = Inl e \<or> (\<exists>x. m = Inr x \<and> f x = Inl e)"
  by (cases m) auto

lemma rbind_assoc: "rbind (rbind m f) g = rbind m (\<lambda>x. rbind (f x) g)"
  by (cases m) auto

definition is_ok :: "('e, 'a) result \<Rightarrow> bool" where
  "is_ok m = (case m of Inl _ \<Rightarrow> False | Inr _ \<Rightarrow> True)"

lemma is_ok_simps [simp]: "is_ok (Inr x)" "\<not> is_ok (Inl e)"
  by (simp_all add: is_ok_def)

text \<open>The \<open>except\<close> clause that turns every error of a call into another error.\<close>

definition map_err :: "('e \<Rightarrow> 'f) \<Rightarrow> ('e, 'a) result \<Rightarrow> ('f, 'a) result" where
  "map_err h m = (case m of Inl e \<Rightarrow> Inl (h e) | Inr x \<Rightarrow> Inr x)"

lemma map_err_simps [simp]: "map_err h (Inl e) = Inl (h e)" "map_err h (Inr x) = Inr x"
  by (simp_all add: map_err_def)

lemma map_err_eq_Inr [result_simps]: "map_err h m = Inr x \<longleftrightarrow> m = Inr x"
  by (cases m) auto

text \<open>A list comprehension whose element expression may raise: the first error ends it.\<close>

fun traverse :: "('a \<Rightarrow> ('e, 'b) result) \<Rightarrow> 'a list \<Rightarrow> ('e, 'b list) result" where
  "traverse f [] = Inr []"
| "traverse f (x # xs) = rbind (f x) (\<lambda>y. rbind (traverse f xs) (\<lambda>ys. Inr (y # ys)))"

lemma traverse_Inr_iff:
  "traverse f xs = Inr ys \<longleftrightarrow> list_all2 (\<lambda>x y. f x = Inr y) xs ys"
proof (induction xs arbitrary: ys)
  case (Cons x xs)
  show ?case
    by (cases ys) (auto simp: result_simps Cons.IH)
qed auto

lemma traverse_length: "traverse f xs = Inr ys \<Longrightarrow> length ys = length xs"
  by (auto simp: traverse_Inr_iff dest: list_all2_lengthD)

lemma traverse_in_set:
  "traverse f xs = Inr ys \<Longrightarrow> y \<in> set ys \<Longrightarrow> \<exists>x \<in> set xs. f x = Inr y"
  unfolding traverse_Inr_iff by (induction rule: list_all2_induct) auto

subsection \<open>\<open>sorted(set(xs))\<close>\<close>

definition canon :: "'a::linorder list \<Rightarrow> 'a list" where
  "canon xs = sort (remdups xs)"

lemma set_canon [simp]: "set (canon xs) = set xs"
  by (simp add: canon_def)

lemma sorted_canon [simp]: "sorted (canon xs)"
  by (simp add: canon_def)

lemma distinct_canon [simp]: "distinct (canon xs)"
  by (simp add: canon_def)

lemma canon_eq_iff: "canon xs = canon ys \<longleftrightarrow> set xs = set ys"
  by (metis canon_def set_canon sorted_list_of_set_sort_remdups)

lemma canon_id: "sorted xs \<Longrightarrow> distinct xs \<Longrightarrow> canon xs = xs"
  by (simp add: canon_def distinct_remdups_id sorted_sort_id)

lemma canon_fixed_iff: "xs = canon xs \<longleftrightarrow> sorted xs \<and> distinct xs"
  by (metis canon_id distinct_canon sorted_canon)

subsection \<open>Tables\<close>

definition row_of :: "('r \<Rightarrow> 'k) \<Rightarrow> 'r list \<Rightarrow> 'k \<Rightarrow> 'r option" where
  "row_of key rows k = find (\<lambda>r. key r = k) rows"

definition upd_row :: "('r \<Rightarrow> 'k) \<Rightarrow> 'r list \<Rightarrow> 'r \<Rightarrow> 'r list" where
  "upd_row key rows r = map (\<lambda>q. if key q = key r then r else q) rows"

lemma row_of_Some: "row_of key rows k = Some r \<Longrightarrow> r \<in> set rows \<and> key r = k"
  by (auto simp: row_of_def find_Some_iff)

lemma row_of_None: "row_of key rows k = None \<longleftrightarrow> k \<notin> key ` set rows"
  by (auto simp: row_of_def find_None_iff)

lemma row_of_in:
  assumes "distinct (map key rows)" and "r \<in> set rows"
  shows "row_of key rows (key r) = Some r"
  using assms by (induction rows) (auto simp: row_of_def)

lemma row_of_simps [table_simps]:
  "row_of key [] k = None"
  "row_of key (r # rows) k = (if key r = k then Some r else row_of key rows k)"
  by (simp_all add: row_of_def)

lemma row_of_append [table_simps]:
  "row_of key (rows @ rows') k =
     (case row_of key rows k of Some r \<Rightarrow> Some r | None \<Rightarrow> row_of key rows' k)"
  by (induction rows) (auto simp: table_simps)

lemma row_of_upd_row [table_simps]:
  "row_of key (upd_row key rows r) k =
     (if k = key r \<and> k \<in> key ` set rows then Some r else row_of key rows k)"
  by (induction rows) (auto simp: upd_row_def row_of_def)

lemma keys_upd_row [simp]: "map key (upd_row key rows r) = map key rows"
  by (induction rows) (auto simp: upd_row_def)

lemma upd_row_simps [simp]:
  "upd_row key [] r = []"
  "upd_row key (q # rows) r = (if key q = key r then r else q) # upd_row key rows r"
  by (simp_all add: upd_row_def)

lemma set_upd_row: "x \<in> set (upd_row key rows r) \<Longrightarrow> x = r \<or> x \<in> set rows \<and> key x \<noteq> key r"
  by (auto simp: upd_row_def)

lemma length_upd_row [simp]: "length (upd_row key rows r) = length rows"
  by (simp add: upd_row_def)

text \<open>\<open>qs.order_by("-created_at").first()\<close>: a newest row of the ones that match.\<close>

fun newest :: "('r \<Rightarrow> 'k::linorder) \<Rightarrow> 'r list \<Rightarrow> 'r option" where
  "newest t [] = None"
| "newest t (r # rows) =
     (case newest t rows of None \<Rightarrow> Some r | Some q \<Rightarrow> if t r < t q then Some q else Some r)"

lemma newest_in: "newest t rows = Some r \<Longrightarrow> r \<in> set rows"
  by (induction rows) (auto split: option.splits if_splits)

lemma newest_None_iff [simp]: "newest t rows = None \<longleftrightarrow> rows = []"
  by (cases rows) (auto split: option.splits if_splits)

lemma newest_single [simp]: "newest t [r] = Some r"
  by simp

lemma newest_max: "newest t rows = Some r \<Longrightarrow> q \<in> set rows \<Longrightarrow> t q \<le> t r"
  by (induction rows arbitrary: r q) (fastforce split: option.splits if_splits)+

lemma newest_map: "(\<And>r. t (f r) = t r) \<Longrightarrow> newest t (map f rows) = map_option f (newest t rows)"
  by (induction rows) (auto split: option.splits)

lemma filter_map_same: "(\<And>r. P (f r) = P r) \<Longrightarrow> filter P (map f rows) = map f (filter P rows)"
  by (induction rows) auto

lemma newest_snoc_only: "filter P rows = [] \<Longrightarrow> P r \<Longrightarrow> newest t (filter P (rows @ [r])) = Some r"
  by simp

text \<open>A write of one row, as a map over the table.\<close>

lemma row_of_map:
  assumes "\<And>r. key (f r) = key r"
  shows "row_of key (map (\<lambda>r. if key r = j then f r else r) rows) k =
    (if k = j then map_option f (row_of key rows j) else row_of key rows k)"
  by (induction rows) (auto simp: table_simps assms)

subsection \<open>\<open>while True\<close>\<close>

text \<open>A loop that is left only by a return or an exception inside its body: \<open>body\<close> runs once and
  answers \<open>Some r\<close> to leave with \<open>r\<close>, \<open>None\<close> to go round again. A loop that is never left is
  \<open>None\<close>.\<close>

partial_function (option) while_true :: "('w \<Rightarrow> 'r option \<times> 'w) \<Rightarrow> 'w \<Rightarrow> ('r \<times> 'w) option" where
  "while_true body w =
     (case body w of (Some r, w') \<Rightarrow> Some (r, w') | (None, w') \<Rightarrow> while_true body w')"

lemma while_true_inv:
  assumes "while_true body w = Some (r, w')" and "I w"
    and keep: "\<And>v v'. I v \<Longrightarrow> body v = (None, v') \<Longrightarrow> I v'"
    and leave: "\<And>v v' r. I v \<Longrightarrow> body v = (Some r, v') \<Longrightarrow> Q r v'"
  shows "Q r w'"
proof -
  have "body = body \<longrightarrow> I w \<longrightarrow> Q (fst (r, w')) (snd (r, w'))"
  proof (rule while_true.raw_induct [where P = "\<lambda>b w p. b = body \<longrightarrow> I w \<longrightarrow> Q (fst p) (snd p)", OF _ assms(1)])
    fix loop b v p
    assume IH: "\<And>b v p. loop b v = Some p \<Longrightarrow> b = body \<longrightarrow> I v \<longrightarrow> Q (fst p) (snd p)"
      and eq: "(case b v of (None, v') \<Rightarrow> loop b v' | (Some r, v') \<Rightarrow> Some (r, v')) = Some p"
    show "b = body \<longrightarrow> I v \<longrightarrow> Q (fst p) (snd p)"
      using eq by (auto split: prod.splits option.splits dest: keep leave IH)
  qed
  with assms(2) show ?thesis by simp
qed

lemma while_true_terminates:
  fixes m :: "'w \<Rightarrow> nat"
  assumes "I w" and step: "\<And>v v'. I v \<Longrightarrow> body v = (None, v') \<Longrightarrow> I v' \<and> m v' < m v"
  shows "\<exists>r w'. while_true body w = Some (r, w')"
  using assms(1)
proof (induction "m w" arbitrary: w rule: less_induct)
  case less
  show ?case
  proof (cases "body w")
    case (Pair o' v)
    show ?thesis
    proof (cases o')
      case None
      with less Pair step [of w v] show ?thesis
        by (subst while_true.simps) simp
    next
      case (Some r)
      with Pair show ?thesis by (subst while_true.simps) simp
    qed
  qed
qed

end
