(* ===== verification/Floats.thy ===== *)
theory Floats
  imports Complex_Main Prelude "HOL-Library.Log_Nat"
begin

section \<open>Python floats: IEEE 754 binary64\<close>

text \<open>
  A Python \<open>float\<close> is a finite rational, an infinity or a NaN (the two zeros are one
  value: no operation the model uses tells them apart). Arithmetic computes the exact
  rational and rounds it once, to nearest, ties to even, with 53 significand bits and
  exponents down to -1074; a rounded magnitude of \<open>2^1024\<close> or more is an infinity.
  \<open>is_double\<close> holds of the finite values that are doubles. The two facts the fitter's proofs
  need are \<open>fl_ge\<close> and \<open>fl_le\<close>: rounding never crosses a double.
\<close>

datatype pyfloat = Fin rat | PInf | NInf | NaN

definition pw :: "int \<Rightarrow> rat" where
  "pw e = 2 powi e"

lemma pw_pos [simp]: "0 < pw e"
  by (simp add: pw_def)

lemma pw_neq_0 [simp]: "pw e \<noteq> 0"
  using pw_pos [of e] by linarith

lemma pw_add: "pw (a + b) = pw a * pw b"
  by (simp add: pw_def power_int_add)

lemma pw_diff: "pw (a - b) = pw a / pw b"
  by (simp add: pw_def power_int_diff)

lemma pw_nat: "pw (int n) = 2 ^ n"
  by (simp add: pw_def)

lemma pw_mono: "a \<le> b \<Longrightarrow> pw a \<le> pw b"
  by (simp add: pw_def power_int_increasing)

lemma pw_strict_mono: "a < b \<Longrightarrow> pw a < pw b"
  by (simp add: pw_def power_int_strict_increasing)

lemma pw_le_iff: "pw a \<le> pw b \<longleftrightarrow> a \<le> b"
  by (meson linorder_not_le pw_mono pw_strict_mono)

lemma pw_less_iff: "pw a < pw b \<longleftrightarrow> a < b"
  by (meson linorder_not_le pw_mono pw_strict_mono)

lemma abs_pw [simp]: "\<bar>pw e\<bar> = pw e"
  by (simp add: less_imp_le)

lemma pw_0 [simp]: "pw 0 = 1"
  by (simp add: pw_def)

lemma pw_53: "pw 53 = of_int (2 ^ 53)"
  by (simp add: pw_def)

subsection \<open>The exponent of a rational\<close>

definition ilog2 :: "rat \<Rightarrow> int" where
  "ilog2 x =
     (case quotient_of x of (p, q) \<Rightarrow>
        let d = bitlen p - bitlen q in if pw d \<le> x then d else d - 1)"

lemma bitlen_pw_bounds:
  assumes "0 < n"
  shows "pw (bitlen n - 1) \<le> of_int n" and "of_int n < pw (bitlen n)"
proof -
  have "0 < bitlen n"
    using assms by (metis bitlen_eq_zero_iff bitlen_nonneg linorder_not_le order_le_less)
  then have 1: "pw (bitlen n - 1) = of_int (2 ^ nat (bitlen n - 1))"
    and 2: "pw (bitlen n) = of_int (2 ^ nat (bitlen n))"
    by (simp_all add: pw_def power_int_def)
  from bitlen_bounds [OF assms] show "pw (bitlen n - 1) \<le> of_int n"
    and "of_int n < pw (bitlen n)"
    unfolding 1 2 of_int_le_iff of_int_less_iff by simp_all
qed

lemma ilog2_bounds:
  assumes "0 < x"
  shows "pw (ilog2 x) \<le> x \<and> x < pw (ilog2 x + 1)"
proof -
  obtain p q where pq: "quotient_of x = (p, q)" by (cases "quotient_of x")
  then have x: "x = of_int p / of_int q" and q: "0 < q"
    by (auto dest: quotient_of_div quotient_of_denom_pos)
  with assms have p: "0 < p"
    by (simp add: zero_less_divide_iff)
  let ?d = "bitlen p - bitlen q"
  have "x < pw (bitlen p) / pw (bitlen q - 1)"
    unfolding x using bitlen_pw_bounds [OF p] bitlen_pw_bounds [OF q] p q
    by (intro frac_less) auto
  also have "\<dots> = pw (?d + 1)"
    by (simp add: pw_diff pw_add algebra_simps flip: pw_diff)
  finally have up: "x < pw (?d + 1)" .
  have "pw (?d - 1) = pw (bitlen p - 1) / pw (bitlen q)"
    by (simp add: algebra_simps flip: pw_diff)
  also have "\<dots> \<le> x"
    unfolding x using bitlen_pw_bounds [OF p] bitlen_pw_bounds [OF q] p q
    by (intro frac_le) auto
  finally have lo: "pw (?d - 1) \<le> x" .
  from up lo show ?thesis
    by (simp add: ilog2_def pq Let_def)
qed

subsection \<open>Rounding to nearest, ties to even\<close>

definition rhe :: "rat \<Rightarrow> int" where
  "rhe q =
     (let f = \<lfloor>q\<rfloor>; r = q - of_int f
      in if r < 1 / 2 then f else if 1 / 2 < r then f + 1 else if even f then f else f + 1)"

lemma rhe_ge: "of_int n \<le> q \<Longrightarrow> n \<le> rhe q"
  by (auto simp: rhe_def Let_def le_floor_iff intro: order_trans [of n "\<lfloor>q\<rfloor>"])

lemma rhe_le:
  assumes "q \<le> of_int n"
  shows "rhe q \<le> n"
proof (cases "q = of_int n")
  case True
  then show ?thesis by (simp add: rhe_def)
next
  case False
  with assms have "\<lfloor>q\<rfloor> < n"
    by (simp add: floor_less_iff)
  then show ?thesis by (simp add: rhe_def Let_def)
qed

lemma rhe_of_int [simp]: "rhe (of_int n) = n"
  by (simp add: antisym rhe_ge rhe_le)

definition fl_exp :: "rat \<Rightarrow> int" where
  "fl_exp x = max (- 1074) (ilog2 \<bar>x\<bar> - 52)"

definition fl_val :: "rat \<Rightarrow> rat" where
  "fl_val x = (if x = 0 then 0 else of_int (rhe (x / pw (fl_exp x))) * pw (fl_exp x))"

definition fl :: "rat \<Rightarrow> pyfloat" where
  "fl x =
     (let y = fl_val x
      in if pw 1024 \<le> y then PInf else if y \<le> - pw 1024 then NInf else Fin y)"

definition is_double :: "rat \<Rightarrow> bool" where
  "is_double x = (\<bar>x\<bar> < pw 1024 \<and> fl_val x = x)"

text \<open>The doubles in closed form: a 53-bit significand times a power of two.\<close>

definition dyadic :: "rat \<Rightarrow> bool" where
  "dyadic x = (\<exists>m e. x = of_int m * pw e \<and> \<bar>m\<bar> \<le> 2 ^ 53 \<and> - 1074 \<le> e)"

lemma scaled_bound:
  assumes "x \<noteq> 0"
  shows "\<bar>x\<bar> < pw 53 * pw (fl_exp x)"
proof -
  have "\<bar>x\<bar> < pw (ilog2 \<bar>x\<bar> + 1)"
    using ilog2_bounds [of "\<bar>x\<bar>"] assms by simp
  also have "\<dots> \<le> pw (53 + fl_exp x)"
    by (rule pw_mono) (simp add: fl_exp_def)
  finally show ?thesis by (simp add: pw_add)
qed

lemma dyadic_fl_val: "dyadic (fl_val x)"
proof (cases "x = 0")
  case True
  then show ?thesis
    by (auto simp: dyadic_def fl_val_def intro!: exI [of _ 0])
next
  case False
  let ?e = "fl_exp x" and ?m = "rhe (x / pw (fl_exp x))"
  have "\<bar>x / pw ?e\<bar> \<le> of_int (2 ^ 53)"
    using scaled_bound [OF False] by (simp add: pw_53 divide_simps)
  then have "x / pw ?e \<le> of_int (2 ^ 53)" and "of_int (- (2 ^ 53)) \<le> x / pw ?e"
    by (simp_all only: abs_le_iff of_int_minus) linarith+
  then have "?m \<le> 2 ^ 53" and "- (2 ^ 53) \<le> ?m"
    by (blast intro: rhe_le rhe_ge)+
  then have "\<bar>?m\<bar> \<le> 2 ^ 53" by linarith
  moreover have "- 1074 \<le> ?e" by (simp add: fl_exp_def)
  ultimately show ?thesis
    using False unfolding dyadic_def fl_val_def by (intro exI [of _ ?m] exI [of _ ?e]) simp
qed

text \<open>A dyadic is a multiple of the rounding unit of \<open>x\<close>, or at most its half-range.\<close>

lemma dyadic_unit:
  assumes "dyadic b"
  shows "(\<exists>n. b = of_int n * pw (fl_exp x)) \<or> fl_exp x \<noteq> - 1074 \<and> \<bar>b\<bar> \<le> pw (fl_exp x + 52)"
proof -
  from assms obtain m e where b: "b = of_int m * pw e" and m: "\<bar>m\<bar> \<le> 2 ^ 53" and e: "- 1074 \<le> e"
    by (auto simp: dyadic_def)
  show ?thesis
  proof (cases "fl_exp x \<le> e")
    case True
    then obtain k where k: "e = fl_exp x + int k"
      using zle_iff_zadd by blast
    have "b = of_int (m * 2 ^ k) * pw (fl_exp x)"
      by (simp add: b k pw_add pw_nat)
    then show ?thesis by blast
  next
    case False
    have "of_int \<bar>m\<bar> \<le> (of_int (2 ^ 53) :: rat)"
      using m by (simp only: of_int_le_iff)
    then have "\<bar>b\<bar> \<le> pw 53 * pw e"
      unfolding b abs_mult abs_pw pw_53 by (intro mult_right_mono) (simp_all add: less_imp_le)
    also have "\<dots> \<le> pw (fl_exp x + 52)"
      unfolding pw_add [symmetric] using False by (intro pw_mono) simp
    finally have "\<bar>b\<bar> \<le> pw (fl_exp x + 52)" .
    with False e show ?thesis by auto
  qed
qed

lemma fl_unit_bound:
  assumes "x \<noteq> 0" and "fl_exp x \<noteq> - 1074"
  shows "pw (fl_exp x + 52) \<le> \<bar>x\<bar>"
proof -
  have "fl_exp x = ilog2 \<bar>x\<bar> - 52"
    using assms(2) by (simp add: fl_exp_def max_def split: if_splits)
  then show ?thesis
    using ilog2_bounds [of "\<bar>x\<bar>"] assms(1) by simp
qed

lemma pw_unit: "pw (fl_exp x + 52) = of_int (2 ^ 52) * pw (fl_exp x)"
  using pw_nat [of 52] by (simp add: pw_add)

lemma fl_val_ge_multiple:
  "x \<noteq> 0 \<Longrightarrow> of_int n * pw (fl_exp x) \<le> x \<Longrightarrow> of_int n * pw (fl_exp x) \<le> fl_val x"
  by (simp add: fl_val_def rhe_ge pos_le_divide_eq)

lemma fl_val_le_multiple:
  "x \<noteq> 0 \<Longrightarrow> x \<le> of_int n * pw (fl_exp x) \<Longrightarrow> fl_val x \<le> of_int n * pw (fl_exp x)"
  by (simp add: fl_val_def rhe_le pos_divide_le_eq)

lemma fl_val_ge:
  assumes b: "dyadic b" and le: "b \<le> x"
  shows "b \<le> fl_val x"
proof (cases "x = 0")
  case True
  with le show ?thesis by (simp add: fl_val_def)
next
  case False
  from dyadic_unit [OF b, of x] show ?thesis
  proof
    assume "\<exists>n. b = of_int n * pw (fl_exp x)"
    then show ?thesis using fl_val_ge_multiple [OF False] le by blast
  next
    assume u: "fl_exp x \<noteq> - 1074 \<and> \<bar>b\<bar> \<le> pw (fl_exp x + 52)"
    have big: "pw (fl_exp x + 52) \<le> \<bar>x\<bar>"
      using fl_unit_bound [OF False] u by blast
    show ?thesis
    proof (cases "0 < x")
      case True
      then have "pw (fl_exp x + 52) \<le> fl_val x"
        using fl_val_ge_multiple [OF False, of "2 ^ 52"] big by (simp add: pw_unit)
      with u show ?thesis by linarith
    next
      case neg: False
      with u big le have "b = of_int (- (2 ^ 52)) * pw (fl_exp x)"
        using pw_unit [of x] by simp
      then show ?thesis
        using fl_val_ge_multiple [OF False] le by blast
    qed
  qed
qed

lemma fl_val_le:
  assumes b: "dyadic b" and le: "x \<le> b"
  shows "fl_val x \<le> b"
proof (cases "x = 0")
  case True
  with le show ?thesis by (simp add: fl_val_def)
next
  case False
  from dyadic_unit [OF b, of x] show ?thesis
  proof
    assume "\<exists>n. b = of_int n * pw (fl_exp x)"
    then show ?thesis using fl_val_le_multiple [OF False] le by blast
  next
    assume u: "fl_exp x \<noteq> - 1074 \<and> \<bar>b\<bar> \<le> pw (fl_exp x + 52)"
    have big: "pw (fl_exp x + 52) \<le> \<bar>x\<bar>"
      using fl_unit_bound [OF False] u by blast
    show ?thesis
    proof (cases "x < 0")
      case True
      then have "fl_val x \<le> - pw (fl_exp x + 52)"
        using fl_val_le_multiple [OF False, of "- (2 ^ 52)"] big by (simp add: pw_unit)
      with u show ?thesis by linarith
    next
      case neg: False
      with u big le have "b = of_int (2 ^ 52) * pw (fl_exp x)"
        using pw_unit [of x] by simp
      then show ?thesis
        using fl_val_le_multiple [OF False] le by blast
    qed
  qed
qed

lemma fl_val_dyadic: "dyadic x \<Longrightarrow> fl_val x = x"
  by (simp add: antisym fl_val_ge fl_val_le)

lemma is_double_iff: "is_double x \<longleftrightarrow> dyadic x \<and> \<bar>x\<bar> < pw 1024"
  unfolding is_double_def by (metis dyadic_fl_val fl_val_dyadic)

lemma fl_double: "is_double x \<Longrightarrow> fl x = Fin x"
  by (auto simp: fl_def is_double_def)

lemma fl_is_double: "fl x = Fin y \<Longrightarrow> is_double y"
  by (auto simp: fl_def Let_def is_double_iff dyadic_fl_val split: if_splits)

lemma fl_not_nan [simp]: "fl x \<noteq> NaN"
  by (simp add: fl_def Let_def)

lemma fl_ge:
  assumes "is_double b" and "b \<le> x"
  shows "fl x \<noteq> NInf" and "fl x = Fin y \<Longrightarrow> b \<le> y"
  using assms fl_val_ge [of b x] by (auto simp: fl_def Let_def is_double_iff split: if_splits)

lemma fl_le:
  assumes "is_double b" and "x \<le> b"
  shows "fl x \<noteq> PInf" and "fl x = Fin y \<Longrightarrow> y \<le> b"
  using assms fl_val_le [of b x] by (auto simp: fl_def Let_def is_double_iff split: if_splits)

lemma is_double_of_int: "\<bar>n\<bar> \<le> 2 ^ 53 \<Longrightarrow> is_double (of_int n)"
proof -
  assume n: "\<bar>n\<bar> \<le> 2 ^ 53"
  then have "dyadic (of_int n)"
    unfolding dyadic_def by (intro exI [of _ n] exI [of _ 0]) simp
  moreover have "\<bar>of_int n\<bar> \<le> (of_int (2 ^ 53) :: rat)"
    using n by (simp only: of_int_abs [symmetric] of_int_le_iff)
  then have "\<bar>of_int n\<bar> < pw 1024"
    using pw_less_iff [of 53 1024] by (simp add: pw_53)
  ultimately show ?thesis by (simp add: is_double_iff)
qed

lemma is_double_0 [simp]: "is_double 0"
  using is_double_of_int [of 0] by simp

lemma is_double_1 [simp]: "is_double 1"
  using is_double_of_int [of 1] by simp

subsection \<open>Operations and comparisons\<close>

fun fneg :: "pyfloat \<Rightarrow> pyfloat" where
  "fneg (Fin x) = Fin (- x)"
| "fneg PInf = NInf"
| "fneg NInf = PInf"
| "fneg NaN = NaN"

fun fadd :: "pyfloat \<Rightarrow> pyfloat \<Rightarrow> pyfloat" where
  "fadd (Fin x) (Fin y) = fl (x + y)"
| "fadd NaN _ = NaN"
| "fadd _ NaN = NaN"
| "fadd PInf NInf = NaN"
| "fadd NInf PInf = NaN"
| "fadd PInf _ = PInf"
| "fadd _ PInf = PInf"
| "fadd NInf _ = NInf"
| "fadd _ NInf = NInf"

definition fsub :: "pyfloat \<Rightarrow> pyfloat \<Rightarrow> pyfloat" where
  "fsub x y = fadd x (fneg y)"

definition finf :: "bool \<Rightarrow> pyfloat" where
  "finf pos = (if pos then PInf else NInf)"

fun fmul :: "pyfloat \<Rightarrow> pyfloat \<Rightarrow> pyfloat" where
  "fmul (Fin x) (Fin y) = fl (x * y)"
| "fmul NaN _ = NaN"
| "fmul _ NaN = NaN"
| "fmul (Fin x) PInf = (if x = 0 then NaN else finf (0 < x))"
| "fmul (Fin x) NInf = (if x = 0 then NaN else finf (x < 0))"
| "fmul PInf (Fin x) = (if x = 0 then NaN else finf (0 < x))"
| "fmul NInf (Fin x) = (if x = 0 then NaN else finf (x < 0))"
| "fmul PInf PInf = PInf"
| "fmul PInf NInf = NInf"
| "fmul NInf PInf = NInf"
| "fmul NInf NInf = PInf"

text \<open>Division; \<open>None\<close> is Python's \<open>ZeroDivisionError\<close>.\<close>

fun fdiv :: "pyfloat \<Rightarrow> pyfloat \<Rightarrow> pyfloat option" where
  "fdiv x (Fin y) =
     (if y = 0 then None
      else Some (case x of Fin a \<Rightarrow> fl (a / y) | PInf \<Rightarrow> finf (0 < y) | NInf \<Rightarrow> finf (y < 0)
                 | NaN \<Rightarrow> NaN))"
| "fdiv (Fin x) PInf = Some (Fin 0)"
| "fdiv (Fin x) NInf = Some (Fin 0)"
| "fdiv _ _ = Some NaN"

fun flt :: "pyfloat \<Rightarrow> pyfloat \<Rightarrow> bool" where
  "flt (Fin x) (Fin y) = (x < y)"
| "flt NaN _ = False"
| "flt _ NaN = False"
| "flt NInf NInf = False"
| "flt NInf _ = True"
| "flt PInf _ = False"
| "flt (Fin _) PInf = True"
| "flt (Fin _) NInf = False"

fun fle :: "pyfloat \<Rightarrow> pyfloat \<Rightarrow> bool" where
  "fle (Fin x) (Fin y) = (x \<le> y)"
| "fle NaN _ = False"
| "fle _ NaN = False"
| "fle NInf _ = True"
| "fle _ PInf = True"
| "fle PInf _ = False"
| "fle (Fin _) NInf = False"

definition feq :: "pyfloat \<Rightarrow> pyfloat \<Rightarrow> bool" where
  "feq x y = (x \<noteq> NaN \<and> x = y)"

definition isfinite :: "pyfloat \<Rightarrow> bool" where
  "isfinite x = (case x of Fin _ \<Rightarrow> True | _ \<Rightarrow> False)"

definition isinf :: "pyfloat \<Rightarrow> bool" where
  "isinf x = (x = PInf \<or> x = NInf)"

definition fabs :: "pyfloat \<Rightarrow> pyfloat" where
  "fabs x = (case x of Fin a \<Rightarrow> Fin \<bar>a\<bar> | PInf \<Rightarrow> PInf | NInf \<Rightarrow> PInf | NaN \<Rightarrow> NaN)"

text \<open>\<open>math.isclose(a, b, rel_tol=r, abs_tol=t)\<close>.\<close>

definition isclose :: "pyfloat \<Rightarrow> pyfloat \<Rightarrow> pyfloat \<Rightarrow> pyfloat \<Rightarrow> bool" where
  "isclose r t a b =
     (if feq a b then True
      else if isinf a \<or> isinf b then False
      else let d = fabs (fsub b a)
           in fle d (fabs (fmul r b)) \<or> fle d (fabs (fmul r a)) \<or> fle d t)"

definition float_ok :: "pyfloat \<Rightarrow> bool" where
  "float_ok x = (case x of Fin a \<Rightarrow> is_double a | _ \<Rightarrow> True)"

lemma isfinite_iff: "isfinite x \<longleftrightarrow> (\<exists>a. x = Fin a)"
  by (cases x) (auto simp: isfinite_def)

lemma float_ok_fl [simp]: "float_ok (fl x)"
  by (cases "fl x") (auto simp: float_ok_def fl_is_double)

lemma float_ok_fadd [simp]: "float_ok x \<Longrightarrow> float_ok y \<Longrightarrow> float_ok (fadd x y)"
  by (cases "(x, y)" rule: fadd.cases) (auto simp: float_ok_def split: pyfloat.splits dest: fl_is_double)

lemma float_ok_fmul [simp]: "float_ok x \<Longrightarrow> float_ok y \<Longrightarrow> float_ok (fmul x y)"
  by (cases "(x, y)" rule: fmul.cases)
    (auto simp: float_ok_def finf_def split: pyfloat.splits dest: fl_is_double)

text \<open>Adding a non-negative amount never lowers a double, whatever the rounding.\<close>

lemma fadd_nonneg_ge:
  assumes "is_double a" and "0 \<le> b" and "fadd (Fin a) (Fin b) = Fin s"
  shows "a \<le> s"
  using fl_ge(2) [OF assms(1), of "a + b" s] assms(2,3) by simp

lemma fmul_nonneg:
  assumes "0 \<le> a" and "0 \<le> b" and "fmul (Fin a) (Fin b) = Fin p"
  shows "0 \<le> p"
  using fl_ge(2) [OF is_double_0, of "a * b" p] assms by simp

lemma fadd_not_ninf_nan:
  assumes "is_double a" "0 \<le> b"
  shows "fadd (Fin a) (Fin b) \<noteq> NInf" "fadd (Fin a) (Fin b) \<noteq> NaN"
  using fl_ge(1) [OF assms(1), of "a + b"] assms(2) by simp_all

end
