(* ===== verification/Text.thy ===== *)
theory Text
  imports Prelude "HOL-Library.Word"
begin

section \<open>Python text, bytes and identifiers\<close>

text \<open>
  A Python \<open>str\<close> is a \<open>string\<close>: each \<open>char\<close> is one code point, so \<open>length\<close> is
  Python's \<open>len\<close>; the model covers the code points U+0000 to U+00FF (keys, digests,
  scopes and identifiers of the control plane are ASCII). \<open>bytes\<close> is a list of 8-bit
  words and \<open>utf8\<close> is \<open>str.encode("utf-8")\<close> on that range. A \<open>UUID\<close> is its 128-bit
  value and \<open>uuid_str\<close> the 8-4-4-4-12 form that \<open>str(uuid)\<close> prints.
\<close>

type_synonym byte = "8 word"
type_synonym bytes = "byte list"
type_synonym uuid = "128 word"

named_theorems text_simps \<open>evaluation of the string operations\<close>

subsection \<open>strip, split, partition, prefixes\<close>

definition py_isspace :: "char \<Rightarrow> bool" where
  "py_isspace c = ((of_char c :: nat) \<in> set [9, 10, 11, 12, 13, 28, 29, 30, 31, 32, 133, 160])"

definition strip :: "string \<Rightarrow> string" where
  "strip s = rev (dropWhile py_isspace (rev (dropWhile py_isspace s)))"

definition rstrip :: "string \<Rightarrow> string" where
  "rstrip s = rev (dropWhile py_isspace (rev s))"

text \<open>\<open>not s.strip()\<close>.\<close>

definition blank :: "string \<Rightarrow> bool" where
  "blank s = (strip s = [])"

lemma blank_iff: "blank s \<longleftrightarrow> (\<forall>c \<in> set s. py_isspace c)"
proof
  assume "blank s"
  then have "\<forall>c \<in> set (dropWhile py_isspace s). py_isspace c"
    by (auto simp: blank_def strip_def dropWhile_eq_Nil_conv)
  then have "dropWhile py_isspace s = []"
    using hd_dropWhile hd_in_set by blast
  then show "\<forall>c \<in> set s. py_isspace c"
    unfolding dropWhile_eq_Nil_conv .
next
  assume "\<forall>c \<in> set s. py_isspace c"
  then have "dropWhile py_isspace s = []"
    unfolding dropWhile_eq_Nil_conv .
  then show "blank s"
    by (auto simp: blank_def strip_def dest: set_dropWhileD)
qed

lemma not_blank_nonempty: "\<not> blank s \<Longrightarrow> s \<noteq> []"
  by (auto simp: blank_iff)

text \<open>\<open>rstrip(c)\<close> and \<open>lstrip(c)\<close> of one character.\<close>

definition rstrip_char :: "char \<Rightarrow> string \<Rightarrow> string" where
  "rstrip_char c s = rev (dropWhile (\<lambda>x. x = c) (rev s))"

definition lstrip_char :: "char \<Rightarrow> string \<Rightarrow> string" where
  "lstrip_char c s = dropWhile (\<lambda>x. x = c) s"

definition removeprefix :: "string \<Rightarrow> string \<Rightarrow> string" where
  "removeprefix p s = (if prefix p s then drop (length p) s else s)"

lemma removeprefix_append [simp]: "removeprefix p (p @ s) = s"
  by (simp add: removeprefix_def)

text \<open>\<open>s.split(c)\<close> for a one-character separator.\<close>

fun split_on :: "char \<Rightarrow> string \<Rightarrow> string list" where
  "split_on c [] = [[]]"
| "split_on c (x # xs) =
     (if x = c then [] # split_on c xs
      else (case split_on c xs of [] \<Rightarrow> [[x]] | w # ws \<Rightarrow> (x # w) # ws))"

lemma split_on_nonempty [simp]: "split_on c s \<noteq> []"
  by (induction s) (auto split: list.splits)

lemma split_on_no_sep: "w \<in> set (split_on c s) \<Longrightarrow> c \<notin> set w"
  by (induction s arbitrary: w) (auto split: if_splits list.splits)

lemma split_on_single: "c \<notin> set s \<Longrightarrow> split_on c s = [s]"
  by (induction s) auto

lemma split_on_append:
  "c \<notin> set s \<Longrightarrow> split_on c (s @ c # t) = s # split_on c t"
  by (induction s) auto

text \<open>\<open>s.partition(c)\<close>: before, whether the separator was found, after.\<close>

fun partition_on :: "char \<Rightarrow> string \<Rightarrow> string \<times> bool \<times> string" where
  "partition_on c [] = ([], False, [])"
| "partition_on c (x # xs) =
     (if x = c then ([], True, xs)
      else (case partition_on c xs of (a, b, r) \<Rightarrow> (x # a, b, r)))"

lemma partition_on_found:
  "c \<notin> set a \<Longrightarrow> partition_on c (a @ c # r) = (a, True, r)"
  by (induction a) auto

lemma partition_on_absent: "c \<notin> set a \<Longrightarrow> partition_on c a = (a, False, [])"
  by (induction a) auto

lemma partition_on_split:
  "partition_on c s = (a, b, r) \<Longrightarrow> c \<notin> set a \<and> s = (if b then a @ c # r else a)"
  by (induction s arbitrary: a b r) (auto split: if_splits prod.splits)

text \<open>\<open>s.rpartition(c)\<close>: on the last separator; without one, everything is "after".\<close>

definition rpartition_on :: "char \<Rightarrow> string \<Rightarrow> string \<times> bool \<times> string" where
  "rpartition_on c s =
     (case partition_on c (rev s) of (a, b, r) \<Rightarrow>
        if b then (rev r, True, rev a) else ([], False, s))"

text \<open>\<open>upper()\<close>. The three characters whose upper case leaves U+00FF (the micro sign, the sharp s
  and y with diaeresis) are kept as they are.\<close>

definition upper_char :: "char \<Rightarrow> char" where
  "upper_char c =
     (let n = of_char c :: nat
      in if 97 \<le> n \<and> n \<le> 122 \<or> 224 \<le> n \<and> n \<le> 254 \<and> n \<noteq> 247 then char_of (n - 32) else c)"

definition upper :: "string \<Rightarrow> string" where
  "upper s = map upper_char s"

text \<open>ASCII and Latin-1 case folding, as \<open>str.lower\<close> does it below U+0100.\<close>

definition lower_char :: "char \<Rightarrow> char" where
  "lower_char c =
     (let n = of_char c :: nat
      in if 65 \<le> n \<and> n \<le> 90 \<or> 192 \<le> n \<and> n \<le> 222 \<and> n \<noteq> 215 then char_of (n + 32) else c)"

definition lower :: "string \<Rightarrow> string" where
  "lower s = map lower_char s"

subsection \<open>UTF-8 below U+0100\<close>

definition utf8_char :: "char \<Rightarrow> bytes" where
  "utf8_char c =
     (let n = of_char c :: nat
      in if n < 128 then [word_of_nat n]
         else [word_of_nat (192 + n div 64), word_of_nat (128 + n mod 64)])"

definition utf8 :: "string \<Rightarrow> bytes" where
  "utf8 s = concat (map utf8_char s)"

lemma utf8_append [simp]: "utf8 (s @ t) = utf8 s @ utf8 t"
  by (simp add: utf8_def)

lemma utf8_Nil [simp]: "utf8 [] = []"
  by (simp add: utf8_def)

subsection \<open>Hexadecimal and decimal\<close>

definition hexdigits :: string where
  "hexdigits = ''0123456789abcdef''"

definition hexdigit :: "int \<Rightarrow> char" where
  "hexdigit n = hexdigits ! nat (n mod 16)"

text \<open>\<open>w\<close> hexadecimal digits of \<open>n\<close>, most significant first.\<close>

fun hex_fixed :: "nat \<Rightarrow> int \<Rightarrow> string" where
  "hex_fixed 0 n = []"
| "hex_fixed (Suc w) n = hex_fixed w (n div 16) @ [hexdigit n]"

lemma length_hex_fixed [simp]: "length (hex_fixed w n) = w"
  by (induction w arbitrary: n) auto

lemma hexdigit_in: "hexdigit n \<in> set hexdigits"
proof -
  have "n mod 16 < 16" by simp
  then have "nat (n mod 16) < length hexdigits"
    unfolding hexdigits_def by simp
  then show ?thesis
    unfolding hexdigit_def by (rule nth_mem)
qed

lemma set_hex_fixed: "set (hex_fixed w n) \<subseteq> set hexdigits"
  by (induction w arbitrary: n) (auto simp: hexdigit_in)

lemma hexdigit_inj: "hexdigit m = hexdigit n \<Longrightarrow> m mod 16 = n mod 16"
proof -
  assume eq: "hexdigit m = hexdigit n"
  have "distinct hexdigits"
    by (simp add: hexdigits_def)
  moreover have "nat (k mod 16) < length hexdigits" for k :: int
  proof -
    have "k mod 16 < 16" by simp
    then show ?thesis
      unfolding hexdigits_def by simp
  qed
  ultimately have "nat (m mod 16) = nat (n mod 16)"
    using eq by (simp add: hexdigit_def nth_eq_iff_index_eq)
  then show ?thesis
    by simp
qed

lemma hex_fixed_inj:
  "hex_fixed w m = hex_fixed w n \<Longrightarrow> 0 \<le> m \<Longrightarrow> 0 \<le> n \<Longrightarrow> m < 16 ^ w \<Longrightarrow> n < 16 ^ w \<Longrightarrow> m = n"
proof (induction w arbitrary: m n)
  case (Suc w)
  from Suc.prems(1) have "hex_fixed w (m div 16) = hex_fixed w (n div 16)"
    and "hexdigit m = hexdigit n"
    by auto
  moreover have "m div 16 < 16 ^ w" "n div 16 < 16 ^ w"
    using Suc.prems(4,5) by simp_all
  moreover have "0 \<le> m div 16" "0 \<le> n div 16"
    using Suc.prems(2,3) by simp_all
  ultimately have "m div 16 = n div 16" and "m mod 16 = n mod 16"
    by (auto intro: Suc.IH hexdigit_inj)
  then show ?case
    by (metis mult_div_mod_eq)
qed simp

definition digit_char :: "int \<Rightarrow> char" where
  "digit_char n = ''0123456789'' ! nat (n mod 10)"

function dec_pos :: "int \<Rightarrow> string" where
  "dec_pos n = (if n < 10 then [digit_char n] else dec_pos (n div 10) @ [digit_char n])"
  by pat_completeness auto
termination
  by (relation "measure nat") auto

declare dec_pos.simps [simp del]

definition dec_int :: "int \<Rightarrow> string" where
  "dec_int i = (if i < 0 then ''-'' @ dec_pos (- i) else dec_pos i)"

definition dec_nat :: "nat \<Rightarrow> string" where
  "dec_nat n = dec_pos (int n)"

definition digit_val :: "char \<Rightarrow> int" where
  "digit_val c = of_char c - 48"

definition dec_val :: "string \<Rightarrow> int" where
  "dec_val s = foldl (\<lambda>a c. 10 * a + digit_val c) 0 s"

text \<open>\<open>int(text)\<close> of ASCII digits: surrounding space, a sign, single underscores between digits.\<close>

definition py_int :: "string \<Rightarrow> int option" where
  "py_int v =
     (let s = strip v;
          (neg, ds) = (case s of [] \<Rightarrow> (False, [])
                       | c # cs \<Rightarrow> if c = CHR ''-'' then (True, cs)
                                   else if c = CHR ''+'' then (False, cs) else (False, s));
          groups = split_on (CHR ''_'') ds
      in if list_all (\<lambda>g. g \<noteq> [] \<and> list_all (\<lambda>c. c \<in> set ''0123456789'') g) groups
         then Some ((if neg then - 1 else 1) * dec_val (concat groups)) else None)"

lemma digit_cases: "(m::int) mod 10 \<in> {0, 1, 2, 3, 4, 5, 6, 7, 8, 9}"
proof -
  have "m mod 10 = 0 \<or> m mod 10 = 1 \<or> m mod 10 = 2 \<or> m mod 10 = 3 \<or> m mod 10 = 4 \<or>
        m mod 10 = 5 \<or> m mod 10 = 6 \<or> m mod 10 = 7 \<or> m mod 10 = 8 \<or> m mod 10 = 9"
    by presburger
  then show ?thesis by simp
qed

lemma digit_val_char [simp]: "digit_val (digit_char n) = n mod 10"
  using digit_cases [of n] by (auto simp: digit_val_def digit_char_def)

lemma digit_char_in: "digit_char n \<in> set ''0123456789''"
  using digit_cases [of n] by (auto simp: digit_char_def)

lemma dec_val_dec_pos [simp]: "0 \<le> n \<Longrightarrow> dec_val (dec_pos n) = n"
proof (induction n rule: dec_pos.induct)
  case (1 n)
  show ?case
  proof (cases "n < 10")
    case True
    with 1 show ?thesis
      by (subst dec_pos.simps) (simp add: dec_val_def)
  next
    case False
    with 1 have "dec_val (dec_pos (n div 10)) = n div 10" by simp
    with False show ?thesis
      by (subst dec_pos.simps) (simp add: dec_val_def)
  qed
qed

lemma dec_nat_inj: "dec_nat m = dec_nat n \<longleftrightarrow> m = n"
  by (metis dec_nat_def dec_val_dec_pos of_nat_0_le_iff of_nat_eq_iff)

lemma set_dec_pos: "set (dec_pos n) \<subseteq> set ''0123456789''"
proof (induction n rule: dec_pos.induct)
  case (1 n)
  then show ?case
    by (subst dec_pos.simps) (use digit_char_in in auto)
qed

lemma set_dec_nat: "set (dec_nat n) \<subseteq> set ''0123456789''"
  unfolding dec_nat_def by (rule set_dec_pos)

subsection \<open>UUIDs\<close>

definition uuid_str :: "uuid \<Rightarrow> string" where
  "uuid_str u =
     (let h = hex_fixed 32 (uint u)
      in take 8 h @ ''-'' @ take 4 (drop 8 h) @ ''-'' @ take 4 (drop 12 h) @ ''-''
         @ take 4 (drop 16 h) @ ''-'' @ drop 20 h)"

lemma length_uuid_str [simp]: "length (uuid_str u) = 36"
  by (simp add: uuid_str_def Let_def)

lemma set_uuid_str: "set (uuid_str u) \<subseteq> set (CHR ''-'' # hexdigits)"
proof -
  have "set (hex_fixed 32 (uint u)) \<subseteq> set hexdigits" by (rule set_hex_fixed)
  then show ?thesis
    unfolding uuid_str_def Let_def
    by (auto dest!: in_set_takeD in_set_dropD)
qed

lemma uuid_str_no_slash [simp]: "CHR ''/'' \<notin> set (uuid_str u)"
  using set_uuid_str [of u] by (auto simp: hexdigits_def)

lemma take_drop_glue: "length a = length b \<Longrightarrow> a @ x = b @ y \<longleftrightarrow> a = b \<and> x = y"
  by simp

lemma chunks_eq:
  assumes "take 8 h = take 8 k" "take 4 (drop 8 h) = take 4 (drop 8 k)"
    "take 4 (drop 12 h) = take 4 (drop 12 k)" "take 4 (drop 16 h) = take 4 (drop 16 k)"
    "drop 20 h = drop 20 k"
  shows "h = k"
proof -
  have step: "drop n l = take m (drop n l) @ drop (m + n) l" for n m and l :: "'a list"
    by (metis append_take_drop_id drop_drop)
  have "drop 16 h = drop 16 k"
    using step [of 16 h 4] step [of 16 k 4] assms(4,5) by simp
  then have "drop 12 h = drop 12 k"
    using step [of 12 h 4] step [of 12 k 4] assms(3) by simp
  then have "drop 8 h = drop 8 k"
    using step [of 8 h 4] step [of 8 k 4] assms(2) by simp
  then show ?thesis
    using assms(1) by (metis append_take_drop_id)
qed

lemma uuid_str_inj: "uuid_str u = uuid_str v \<longleftrightarrow> u = v"
proof
  assume eq: "uuid_str u = uuid_str v"
  have "hex_fixed 32 (uint u) = hex_fixed 32 (uint v)"
    by (rule chunks_eq) (use eq in \<open>simp_all add: uuid_str_def Let_def take_drop_glue\<close>)
  moreover have "uint u < 16 ^ 32" "uint v < 16 ^ 32"
    using uint_lt2p [of u] uint_lt2p [of v] by simp_all
  ultimately have "uint u = uint v"
    by (intro hex_fixed_inj) auto
  then show "u = v"
    by (rule unsigned_word_eqI)
qed simp

subsection \<open>\<open>urllib.parse.quote(s, safe="")\<close>\<close>

definition url_safe :: string where
  "url_safe = ''ABCDEFGHIJKLMNOPQRSTUVWXYZabcdefghijklmnopqrstuvwxyz0123456789_.-~''"

definition quote_byte :: "byte \<Rightarrow> string" where
  "quote_byte b =
     (let c = char_of (unat b)
      in if c \<in> set url_safe then [c] else CHR ''%'' # upper (hex_fixed 2 (uint b)))"

definition quote_url :: "string \<Rightarrow> string" where
  "quote_url s = concat (map quote_byte (utf8 s))"

end
