(* ===== verification/Digest.thy ===== *)
theory Digest
  imports Text
begin

unbundle bit_operations_syntax

section \<open>Content digests\<close>

text \<open>
  \<open>hashlib.sha256(...).hexdigest()\<close>, written out on 32-bit words, \<open>hmac.new(key, msg,
  sha256)\<close> on top of it, and the two functions of \<open>apps/orchestration/artifacts.py\<close> that
  every content address of the control plane goes through: \<open>sha256_digest\<close> and
  \<open>is_sha256_digest\<close>. The lemmas say that a computed digest has 64 lower-case hexadecimal
  characters and is therefore always admitted by the check.
\<close>

type_synonym u32 = "32 word"

definition sha_k :: "u32 list" where
  "sha_k =
    [1116352408, 1899447441, 3049323471, 3921009573, 961987163, 1508970993,
     2453635748, 2870763221, 3624381080, 310598401, 607225278, 1426881987,
     1925078388, 2162078206, 2614888103, 3248222580, 3835390401, 4022224774,
     264347078, 604807628, 770255983, 1249150122, 1555081692, 1996064986,
     2554220882, 2821834349, 2952996808, 3210313671, 3336571891, 3584528711,
     113926993, 338241895, 666307205, 773529912, 1294757372, 1396182291,
     1695183700, 1986661051, 2177026350, 2456956037, 2730485921, 2820302411,
     3259730800, 3345764771, 3516065817, 3600352804, 4094571909, 275423344,
     430227734, 506948616, 659060556, 883997877, 958139571, 1322822218,
     1537002063, 1747873779, 1955562222, 2024104815, 2227730452, 2361852424,
     2428436474, 2756734187, 3204031479, 3329325298]"

definition sha_h0 :: "u32 list" where
  "sha_h0 =
    [1779033703, 3144134277, 1013904242, 2773480762,
     1359893119, 2600822924, 528734635, 1541459225]"

definition rotr :: "nat \<Rightarrow> u32 \<Rightarrow> u32" where
  "rotr n x = drop_bit n x OR push_bit (32 - n) x"

definition small_sigma0 :: "u32 \<Rightarrow> u32" where
  "small_sigma0 x = rotr 7 x XOR rotr 18 x XOR drop_bit 3 x"

definition small_sigma1 :: "u32 \<Rightarrow> u32" where
  "small_sigma1 x = rotr 17 x XOR rotr 19 x XOR drop_bit 10 x"

definition big_sigma0 :: "u32 \<Rightarrow> u32" where
  "big_sigma0 x = rotr 2 x XOR rotr 13 x XOR rotr 22 x"

definition big_sigma1 :: "u32 \<Rightarrow> u32" where
  "big_sigma1 x = rotr 6 x XOR rotr 11 x XOR rotr 25 x"

text \<open>The message schedule, kept newest word first so that every read is near the head.\<close>

fun extend :: "nat \<Rightarrow> u32 list \<Rightarrow> u32 list" where
  "extend 0 w = w"
| "extend (Suc n) w =
     extend n ((small_sigma1 (w ! 1) + w ! 6 + small_sigma0 (w ! 14) + w ! 15) # w)"

fun sha_round :: "u32 list \<Rightarrow> u32 \<times> u32 \<Rightarrow> u32 list" where
  "sha_round [a, b, c, d, e, f, g, h] (k, w) =
     (let t1 = h + big_sigma1 e + ((e AND f) XOR (NOT e AND g)) + k + w;
          t2 = big_sigma0 a + ((a AND b) XOR (a AND c) XOR (b AND c))
      in [t1 + t2, a, b, c, d + t1, e, f, g])"
| "sha_round st kw = st"

definition sha_block :: "u32 list \<Rightarrow> u32 list \<Rightarrow> u32 list" where
  "sha_block hs block =
     map2 (+) hs (foldl sha_round hs (zip sha_k (rev (extend 48 (rev block)))))"

fun be32 :: "bytes \<Rightarrow> u32 list" where
  "be32 (a # b # c # d # r) =
     (push_bit 24 (ucast a) + push_bit 16 (ucast b) + push_bit 8 (ucast c) + ucast d) # be32 r"
| "be32 r = []"

fun be_bytes :: "nat \<Rightarrow> int \<Rightarrow> bytes" where
  "be_bytes 0 n = []"
| "be_bytes (Suc w) n = be_bytes w (n div 256) @ [word_of_int (n mod 256)]"

definition sha_pad :: "bytes \<Rightarrow> bytes" where
  "sha_pad m =
     m @ [128] @ replicate ((119 - length m mod 64) mod 64) 0 @ be_bytes 8 (8 * int (length m))"

fun sha_blocks :: "u32 list \<Rightarrow> u32 list \<Rightarrow> u32 list" where
  "sha_blocks hs [] = hs"
| "sha_blocks hs (w # ws) = sha_blocks (sha_block hs (take 16 (w # ws))) (drop 15 ws)"

definition sha256_words :: "bytes \<Rightarrow> u32 list" where
  "sha256_words m = sha_blocks sha_h0 (be32 (sha_pad m))"

definition sha256_hex :: "bytes \<Rightarrow> string" where
  "sha256_hex m = concat (map (\<lambda>w. hex_fixed 8 (uint w)) (sha256_words m))"

definition sha256_bytes :: "bytes \<Rightarrow> bytes" where
  "sha256_bytes m = concat (map (\<lambda>w. be_bytes 4 (uint w)) (sha256_words m))"

definition hmac_key :: "bytes \<Rightarrow> bytes" where
  "hmac_key k =
     (let k' = (if 64 < length k then sha256_bytes k else k)
      in k' @ replicate (64 - length k') 0)"

definition hmac_sha256_hex :: "bytes \<Rightarrow> bytes \<Rightarrow> string" where
  "hmac_sha256_hex k m =
     sha256_hex (map (\<lambda>b. b XOR 92) (hmac_key k)
                 @ sha256_bytes (map (\<lambda>b. b XOR 54) (hmac_key k) @ m))"

subsection \<open>The shape of a digest\<close>

lemma length_foldl_sha_round: "length (foldl sha_round hs kws) = length hs"
proof (induction kws arbitrary: hs)
  case (Cons kw kws)
  have "length (sha_round hs kw) = length hs"
    by (cases "(hs, kw)" rule: sha_round.cases) (auto simp: Let_def)
  with Cons.IH show ?case by simp
qed simp

lemma length_sha_block [simp]: "length (sha_block hs b) = length hs"
  by (simp add: sha_block_def length_foldl_sha_round)

lemma length_sha_blocks: "length (sha_blocks hs ws) = length hs"
  by (induction hs ws rule: sha_blocks.induct) auto

lemma length_sha256_words [simp]: "length (sha256_words m) = 8"
  by (simp add: sha256_words_def length_sha_blocks) (simp add: sha_h0_def)

lemma length_concat_fixed: "(\<And>w. length (f w) = n) \<Longrightarrow> length (concat (map f ws)) = n * length ws"
  by (induction ws) auto

lemma length_sha256_hex [simp]: "length (sha256_hex m) = 64"
  unfolding sha256_hex_def by (subst length_concat_fixed [where n = 8]) auto

lemma set_sha256_hex: "set (sha256_hex m) \<subseteq> set hexdigits"
  unfolding sha256_hex_def using set_hex_fixed by fastforce

lemma sha256_hex_no_slash [simp]: "CHR ''/'' \<notin> set (sha256_hex m)"
  using set_sha256_hex [of m] by (auto simp: hexdigits_def)

subsection \<open>\<open>sha256_digest\<close> and \<open>is_sha256_digest\<close>\<close>

definition SHA256_PREFIX :: string where
  "SHA256_PREFIX = ''sha256:''"

definition sha256_digest :: "bytes \<Rightarrow> string" where
  "sha256_digest payload = SHA256_PREFIX @ sha256_hex payload"

definition is_hex64 :: "string \<Rightarrow> bool" where
  "is_hex64 d = (length d = 64 \<and> list_all (\<lambda>c. c \<in> set hexdigits) d)"

definition is_sha256_digest :: "string \<Rightarrow> bool" where
  "is_sha256_digest value =
     (if \<not> prefix SHA256_PREFIX value then False
      else is_hex64 (removeprefix SHA256_PREFIX value))"

lemma is_hex64_sha256 [simp]: "is_hex64 (sha256_hex m)"
proof -
  have "\<forall>c \<in> set (sha256_hex m). c \<in> set hexdigits"
    using set_sha256_hex [of m] by blast
  then show ?thesis
    by (simp only: is_hex64_def list_all_iff length_sha256_hex simp_thms)
qed

lemma is_sha256_digest_digest [simp]: "is_sha256_digest (sha256_digest m)"
  by (simp add: is_sha256_digest_def sha256_digest_def)

lemma is_sha256_digest_iff:
  "is_sha256_digest v \<longleftrightarrow> (\<exists>d. v = SHA256_PREFIX @ d \<and> is_hex64 d)"
  by (auto simp: is_sha256_digest_def prefix_def)

lemma hexdigits_no_slash: "CHR ''/'' \<notin> set hexdigits"
  by (simp add: hexdigits_def)

lemma is_hex64_no_slash: "is_hex64 d \<Longrightarrow> CHR ''/'' \<notin> set d"
  unfolding is_hex64_def list_all_iff using hexdigits_no_slash by blast

lemma sha256_digest_nonempty [simp]: "sha256_digest m \<noteq> []"
  by (simp add: sha256_digest_def SHA256_PREFIX_def)

lemma length_sha256_digest [simp]: "length (sha256_digest m) = 71"
  by (simp add: sha256_digest_def SHA256_PREFIX_def)

lemma sha256_digest_eq_iff: "sha256_digest m = sha256_digest n \<longleftrightarrow> sha256_hex m = sha256_hex n"
  by (simp add: sha256_digest_def)

lemma not_is_sha256_digest_Nil [simp]: "\<not> is_sha256_digest []"
  by (simp add: is_sha256_digest_def SHA256_PREFIX_def)

end
