(* ===== verification/Json.thy ===== *)
theory Json
  imports Floats Digest "HOL-Library.Multiset"
begin

section \<open>JSON values and their canonical text\<close>

text \<open>
  The values Django's \<open>JSONField\<close> and pydantic hand to the code, and \<open>json.dumps\<close> with
  the options the repository passes. \<open>canonical_json\<close> is
  \<open>dumps(v, sort_keys=True, separators=(",", ":"), ensure_ascii=False)\<close>, the text behind
  every request digest and receipt of the control plane. A float prints as \<open>repr\<close> does:
  the shortest decimal that rounds back to it.
\<close>

datatype json =
    JNull
  | JBool bool
  | JInt int
  | JFloat pyfloat
  | JStr string
  | JList "json list"
  | JObj "(string \<times> json) list"

definition jget :: "json \<Rightarrow> string \<Rightarrow> json option" where
  "jget v k = (case v of JObj kvs \<Rightarrow> map_of kvs k | _ \<Rightarrow> None)"

text \<open>Python's truth value, the test behind \<open>x or default\<close>.\<close>

definition truthy :: "json \<Rightarrow> bool" where
  "truthy v =
     (case v of JNull \<Rightarrow> False | JBool b \<Rightarrow> b | JInt i \<Rightarrow> i \<noteq> 0 | JFloat f \<Rightarrow> f \<noteq> Fin 0
      | JStr s \<Rightarrow> s \<noteq> [] | JList vs \<Rightarrow> vs \<noteq> [] | JObj kvs \<Rightarrow> kvs \<noteq> [])"

definition jstr :: "json \<Rightarrow> string option" where
  "jstr v = (case v of JStr s \<Rightarrow> Some s | _ \<Rightarrow> None)"

text \<open>\<open>d[k] = v\<close> on an association list: in place when the key is there, at the end otherwise.\<close>

fun dict_set :: "(string \<times> json) list \<Rightarrow> string \<Rightarrow> json \<Rightarrow> (string \<times> json) list" where
  "dict_set [] k v = [(k, v)]"
| "dict_set ((k', v') # kvs) k v = (if k' = k then (k, v) # kvs else (k', v') # dict_set kvs k v)"

lemma map_of_dict_set [simp]: "map_of (dict_set d k v) = (map_of d)(k \<mapsto> v)"
  by (induction d k v rule: dict_set.induct) auto

text \<open>\<open>d.get(k, v)\<close>.\<close>

definition get_or :: "(string \<times> json) list \<Rightarrow> string \<Rightarrow> json \<Rightarrow> json" where
  "get_or d k v = (case map_of d k of None \<Rightarrow> v | Some x \<Rightarrow> x)"

subsection \<open>\<open>repr\<close> of a float\<close>

definition p10 :: "int \<Rightarrow> rat" where
  "p10 k = 10 powi k"

definition ilog10 :: "rat \<Rightarrow> int" where
  "ilog10 a =
     (let k = (ilog2 a * 30103) div 100000
      in if p10 (k + 1) \<le> a then k + 1 else if a < p10 k then k - 1 else k)"

text \<open>The \<open>n\<close>-digit decimals next to \<open>a\<close> that round to it, the nearer one if both do.\<close>

definition digits_for :: "rat \<Rightarrow> int \<Rightarrow> nat \<Rightarrow> int option" where
  "digits_for a k n =
     (let u = p10 (k + 1 - int n); q = a / u; lo = \<lfloor>q\<rfloor>; hi = lo + 1; near = rhe q;
          ok = (\<lambda>d. fl_val (of_int d * u) = a)
      in if ok near then Some near else if ok lo then Some lo else if ok hi then Some hi else None)"

fun shortest :: "rat \<Rightarrow> int \<Rightarrow> nat \<Rightarrow> nat \<Rightarrow> int \<times> nat" where
  "shortest a k n 0 = (rhe (a / p10 (k + 1 - int n)), n)"
| "shortest a k n (Suc more) =
     (case digits_for a k n of Some d \<Rightarrow> (d, n) | None \<Rightarrow> shortest a k (Suc n) more)"

definition exponent_text :: "int \<Rightarrow> string" where
  "exponent_text k =
     (let t = dec_int \<bar>k\<bar>
      in (if k < 0 then ''-'' else ''+'') @ (if length t < 2 then ''0'' @ t else t))"

definition layout_digits :: "string \<Rightarrow> int \<Rightarrow> string" where
  "layout_digits ds k =
     (if k < - 4 \<or> 16 \<le> k
      then take 1 ds @ (if length ds = 1 then [] else ''.'' @ drop 1 ds) @ ''e'' @ exponent_text k
      else if k < 0 then ''0.'' @ replicate (nat (- k - 1)) (CHR ''0'') @ ds
      else let w = nat k + 1; padded = ds @ replicate (w - length ds) (CHR ''0'')
           in take w padded @ ''.'' @ (if drop w padded = [] then ''0'' else drop w padded))"

definition float_repr :: "pyfloat \<Rightarrow> string" where
  "float_repr f =
     (case f of PInf \<Rightarrow> ''Infinity'' | NInf \<Rightarrow> ''-Infinity'' | NaN \<Rightarrow> ''NaN''
      | Fin x \<Rightarrow>
          if x = 0 then ''0.0''
          else let a = \<bar>x\<bar>; k = ilog10 a
               in case shortest a k 1 16 of (d, n) \<Rightarrow>
                    (if x < 0 then ''-'' else [])
                    @ (if 10 ^ n \<le> d then layout_digits ''1'' (k + 1)
                       else layout_digits (dec_int d) k))"

subsection \<open>\<open>json.dumps\<close>\<close>

record dump_opts =
  ensure_ascii :: bool
  item_sep :: string
  key_sep :: string

definition escape_char :: "bool \<Rightarrow> char \<Rightarrow> string" where
  "escape_char asc c =
     (let n = of_char c :: nat
      in if n = 34 then [CHR 0x5C, CHR 0x22] else if n = 92 then [CHR 0x5C, CHR 0x5C]
         else if n = 10 then [CHR 0x5C, CHR ''n''] else if n = 13 then [CHR 0x5C, CHR ''r'']
         else if n = 9 then [CHR 0x5C, CHR ''t''] else if n = 8 then [CHR 0x5C, CHR ''b'']
         else if n = 12 then [CHR 0x5C, CHR ''f'']
         else if n < 32 \<or> asc \<and> 126 < n then [CHR 0x5C, CHR ''u''] @ hex_fixed 4 (int n)
         else [c])"

definition quote :: "bool \<Rightarrow> string \<Rightarrow> string" where
  "quote asc s = [CHR 0x22] @ concat (map (escape_char asc) s) @ [CHR 0x22]"

fun join :: "string \<Rightarrow> string list \<Rightarrow> string" where
  "join sep [] = []"
| "join sep [x] = x"
| "join sep (x # y # ys) = x @ sep @ join sep (y # ys)"

fun dumps :: "dump_opts \<Rightarrow> json \<Rightarrow> string" where
  "dumps opt JNull = ''null''"
| "dumps opt (JBool b) = (if b then ''true'' else ''false'')"
| "dumps opt (JInt i) = dec_int i"
| "dumps opt (JFloat f) = float_repr f"
| "dumps opt (JStr s) = quote (ensure_ascii opt) s"
| "dumps opt (JList vs) = ''['' @ join (item_sep opt) (map (dumps opt) vs) @ '']''"
| "dumps opt (JObj kvs) =
     ''{'' @ join (item_sep opt)
               (map (\<lambda>(k, t). quote (ensure_ascii opt) k @ key_sep opt @ t)
                  (sort_key fst (map (\<lambda>(k, v). (k, dumps opt v)) kvs))) @ ''}''"

definition compact :: dump_opts where
  "compact = \<lparr>ensure_ascii = False, item_sep = '','', key_sep = '':''\<rparr>"

definition canonical_json :: "json \<Rightarrow> string" where
  "canonical_json v = dumps compact v"

text \<open>What \<open>allow_nan=False\<close> refuses.\<close>

fun json_finite :: "json \<Rightarrow> bool" where
  "json_finite (JFloat f) = isfinite f"
| "json_finite (JList vs) = list_all json_finite vs"
| "json_finite (JObj kvs) = list_all (\<lambda>kv. json_finite (snd kv)) kvs"
| "json_finite _ = True"

text \<open>The order in which an object's members arrive does not change its text.\<close>

lemma dumps_obj_perm:
  assumes "mset kvs = mset kvs'" and "distinct (map fst kvs)"
  shows "dumps opt (JObj kvs) = dumps opt (JObj kvs')"
proof -
  let ?g = "map (\<lambda>(k, v). (k, dumps opt v))"
  have "mset (?g kvs) = mset (?g kvs')"
    using assms(1) by (simp add: mset_map)
  moreover have "inj_on fst (set (?g kvs))"
  proof -
    have "map fst (?g kvs) = map fst kvs" by (induction kvs) auto
    then show ?thesis
      using assms(2) by (metis distinct_map)
  qed
  moreover have "set (sort_key fst (?g kvs')) = set (?g kvs)"
    using \<open>mset (?g kvs) = mset (?g kvs')\<close> by (metis set_mset_mset set_sort)
  ultimately have "sort_key fst (?g kvs) = sort_key fst (?g kvs')"
    by (intro sort_key_inj_key_eq) (auto simp del: map_map)
  then show ?thesis by simp
qed

subsection \<open>\<open>str(x)\<close> of a JSON value and \<open>format(x, "g")\<close>\<close>

definition repr_char :: "char \<Rightarrow> char \<Rightarrow> string" where
  "repr_char q c =
     (let n = of_char c :: nat
      in if c = q \<or> n = 92 then [CHR 0x5C, c]
         else if n = 10 then [CHR 0x5C, CHR ''n''] else if n = 13 then [CHR 0x5C, CHR ''r'']
         else if n = 9 then [CHR 0x5C, CHR ''t'']
         else if n < 32 \<or> 126 < n \<and> n < 161 \<or> n = 173 then [CHR 0x5C, CHR ''x''] @ hex_fixed 2 (int n)
         else [c])"

definition repr_str :: "string \<Rightarrow> string" where
  "repr_str s =
     (let q = (if CHR 0x27 \<in> set s \<and> CHR 0x22 \<notin> set s then CHR 0x22 else CHR 0x27)
      in [q] @ concat (map (repr_char q) s) @ [q])"

definition str_float :: "pyfloat \<Rightarrow> string" where
  "str_float f = (case f of PInf \<Rightarrow> ''inf'' | NInf \<Rightarrow> ''-inf'' | NaN \<Rightarrow> ''nan'' | Fin x \<Rightarrow> float_repr (Fin x))"

fun py_repr :: "json \<Rightarrow> string" where
  "py_repr JNull = ''None''"
| "py_repr (JBool b) = (if b then ''True'' else ''False'')"
| "py_repr (JInt i) = dec_int i"
| "py_repr (JFloat f) = str_float f"
| "py_repr (JStr s) = repr_str s"
| "py_repr (JList vs) = ''['' @ join '', '' (map py_repr vs) @ '']''"
| "py_repr (JObj kvs) = ''{'' @ join '', '' (map (\<lambda>(k, v). repr_str k @ '': '' @ py_repr v) kvs) @ ''}''"

definition py_str :: "json \<Rightarrow> string" where
  "py_str v = (case v of JStr s \<Rightarrow> s | _ \<Rightarrow> py_repr v)"

text \<open>\<open>str(d.get(k) or "")\<close>.\<close>

definition str_or_empty :: "json option \<Rightarrow> string" where
  "str_or_empty v = (case v of None \<Rightarrow> [] | Some x \<Rightarrow> if truthy x then py_str x else [])"

lemma py_str_JStr [simp]: "py_str (JStr s) = s"
  by (simp add: py_str_def)

text \<open>Six significant digits, trailing zeros dropped.\<close>

definition drop_zeros :: "string \<Rightarrow> string" where
  "drop_zeros s = rev (dropWhile (\<lambda>c. c = CHR ''0'') (rev s))"

definition format_g :: "pyfloat \<Rightarrow> string" where
  "format_g f =
     (case f of PInf \<Rightarrow> ''inf'' | NInf \<Rightarrow> ''-inf'' | NaN \<Rightarrow> ''nan''
      | Fin x \<Rightarrow>
          if x = 0 then ''0''
          else let a = \<bar>x\<bar>; k0 = ilog10 a; d0 = rhe (a / p10 (k0 - 5));
                   (k, d) = (if d0 = 1000000 then (k0 + 1, 100000) else (k0, d0));
                   ds = drop_zeros (dec_int d); sign = (if x < 0 then ''-'' else [])
               in if k < - 4 \<or> 6 \<le> k
                  then sign @ take 1 ds @ (if length ds = 1 then [] else ''.'' @ drop 1 ds) @ ''e'' @ exponent_text k
                  else if k < 0 then sign @ ''0.'' @ replicate (nat (- k - 1)) (CHR ''0'') @ ds
                  else let w = nat k + 1; padded = ds @ replicate (w - length ds) (CHR ''0'')
                       in sign @ take w padded @ (if drop w padded = [] then [] else ''.'' @ drop w padded))"

end
