(* ===== verification/Admission.thy ===== *)
theory Admission
  imports Json
begin

section \<open>Tenants and machine-key admission\<close>

text \<open>
  \<open>apps/tenancy/models.py\<close>, \<open>apps/keys/models.py\<close>, \<open>apps/keys/mint.py\<close> and
  \<open>apps/keys/auth.py\<close>: the tenant and key rows, minting and revoking a key, and
  \<open>require_machine_key\<close>, the guard in front of every internal endpoint. Argon2 is a library
  the repository calls: its \<open>hash\<close> (with the salt it draws) and \<open>verify\<close> are arguments of
  the definitions that use them, as are the random token of \<open>secrets\<close> and the clock.
  A table is the list of its rows; a query's join keeps the rows whose tenant exists.
\<close>

datatype http_error = HttpError nat string

type_synonym time = int

subsection \<open>Rows\<close>

record tenant =
  tenant_id :: uuid
  tenant_slug :: string
  tenant_display_name :: string
  tenant_is_active :: bool
  workos_organization_id :: string

record project =
  project_id :: uuid
  project_tenant :: uuid
  project_slug :: string
  project_display_name :: string

record api_key =
  key_id :: uuid
  key_tenant :: uuid
  key_hash :: string
  key_prefix :: string
  key_label :: string
  key_scopes :: json
  revoked_at :: "time option"
  expires_at :: "time option"
  key_created_at :: time

definition is_revoked :: "api_key \<Rightarrow> bool" where
  "is_revoked k = (revoked_at k \<noteq> None)"

definition is_expired :: "time \<Rightarrow> api_key \<Rightarrow> bool" where
  "is_expired now k = (case expires_at k of None \<Rightarrow> False | Some t \<Rightarrow> t \<le> now)"

subsection \<open>Minting and revoking\<close>

definition KEY_PREFIX :: string where
  "KEY_PREFIX = ''thk_''"

text \<open>
  \<open>raw\<close> is \<open>secrets.token_urlsafe(32)\<close>, \<open>salt\<close> what the hasher draws, \<open>kid\<close> the row's
  \<open>uuid4\<close>. The plaintext is returned once and is not part of the row.
\<close>

definition mint_api_key ::
  "(string \<Rightarrow> string \<Rightarrow> string) \<Rightarrow> string \<Rightarrow> string \<Rightarrow> uuid \<Rightarrow> time \<Rightarrow> tenant
   \<Rightarrow> string list option \<Rightarrow> string \<Rightarrow> time option \<Rightarrow> api_key list \<Rightarrow> api_key list \<times> api_key \<times> string" where
  "mint_api_key hash salt raw kid now tenant scopes label expiry keys =
     (let plaintext = KEY_PREFIX @ raw;
          pre = take 12 plaintext;
          row = \<lparr>key_id = kid, key_tenant = tenant_id tenant, key_hash = hash salt plaintext,
                 key_prefix = pre, key_label = label,
                 key_scopes = JList (map JStr (case scopes of None \<Rightarrow> [] | Some ss \<Rightarrow> ss)),
                 revoked_at = None, expires_at = expiry, key_created_at = now\<rparr>
      in (keys @ [row], row, plaintext))"

text \<open>The admin action on the selected rows: only keys not yet revoked are stamped.\<close>

definition revoke_keys :: "time \<Rightarrow> (api_key \<Rightarrow> bool) \<Rightarrow> api_key list \<Rightarrow> api_key list" where
  "revoke_keys now sel keys =
     map (\<lambda>k. if sel k \<and> revoked_at k = None then k\<lparr>revoked_at := Some now\<rparr> else k) keys"

subsection \<open>Scopes\<close>

definition AUTH_SCHEME :: string where "AUTH_SCHEME = ''Bearer''"
definition OFFLOAD_INVOKE_SCOPE :: string where "OFFLOAD_INVOKE_SCOPE = ''offload:invoke''"
definition OFFLOAD_READ_SCOPE :: string where "OFFLOAD_READ_SCOPE = ''offload:read''"
definition OFFLOAD_CANCEL_SCOPE :: string where "OFFLOAD_CANCEL_SCOPE = ''offload:cancel''"
definition COMPETENCE_FIT_SCOPE :: string where "COMPETENCE_FIT_SCOPE = ''competence:fit''"
definition COMPETENCE_READ_SCOPE :: string where "COMPETENCE_READ_SCOPE = ''competence:read''"
definition COMPETENCE_CLEANUP_SCOPE :: string where
  "COMPETENCE_CLEANUP_SCOPE = ''competence:cleanup''"
definition EXTRACTION_SUBMIT_SCOPE :: string where
  "EXTRACTION_SUBMIT_SCOPE = ''extraction:submit''"
definition EXTRACTION_READ_SCOPE :: string where "EXTRACTION_READ_SCOPE = ''extraction:read''"
definition EXTRACTION_REVIEW_SCOPE :: string where
  "EXTRACTION_REVIEW_SCOPE = ''extraction:review''"
definition BILLING_READ_SCOPE :: string where "BILLING_READ_SCOPE = ''billing:read''"

definition scope_allows :: "json \<Rightarrow> string \<Rightarrow> bool" where
  "scope_allows scopes required =
     (case scopes of
        JList vs \<Rightarrow>
          (let granted = List.map_filter jstr vs;
               (domain, separator, action) = partition_on (CHR '':'') required;
               wildcard = (if separator then domain @ '':*'' else [])
           in ''*'' \<in> set granted \<or> required \<in> set granted \<or> wildcard \<in> set granted)
      | _ \<Rightarrow> False)"

subsection \<open>The bearer token and the guard\<close>

definition bearer_token :: "string \<Rightarrow> string" where
  "bearer_token authorization =
     (let header = strip authorization;
          (scheme, found, token) = partition_on (CHR '' '') header
      in if lower scheme \<noteq> lower AUTH_SCHEME \<or> token = [] \<or> CHR '' '' \<in> set token then []
         else if prefix KEY_PREFIX token then token else [])"

definition join_tenant :: "tenant list \<Rightarrow> api_key list \<Rightarrow> (api_key \<times> tenant) list" where
  "join_tenant tenants keys =
     List.map_filter (\<lambda>k. map_option (Pair k) (row_of tenant_id tenants (key_tenant k))) keys"

definition candidate_keys :: "tenant list \<Rightarrow> api_key list \<Rightarrow> string \<Rightarrow> (api_key \<times> tenant) list" where
  "candidate_keys tenants keys plaintext =
     sort_key (\<lambda>(k, _). - key_created_at k)
       (join_tenant tenants
         (filter (\<lambda>k. key_prefix k = take 12 plaintext \<and> revoked_at k = None) keys))"

record principal =
  p_tenant :: tenant
  p_key :: api_key

fun admit_loop ::
  "(string \<Rightarrow> string \<Rightarrow> bool) \<Rightarrow> time \<Rightarrow> string \<Rightarrow> string \<Rightarrow> (api_key \<times> tenant) list
   \<Rightarrow> (http_error, principal) result" where
  "admit_loop verify now plaintext scope [] = Inl (HttpError 401 ''machine API key required'')"
| "admit_loop verify now plaintext scope ((k, t) # rest) =
     (if is_expired now k \<or> \<not> verify plaintext (key_hash k)
      then admit_loop verify now plaintext scope rest
      else if \<not> tenant_is_active t then Inl (HttpError 403 ''tenant is inactive'')
      else if \<not> scope_allows (key_scopes k) scope
      then Inl (HttpError 403 (''machine API key lacks '' @ scope @ '' scope''))
      else Inr \<lparr>p_tenant = t, p_key = k\<rparr>)"

definition require_machine_key ::
  "(string \<Rightarrow> string \<Rightarrow> bool) \<Rightarrow> time \<Rightarrow> tenant list \<Rightarrow> api_key list \<Rightarrow> string \<Rightarrow> string
   \<Rightarrow> (http_error, principal) result" where
  "require_machine_key verify now tenants keys authorization scope =
     (let plaintext = bearer_token authorization
      in if plaintext = [] then Inl (HttpError 401 ''machine API key required'')
         else admit_loop verify now plaintext scope (candidate_keys tenants keys plaintext))"

subsection \<open>Lemmas\<close>

lemma map_filter_in: "y \<in> set (List.map_filter f xs) \<longleftrightarrow> (\<exists>x \<in> set xs. f x = Some y)"
  by (induction xs) (auto simp: List.map_filter_simps split: option.splits)

lemma jstr_Some [simp]: "jstr v = Some s \<longleftrightarrow> v = JStr s"
  by (cases v) (simp_all add: jstr_def)

lemma granted_in: "s \<in> set (List.map_filter jstr vs) \<longleftrightarrow> JStr s \<in> set vs"
  by (simp add: map_filter_in)

lemma candidate_keys_in:
  "(k, t) \<in> set (candidate_keys tenants keys pt) \<longleftrightarrow>
     k \<in> set keys \<and> key_prefix k = take 12 pt \<and> revoked_at k = None \<and>
     row_of tenant_id tenants (key_tenant k) = Some t"
  by (auto simp: candidate_keys_def join_tenant_def map_filter_in)

text \<open>The loop answers from the first candidate that is live and verifies, or refuses.\<close>

lemma admit_loop_Inr:
  assumes "admit_loop verify now pt scope cs = Inr p"
  shows "(p_key p, p_tenant p) \<in> set cs \<and> \<not> is_expired now (p_key p)
     \<and> verify pt (key_hash (p_key p)) \<and> tenant_is_active (p_tenant p)
     \<and> scope_allows (key_scopes (p_key p)) scope"
  using assms
  by (induction verify now pt scope cs rule: admit_loop.induct) (auto split: if_splits)

lemma admit_loop_skips:
  assumes "\<forall>(k, t) \<in> set cs. is_expired now k \<or> \<not> verify pt (key_hash k)"
  shows "admit_loop verify now pt scope (cs @ ds) = admit_loop verify now pt scope ds"
  using assms by (induction cs) auto

lemma bearer_token_prefix: "bearer_token h \<noteq> [] \<Longrightarrow> prefix KEY_PREFIX (bearer_token h)"
  by (auto simp: bearer_token_def Let_def split: prod.splits if_splits)

lemma bearer_token_no_space: "CHR '' '' \<notin> set (bearer_token h)"
  by (auto simp: bearer_token_def Let_def split: prod.splits if_splits)

lemma strip_id:
  assumes "s \<noteq> []" "\<not> py_isspace (hd s)" "\<not> py_isspace (last s)"
  shows "strip s = s"
proof -
  have 1: "dropWhile py_isspace s = s"
    using assms(1,2) by (cases s) auto
  have "dropWhile py_isspace (rev s) = rev s"
    using assms(1,3) by (cases "rev s") (auto simp: hd_rev [symmetric])
  with 1 show ?thesis by (simp add: strip_def)
qed

lemma bearer_token_wellformed:
  assumes "\<forall>c \<in> set raw. \<not> py_isspace c"
  shows "bearer_token (''Bearer '' @ KEY_PREFIX @ raw) = KEY_PREFIX @ raw"
proof -
  have sp: "py_isspace (CHR '' '')" "\<not> py_isspace (CHR ''B'')" "\<not> py_isspace (CHR ''_'')"
    by (simp_all add: py_isspace_def)
  let ?h = "''Bearer '' @ KEY_PREFIX @ raw"
  have "\<not> py_isspace (last ?h)"
    using assms sp by (cases "raw = []") (simp_all add: KEY_PREFIX_def last_in_set)
  then have s: "strip ?h = ?h"
    using sp by (intro strip_id) auto
  have "CHR '' '' \<notin> set (KEY_PREFIX @ raw)"
    using assms sp by (auto simp: KEY_PREFIX_def)
  moreover have "partition_on (CHR '' '') ?h = (''Bearer'', True, KEY_PREFIX @ raw)"
    using partition_on_found [of "CHR '' ''" "''Bearer''" "KEY_PREFIX @ raw"] by simp
  ultimately show ?thesis
    unfolding bearer_token_def Let_def s by (simp add: AUTH_SCHEME_def KEY_PREFIX_def)
qed

lemma in_set_revoke_keys:
  "k' \<in> set (revoke_keys now sel keys) \<Longrightarrow> \<exists>k \<in> set keys. key_id k' = key_id k
     \<and> (revoked_at k' = None \<longrightarrow> k' = k \<and> (sel k \<longrightarrow> False))"
  by (auto simp: revoke_keys_def split: if_splits)

lemma admit_loop_only:
  assumes "(k, t) \<in> set cs"
    and "\<And>k' t'. (k', t') \<in> set cs \<Longrightarrow> (k', t') \<noteq> (k, t) \<Longrightarrow> \<not> verify pt (key_hash k')"
    and "verify pt (key_hash k)" "\<not> is_expired now k" "tenant_is_active t"
    and "scope_allows (key_scopes k) scope"
  shows "admit_loop verify now pt scope cs = Inr \<lparr>p_tenant = t, p_key = k\<rparr>"
proof -
  obtain as bs where cs: "cs = as @ (k, t) # bs" and "(k, t) \<notin> set as"
    using split_list_first [OF assms(1)] by blast
  then have "\<forall>(k', t') \<in> set as. is_expired now k' \<or> \<not> verify pt (key_hash k')"
    using assms(2) by fastforce
  then have "admit_loop verify now pt scope cs = admit_loop verify now pt scope ((k, t) # bs)"
    unfolding cs by (rule admit_loop_skips)
  then show ?thesis
    using assms(3-6) by simp
qed

subsection \<open>Properties\<close>

text \<open>C1. An admitted request presented a well-formed bearer key that verifies against the
  hash of a stored key which is neither revoked nor expired, holds a grant for the requested
  scope, and belongs to an existing active tenant, the one the principal names.\<close>

theorem admission_sound:
  assumes "require_machine_key verify now tenants keys authorization scope = Inr p"
  shows "p_key p \<in> set keys \<and> p_tenant p \<in> set tenants
    \<and> key_tenant (p_key p) = tenant_id (p_tenant p) \<and> tenant_is_active (p_tenant p)
    \<and> \<not> is_revoked (p_key p) \<and> \<not> is_expired now (p_key p)
    \<and> verify (bearer_token authorization) (key_hash (p_key p))
    \<and> key_prefix (p_key p) = take 12 (bearer_token authorization)
    \<and> prefix KEY_PREFIX (bearer_token authorization)
    \<and> scope_allows (key_scopes (p_key p)) scope"
proof -
  let ?pt = "bearer_token authorization"
  have ne: "?pt \<noteq> []" and loop: "admit_loop verify now ?pt scope (candidate_keys tenants keys ?pt) = Inr p"
    using assms by (auto simp: require_machine_key_def Let_def split: if_splits)
  note l = admit_loop_Inr [OF loop]
  from l have "(p_key p, p_tenant p) \<in> set (candidate_keys tenants keys ?pt)" by blast
  then have "p_key p \<in> set keys" "key_prefix (p_key p) = take 12 ?pt" "revoked_at (p_key p) = None"
    and r: "row_of tenant_id tenants (key_tenant (p_key p)) = Some (p_tenant p)"
    by (auto simp: candidate_keys_in)
  with l bearer_token_prefix [OF ne] row_of_Some [OF r] show ?thesis
    by (auto simp: is_revoked_def)
qed

theorem admission_sound_witness:
  "\<exists>p. require_machine_key (\<lambda>p h. p = h) 5
     [\<lparr>tenant_id = 1, tenant_slug = ''t'', tenant_display_name = ''T'', tenant_is_active = True,
       workos_organization_id = []\<rparr>]
     [\<lparr>key_id = 9, key_tenant = 1, key_hash = ''thk_secret123'', key_prefix = ''thk_secret12'',
       key_label = [], key_scopes = JList [JStr ''offload:*''], revoked_at = None,
       expires_at = Some 6, key_created_at = 0\<rparr>]
     ''bearer thk_secret123 '' ''offload:read'' = Inr p \<and> tenant_is_active (p_tenant p)
     \<and> \<not> is_revoked (p_key p)"
proof -
  let ?ts = "[\<lparr>tenant_id = 1, tenant_slug = ''t'', tenant_display_name = ''T'',
    tenant_is_active = True, workos_organization_id = []\<rparr>]"
  let ?ks = "[\<lparr>key_id = 9, key_tenant = 1, key_hash = ''thk_secret123'',
    key_prefix = ''thk_secret12'', key_label = [], key_scopes = JList [JStr ''offload:*''],
    revoked_at = None, expires_at = Some 6, key_created_at = 0\<rparr>]"
  have "is_ok (require_machine_key (\<lambda>p h. p = h) 5 ?ts ?ks ''bearer thk_secret123 '' ''offload:read'')"
    by code_simp
  then obtain p where "require_machine_key (\<lambda>p h. p = h) 5 ?ts ?ks ''bearer thk_secret123 ''
      ''offload:read'' = Inr p"
    by (auto simp: is_ok_def split: sum.splits)
  with admission_sound [OF this] show ?thesis by blast
qed

text \<open>A grant list admits the scope \<open>domain:action\<close> exactly when it holds that scope, the
  wildcard of the same domain, or \<open>*\<close>; a value that is not a list admits nothing.\<close>

theorem scope_allows_exact:
  assumes "CHR '':'' \<notin> set domain"
  shows "scope_allows scopes (domain @ '':'' @ action) \<longleftrightarrow>
    (\<exists>vs. scopes = JList vs \<and>
       (JStr ''*'' \<in> set vs \<or> JStr (domain @ '':'' @ action) \<in> set vs \<or> JStr (domain @ '':*'') \<in> set vs))"
proof -
  have "partition_on (CHR '':'') (domain @ '':'' @ action) = (domain, True, action)"
    using partition_on_found [OF assms] by simp
  then show ?thesis
    by (cases scopes) (simp_all add: scope_allows_def granted_in)
qed

theorem scope_allows_exact_witness:
  "scope_allows (JList [JInt 3, JStr ''rl:*'']) ''rl:train''
   \<and> \<not> scope_allows (JList [JStr ''rl:*'']) ''offload:read''"
  using scope_allows_exact [of "''rl''" "JList [JInt 3, JStr ''rl:*'']" "''train''"]
    scope_allows_exact [of "''offload''" "JList [JStr ''rl:*'']" "''read''"] by simp

text \<open>C24. A freshly minted key is admitted: presented as \<open>Bearer <plaintext>\<close> before it expires,
  with one of the scopes it was minted with, it authenticates as exactly the new row and its
  tenant, provided the hasher verifies what it hashed and no other stored hash verifies the
  new plaintext.\<close>

theorem minted_key_admitted:
  assumes verifies: "verify (KEY_PREFIX @ raw) (hash salt (KEY_PREFIX @ raw))"
    and fresh: "\<And>k. k \<in> set keys \<Longrightarrow> \<not> verify (KEY_PREFIX @ raw) (key_hash k)"
    and urlsafe: "\<And>c. c \<in> set raw \<Longrightarrow> \<not> py_isspace c"
    and tenant: "row_of tenant_id tenants (tenant_id t) = Some t" "tenant_is_active t"
    and live: "\<And>e. expiry = Some e \<Longrightarrow> now' < e"
    and granted: "scope \<in> set scopes"
    and minted: "mint_api_key hash salt raw kid now t (Some scopes) label expiry keys = (keys', row, plaintext)"
  shows "require_machine_key verify now' tenants keys' (''Bearer '' @ plaintext) scope
    = Inr \<lparr>p_tenant = t, p_key = row\<rparr>"
proof -
  have pt: "plaintext = KEY_PREFIX @ raw" and keys': "keys' = keys @ [row]"
    and row: "key_prefix row = take 12 plaintext" "revoked_at row = None" "key_tenant row = tenant_id t"
      "key_hash row = hash salt plaintext" "expires_at row = expiry"
      "key_scopes row = JList (map JStr scopes)"
    using minted by (auto simp: mint_api_key_def Let_def)
  have token: "bearer_token (''Bearer '' @ plaintext) = plaintext"
    unfolding pt using bearer_token_wellformed urlsafe by simp
  let ?cs = "candidate_keys tenants keys' plaintext"
  have "admit_loop verify now' plaintext scope ?cs = Inr \<lparr>p_tenant = t, p_key = row\<rparr>"
  proof (rule admit_loop_only)
    show "(row, t) \<in> set ?cs"
      using row tenant by (simp add: candidate_keys_in keys')
    show "\<not> verify plaintext (key_hash k')"
      if "(k', t') \<in> set ?cs" "(k', t') \<noteq> (row, t)" for k' t'
      using that fresh row tenant by (auto simp: candidate_keys_in keys' pt)
    show "\<not> is_expired now' row"
      using live row by (auto simp: is_expired_def split: option.splits dest: leD)
    show "scope_allows (key_scopes row) scope"
      using granted by (auto simp: scope_allows_def row granted_in Let_def split: prod.splits)
  qed (use verifies tenant row pt in auto)
  then show ?thesis
    unfolding require_machine_key_def Let_def token by (simp add: pt KEY_PREFIX_def)
qed

theorem minted_key_admitted_witness:
  "\<exists>keys' row. mint_api_key (@) ''s'' ''Ab_1'' 7 0
     \<lparr>tenant_id = 1, tenant_slug = ''t'', tenant_display_name = ''T'', tenant_is_active = True,
      workos_organization_id = []\<rparr> (Some [''rl:read'']) [] (Some 10) [] = (keys', row, ''thk_Ab_1'')
   \<and> require_machine_key (\<lambda>p h. h = ''s'' @ p) 3
     [\<lparr>tenant_id = 1, tenant_slug = ''t'', tenant_display_name = ''T'', tenant_is_active = True,
      workos_organization_id = []\<rparr>] keys' (''Bearer '' @ ''thk_Ab_1'') ''rl:read''
     = Inr \<lparr>p_tenant = \<lparr>tenant_id = 1, tenant_slug = ''t'', tenant_display_name = ''T'',
        tenant_is_active = True, workos_organization_id = []\<rparr>, p_key = row\<rparr>"
proof -
  let ?t = "\<lparr>tenant_id = 1, tenant_slug = ''t'', tenant_display_name = ''T'',
    tenant_is_active = True, workos_organization_id = []\<rparr>"
  obtain keys' row where m: "mint_api_key (@) ''s'' ''Ab_1'' 7 0 ?t (Some [''rl:read'']) [] (Some 10) []
      = (keys', row, ''thk_Ab_1'')"
    by (auto simp: mint_api_key_def Let_def KEY_PREFIX_def)
  have sp: "\<And>c. c \<in> set ''Ab_1'' \<Longrightarrow> \<not> py_isspace c"
    by (auto simp: py_isspace_def)
  show ?thesis
    using minted_key_admitted [where verify = "\<lambda>p h. h = ''s'' @ p" and tenants = "[?t]" and now' = 3
        and scope = "''rl:read''", OF _ _ sp _ _ _ _ m] m
    by (auto simp: row_of_def)
qed

text \<open>Revocation is final: whatever the request, no key selected by a revocation is admitted
  from the table it leaves.\<close>

theorem revoked_never_admitted:
  assumes "require_machine_key verify now' tenants (revoke_keys now sel keys) authorization scope = Inr p"
  shows "\<not> sel (p_key p) \<and> p_key p \<in> set keys"
proof -
  from admission_sound [OF assms] have "p_key p \<in> set (revoke_keys now sel keys)"
    and "revoked_at (p_key p) = None"
    by (auto simp: is_revoked_def)
  then show ?thesis
    by (auto simp: revoke_keys_def split: if_splits)
qed

theorem revoked_never_admitted_witness:
  "\<exists>p. require_machine_key (\<lambda>p h. p = h) 5
     [\<lparr>tenant_id = 1, tenant_slug = ''t'', tenant_display_name = ''T'', tenant_is_active = True,
       workos_organization_id = []\<rparr>]
     (revoke_keys 4 (\<lambda>k. key_id k = 8)
       [\<lparr>key_id = 8, key_tenant = 1, key_hash = ''thk_a'', key_prefix = ''thk_a'', key_label = [],
          key_scopes = JList [JStr ''*''], revoked_at = None, expires_at = None, key_created_at = 0\<rparr>,
        \<lparr>key_id = 9, key_tenant = 1, key_hash = ''thk_a'', key_prefix = ''thk_a'', key_label = [],
          key_scopes = JList [JStr ''*''], revoked_at = None, expires_at = None, key_created_at = 0\<rparr>])
     ''Bearer thk_a'' ''rl:read'' = Inr p \<and> key_id (p_key p) \<noteq> 8"
proof -
  let ?ts = "[\<lparr>tenant_id = 1, tenant_slug = ''t'', tenant_display_name = ''T'',
    tenant_is_active = True, workos_organization_id = []\<rparr>]"
  let ?ks = "[\<lparr>key_id = 8, key_tenant = 1, key_hash = ''thk_a'', key_prefix = ''thk_a'', key_label = [],
      key_scopes = JList [JStr ''*''], revoked_at = None, expires_at = None, key_created_at = 0\<rparr>,
    \<lparr>key_id = 9, key_tenant = 1, key_hash = ''thk_a'', key_prefix = ''thk_a'', key_label = [],
      key_scopes = JList [JStr ''*''], revoked_at = None, expires_at = None, key_created_at = 0\<rparr>]"
  have "is_ok (require_machine_key (\<lambda>p h. p = h) 5 ?ts (revoke_keys 4 (\<lambda>k. key_id k = 8) ?ks)
      ''Bearer thk_a'' ''rl:read'')"
    by code_simp
  then obtain p where "require_machine_key (\<lambda>p h. p = h) 5 ?ts (revoke_keys 4 (\<lambda>k. key_id k = 8) ?ks)
      ''Bearer thk_a'' ''rl:read'' = Inr p"
    by (auto simp: is_ok_def split: sum.splits)
  with revoked_never_admitted [OF this] show ?thesis by blast
qed

end
