(* ===== verification/Artifacts.thy ===== *)
theory Artifacts
  imports Admission
begin

section \<open>Tenant-bound artifacts\<close>

text \<open>
  \<open>apps/orchestration/artifacts.py\<close>. The S3 client is a library: \<open>'s s3_client\<close> holds the
  three calls the code makes, over an arbitrary state \<open>'s\<close> of the bucket, and every
  operation of the store takes it as an argument; a call answers with the botocore error it
  raised or with its value. pyarrow is a library too: \<open>arrow_ipc\<close> holds its encoder and
  decoder. An operation returns its result or the exception of the module, and the state
  of the bucket after it, also when it raises.
\<close>

datatype artifact_error =
    ArtifactConfigurationError string
  | ArtifactValidationError string
  | ArtifactStorageError string
  | ArtifactNotFoundError string

text \<open>The class test of an \<open>except ArtifactStorageError\<close> clause: not-found is a subclass.\<close>

definition is_storage_error :: "artifact_error \<Rightarrow> bool" where
  "is_storage_error e =
     (case e of ArtifactStorageError _ \<Rightarrow> True | ArtifactNotFoundError _ \<Rightarrow> True | _ \<Rightarrow> False)"

fun err_text :: "artifact_error \<Rightarrow> string" where
  "err_text (ArtifactConfigurationError m) = m"
| "err_text (ArtifactValidationError m) = m"
| "err_text (ArtifactStorageError m) = m"
| "err_text (ArtifactNotFoundError m) = m"

datatype s3_error = ClientError string "int option" | BotoCoreError

record 's s3_client =
  put_object :: "string \<Rightarrow> bytes \<Rightarrow> string \<Rightarrow> 's \<Rightarrow> s3_error option \<times> 's"
  get_object :: "string \<Rightarrow> 's \<Rightarrow> (s3_error, int option \<times> bytes) result"
  delete_object :: "string \<Rightarrow> 's \<Rightarrow> s3_error option \<times> 's"
  presigned_url :: "string \<Rightarrow> string \<Rightarrow> string \<Rightarrow> int \<Rightarrow> (s3_error, string) result"

record artifact_store =
  bucket :: string
  presign_seconds :: int
  max_bytes :: int

record stored_content =
  artifact_key :: string
  payload_digest :: string
  media_type :: string
  byte_length :: nat

record stored_arrow =
  arrow_key :: string
  arrow_digest :: string
  arrow_schema :: string
  arrow_rows :: nat

record web_descriptor =
  web_digest :: string
  web_object_key :: string
  web_media_type :: string
  web_byte_length :: nat
  web_snapshot_id :: string
  web_scope :: "(string \<times> string) list"
  web_encoding :: "string option"

definition ARROW_IPC_CONTENT_TYPE :: string where
  "ARROW_IPC_CONTENT_TYPE = ''application/vnd.apache.arrow.stream''"

subsection \<open>Configuration\<close>

record s3_settings =
  s3_endpoint_url :: string
  s3_access_key_id :: string
  s3_secret_access_key :: string
  s3_region :: string
  s3_bucket :: string
  s3_presign_seconds :: int
  s3_max_bytes :: int

definition from_settings :: "s3_settings \<Rightarrow> (artifact_error, artifact_store) result" where
  "from_settings cfg =
     (let missing = map fst (filter (\<lambda>(_, v). blank v)
            [(''ARTIFACT_S3_ENDPOINT_URL'', s3_endpoint_url cfg),
             (''ARTIFACT_S3_ACCESS_KEY_ID'', s3_access_key_id cfg),
             (''ARTIFACT_S3_SECRET_ACCESS_KEY'', s3_secret_access_key cfg),
             (''ARTIFACT_S3_REGION'', s3_region cfg),
             (''ARTIFACT_S3_BUCKET'', s3_bucket cfg)])
      in if missing \<noteq> [] then Inl (ArtifactConfigurationError (''missing '' @ join '', '' missing))
         else if s3_presign_seconds cfg \<le> 0 \<or> s3_max_bytes cfg \<le> 0
         then Inl (ArtifactConfigurationError ''artifact expiry and maximum bytes must be positive'')
         else Inr \<lparr>bucket = s3_bucket cfg, presign_seconds = s3_presign_seconds cfg,
                    max_bytes = s3_max_bytes cfg\<rparr>)"

subsection \<open>Keys\<close>

definition tenant_prefix :: "uuid \<Rightarrow> string" where
  "tenant_prefix t = ''tenants/'' @ uuid_str t @ ''/''"

definition validate_key :: "uuid \<Rightarrow> string \<Rightarrow> (artifact_error, string) result" where
  "validate_key t key =
     (if key = [] then Inl (ArtifactValidationError ''artifact_key is required'')
      else if 512 < length key \<or> CHR 0x5C \<in> set key \<or> ''..'' \<in> set (split_on (CHR ''/'') key)
      then Inl (ArtifactValidationError ''artifact_key is malformed'')
      else if \<not> prefix (tenant_prefix t) key
      then Inl (ArtifactValidationError ''artifact_key is outside the admitted tenant prefix'')
      else Inr key)"

definition content_digest :: "string \<Rightarrow> (artifact_error, string) result" where
  "content_digest v =
     (if \<not> is_sha256_digest v
      then Inl (ArtifactValidationError ''artifact identity must be a sha256 digest'')
      else Inr (removeprefix SHA256_PREFIX v))"

definition allocate_input_key :: "uuid \<Rightarrow> uuid \<Rightarrow> string" where
  "allocate_input_key fresh t = tenant_prefix t @ ''inputs/'' @ uuid_str fresh @ ''.arrow''"

definition output_key :: "uuid \<Rightarrow> string \<Rightarrow> string" where
  "output_key t operation_id =
     tenant_prefix t @ ''outputs/'' @ sha256_hex (utf8 operation_id) @ ''.arrow''"

definition competence_prefix :: "uuid \<Rightarrow> uuid \<Rightarrow> string \<Rightarrow> string" where
  "competence_prefix t project candidate =
     tenant_prefix t @ ''projects/'' @ uuid_str project @ ''/competence/''
     @ sha256_hex (utf8 candidate) @ ''/''"

definition competence_artifact_key ::
  "uuid \<Rightarrow> uuid \<Rightarrow> string \<Rightarrow> string \<Rightarrow> string \<Rightarrow> (artifact_error, string) result" where
  "competence_artifact_key t project candidate kind digest =
     (if blank candidate \<or> kind \<notin> set [''scorer_model'', ''prior_pack'']
      then Inl (ArtifactValidationError ''competence artifact scope is malformed'')
      else rbind (content_digest digest) (\<lambda>d.
             Inr (competence_prefix t project candidate @ kind @ ''/'' @ d)))"

definition render_artifact_key ::
  "uuid \<Rightarrow> string \<Rightarrow> string \<Rightarrow> (artifact_error, string) result" where
  "render_artifact_key t digest extension =
     (if extension \<notin> set [''png'', ''svg'']
      then Inl (ArtifactValidationError ''render extension is not allowed'')
      else rbind (content_digest digest) (\<lambda>d.
             Inr (tenant_prefix t @ ''renders/'' @ d @ ''.'' @ extension)))"

definition rl_name_chars :: string where
  "rl_name_chars = ''abcdefghijklmnopqrstuvwxyz0123456789-_.''"

definition rl_artifact_key ::
  "uuid \<Rightarrow> uuid \<Rightarrow> string \<Rightarrow> string \<Rightarrow> (artifact_error, string) result" where
  "rl_artifact_key t run name digest =
     (if name = [] \<or> 128 < length name \<or> list_ex (\<lambda>c. c \<notin> set rl_name_chars) name
      then Inl (ArtifactValidationError ''RL artifact name is malformed'')
      else rbind (content_digest digest) (\<lambda>d.
             Inr (tenant_prefix t @ ''rl/'' @ uuid_str run @ ''/'' @ name @ ''/'' @ d)))"

definition web_content_key :: "uuid \<Rightarrow> string \<Rightarrow> string \<Rightarrow> string" where
  "web_content_key t kind digest = tenant_prefix t @ ''web/'' @ kind @ ''/'' @ digest"

definition validate_competence_key ::
  "uuid \<Rightarrow> uuid \<Rightarrow> string \<Rightarrow> string \<Rightarrow> (artifact_error, string) result" where
  "validate_competence_key t project candidate key0 =
     rbind (validate_key t key0) (\<lambda>key.
       if \<not> prefix (competence_prefix t project candidate) key
       then Inl (ArtifactValidationError
                  ''artifact_key is outside the admitted competence project/candidate scope'')
       else Inr key)"

subsection \<open>Reading and writing bytes\<close>

definition storage_call :: "string \<Rightarrow> s3_error option \<times> 's \<Rightarrow> (artifact_error, unit) result \<times> 's" where
  "storage_call action r =
     (case r of
        (Some _, s) \<Rightarrow> (Inl (ArtifactStorageError (''artifact storage '' @ action @ '' failed'')), s)
      | (None, s) \<Rightarrow> (Inr (), s))"

definition get_bytes ::
  "artifact_store \<Rightarrow> 's s3_client \<Rightarrow> uuid \<Rightarrow> string \<Rightarrow> 's \<Rightarrow> (artifact_error, bytes) result" where
  "get_bytes st c t key0 s =
     rbind (validate_key t key0) (\<lambda>key.
       case get_object c key s of
         Inl (ClientError code status) \<Rightarrow>
           if code \<in> set [''NoSuchKey'', ''NotFound'', ''404''] \<or> status = Some 404
           then Inl (ArtifactNotFoundError ''artifact storage object is missing'')
           else Inl (ArtifactStorageError ''artifact storage read failed'')
       | Inl BotoCoreError \<Rightarrow> Inl (ArtifactStorageError ''artifact storage read failed'')
       | Inr (content_length, body) \<Rightarrow>
           if max_bytes st < (case content_length of None \<Rightarrow> 0 | Some n \<Rightarrow> n)
           then Inl (ArtifactValidationError ''artifact exceeds ARTIFACT_MAX_BYTES'')
           else let payload = take (nat (max_bytes st + 1)) body
                in if max_bytes st < int (length payload)
                   then Inl (ArtifactValidationError ''artifact exceeds ARTIFACT_MAX_BYTES'')
                   else Inr payload)"

definition write_web_content ::
  "artifact_store \<Rightarrow> 's s3_client \<Rightarrow> uuid \<Rightarrow> string \<Rightarrow> bytes \<Rightarrow> string \<Rightarrow> string \<Rightarrow> 's
   \<Rightarrow> (artifact_error, web_descriptor) result \<times> 's" where
  "write_web_content st c t snapshot payload media kind s =
     (if kind \<notin> set [''raw'', ''text'', ''captures''] \<or> blank snapshot
      then (Inl (ArtifactValidationError ''web content scope is malformed''), s)
      else if blank media \<or> max_bytes st < int (length payload)
      then (Inl (ArtifactValidationError ''web content media type or size is invalid''), s)
      else let digest = sha256_digest payload in
        case content_digest digest of Inl e \<Rightarrow> (Inl e, s) | Inr d \<Rightarrow>
        let key = web_content_key t kind d in
        case validate_key t key of Inl e \<Rightarrow> (Inl e, s) | Inr _ \<Rightarrow>
        case storage_call ''write web content'' (put_object c key payload media s) of
          (Inl e, s') \<Rightarrow> (Inl e, s')
        | (Inr _, s') \<Rightarrow>
          (case get_bytes st c t key s' of
             Inl e \<Rightarrow> (Inl e, s')
           | Inr back \<Rightarrow>
               if sha256_digest back \<noteq> digest
               then (Inl (ArtifactValidationError ''web content readback digest mismatch''), s')
               else (Inr \<lparr>web_digest = digest, web_object_key = key, web_media_type = media,
                          web_byte_length = length payload, web_snapshot_id = snapshot,
                          web_scope = [(''visibility'', ''tenant''), (''tenant_id'', uuid_str t)],
                          web_encoding = None\<rparr>, s')))"

text \<open>Two Python dicts of strings are equal when they have the same items.\<close>

definition dict_eq :: "(string \<times> string) list \<Rightarrow> (string \<times> string) list \<Rightarrow> bool" where
  "dict_eq a b = (set a = set b)"

definition read_web_content ::
  "artifact_store \<Rightarrow> 's s3_client \<Rightarrow> uuid \<Rightarrow> web_descriptor \<Rightarrow> 's \<Rightarrow> (artifact_error, bytes) result" where
  "read_web_content st c t desc s =
     (if \<not> dict_eq (web_scope desc) [(''visibility'', ''tenant''), (''tenant_id'', uuid_str t)]
      then Inl (ArtifactValidationError ''web content tenant scope mismatch'')
      else rbind (content_digest (web_digest desc)) (\<lambda>digest.
        let allowed = map (\<lambda>kind. web_content_key t kind digest) [''raw'', ''text'', ''captures'']
        in if web_object_key desc \<notin> set allowed \<or> web_encoding desc \<noteq> None
           then Inl (ArtifactValidationError ''web content descriptor is invalid'')
           else rbind (get_bytes st c t (web_object_key desc) s) (\<lambda>payload.
             if length payload \<noteq> web_byte_length desc \<or> sha256_digest payload \<noteq> web_digest desc
             then Inl (ArtifactValidationError ''web content digest or length mismatch'')
             else Inr payload)))"

definition rl_media_types :: "string list" where
  "rl_media_types =
     [''application/json'', ''application/jsonl'', ''text/csv'', ''text/plain'', ''application/pdf'',
      ''application/vnd.openxmlformats-officedocument.wordprocessingml.document'',
      ''application/vnd.openxmlformats-officedocument.presentationml.presentation'',
      ''application/vnd.openxmlformats-officedocument.spreadsheetml.sheet'',
      ''text/html'', ''message/rfc822'', ''image/png'', ''image/jpeg'', ''image/tiff'', ''image/webp'',
      ''application/toml'']"

definition write_rl_content ::
  "artifact_store \<Rightarrow> 's s3_client \<Rightarrow> uuid \<Rightarrow> uuid \<Rightarrow> string \<Rightarrow> bytes \<Rightarrow> string \<Rightarrow> 's
   \<Rightarrow> (artifact_error, stored_content) result \<times> 's" where
  "write_rl_content st c t run name payload media s =
     (if media \<notin> set rl_media_types
      then (Inl (ArtifactValidationError ''RL artifact media type is not allowed''), s)
      else if payload = [] \<or> max_bytes st < int (length payload)
      then (Inl (ArtifactValidationError
                  ''RL artifact must be non-empty and within ARTIFACT_MAX_BYTES''), s)
      else let digest = sha256_digest payload in
        case rl_artifact_key t run name digest of Inl e \<Rightarrow> (Inl e, s) | Inr key \<Rightarrow>
        case storage_call ''write RL artifact'' (put_object c key payload media s) of
          (Inl e, s') \<Rightarrow> (Inl e, s')
        | (Inr _, s') \<Rightarrow>
          (case get_bytes st c t key s' of
             Inl e \<Rightarrow> (Inl e, s')
           | Inr back \<Rightarrow>
               if sha256_digest back \<noteq> digest
               then (Inl (ArtifactValidationError
                           ''RL artifact readback does not match published digest''), s')
               else (Inr \<lparr>artifact_key = key, payload_digest = digest, media_type = media,
                          byte_length = length payload\<rparr>, s')))"

definition render_extension :: "string \<Rightarrow> string option" where
  "render_extension media = map_of [(''image/png'', ''png''), (''image/svg+xml'', ''svg'')] media"

definition write_render_artifact ::
  "artifact_store \<Rightarrow> 's s3_client \<Rightarrow> uuid \<Rightarrow> bytes \<Rightarrow> string \<Rightarrow> 's
   \<Rightarrow> (artifact_error, stored_content) result \<times> 's" where
  "write_render_artifact st c t payload media s =
     (case render_extension media of
        None \<Rightarrow> (Inl (ArtifactValidationError ''render media type is not allowed''), s)
      | Some extension \<Rightarrow>
        if payload = [] \<or> max_bytes st < int (length payload)
        then (Inl (ArtifactValidationError
                    ''render artifact must be non-empty and within ARTIFACT_MAX_BYTES''), s)
        else let digest = sha256_digest payload in
        case render_artifact_key t digest extension of Inl e \<Rightarrow> (Inl e, s) | Inr key \<Rightarrow>
        case storage_call ''write render artifact'' (put_object c key payload media s) of
          (Inl e, s') \<Rightarrow> (Inl e, s')
        | (Inr _, s') \<Rightarrow>
          (case get_bytes st c t key s' of
             Inl e \<Rightarrow> (Inl e, s')
           | Inr back \<Rightarrow>
               if back \<noteq> payload
               then (Inl (ArtifactValidationError
                           ''render artifact readback does not match published bytes''), s')
               else (Inr \<lparr>artifact_key = key, payload_digest = digest, media_type = media,
                          byte_length = length payload\<rparr>, s')))"

definition competence_media :: "string \<Rightarrow> string option" where
  "competence_media kind =
     map_of [(''scorer_model'', ''application/vnd.theorem.competence-scorer+json''),
             (''prior_pack'', ''application/vnd.theorem.prior-pack+json'')] kind"

definition write_competence_artifact ::
  "artifact_store \<Rightarrow> 's s3_client \<Rightarrow> uuid \<Rightarrow> uuid \<Rightarrow> string \<Rightarrow> string \<Rightarrow> bytes \<Rightarrow> string \<Rightarrow> 's
   \<Rightarrow> (artifact_error, stored_content) result \<times> 's" where
  "write_competence_artifact st c t project candidate kind payload media s =
     (if competence_media kind \<noteq> Some media
      then (Inl (ArtifactValidationError ''competence artifact kind and media type do not match''), s)
      else if payload = [] \<or> max_bytes st < int (length payload)
      then (Inl (ArtifactValidationError
                  ''competence artifact must be non-empty and within ARTIFACT_MAX_BYTES''), s)
      else let digest = sha256_digest payload in
        case competence_artifact_key t project candidate kind digest of
          Inl e \<Rightarrow> (Inl e, s) | Inr key \<Rightarrow>
        case storage_call ''write competence artifact'' (put_object c key payload media s) of
          (Inl e, s') \<Rightarrow> (Inl e, s')
        | (Inr _, s') \<Rightarrow>
          (case get_bytes st c t key s' of
             Inl e \<Rightarrow> (Inl e, s')
           | Inr recovered \<Rightarrow>
               if recovered \<noteq> payload
               then (Inl (ArtifactValidationError
                           ''competence artifact readback does not match published bytes''), s')
               else (Inr \<lparr>artifact_key = key, payload_digest = digest, media_type = media,
                          byte_length = length payload\<rparr>, s')))"

definition delete_competence_artifact ::
  "'s s3_client \<Rightarrow> uuid \<Rightarrow> uuid \<Rightarrow> string \<Rightarrow> string \<Rightarrow> 's \<Rightarrow> (artifact_error, unit) result \<times> 's" where
  "delete_competence_artifact c t project candidate key0 s =
     (case validate_competence_key t project candidate key0 of
        Inl e \<Rightarrow> (Inl e, s)
      | Inr key \<Rightarrow> storage_call ''delete'' (delete_object c key s))"

definition delete_artifact ::
  "'s s3_client \<Rightarrow> uuid \<Rightarrow> string \<Rightarrow> 's \<Rightarrow> (artifact_error, unit) result \<times> 's" where
  "delete_artifact c t key0 s =
     (case validate_key t key0 of
        Inl e \<Rightarrow> (Inl e, s)
      | Inr key \<Rightarrow> storage_call ''delete'' (delete_object c key s))"

subsection \<open>Presigned capabilities\<close>

definition presign ::
  "string \<Rightarrow> (s3_error, string) result \<Rightarrow> (artifact_error, string) result" where
  "presign action r =
     map_err (\<lambda>_. ArtifactStorageError (''artifact storage '' @ action @ '' failed'')) r"

definition presign_get ::
  "artifact_store \<Rightarrow> 's s3_client \<Rightarrow> uuid \<Rightarrow> string \<Rightarrow> (artifact_error, string) result" where
  "presign_get st c t key0 =
     rbind (validate_key t key0) (\<lambda>key.
       presign ''presign GET'' (presigned_url c ''get_object'' key [] (presign_seconds st)))"

definition presign_put_content ::
  "artifact_store \<Rightarrow> 's s3_client \<Rightarrow> uuid \<Rightarrow> string \<Rightarrow> string \<Rightarrow> (artifact_error, string) result" where
  "presign_put_content st c t key0 content_type =
     rbind (validate_key t key0) (\<lambda>key.
       if content_type \<notin> set [ARROW_IPC_CONTENT_TYPE, ''application/json'', ''application/jsonl'',
                               ''text/csv'', ''text/plain'']
       then Inl (ArtifactValidationError ''artifact upload content type is not allowed'')
       else presign ''presign PUT''
              (presigned_url c ''put_object'' key content_type (presign_seconds st)))"

definition presign_put ::
  "artifact_store \<Rightarrow> 's s3_client \<Rightarrow> uuid \<Rightarrow> string \<Rightarrow> (artifact_error, string) result" where
  "presign_put st c t key = presign_put_content st c t key ARROW_IPC_CONTENT_TYPE"

subsection \<open>Arrow tables\<close>

record arrow_field =
  field_name :: string
  field_type :: string
  field_nullable :: bool

record table_schema =
  schema_fields :: "arrow_field list"
  schema_metadata :: "(string \<times> string) list"

record table =
  tbl_schema :: table_schema
  tbl_rows :: "json list list"

record arrow_ipc =
  ipc_encode :: "table \<Rightarrow> bytes"
  ipc_decode :: "bytes \<Rightarrow> table option"

definition arrow_schema_json :: "table_schema \<Rightarrow> string" where
  "arrow_schema_json sch =
     dumps \<lparr>ensure_ascii = True, item_sep = '','', key_sep = '':''\<rparr>
       (JObj [(''fields'', JList (map (\<lambda>f. JObj [(''name'', JStr (field_name f)),
                 (''type'', JStr (field_type f)), (''nullable'', JBool (field_nullable f))])
                 (schema_fields sch))),
              (''metadata'', JObj (map (\<lambda>(k, v). (k, JStr v)) (schema_metadata sch)))])"

definition decode_arrow_ipc :: "arrow_ipc \<Rightarrow> bytes \<Rightarrow> (artifact_error, table) result" where
  "decode_arrow_ipc ipc payload =
     (case ipc_decode ipc payload of
        None \<Rightarrow> Inl (ArtifactValidationError ''artifact is not a valid Arrow IPC stream'')
      | Some t \<Rightarrow> Inr t)"

definition read_table ::
  "artifact_store \<Rightarrow> 's s3_client \<Rightarrow> arrow_ipc \<Rightarrow> uuid \<Rightarrow> string \<Rightarrow> string \<Rightarrow> string \<Rightarrow> int option
   \<Rightarrow> 's \<Rightarrow> (artifact_error, table) result" where
  "read_table st c ipc t key expected_digest expected_schema expected_rows s =
     rbind (get_bytes st c t key s) (\<lambda>payload.
       let actual = sha256_digest payload
       in if expected_digest \<noteq> [] \<and> actual \<noteq> expected_digest
          then Inl (ArtifactValidationError ''artifact payload digest does not match the descriptor'')
          else rbind (decode_arrow_ipc ipc payload) (\<lambda>tbl.
            if expected_schema \<noteq> [] \<and> arrow_schema_json (tbl_schema tbl) \<noteq> expected_schema
            then Inl (ArtifactValidationError ''artifact schema does not match the descriptor'')
            else if expected_rows \<noteq> None \<and> expected_rows \<noteq> Some (int (length (tbl_rows tbl)))
            then Inl (ArtifactValidationError ''artifact row count does not match the descriptor'')
            else Inr tbl))"

definition read_arrow ::
  "artifact_store \<Rightarrow> 's s3_client \<Rightarrow> arrow_ipc \<Rightarrow> uuid \<Rightarrow> string \<Rightarrow> string \<Rightarrow> string \<Rightarrow> int option
   \<Rightarrow> 's \<Rightarrow> (artifact_error, stored_arrow) result" where
  "read_arrow st c ipc t key expected_digest expected_schema expected_rows s =
     rbind (get_bytes st c t key s) (\<lambda>payload.
       let actual = sha256_digest payload
       in if expected_digest \<noteq> [] \<and> actual \<noteq> expected_digest
          then Inl (ArtifactValidationError ''artifact payload digest does not match the descriptor'')
          else rbind (decode_arrow_ipc ipc payload) (\<lambda>tbl.
            let schema_json = arrow_schema_json (tbl_schema tbl)
            in if expected_schema \<noteq> [] \<and> schema_json \<noteq> expected_schema
               then Inl (ArtifactValidationError ''artifact schema does not match the descriptor'')
               else if expected_rows \<noteq> None \<and> expected_rows \<noteq> Some (int (length (tbl_rows tbl)))
               then Inl (ArtifactValidationError ''artifact row count does not match the descriptor'')
               else Inr \<lparr>arrow_key = key, arrow_digest = actual, arrow_schema = schema_json,
                          arrow_rows = length (tbl_rows tbl)\<rparr>))"

definition write_table ::
  "artifact_store \<Rightarrow> 's s3_client \<Rightarrow> arrow_ipc \<Rightarrow> uuid \<Rightarrow> string \<Rightarrow> table \<Rightarrow> 's
   \<Rightarrow> (artifact_error, stored_arrow) result \<times> 's" where
  "write_table st c ipc t key0 tbl s =
     (case validate_key t key0 of Inl e \<Rightarrow> (Inl e, s) | Inr key \<Rightarrow>
      let payload = ipc_encode ipc tbl in
      if max_bytes st < int (length payload)
      then (Inl (ArtifactValidationError ''artifact exceeds ARTIFACT_MAX_BYTES''), s)
      else case storage_call ''write'' (put_object c key payload ARROW_IPC_CONTENT_TYPE s) of
          (Inl e, s') \<Rightarrow> (Inl e, s')
        | (Inr _, s') \<Rightarrow>
            (Inr \<lparr>arrow_key = key, arrow_digest = sha256_digest payload,
                   arrow_schema = arrow_schema_json (tbl_schema tbl),
                   arrow_rows = length (tbl_rows tbl)\<rparr>, s'))"

subsection \<open>Keys stay inside their tenant\<close>

lemma prefix_same_length: "prefix a k \<Longrightarrow> prefix b k \<Longrightarrow> length a = length b \<Longrightarrow> a = b"
  by (auto simp: prefix_def)

lemma hexdigits_plain: "c \<in> set hexdigits \<Longrightarrow> c \<noteq> CHR ''/'' \<and> c \<noteq> CHR 0x5C \<and> c \<noteq> CHR ''.''"
  by (auto simp: hexdigits_def)

lemma hex_plain: "c \<in> set (sha256_hex m) \<Longrightarrow> c \<noteq> CHR ''/'' \<and> c \<noteq> CHR 0x5C \<and> c \<noteq> CHR ''.''"
  using set_sha256_hex [of m] hexdigits_plain by blast

lemma is_hex64_plain: "is_hex64 d \<Longrightarrow> c \<in> set d \<Longrightarrow> c \<noteq> CHR ''/'' \<and> c \<noteq> CHR 0x5C \<and> c \<noteq> CHR ''.''"
  unfolding is_hex64_def list_all_iff using hexdigits_plain by blast

lemma uuid_plain: "c \<in> set (uuid_str u) \<Longrightarrow> c \<noteq> CHR ''/'' \<and> c \<noteq> CHR 0x5C \<and> c \<noteq> CHR ''.''"
  using set_uuid_str [of u] hexdigits_plain by auto

lemma plain_sets [simp]:
  "CHR 0x5C \<notin> set (sha256_hex m)" "CHR 0x5C \<notin> set (uuid_str u)"
  "CHR ''.'' \<notin> set (sha256_hex m)" "CHR ''.'' \<notin> set (uuid_str u)"
  using hex_plain uuid_plain by blast+

lemma length_tenant_prefix [simp]: "length (tenant_prefix t) = 45"
  by (simp add: tenant_prefix_def)

lemma tenant_prefix_not_Nil [simp]: "tenant_prefix t \<noteq> []"
  by (simp add: tenant_prefix_def)

lemma tenant_prefix_no_backslash [simp]: "CHR 0x5C \<notin> set (tenant_prefix t)"
  by (simp add: tenant_prefix_def)

lemma tenant_prefix_inj:
  assumes "prefix (tenant_prefix t) k" "prefix (tenant_prefix t') k"
  shows "t = t'"
proof -
  have "tenant_prefix t = tenant_prefix t'"
    using prefix_same_length [OF assms] by simp
  then have "uuid_str t = uuid_str t'"
    by (simp add: tenant_prefix_def)
  then show ?thesis by (simp add: uuid_str_inj)
qed

lemma uuid_not_dotdot [simp]: "uuid_str u \<noteq> ''..''" "''..'' \<noteq> uuid_str u"
proof -
  show 1: "uuid_str u \<noteq> ''..''" using length_uuid_str [of u] by fastforce
  show "''..'' \<noteq> uuid_str u" using 1 by metis
qed

lemma split_tenant_key:
  "split_on (CHR ''/'') (tenant_prefix t @ s) = ''tenants'' # uuid_str t # split_on (CHR ''/'') s"
proof -
  have "tenant_prefix t @ s = ''tenants'' @ CHR ''/'' # (uuid_str t @ CHR ''/'' # s)"
    by (simp add: tenant_prefix_def)
  then show ?thesis
    by (simp only: split_on_append uuid_str_no_slash not_False_eq_True) (simp add: split_on_append)
qed

lemma validate_tenant_key:
  "validate_key t (tenant_prefix t @ s) =
     (if 467 < length s \<or> CHR 0x5C \<in> set s \<or> ''..'' \<in> set (split_on (CHR ''/'') s)
      then Inl (ArtifactValidationError ''artifact_key is malformed'')
      else Inr (tenant_prefix t @ s))"
  unfolding validate_key_def split_tenant_key by auto

lemma validate_key_Inr:
  "validate_key t k0 = Inr k \<longleftrightarrow>
     k = k0 \<and> length k0 \<le> 512 \<and> CHR 0x5C \<notin> set k0 \<and> ''..'' \<notin> set (split_on (CHR ''/'') k0)
     \<and> prefix (tenant_prefix t) k0"
  by (cases "k0 = []") (auto simp: validate_key_def)

text \<open>One path component after another: what \<open>split_on\<close> does on the keys the store builds.\<close>

lemma split_on_component:
  "CHR ''/'' \<notin> set a \<Longrightarrow> set (split_on (CHR ''/'') (a @ CHR ''/'' # b)) = insert a (set (split_on (CHR ''/'') b))"
  by (simp add: split_on_append)

lemma content_digest_Inr: "content_digest v = Inr d \<longleftrightarrow> v = SHA256_PREFIX @ d \<and> is_hex64 d"
  by (auto simp: content_digest_def is_sha256_digest_iff)

lemma content_digest_sha [simp]: "content_digest (sha256_digest m) = Inr (sha256_hex m)"
  by (simp add: content_digest_Inr sha256_digest_def)

lemma is_hex64_length: "is_hex64 d \<Longrightarrow> length d = 64"
  by (simp add: is_hex64_def)

lemma is_hex64_sets:
  assumes "is_hex64 d"
  shows "CHR ''/'' \<notin> set d" "CHR 0x5C \<notin> set d" "CHR ''.'' \<notin> set d" "d \<noteq> ''..''"
  using is_hex64_plain [OF assms] is_hex64_length [OF assms] by auto

lemma sha256_hex_not_dotdot [simp]: "sha256_hex m \<noteq> ''..''" "''..'' \<noteq> sha256_hex m"
proof -
  show 1: "sha256_hex m \<noteq> ''..''" using length_sha256_hex [of m] by fastforce
  show "''..'' \<noteq> sha256_hex m" using 1 by metis
qed

lemma output_key_valid: "validate_key t (output_key t op) = Inr (output_key t op)"
proof -
  have "split_on (CHR ''/'') (''outputs/'' @ sha256_hex (utf8 op) @ ''.arrow'')
      = [''outputs'', sha256_hex (utf8 op) @ ''.arrow'']"
    using split_on_append [of "CHR ''/''" "''outputs''"] split_on_single by simp
  then show ?thesis
    unfolding output_key_def validate_tenant_key by (auto dest: arg_cong [where f = length])
qed

lemma input_key_valid: "validate_key t (allocate_input_key u t) = Inr (allocate_input_key u t)"
proof -
  have "split_on (CHR ''/'') (''inputs/'' @ uuid_str u @ ''.arrow'')
      = [''inputs'', uuid_str u @ ''.arrow'']"
    using split_on_append [of "CHR ''/''" "''inputs''"] split_on_single by simp
  then show ?thesis
    unfolding allocate_input_key_def validate_tenant_key by (auto dest: arg_cong [where f = length])
qed

text \<open>A key admitted for one tenant is admitted for no other: whatever string a caller
  supplies, at most one tenant can use it as an artifact key.\<close>

theorem artifact_key_single_tenant:
  assumes "validate_key t key = Inr k" and "validate_key t' key = Inr k'"
  shows "t = t' \<and> k = key \<and> k' = key"
  using assms tenant_prefix_inj by (auto simp: validate_key_Inr)

theorem artifact_key_single_tenant_witness:
  "validate_key 7 (output_key 7 ''op'') = Inr (output_key 7 ''op'')
   \<and> \<not> is_ok (validate_key 8 (output_key 7 ''op''))"
proof -
  have ok: "validate_key 7 (output_key 7 ''op'') = Inr (output_key 7 ''op'')"
    by (rule output_key_valid)
  have "validate_key 8 (output_key 7 ''op'') \<noteq> Inr k" for k
    using artifact_key_single_tenant [OF ok, of 8 k] by auto
  with ok show ?thesis by (auto simp: is_ok_def split: sum.splits)
qed

lemma render_key_valid:
  assumes "render_artifact_key t d ext = Inr k"
  shows "validate_key t k = Inr k"
proof -
  from assms obtain h where k: "k = tenant_prefix t @ ''renders/'' @ h @ ''.'' @ ext"
    and h: "is_hex64 h" and ext: "ext \<in> set [''png'', ''svg'']"
    by (auto simp: render_artifact_key_def result_simps content_digest_Inr split: if_splits)
  have "CHR ''/'' \<notin> set (h @ ''.'' @ ext)"
    using is_hex64_sets [OF h] ext by auto
  then have "split_on (CHR ''/'') (''renders/'' @ h @ ''.'' @ ext) = [''renders'', h @ ''.'' @ ext]"
    using split_on_append [of "CHR ''/''" "''renders''"] split_on_single by simp
  then show ?thesis
    unfolding k validate_tenant_key
    using is_hex64_sets [OF h] is_hex64_length [OF h] ext
    by (auto dest: arg_cong [where f = length])
qed

lemma split_competence:
  assumes "CHR ''/'' \<notin> set kind" "is_hex64 h"
  shows "split_on (CHR ''/'') (''projects/'' @ uuid_str p @ ''/competence/'' @ sha256_hex c @ ''/'' @ kind @ ''/'' @ h)
    = [''projects'', uuid_str p, ''competence'', sha256_hex c, kind, h]"
proof -
  have "''projects/'' @ uuid_str p @ ''/competence/'' @ sha256_hex c @ ''/'' @ kind @ ''/'' @ h
     = ''projects'' @ CHR ''/'' # (uuid_str p @ CHR ''/'' # (''competence'' @ CHR ''/''
         # (sha256_hex c @ CHR ''/'' # (kind @ CHR ''/'' # h))))"
    by simp
  then show ?thesis
    using assms is_hex64_sets [OF assms(2)]
    by (simp only: split_on_append uuid_str_no_slash sha256_hex_no_slash not_False_eq_True)
      (simp add: split_on_append split_on_single)
qed

lemma competence_key_shape:
  assumes "competence_artifact_key t p c kind d = Inr k"
  obtains h where "k = competence_prefix t p c @ kind @ ''/'' @ h" "is_hex64 h" "d = SHA256_PREFIX @ h"
    "kind = ''scorer_model'' \<or> kind = ''prior_pack''"
  using assms by (auto simp: competence_artifact_key_def result_simps content_digest_Inr split: if_splits)

lemma competence_key_valid:
  assumes "competence_artifact_key t p c kind d = Inr k"
  shows "validate_competence_key t p c k = Inr k"
proof -
  obtain h where k: "k = competence_prefix t p c @ kind @ ''/'' @ h"
    and h: "is_hex64 h" and kind: "kind = ''scorer_model'' \<or> kind = ''prior_pack''"
    using assms by (rule competence_key_shape)
  have k': "k = tenant_prefix t @ (''projects/'' @ uuid_str p @ ''/competence/'' @ sha256_hex (utf8 c)
      @ ''/'' @ kind @ ''/'' @ h)"
    by (simp add: k competence_prefix_def)
  have slash: "CHR ''/'' \<notin> set kind"
    using kind by auto
  have "validate_key t k = Inr k"
    unfolding k' validate_tenant_key split_competence [OF slash h]
    using is_hex64_sets [OF h] is_hex64_length [OF h] kind by auto
  then show ?thesis
    by (simp add: validate_competence_key_def k prefix_def)
qed

lemma web_key_valid:
  assumes "is_hex64 h" "kind \<in> set [''raw'', ''text'', ''captures'']"
  shows "validate_key t (web_content_key t kind h) = Inr (web_content_key t kind h)"
proof -
  have "CHR ''/'' \<notin> set kind" using assms(2) by auto
  then have "split_on (CHR ''/'') (''web/'' @ kind @ ''/'' @ h) = [''web'', kind, h]"
    using split_on_append [of "CHR ''/''" "''web''" "kind @ ''/'' @ h"] is_hex64_sets [OF assms(1)]
    by (simp add: split_on_append split_on_single)
  then show ?thesis
    unfolding web_content_key_def validate_tenant_key
    using is_hex64_sets [OF assms(1)] is_hex64_length [OF assms(1)] assms(2) by auto
qed



text \<open>C18. Competence keys are separated by scope: a key admitted for two scopes has the same
  tenant, the same project and the same candidate digest.\<close>

theorem competence_scope_isolation:
  assumes "validate_competence_key t p c key = Inr k" and "validate_competence_key t' p' c' key = Inr k'"
  shows "t = t' \<and> p = p' \<and> sha256_hex (utf8 c) = sha256_hex (utf8 c')"
proof -
  from assms have pre: "prefix (competence_prefix t p c) key" "prefix (competence_prefix t' p' c') key"
    and "prefix (tenant_prefix t) key" "prefix (tenant_prefix t') key"
    by (auto simp: validate_competence_key_def result_simps validate_key_Inr split: if_splits)
  have len: "length (competence_prefix t p c) = length (competence_prefix t' p' c')"
    by (simp add: competence_prefix_def)
  have "competence_prefix t p c = competence_prefix t' p' c'"
    using prefix_same_length [OF pre len] .
  moreover have "t = t'"
    using \<open>prefix (tenant_prefix t) key\<close> \<open>prefix (tenant_prefix t') key\<close> by (rule tenant_prefix_inj)
  ultimately have "uuid_str p @ ''/competence/'' @ sha256_hex (utf8 c) @ ''/''
      = uuid_str p' @ ''/competence/'' @ sha256_hex (utf8 c') @ ''/''"
    by (simp add: competence_prefix_def)
  then have "uuid_str p = uuid_str p'" and "sha256_hex (utf8 c) = sha256_hex (utf8 c')"
    by (simp_all add: take_drop_glue)
  with \<open>t = t'\<close> show ?thesis by (simp add: uuid_str_inj)
qed

theorem competence_scope_isolation_witness:
  "\<exists>k. validate_competence_key 7 8 ''cand'' k = Inr k \<and> (\<forall>q. q \<noteq> 8 \<longrightarrow> \<not> is_ok (validate_competence_key 7 q ''cand'' k))"
proof -
  obtain k where "competence_artifact_key 7 8 ''cand'' ''prior_pack'' (sha256_digest [1]) = Inr k"
    by (simp add: competence_artifact_key_def blank_iff py_isspace_def)
  then have ok: "validate_competence_key 7 8 ''cand'' k = Inr k" by (rule competence_key_valid)
  have "q = 8" if "validate_competence_key 7 q ''cand'' k = Inr k'" for q k'
    using competence_scope_isolation [OF ok that] by simp
  with ok show ?thesis by (fastforce simp: is_ok_def split: sum.splits)
qed

subsection \<open>Publication\<close>

text \<open>What a caller of a write operation relies on. \<open>published\<close>: a success names the content by
  its digest and length and lies within the limit. \<open>readable\<close>: the object can be read back in
  the bucket the write leaves, with the digest it was published under.\<close>

locale digest_publisher =
  fixes publish :: "bytes \<Rightarrow> 's \<Rightarrow> (artifact_error, 'd) result \<times> 's"
    and retrieve :: "string \<Rightarrow> 's \<Rightarrow> (artifact_error, bytes) result"
    and location :: "'d \<Rightarrow> string" and name_of :: "'d \<Rightarrow> string" and size_of :: "'d \<Rightarrow> nat"
    and limit :: int
  assumes published: "publish p s = (Inr d, s') \<Longrightarrow>
      name_of d = sha256_digest p \<and> size_of d = length p \<and> int (length p) \<le> limit"
    and readable: "publish p s = (Inr d, s') \<Longrightarrow>
      \<exists>back. retrieve (location d) s' = Inr back \<and> sha256_digest back = name_of d"
begin

lemma names_digest: "publish p s = (Inr d, s') \<Longrightarrow> is_sha256_digest (name_of d)"
  using published by fastforce

lemma same_digest:
  "publish p s = (Inr d, s1) \<Longrightarrow> publish q r = (Inr e, s2) \<Longrightarrow>
    name_of d = name_of e \<longleftrightarrow> sha256_digest p = sha256_digest q"
  using published by metis

lemma within_limit: "publish p s = (Inr d, s') \<Longrightarrow> int (size_of d) \<le> limit"
  using published by fastforce

end

text \<open>The stronger contract of the stores that compare the bytes themselves.\<close>

locale exact_publisher =
  fixes publish :: "bytes \<Rightarrow> 's \<Rightarrow> (artifact_error, 'd) result \<times> 's"
    and retrieve :: "string \<Rightarrow> 's \<Rightarrow> (artifact_error, bytes) result"
    and location :: "'d \<Rightarrow> string" and name_of :: "'d \<Rightarrow> string" and size_of :: "'d \<Rightarrow> nat"
    and limit :: int
  assumes published_exact: "publish p s = (Inr d, s') \<Longrightarrow>
      name_of d = sha256_digest p \<and> size_of d = length p \<and> int (length p) \<le> limit
      \<and> retrieve (location d) s' = Inr p"

sublocale exact_publisher \<subseteq> digest: digest_publisher publish retrieve location name_of size_of limit
proof
  show "name_of d = sha256_digest p \<and> size_of d = length p \<and> int (length p) \<le> limit"
    if "publish p s = (Inr d, s')" for p s d s'
    using published_exact [OF that] by simp
  show "\<exists>back. retrieve (location d) s' = Inr back \<and> sha256_digest back = name_of d"
    if "publish p s = (Inr d, s')" for p s d s'
    using published_exact [OF that] by simp
qed

context exact_publisher
begin

lemma published_bytes: "publish p s = (Inr d, s') \<Longrightarrow> retrieve (location d) s' = Inr q \<Longrightarrow> p = q"
  using published_exact by fastforce

end

text \<open>What a success of each write operation says; each is one walk down its success branch.\<close>

lemma write_render_ok:
  assumes "write_render_artifact st c t p media s = (Inr a, s')"
  shows "payload_digest a = sha256_digest p \<and> byte_length a = length p \<and> int (length p) \<le> max_bytes st
    \<and> get_bytes st c t (artifact_key a) s' = Inr p"
  using assms unfolding write_render_artifact_def Let_def
  by (simp split: option.splits sum.splits if_splits prod.splits) fastforce

lemma write_competence_ok:
  assumes "write_competence_artifact st c t project candidate kind p media s = (Inr a, s')"
  shows "payload_digest a = sha256_digest p \<and> byte_length a = length p \<and> int (length p) \<le> max_bytes st
    \<and> get_bytes st c t (artifact_key a) s' = Inr p"
  using assms unfolding write_competence_artifact_def Let_def
  by (simp split: option.splits sum.splits if_splits prod.splits) fastforce

lemma write_competence_scope:
  assumes "write_competence_artifact st c t project candidate kind p media s = (Inr a, s')"
  shows "validate_competence_key t project candidate (artifact_key a) = Inr (artifact_key a)
    \<and> competence_media kind = Some (media_type a)"
proof -
  have key: "competence_artifact_key t project candidate kind (sha256_digest p) = Inr (artifact_key a)
      \<and> competence_media kind = Some (media_type a)"
    using assms unfolding write_competence_artifact_def Let_def
    by (simp split: sum.splits if_splits prod.splits) fastforce
  then show ?thesis using competence_key_valid [OF conjunct1 [OF key]] by simp
qed

lemma write_rl_ok:
  assumes "write_rl_content st c t run name p media s = (Inr a, s')"
  shows "payload_digest a = sha256_digest p \<and> byte_length a = length p \<and> int (length p) \<le> max_bytes st
    \<and> (\<exists>back. get_bytes st c t (artifact_key a) s' = Inr back \<and> sha256_digest back = payload_digest a)"
  using assms unfolding write_rl_content_def Let_def
  by (simp split: option.splits sum.splits if_splits prod.splits) fastforce

lemma write_web_ok:
  assumes "write_web_content st c t snapshot p media kind s = (Inr d, s')"
  shows "web_digest d = sha256_digest p \<and> web_byte_length d = length p \<and> int (length p) \<le> max_bytes st
    \<and> kind \<in> set [''raw'', ''text'', ''captures''] \<and> web_object_key d = web_content_key t kind (sha256_hex p)
    \<and> web_scope d = [(''visibility'', ''tenant''), (''tenant_id'', uuid_str t)] \<and> web_encoding d = None
    \<and> (\<exists>back. get_bytes st c t (web_object_key d) s' = Inr back \<and> sha256_digest back = web_digest d)"
  using assms unfolding write_web_content_def Let_def
  by (simp split: option.splits sum.splits if_splits prod.splits) fastforce

interpretation render: exact_publisher
  "\<lambda>p s. write_render_artifact st c t p media s" "\<lambda>k s. get_bytes st c t k s"
  artifact_key payload_digest byte_length "max_bytes st" for st c t media
  by unfold_locales (rule write_render_ok)

interpretation competence: exact_publisher
  "\<lambda>p s. write_competence_artifact st c t project candidate kind p media s"
  "\<lambda>k s. get_bytes st c t k s"
  artifact_key payload_digest byte_length "max_bytes st" for st c t project candidate kind media
  by unfold_locales (rule write_competence_ok)

interpretation rl: digest_publisher
  "\<lambda>p s. write_rl_content st c t run name p media s" "\<lambda>k s. get_bytes st c t k s"
  artifact_key payload_digest byte_length "max_bytes st" for st c t run name media
  by unfold_locales (frule write_rl_ok, simp)+

interpretation web: digest_publisher
  "\<lambda>p s. write_web_content st c t snapshot p media kind s" "\<lambda>k s. get_bytes st c t k s"
  web_object_key web_digest web_byte_length "max_bytes st" for st c t snapshot media kind
  by unfold_locales (frule write_web_ok, simp)+

text \<open>A bucket in memory, the newest object of a key first: the parameter of the witnesses.\<close>

definition memory_bucket :: "(string \<times> bytes) list s3_client" where
  "memory_bucket = \<lparr>put_object = \<lambda>k p m s. (None, (k, p) # s),
     get_object = \<lambda>k s. (case map_of s k of None \<Rightarrow> Inl (ClientError ''NoSuchKey'' (Some 404))
                          | Some p \<Rightarrow> Inr (Some (int (length p)), p)),
     delete_object = \<lambda>k s. (None, filter (\<lambda>(k', _). k' \<noteq> k) s),
     presigned_url = \<lambda>m k ct e. Inr (''https://'' @ k)\<rparr>"

lemma memory_get:
  assumes "validate_key t k = Inr k" "int (length p) \<le> max_bytes st"
  shows "get_bytes st memory_bucket t k ((k, p) # s) = Inr p"
  using assms by (simp add: get_bytes_def memory_bucket_def Let_def)

text \<open>C19. A published competence artifact is what was published: it is addressed by the digest of
  its bytes, reads back as exactly those bytes, and its key belongs to the tenant, project and
  candidate it was written for.\<close>

theorem competence_publication:
  assumes "write_competence_artifact st c t project candidate kind p media s = (Inr a, s')"
  shows "payload_digest a = sha256_digest p \<and> get_bytes st c t (artifact_key a) s' = Inr p
    \<and> validate_competence_key t project candidate (artifact_key a) = Inr (artifact_key a)
    \<and> competence_media kind = Some (media_type a)"
  using write_competence_scope [OF assms] competence.published_exact [OF assms] by simp

theorem competence_publication_witness:
  "\<exists>a s'. write_competence_artifact \<lparr>bucket = ''b'', presign_seconds = 60, max_bytes = 100\<rparr> memory_bucket
      7 8 ''cand'' ''prior_pack'' [1, 2] ''application/vnd.theorem.prior-pack+json'' [] = (Inr a, s')
    \<and> get_bytes \<lparr>bucket = ''b'', presign_seconds = 60, max_bytes = 100\<rparr> memory_bucket 7 (artifact_key a) s'
      = Inr [1, 2]"
proof -
  let ?st = "\<lparr>bucket = ''b'', presign_seconds = 60, max_bytes = 100\<rparr>"
  obtain k where k: "competence_artifact_key 7 8 ''cand'' ''prior_pack'' (sha256_digest [1, 2]) = Inr k"
    by (simp add: competence_artifact_key_def blank_iff py_isspace_def)
  then have "validate_competence_key 7 8 ''cand'' k = Inr k" by (rule competence_key_valid)
  then have v: "validate_key 7 k = Inr k"
    by (auto simp: validate_competence_key_def result_simps validate_key_Inr split: if_splits)
  have "get_bytes ?st memory_bucket 7 k [(k, [1, 2])] = Inr [1, 2]"
    using v by (rule memory_get) simp
  then obtain a s' where w: "write_competence_artifact ?st memory_bucket 7 8 ''cand'' ''prior_pack'' [1, 2]
      ''application/vnd.theorem.prior-pack+json'' [] = (Inr a, s')"
    by (simp add: write_competence_artifact_def competence_media_def k storage_call_def memory_bucket_def)
  with competence_publication [OF w] show ?thesis by blast
qed

text \<open>C26. Web content round trip: what \<open>write_web_content\<close> describes, \<open>read_web_content\<close> returns to
  the same tenant from any bucket that still holds the bytes under that key, and refuses to
  every other tenant whatever the bucket holds.\<close>

theorem web_content_roundtrip:
  assumes "write_web_content st c t snapshot p media kind s = (Inr d, s')"
    and "get_bytes st c t (web_object_key d) s'' = Inr p"
  shows "read_web_content st c t d s'' = Inr p \<and>
    (t' \<noteq> t \<longrightarrow> read_web_content st c t' d s'''
      = Inl (ArtifactValidationError ''web content tenant scope mismatch''))"
proof -
  note w = write_web_ok [OF assms(1)]
  have "read_web_content st c t d s'' = Inr p"
    using w assms(2) by (auto simp: read_web_content_def dict_eq_def Let_def)
  moreover have "read_web_content st c t' d s''' = Inl (ArtifactValidationError ''web content tenant scope mismatch'')"
    if "t' \<noteq> t"
    using w that uuid_str_inj [of t t'] by (auto simp: read_web_content_def dict_eq_def doubleton_eq_iff)
  ultimately show ?thesis by blast
qed

theorem web_content_roundtrip_witness:
  "\<exists>d s'. write_web_content \<lparr>bucket = ''b'', presign_seconds = 60, max_bytes = 100\<rparr> memory_bucket
      7 ''snap'' [1, 2] ''text/html'' ''raw'' [] = (Inr d, s')
    \<and> read_web_content \<lparr>bucket = ''b'', presign_seconds = 60, max_bytes = 100\<rparr> memory_bucket 7 d s' = Inr [1, 2]
    \<and> \<not> is_ok (read_web_content \<lparr>bucket = ''b'', presign_seconds = 60, max_bytes = 100\<rparr> memory_bucket 8 d s')"
proof -
  let ?st = "\<lparr>bucket = ''b'', presign_seconds = 60, max_bytes = 100\<rparr>"
  let ?k = "web_content_key 7 ''raw'' (sha256_hex [1, 2])"
  have v: "validate_key 7 ?k = Inr ?k" by (rule web_key_valid) simp_all
  have g: "get_bytes ?st memory_bucket 7 ?k [(?k, [1, 2])] = Inr [1, 2]"
    using v by (rule memory_get) simp
  obtain d where w: "write_web_content ?st memory_bucket 7 ''snap'' [1, 2] ''text/html'' ''raw'' []
      = (Inr d, [(?k, [1, 2])])" and k: "web_object_key d = ?k"
    using g v by (simp add: write_web_content_def Let_def blank_iff py_isspace_def storage_call_def memory_bucket_def)
  have g': "get_bytes ?st memory_bucket 7 (web_object_key d) [(?k, [1, 2])] = Inr [1, 2]"
    using g by (simp add: k)
  show ?thesis
    using w web_content_roundtrip [OF w g', of 8 "[(?k, [1, 2])]"] by auto
qed

text \<open>A dot component slips into an RL key: the name check admits the name \<open>..\<close>, and then the
  built key is one the tenant check rejects; every other admitted name gives a valid key. So
  \<open>write_rl_content\<close> stores the object first and fails only when it reads it back.\<close>

theorem rl_key_dotdot:
  assumes "rl_artifact_key t run name digest = Inr k"
  shows "validate_key t k = Inr k \<longleftrightarrow> name \<noteq> ''..''"
proof -
  from assms obtain h where k: "k = tenant_prefix t @ ''rl/'' @ uuid_str run @ ''/'' @ name @ ''/'' @ h"
    and h: "is_hex64 h" and len: "length name \<le> 128" and chars: "set name \<subseteq> set rl_name_chars"
    by (auto simp: rl_artifact_key_def result_simps content_digest_Inr list_ex_iff split: if_splits)
  have plain: "CHR ''/'' \<notin> set rl_name_chars" "CHR 0x5C \<notin> set rl_name_chars"
    by (simp_all add: rl_name_chars_def)
  have "CHR ''/'' \<notin> set name" "CHR 0x5C \<notin> set name"
    using chars plain by blast+
  moreover have "''rl/'' @ uuid_str run @ ''/'' @ name @ ''/'' @ h
      = ''rl'' @ CHR ''/'' # (uuid_str run @ CHR ''/'' # (name @ CHR ''/'' # h))"
    by simp
  ultimately have "split_on (CHR ''/'') (''rl/'' @ uuid_str run @ ''/'' @ name @ ''/'' @ h)
      = [''rl'', uuid_str run, name, h]"
    using is_hex64_sets [OF h]
    by (simp only: split_on_append uuid_str_no_slash not_False_eq_True) (simp add: split_on_append split_on_single)
  then show ?thesis
    unfolding k validate_tenant_key
    using is_hex64_sets [OF h] is_hex64_length [OF h] len \<open>CHR 0x5C \<notin> set name\<close> by auto
qed

theorem rl_key_dotdot_witness:
  "\<exists>k. rl_artifact_key 7 8 ''..'' (sha256_digest [1]) = Inr k \<and> validate_key 7 k \<noteq> Inr k"
proof -
  obtain k where k: "rl_artifact_key 7 8 ''..'' (sha256_digest [1]) = Inr k"
    by (simp add: rl_artifact_key_def rl_name_chars_def)
  with rl_key_dotdot [OF k] show ?thesis by blast
qed

end
