(* ===== verification/Billing.thy ===== *)
theory Billing
  imports Admission
begin

section \<open>Usage meters, plans and the credit of a period\<close>

text \<open>
  \<open>apps/billing\<close>: the usage counters of a tenant and period (\<open>usage.py\<close>), the plan that its
  newest active subscription selects (\<open>models.py\<close>), and the credit derived from both
  (\<open>credit.py\<close>). Counters and limits are JSON, so the conversions \<open>int(x)\<close> and
  \<open>Decimal(str(x))\<close> are modelled for every JSON value, with the exceptions they raise.
  Amounts in dollars are rationals.
\<close>

subsection \<open>Python's \<open>int\<close> and \<open>Decimal\<close> on JSON values\<close>

datatype py_exc = TypeError | ValueError | OverflowError

definition is_digit :: "char \<Rightarrow> bool" where
  "is_digit c = (c \<in> set ''0123456789'')"

text \<open>The digits of an \<open>int\<close> literal, single underscores between them allowed.\<close>

fun int_digits :: "bool \<Rightarrow> string \<Rightarrow> string option" where
  "int_digits after_digit [] = (if after_digit then Some [] else None)"
| "int_digits after_digit (c # cs) =
     (if is_digit c then map_option ((#) c) (int_digits True cs)
      else if c = CHR ''_'' \<and> after_digit then int_digits False cs
      else None)"

definition INT_MAX_STR_DIGITS :: nat where
  "INT_MAX_STR_DIGITS = 4300"

definition py_int_str :: "string \<Rightarrow> (py_exc, int) result" where
  "py_int_str s =
     (let t = strip s;
          neg = (t \<noteq> [] \<and> hd t = CHR ''-'');
          body = (if t \<noteq> [] \<and> hd t \<in> set ''+-'' then tl t else t)
      in case int_digits False body of
           None \<Rightarrow> Inl ValueError
         | Some ds \<Rightarrow> if INT_MAX_STR_DIGITS < length ds then Inl ValueError
                      else Inr (if neg then - dec_val ds else dec_val ds))"

definition py_int :: "json \<Rightarrow> (py_exc, int) result" where
  "py_int v =
     (case v of
        JInt i \<Rightarrow> Inr i
      | JBool b \<Rightarrow> Inr (if b then 1 else 0)
      | JFloat (Fin x) \<Rightarrow> Inr (if x < 0 then \<lceil>x\<rceil> else \<lfloor>x\<rfloor>)
      | JFloat NaN \<Rightarrow> Inl ValueError
      | JFloat _ \<Rightarrow> Inl OverflowError
      | JStr s \<Rightarrow> py_int_str s
      | _ \<Rightarrow> Inl TypeError)"

datatype pydec = DFin bool int int | DNonFinite

definition DEC_MAX_EMAX :: int where
  "DEC_MAX_EMAX = 999999999999999999"

definition DEC_MIN_ETINY :: int where
  "DEC_MIN_ETINY = - 1999999999999999997"

text \<open>The number syntax of \<open>decimal.Decimal\<close> after the strip of spaces and underscores; a
  number outside the exponent range of the C implementation is refused, as it cannot be
  kept exactly.\<close>

definition dec_exponent :: "string \<Rightarrow> int option" where
  "dec_exponent t =
     (let neg = (t \<noteq> [] \<and> hd t = CHR ''-'');
          ds = (if t \<noteq> [] \<and> hd t \<in> set ''+-'' then tl t else t)
      in if ds \<noteq> [] \<and> list_all is_digit ds then Some (if neg then - dec_val ds else dec_val ds) else None)"

definition py_decimal :: "string \<Rightarrow> pydec option" where
  "py_decimal s =
     (let t0 = filter (\<lambda>c. c \<noteq> CHR ''_'') (strip s);
          neg = (t0 \<noteq> [] \<and> hd t0 = CHR ''-'');
          t = lower (if t0 \<noteq> [] \<and> hd t0 \<in> set ''+-'' then tl t0 else t0);
          signal = (if t \<noteq> [] \<and> hd t = CHR ''s'' then tl t else t);
          (mantissa, has_e, etext) = partition_on (CHR ''e'') t;
          (whole, has_dot, frac) = partition_on (CHR ''.'') mantissa
      in if t = ''inf'' \<or> t = ''infinity'' then Some DNonFinite
         else if take 3 signal = ''nan'' \<and> list_all is_digit (drop 3 signal) then Some DNonFinite
         else if list_all is_digit whole \<and> list_all is_digit frac \<and> whole @ frac \<noteq> []
         then case (if has_e then dec_exponent etext else Some 0) of
                None \<Rightarrow> None
              | Some e \<Rightarrow>
                  let c = dec_val (whole @ frac); x = e - int (length frac)
                  in if DEC_MAX_EMAX < x + int (length (dec_pos c)) - 1 \<or> x < DEC_MIN_ETINY then None
                     else Some (DFin neg c x)
         else None)"

text \<open>\<open>Decimal(str(raw))\<close>: the text of \<open>True\<close>, of a list and of a dict is no number; an integer
  beyond the digit limit has no text at all.\<close>

definition decimal_of_json :: "json \<Rightarrow> pydec option" where
  "decimal_of_json v =
     (case v of
        JInt i \<Rightarrow> if INT_MAX_STR_DIGITS < length (dec_pos \<bar>i\<bar>) then None else py_decimal (dec_int i)
      | JFloat f \<Rightarrow> py_decimal (float_repr f)
      | JStr s \<Rightarrow> py_decimal s
      | _ \<Rightarrow> None)"

subsection \<open>Dates\<close>

datatype date = Date (year: int) (month: int) (day: int)

instantiation date :: linorder
begin

definition less_eq_date :: "date \<Rightarrow> date \<Rightarrow> bool" where
  "d \<le> e \<longleftrightarrow> year d < year e \<or> year d = year e \<and> (month d < month e \<or> month d = month e \<and> day d \<le> day e)"

definition less_date :: "date \<Rightarrow> date \<Rightarrow> bool" where
  "d < e \<longleftrightarrow> year d < year e \<or> year d = year e \<and> (month d < month e \<or> month d = month e \<and> day d < day e)"

instance
  by standard (auto simp: less_eq_date_def less_date_def date.expand)

end

definition is_leap :: "int \<Rightarrow> bool" where
  "is_leap y = (y mod 4 = 0 \<and> (y mod 100 \<noteq> 0 \<or> y mod 400 = 0))"

definition month_days :: "int \<Rightarrow> int \<Rightarrow> int" where
  "month_days y m =
     (if m = 2 then (if is_leap y then 29 else 28) else if m \<in> {4, 6, 9, 11} then 30 else 31)"

definition valid_date :: "date \<Rightarrow> bool" where
  "valid_date d = (1 \<le> year d \<and> year d \<le> 9999 \<and> 1 \<le> month d \<and> month d \<le> 12
     \<and> 1 \<le> day d \<and> day d \<le> month_days (year d) (month d))"

definition calendar_period :: "date \<Rightarrow> date \<times> date" where
  "calendar_period today =
     (let last = month_days (year today) (month today)
      in (Date (year today) (month today) 1, Date (year today) (month today) last))"

subsection \<open>The tables\<close>

record plan =
  plan_code :: string
  plan_limits :: json

datatype sub_status = ACTIVE | PAST_DUE | CANCELED_SUB | TRIALING

record subscription =
  sub_tenant :: uuid
  sub_plan :: string
  sub_status_of :: sub_status
  sub_created_at :: time

record usage =
  usage_tenant :: uuid
  period_start :: date
  period_end :: date
  counters :: json

record billing_db =
  plans :: "plan list"
  subscriptions :: "subscription list"
  usage_rows :: "usage list"

text \<open>\<open>Subscription.objects.select_related("plan").filter(tenant_id, status=ACTIVE).order_by("-created_at").first()\<close>.
  The foreign key is a plan code; the join drops a subscription without a plan.\<close>

definition active_plan :: "billing_db \<Rightarrow> uuid \<Rightarrow> plan option" where
  "active_plan db t =
     (let subs = filter (\<lambda>b. sub_tenant b = t \<and> sub_status_of b = ACTIVE
                          \<and> row_of plan_code (plans db) (sub_plan b) \<noteq> None) (subscriptions db)
      in case newest sub_created_at subs of
           None \<Rightarrow> None | Some b \<Rightarrow> row_of plan_code (plans db) (sub_plan b))"

definition plan_limit_of :: "plan \<Rightarrow> string \<Rightarrow> json option" where
  "plan_limit_of p name = jget (plan_limits p) name"

subsection \<open>\<open>accumulate\<close>\<close>

datatype usage_error = PyExc py_exc | TenantDoesNotExist

text \<open>\<open>dict(usage.counters or {})\<close>. A counters column that holds a list is refused here; the
  list of pairs that Python's \<open>dict\<close> would still accept is not modelled.\<close>

definition counters_dict :: "json \<Rightarrow> (py_exc, (string \<times> json) list) result" where
  "counters_dict v =
     (if \<not> truthy v then Inr []
      else case v of JObj kvs \<Rightarrow> Inr kvs | JStr _ \<Rightarrow> Inl ValueError | _ \<Rightarrow> Inl TypeError)"

definition usage_key :: "usage \<Rightarrow> uuid \<times> date \<times> date" where
  "usage_key u = (usage_tenant u, period_start u, period_end u)"

definition or_zero :: "json option \<Rightarrow> json" where
  "or_zero v = (case v of None \<Rightarrow> JInt 0 | Some x \<Rightarrow> if truthy x then x else JInt 0)"

definition accumulate ::
  "tenant list \<Rightarrow> uuid \<Rightarrow> string \<Rightarrow> json \<Rightarrow> date \<Rightarrow> date \<Rightarrow> usage list \<Rightarrow> (usage_error, usage list) result" where
  "accumulate tenants t meter quantity start stop rows =
     (if meter = [] then Inl (PyExc ValueError)
      else rbind (map_err PyExc (py_int quantity)) (\<lambda>qty.
        if row_of tenant_id tenants t = None then Inl TenantDoesNotExist
        else let fresh = \<lparr>usage_tenant = t, period_start = start, period_end = stop, counters = JObj []\<rparr>;
                 (rows', u) = (case row_of usage_key rows (t, start, stop) of
                                 Some u \<Rightarrow> (rows, u) | None \<Rightarrow> (rows @ [fresh], fresh))
             in rbind (map_err PyExc (counters_dict (counters u))) (\<lambda>d.
                rbind (map_err PyExc (py_int (or_zero (map_of d meter)))) (\<lambda>current.
                  Inr (upd_row usage_key rows'
                         (u\<lparr>counters := JObj (dict_set d meter (JInt (current + qty)))\<rparr>))))))"

subsection \<open>\<open>credit_allowance\<close>\<close>

definition CREDIT_METER :: string where
  "CREDIT_METER = ''credit_usd_micros''"

definition CREDIT_LIMIT :: string where
  "CREDIT_LIMIT = ''monthly_credit_usd''"

definition meter_micros :: "json \<Rightarrow> (py_exc, int) result" where
  "meter_micros cs =
     (case cs of
        JObj kvs \<Rightarrow>
          (case py_int (or_zero (map_of kvs CREDIT_METER)) of
             Inr micros \<Rightarrow> Inr (max micros 0)
           | Inl OverflowError \<Rightarrow> Inl OverflowError
           | Inl _ \<Rightarrow> Inr 0)
      | _ \<Rightarrow> Inr 0)"

text \<open>An absent limit is \<open>None\<close>, like JSON null.\<close>

definition plan_limit :: "json option \<Rightarrow> pydec option" where
  "plan_limit raw =
     (case raw of
        None \<Rightarrow> None
      | Some v \<Rightarrow>
          (case decimal_of_json v of
             None \<Rightarrow> None
           | Some DNonFinite \<Rightarrow> None
           | Some (DFin neg c e) \<Rightarrow> if neg \<and> c \<noteq> 0 then None else Some (DFin neg c e)))"

text \<open>Division in the default decimal context: 28 significant digits, half even.\<close>

definition micros_to_usd :: "int \<Rightarrow> rat" where
  "micros_to_usd m =
     (if m < 10 ^ 28 then of_int m / 10 ^ 6
      else let k = length (dec_pos m) - 28
           in of_int (rhe (of_int m / 10 ^ k)) * 10 ^ k / 10 ^ 6)"

record allowance =
  ca_start :: date
  ca_end :: date
  used_usd :: rat
  limit_usd :: "pydec option"

definition covers :: "uuid \<Rightarrow> date \<Rightarrow> usage \<Rightarrow> bool" where
  "covers t today u = (usage_tenant u = t \<and> period_start u \<le> today \<and> today \<le> period_end u)"

definition credit_allowance :: "billing_db \<Rightarrow> uuid \<Rightarrow> date \<Rightarrow> (py_exc, allowance) result" where
  "credit_allowance db t today =
     rbind (case newest period_start (filter (covers t today) (usage_rows db)) of
              None \<Rightarrow> Inr (fst (calendar_period today), snd (calendar_period today), 0)
            | Some u \<Rightarrow> rbind (meter_micros (counters u)) (\<lambda>m. Inr (period_start u, period_end u, m)))
       (\<lambda>(start, stop, micros).
          Inr \<lparr>ca_start = start, ca_end = stop, used_usd = micros_to_usd micros,
               limit_usd = (case active_plan db t of None \<Rightarrow> None
                            | Some p \<Rightarrow> plan_limit (plan_limit_of p CREDIT_LIMIT))\<rparr>)"

text \<open>The endpoint: the credit of the tenant of an admitted key.\<close>

definition credit ::
  "(string \<Rightarrow> string \<Rightarrow> bool) \<Rightarrow> time \<Rightarrow> date \<Rightarrow> tenant list \<Rightarrow> api_key list \<Rightarrow> billing_db \<Rightarrow> string
   \<Rightarrow> (http_error + py_exc, allowance) result" where
  "credit verify now today tenants keys db authorization =
     rbind (map_err Inl (require_machine_key verify now tenants keys authorization BILLING_READ_SCOPE))
       (\<lambda>p. map_err Inr (credit_allowance db (tenant_id (p_tenant p)) today))"

subsection \<open>The meters\<close>

lemma py_int_or_zero_JInt [simp]: "py_int (or_zero (Some (JInt n))) = Inr n"
  by (simp add: or_zero_def truthy_def py_int_def)

lemma counters_dict_JObj [simp]: "counters_dict (JObj kvs) = Inr kvs"
  by (simp add: counters_dict_def truthy_def)

text \<open>The items of the counters of a row, and the value a meter has for a tenant and period.\<close>

definition counter_items :: "usage list \<Rightarrow> uuid \<times> date \<times> date \<Rightarrow> (py_exc, (string \<times> json) list) result" where
  "counter_items rows k =
     (case row_of usage_key rows k of None \<Rightarrow> Inr [] | Some u \<Rightarrow> counters_dict (counters u))"

definition meter_value :: "usage list \<Rightarrow> uuid \<times> date \<times> date \<Rightarrow> string \<Rightarrow> (py_exc, int) result" where
  "meter_value rows k meter = rbind (counter_items rows k) (\<lambda>d. py_int (or_zero (map_of d meter)))"

lemma usage_key_counters [simp]: "usage_key (u\<lparr>counters := c\<rparr>) = usage_key u"
  by (simp add: usage_key_def)

lemma distinct_snoc_key:
  "distinct (map key rows) \<Longrightarrow> row_of key rows (key r) = None \<Longrightarrow> distinct (map key (rows @ [r]))"
  by (auto simp: row_of_None)

text \<open>The success of \<open>accumulate\<close>, as one row written over a table in which the row exists.\<close>

lemma accumulate_ok:
  assumes "accumulate tenants t meter quantity start stop rows = Inr rows'"
  obtains qty rows0 u d current where
    "py_int quantity = Inr qty" "meter \<noteq> []"
    "row_of usage_key rows0 (t, start, stop) = Some u" "usage_key u = (t, start, stop)"
    "counter_items rows (t, start, stop) = Inr d" "meter_value rows (t, start, stop) meter = Inr current"
    "rows' = upd_row usage_key rows0 (u\<lparr>counters := JObj (dict_set d meter (JInt (current + qty)))\<rparr>)"
    "rows0 = rows \<or> row_of usage_key rows (t, start, stop) = None \<and> rows0 = rows @ [u]"
proof (cases "row_of usage_key rows (t, start, stop)")
  case None
  let ?u = "\<lparr>usage_tenant = t, period_start = start, period_end = stop, counters = JObj []\<rparr>"
  have "row_of usage_key (rows @ [?u]) (t, start, stop) = Some ?u" "usage_key ?u = (t, start, stop)"
    using None by (auto simp: table_simps usage_key_def)
  with assms None that [of _ "rows @ [?u]" ?u] show ?thesis
    by (auto simp: accumulate_def Let_def result_simps counter_items_def meter_value_def split: if_splits)
next
  case (Some u)
  with assms that [of _ rows u] row_of_Some [OF Some] show ?thesis
    by (auto simp: accumulate_def Let_def result_simps counter_items_def meter_value_def split: if_splits)
qed

text \<open>C21. A metering call adds exactly its quantity: the meter of that tenant and period grows by
  the integer value of the quantity, every other meter of the row keeps its value, every other
  row of the table is unchanged, and there is still one row per tenant and period.\<close>

theorem accumulate_meters:
  assumes "accumulate tenants t meter quantity start stop rows = Inr rows'"
    and "distinct (map usage_key rows)"
  shows "(\<exists>qty current. py_int quantity = Inr qty \<and> meter_value rows (t, start, stop) meter = Inr current
        \<and> meter_value rows' (t, start, stop) meter = Inr (current + qty))
    \<and> (\<forall>m. m \<noteq> meter \<longrightarrow> meter_value rows' (t, start, stop) m = meter_value rows (t, start, stop) m)
    \<and> (\<forall>k. k \<noteq> (t, start, stop) \<longrightarrow> row_of usage_key rows' k = row_of usage_key rows k)
    \<and> distinct (map usage_key rows')"
proof -
  from assms(1) obtain qty rows0 u d current where q: "py_int quantity = Inr qty"
    and u: "row_of usage_key rows0 (t, start, stop) = Some u" and ku: "usage_key u = (t, start, stop)"
    and d: "counter_items rows (t, start, stop) = Inr d"
    and c: "meter_value rows (t, start, stop) meter = Inr current"
    and rows': "rows' = upd_row usage_key rows0 (u\<lparr>counters := JObj (dict_set d meter (JInt (current + qty)))\<rparr>)"
    and r0: "rows0 = rows \<or> row_of usage_key rows (t, start, stop) = None \<and> rows0 = rows @ [u]"
    by (rule accumulate_ok) blast
  have inn: "(t, start, stop) \<in> usage_key ` set rows0"
    using row_of_Some [OF u] by (metis imageI)
  have items: "counter_items rows' (t, start, stop) = Inr (dict_set d meter (JInt (current + qty)))"
    unfolding counter_items_def rows' by (simp add: table_simps ku inn)
  have "row_of usage_key rows' k = row_of usage_key rows k" if "k \<noteq> (t, start, stop)" for k
    using r0 that ku unfolding rows' by (auto simp: table_simps split: option.splits)
  moreover have "distinct (map usage_key rows')"
    unfolding rows' using r0 assms(2) distinct_snoc_key [of usage_key rows u] ku by auto
  ultimately show ?thesis
    using q c d items by (auto simp: meter_value_def)
qed

theorem accumulate_meters_witness:
  "\<exists>rows'. accumulate [\<lparr>tenant_id = 1, tenant_slug = ''t'', tenant_display_name = ''T'',
        tenant_is_active = True, workos_organization_id = []\<rparr>] 1 ''m'' (JFloat (Fin (7/2)))
        (Date 2026 1 1) (Date 2026 1 31)
        [\<lparr>usage_tenant = 1, period_start = Date 2026 1 1, period_end = Date 2026 1 31,
          counters = JObj [(''n'', JInt 5), (''m'', JStr ''4'')]\<rparr>] = Inr rows'
    \<and> meter_value rows' (1, Date 2026 1 1, Date 2026 1 31) ''m'' = Inr 7
    \<and> meter_value rows' (1, Date 2026 1 1, Date 2026 1 31) ''n'' = Inr 5"
proof -
  let ?ts = "[\<lparr>tenant_id = 1, tenant_slug = ''t'', tenant_display_name = ''T'',
        tenant_is_active = True, workos_organization_id = []\<rparr>]"
  let ?rows = "[\<lparr>usage_tenant = 1, period_start = Date 2026 1 1, period_end = Date 2026 1 31,
          counters = JObj [(''n'', JInt 5), (''m'', JStr ''4'')]\<rparr>]"
  let ?k = "(1 :: uuid, Date 2026 1 1, Date 2026 1 31)"
  have q: "py_int (JFloat (Fin (7/2))) = Inr 3" by code_simp
  have m: "meter_value ?rows ?k ''m'' = Inr 4" by code_simp
  have n: "meter_value ?rows ?k ''n'' = Inr 5" by code_simp
  have "is_ok (accumulate ?ts 1 ''m'' (JFloat (Fin (7/2))) (Date 2026 1 1) (Date 2026 1 31) ?rows)"
    by code_simp
  then obtain rows' where a: "accumulate ?ts 1 ''m'' (JFloat (Fin (7/2))) (Date 2026 1 1)
      (Date 2026 1 31) ?rows = Inr rows'"
    by (auto simp: is_ok_def split: sum.splits)
  have "distinct (map usage_key ?rows)" by simp
  from accumulate_meters [OF a this] a q m n show ?thesis by auto
qed

subsection \<open>The credit\<close>

lemma month_days_bounds: "28 \<le> month_days y m" "month_days y m \<le> 31"
  by (simp_all add: month_days_def)

text \<open>The calendar period of a date is the whole month around it: it starts on a first, ends on
  the last valid day of the same month, and contains the date.\<close>

theorem calendar_period_month:
  assumes "valid_date today" and "calendar_period today = (start, stop)"
  shows "valid_date start \<and> valid_date stop \<and> day start = 1
    \<and> (\<forall>d. valid_date d \<longrightarrow> (start \<le> d \<and> d \<le> stop \<longleftrightarrow> year d = year today \<and> month d = month today))"
proof -
  have s: "start = Date (year today) (month today) 1"
    and e: "stop = Date (year today) (month today) (month_days (year today) (month today))"
    using assms(2) by (auto simp: calendar_period_def Let_def)
  have "valid_date start" "valid_date stop"
    using assms(1) month_days_bounds [of "year today" "month today"] by (auto simp: s e valid_date_def)
  moreover have "start \<le> d \<and> d \<le> stop \<longleftrightarrow> year d = year today \<and> month d = month today" if "valid_date d" for d
  proof -
    have b: "1 \<le> day d" "day d \<le> month_days (year d) (month d)"
      using that by (simp_all add: valid_date_def)
    show ?thesis
    proof (cases "year d = year today \<and> month d = month today")
      case True
      with b show ?thesis by (simp add: s e less_eq_date_def)
    next
      case False
      then show ?thesis
        unfolding s e less_eq_date_def date.sel by linarith
    qed
  qed
  ultimately show ?thesis by (simp add: s)
qed

theorem calendar_period_month_witness:
  "calendar_period (Date 2028 2 10) = (Date 2028 2 1, Date 2028 2 29)
   \<and> Date 2028 2 1 \<le> Date 2028 2 10 \<and> Date 2028 2 10 \<le> Date 2028 2 29"
proof -
  have v: "valid_date (Date 2028 2 10)" by code_simp
  have c: "calendar_period (Date 2028 2 10) = (Date 2028 2 1, Date 2028 2 29)" by code_simp
  show ?thesis
    using calendar_period_month [OF v c] v c by fastforce
qed

lemma active_plan_usage [simp]: "active_plan (db\<lparr>usage_rows := rows\<rparr>) t = active_plan db t"
  by (simp add: active_plan_def split: option.split)

lemma covers_counters [simp]: "covers t today (u\<lparr>counters := c\<rparr>) = covers t today u"
  by (simp add: covers_def)

lemma covers_key: "usage_key u = usage_key v \<Longrightarrow> covers t today u = covers t today v"
  by (auto simp: covers_def usage_key_def)

lemma filter_upd_row_other:
  assumes "\<And>q. q \<in> set rows \<Longrightarrow> key q = key r \<Longrightarrow> \<not> P q" "\<not> P r"
  shows "filter P (upd_row key rows r) = filter P rows"
  using assms by (induction rows) auto

lemma filter_upd_row_one:
  assumes "distinct (map key rows)" "q \<in> set rows" "key q = key r" "P r"
    and "\<And>x. x \<in> set rows \<Longrightarrow> P x \<Longrightarrow> key x = key r"
  shows "filter P (upd_row key rows r) = [r]"
  using assms
proof (induction rows)
  case (Cons x rows)
  show ?case
  proof (cases "key x = key r")
    case True
    then have "\<forall>y \<in> set rows. key y \<noteq> key r" using Cons.prems(1) by (metis distinct.simps(2) image_eqI list.set_map list.simps(9))
    then have "filter P rows = []" and "upd_row key rows r = rows"
      using Cons.prems(5) by (auto simp: filter_empty_conv upd_row_def intro: map_idI)
    with True Cons.prems show ?thesis by simp
  next
    case False
    then have "\<not> P x" using Cons.prems(5) by auto
    moreover have "filter P (upd_row key rows r) = [r]"
    proof (rule Cons.IH)
      show "distinct (map key rows)" "q \<in> set rows"
        using Cons.prems(1,2,3) False by auto
      show "key y = key r" if "y \<in> set rows" "P y" for y
        using Cons.prems(5) that by simp
    qed (fact Cons.prems)+
    ultimately show ?thesis using False by simp
  qed
qed (metis empty_iff empty_set)

text \<open>The credit that is shown is the credit that was metered: after a successful metering of the
  credit meter, the allowance of that tenant on a day of that period reports the old value plus
  the quantity (never less than zero), for exactly that period when no other period of the
  tenant covers the day; and the allowance of every other tenant is what it was.\<close>

theorem metered_credit_shown:
  assumes "accumulate tenants t CREDIT_METER quantity start stop (usage_rows db) = Inr rows'"
    and "distinct (map usage_key (usage_rows db))"
    and "start \<le> today" "today \<le> stop"
    and alone: "\<forall>u \<in> set (usage_rows db). covers t today u \<longrightarrow> usage_key u = (t, start, stop)"
  shows "\<exists>qty current a. py_int quantity = Inr qty
      \<and> meter_value (usage_rows db) (t, start, stop) CREDIT_METER = Inr current
      \<and> credit_allowance (db\<lparr>usage_rows := rows'\<rparr>) t today = Inr a
      \<and> used_usd a = micros_to_usd (max (current + qty) 0) \<and> ca_start a = start \<and> ca_end a = stop
      \<and> (\<forall>t'. t' \<noteq> t \<longrightarrow> credit_allowance (db\<lparr>usage_rows := rows'\<rparr>) t' today = credit_allowance db t' today)"
proof -
  from assms(1) obtain qty rows0 u d current where q: "py_int quantity = Inr qty"
    and u: "row_of usage_key rows0 (t, start, stop) = Some u" and ku: "usage_key u = (t, start, stop)"
    and c: "meter_value (usage_rows db) (t, start, stop) CREDIT_METER = Inr current"
    and rows': "rows' = upd_row usage_key rows0 (u\<lparr>counters := JObj (dict_set d CREDIT_METER (JInt (current + qty)))\<rparr>)"
    and r0: "rows0 = usage_rows db \<or> row_of usage_key (usage_rows db) (t, start, stop) = None \<and> rows0 = usage_rows db @ [u]"
    by (rule accumulate_ok) blast
  let ?w = "u\<lparr>counters := JObj (dict_set d CREDIT_METER (JInt (current + qty)))\<rparr>"
  have cu: "covers t today u" and per: "period_start u = start" "period_end u = stop"
    using ku assms(3,4) by (auto simp: covers_def usage_key_def)
  have "filter (covers t today) rows' = [?w]"
    unfolding rows'
  proof (rule filter_upd_row_one)
    show "distinct (map usage_key rows0)"
      using r0 assms(2) distinct_snoc_key [of usage_key "usage_rows db" u] ku by auto
    show "u \<in> set rows0" using row_of_Some [OF u] by simp
    show "usage_key x = usage_key ?w" if "x \<in> set rows0" "covers t today x" for x
      using that alone r0 ku by auto
  qed (simp_all add: cu)
  then have mine: "credit_allowance (db\<lparr>usage_rows := rows'\<rparr>) t today
      = Inr \<lparr>ca_start = start, ca_end = stop, used_usd = micros_to_usd (max (current + qty) 0),
             limit_usd = (case active_plan db t of None \<Rightarrow> None
                          | Some p \<Rightarrow> plan_limit (plan_limit_of p CREDIT_LIMIT))\<rparr>"
    by (simp add: credit_allowance_def per meter_micros_def)
  have "credit_allowance (db\<lparr>usage_rows := rows'\<rparr>) t' today = credit_allowance db t' today" if "t' \<noteq> t" for t'
  proof -
    have "\<not> covers t' today x" if "usage_key x = (t, start, stop)" for x
      using that \<open>t' \<noteq> t\<close> by (auto simp: covers_def usage_key_def)
    then have "filter (covers t' today) rows' = filter (covers t' today) (usage_rows db)"
      unfolding rows' using r0 ku by (subst filter_upd_row_other) auto
    then show ?thesis by (simp add: credit_allowance_def)
  qed
  with q c mine show ?thesis by auto
qed

theorem metered_credit_shown_witness:
  "\<exists>rows' a. accumulate [\<lparr>tenant_id = 1, tenant_slug = ''t'', tenant_display_name = ''T'',
        tenant_is_active = True, workos_organization_id = []\<rparr>] 1 CREDIT_METER (JInt 2500000)
        (Date 2026 1 1) (Date 2026 1 31) [] = Inr rows'
    \<and> credit_allowance \<lparr>plans = [], subscriptions = [], usage_rows = rows'\<rparr> 1 (Date 2026 1 15) = Inr a
    \<and> used_usd a = 5 / 2"
proof -
  let ?ts = "[\<lparr>tenant_id = 1, tenant_slug = ''t'', tenant_display_name = ''T'',
        tenant_is_active = True, workos_organization_id = []\<rparr>]"
  let ?db = "\<lparr>plans = [], subscriptions = [], usage_rows = []\<rparr>"
  have "is_ok (accumulate ?ts 1 CREDIT_METER (JInt 2500000) (Date 2026 1 1) (Date 2026 1 31) [])"
    by code_simp
  then obtain rows' where a: "accumulate ?ts 1 CREDIT_METER (JInt 2500000) (Date 2026 1 1)
      (Date 2026 1 31) [] = Inr rows'"
    by (auto simp: is_ok_def split: sum.splits)
  have le: "Date 2026 1 1 \<le> Date 2026 1 15" "Date 2026 1 15 \<le> Date 2026 1 31" by code_simp+
  have v: "meter_value [] (1, Date 2026 1 1, Date 2026 1 31) CREDIT_METER = Inr 0"
    "py_int (JInt 2500000) = Inr 2500000" by code_simp+
  have "micros_to_usd 2500000 = 5 / 2" by (simp add: micros_to_usd_def)
  with metered_credit_shown [of ?ts 1 "JInt 2500000" "Date 2026 1 1" "Date 2026 1 31" ?db rows' "Date 2026 1 15"]
    a le v show ?thesis by auto
qed

end
