(* ===== verification/Runpod.thy ===== *)
theory Runpod
  imports Json
begin

section \<open>The RunPod clients\<close>

text \<open>
  \<open>apps/orchestration/runpod.py\<close> (queue-based serverless jobs) and
  \<open>theorem_control/rl/runpod.py\<close> (training pods). httpx, the monotonic clock and \<open>sleep\<close> are
  libraries: \<open>'w runpod_env\<close> holds them over an arbitrary world \<open>'w\<close>, which they may change in
  any way, so that what other processes do to the database while a request runs or the loop
  sleeps is part of it. The polling loops are \<open>while_true\<close> loops; a poll that never ends is
  \<open>None\<close>.
\<close>

datatype runpod_error =
    RunpodConfigurationError string
  | RunpodApiError string
  | RunpodTimeoutError string

fun runpod_text :: "runpod_error \<Rightarrow> string" where
  "runpod_text (RunpodConfigurationError m) = m"
| "runpod_text (RunpodApiError m) = m"
| "runpod_text (RunpodTimeoutError m) = m"

text \<open>The reply to a request: an \<open>httpx.HTTPError\<close> (a transport error or an error status), no
  content at all, a body that is not JSON, or a JSON body.\<close>

datatype http_reply = HttpFailure string | NoContent | NotJson | JsonBody json

record 'w runpod_env =
  request :: "string \<Rightarrow> string \<Rightarrow> json option \<Rightarrow> 'w \<Rightarrow> http_reply \<times> 'w"
  monotonic :: "'w \<Rightarrow> pyfloat"
  sleep_for :: "pyfloat \<Rightarrow> 'w \<Rightarrow> 'w"

subsection \<open>The serverless client\<close>

record submitted_job =
  sub_job_id :: string
  sub_state :: string

record serverless_client =
  api_key_of :: string
  endpoint_id :: string
  base_url :: string

definition serverless_client_init ::
  "string \<Rightarrow> string \<Rightarrow> string \<Rightarrow> (runpod_error, serverless_client) result" where
  "serverless_client_init key endpoint base =
     (if strip key = [] then Inl (RunpodConfigurationError ''RUNPOD_API_KEY is required for RunPod execution'')
      else if strip endpoint = []
      then Inl (RunpodConfigurationError ''RUNPOD_SERVERLESS_ENDPOINT_ID is required for RunPod execution'')
      else Inr \<lparr>api_key_of = strip key, endpoint_id = strip endpoint, base_url = rstrip_char (CHR ''/'') base\<rparr>)"

definition run_url :: "serverless_client \<Rightarrow> string list \<Rightarrow> string" where
  "run_url c parts =
     base_url c @ ''/'' @ quote_url (endpoint_id c) @ ''/'' @ join ''/'' (map quote_url parts)"

text \<open>An empty body is no JSON text either.\<close>

definition serverless_request ::
  "'w runpod_env \<Rightarrow> string \<Rightarrow> string \<Rightarrow> json option \<Rightarrow> 'w
   \<Rightarrow> (runpod_error, (string \<times> json) list) result \<times> 'w" where
  "serverless_request env meth url body w =
     (case request env meth url body w of (reply, w') \<Rightarrow>
        (case reply of
           HttpFailure exc \<Rightarrow> Inl (RunpodApiError (''RunPod '' @ meth @ '' '' @ url @ '' failed: '' @ exc))
         | JsonBody (JObj kvs) \<Rightarrow> Inr kvs
         | JsonBody _ \<Rightarrow> Inl (RunpodApiError ''RunPod returned a non-object JSON response'')
         | _ \<Rightarrow> Inl (RunpodApiError ''RunPod returned a non-JSON response''), w'))"

definition submit ::
  "'w runpod_env \<Rightarrow> serverless_client \<Rightarrow> json \<Rightarrow> 'w \<Rightarrow> (runpod_error, submitted_job) result \<times> 'w" where
  "submit env c payload w =
     (case serverless_request env ''POST'' (run_url c [''run'']) (Some (JObj [(''input'', payload)])) w of
        (Inl e, w') \<Rightarrow> (Inl e, w')
      | (Inr response, w') \<Rightarrow>
          let job = strip (str_or_empty (map_of response ''id''));
              status = upper (strip (str_or_empty (map_of response ''status'')))
          in if job = [] \<or> status = []
             then (Inl (RunpodApiError ''RunPod /run response did not include id and status''), w')
             else (Inr \<lparr>sub_job_id = job, sub_state = status\<rparr>, w'))"

text \<open>\<open>status\<close> puts the normalised status back into the payload it returns.\<close>

definition status_call ::
  "'w runpod_env \<Rightarrow> serverless_client \<Rightarrow> string \<Rightarrow> 'w
   \<Rightarrow> (runpod_error, (string \<times> json) list) result \<times> 'w" where
  "status_call env c job w =
     (case serverless_request env ''GET'' (run_url c [''status'', job]) None w of
        (Inl e, w') \<Rightarrow> (Inl e, w')
      | (Inr payload, w') \<Rightarrow>
          let status = upper (strip (str_or_empty (map_of payload ''status'')))
          in if status = [] then (Inl (RunpodApiError ''RunPod /status response did not include status''), w')
             else (Inr (dict_set payload ''status'' (JStr status)), w'))"

definition cancel_call ::
  "'w runpod_env \<Rightarrow> serverless_client \<Rightarrow> string \<Rightarrow> 'w
   \<Rightarrow> (runpod_error, (string \<times> json) list) result \<times> 'w" where
  "cancel_call env c job w = serverless_request env ''POST'' (run_url c [''cancel'', job]) None w"

definition RUNPOD_SUCCESS :: string where
  "RUNPOD_SUCCESS = ''COMPLETED''"

definition FAILURE_STATUSES :: "string list" where
  "FAILURE_STATUSES = [''ERROR'', ''FAILED'', ''CANCELLED'', ''TIMED_OUT'']"

definition terminal_status :: "json option \<Rightarrow> bool" where
  "terminal_status s = (s = Some (JStr RUNPOD_SUCCESS) \<or> (\<exists>t \<in> set FAILURE_STATUSES. s = Some (JStr t)))"

text \<open>\<open>max(poll_interval_seconds, 0.1)\<close>: the first argument unless the second is greater.\<close>

definition poll_interval :: "pyfloat \<Rightarrow> pyfloat" where
  "poll_interval p = (if flt p (fl (1 / 10)) then fl (1 / 10) else p)"

type_synonym 'w callback = "(string \<times> json) list \<Rightarrow> 'w \<Rightarrow> (runpod_error, unit) result \<times> 'w"

text \<open>One round of \<open>wait\<close>.\<close>

definition wait_round ::
  "'w runpod_env \<Rightarrow> serverless_client \<Rightarrow> string \<Rightarrow> int \<Rightarrow> pyfloat \<Rightarrow> pyfloat \<Rightarrow> 'w callback \<Rightarrow> 'w
   \<Rightarrow> (runpod_error, (string \<times> json) list) result option \<times> 'w" where
  "wait_round env c job timeout deadline interval on_update w =
     (case status_call env c job w of
        (Inl e, w1) \<Rightarrow> (Some (Inl e), w1)
      | (Inr state, w1) \<Rightarrow>
          (case on_update state w1 of
             (Inl e, w2) \<Rightarrow> (Some (Inl e), w2)
           | (Inr _, w2) \<Rightarrow>
               if terminal_status (map_of state ''status'') then (Some (Inr state), w2)
               else if fle deadline (monotonic env w2)
               then (case cancel_call env c job w2 of (_, w3) \<Rightarrow>
                       (Some (Inl (RunpodTimeoutError (''RunPod job '' @ job @ '' exceeded the ''
                            @ format_g (fl (of_int timeout)) @ ''s control-plane deadline''))), w3))
               else (None, sleep_for env interval w2)))"

definition wait ::
  "'w runpod_env \<Rightarrow> serverless_client \<Rightarrow> string \<Rightarrow> int \<Rightarrow> pyfloat \<Rightarrow> 'w callback \<Rightarrow> 'w
   \<Rightarrow> ((runpod_error, (string \<times> json) list) result \<times> 'w) option" where
  "wait env c job timeout poll on_update w =
     (let deadline = fadd (monotonic env w) (fl (of_int timeout))
      in while_true (wait_round env c job timeout deadline (poll_interval poll) on_update) w)"

subsection \<open>The pod client\<close>

record pod_client =
  pod_api_key :: string
  pod_base_url :: string

definition pod_client_init :: "string \<Rightarrow> string \<Rightarrow> (runpod_error, pod_client) result" where
  "pod_client_init key base =
     (if strip key = [] then Inl (RunpodConfigurationError ''RUNPOD_API_KEY is required for prime-rl training'')
      else Inr \<lparr>pod_api_key = strip key, pod_base_url = rstrip_char (CHR ''/'') base\<rparr>)"

definition pod_request ::
  "'w runpod_env \<Rightarrow> pod_client \<Rightarrow> string \<Rightarrow> string \<Rightarrow> json option \<Rightarrow> 'w
   \<Rightarrow> (runpod_error, (string \<times> json) list) result \<times> 'w" where
  "pod_request env c meth path body w =
     (let url = pod_base_url c @ ''/'' @ lstrip_char (CHR ''/'') path
      in case request env meth url body w of (reply, w') \<Rightarrow>
        (case reply of
           HttpFailure exc \<Rightarrow> Inl (RunpodApiError (''RunPod '' @ meth @ '' '' @ url @ '' failed: '' @ exc))
         | NoContent \<Rightarrow> Inr []
         | NotJson \<Rightarrow> Inl (RunpodApiError ''RunPod returned a non-JSON response'')
         | JsonBody (JObj kvs) \<Rightarrow> Inr kvs
         | JsonBody _ \<Rightarrow> Inl (RunpodApiError ''RunPod returned a non-object JSON response''), w'))"

definition pod_create ::
  "'w runpod_env \<Rightarrow> pod_client \<Rightarrow> json \<Rightarrow> 'w \<Rightarrow> (runpod_error, submitted_job) result \<times> 'w" where
  "pod_create env c payload w =
     (case pod_request env c ''POST'' ''pods'' (Some payload) w of
        (Inl e, w') \<Rightarrow> (Inl e, w')
      | (Inr response, w') \<Rightarrow>
          let pod = strip (str_or_empty (map_of response ''id''));
              desired = upper (strip (str_or_empty (map_of response ''desiredStatus'')))
          in if pod = [] then (Inl (RunpodApiError ''RunPod create response did not include id''), w')
             else (Inr \<lparr>sub_job_id = pod, sub_state = desired\<rparr>, w'))"

definition pod_get ::
  "'w runpod_env \<Rightarrow> pod_client \<Rightarrow> string \<Rightarrow> 'w \<Rightarrow> (runpod_error, (string \<times> json) list) result \<times> 'w" where
  "pod_get env c pod w = pod_request env c ''GET'' (''pods/'' @ quote_url pod) None w"

definition pod_terminate ::
  "'w runpod_env \<Rightarrow> pod_client \<Rightarrow> string \<Rightarrow> 'w \<Rightarrow> (runpod_error, (string \<times> json) list) result \<times> 'w" where
  "pod_terminate env c pod w = pod_request env c ''DELETE'' (''pods/'' @ quote_url pod) None w"

definition TERMINAL_STATUSES :: "string list" where
  "TERMINAL_STATUSES = [''EXITED'', ''TERMINATED'', ''FAILED'']"

definition pod_wait_round ::
  "'w runpod_env \<Rightarrow> pod_client \<Rightarrow> string \<Rightarrow> int \<Rightarrow> pyfloat \<Rightarrow> pyfloat \<Rightarrow> ('w \<Rightarrow> bool \<times> 'w) \<Rightarrow> 'w callback
   \<Rightarrow> 'w \<Rightarrow> (runpod_error, (string \<times> json) list) result option \<times> 'w" where
  "pod_wait_round env c pod timeout deadline interval canceled on_update w =
     (case canceled w of (stop, w0) \<Rightarrow>
      if stop
      then (case pod_terminate env c pod w0 of
              (Inl e, w1) \<Rightarrow> (Some (Inl e), w1)
            | (Inr _, w1) \<Rightarrow>
                (Some (Inr [(''id'', JStr pod), (''desiredStatus'', JStr ''CANCELED'')]), w1))
      else (case pod_get env c pod w0 of
        (Inl e, w1) \<Rightarrow> (Some (Inl e), w1)
      | (Inr state, w1) \<Rightarrow>
          (case on_update state w1 of
             (Inl e, w2) \<Rightarrow> (Some (Inl e), w2)
           | (Inr _, w2) \<Rightarrow>
               if upper (str_or_empty (map_of state ''desiredStatus'')) \<in> set TERMINAL_STATUSES
               then (Some (Inr state), w2)
               else if fle deadline (monotonic env w2)
               then (case pod_terminate env c pod w2 of (_, w3) \<Rightarrow>
                       (Some (Inl (RunpodTimeoutError (''RunPod Pod '' @ pod @ '' exceeded the ''
                            @ format_g (fl (of_int timeout)) @ ''s deadline''))), w3))
               else (None, sleep_for env interval w2))))"

definition pod_wait ::
  "'w runpod_env \<Rightarrow> pod_client \<Rightarrow> string \<Rightarrow> int \<Rightarrow> pyfloat \<Rightarrow> ('w \<Rightarrow> bool \<times> 'w) \<Rightarrow> 'w callback \<Rightarrow> 'w
   \<Rightarrow> ((runpod_error, (string \<times> json) list) result \<times> 'w) option" where
  "pod_wait env c pod timeout poll canceled on_update w =
     (let deadline = fadd (monotonic env w) (fl (of_int timeout))
      in while_true (pod_wait_round env c pod timeout deadline (poll_interval poll) canceled on_update) w)"

subsection \<open>Polling ends\<close>

text \<open>What the loops rely on: the monotonic clock reads \<open>clk w\<close>, no call turns it back, and a sleep
  of \<open>s\<close> seconds moves it on by at least \<open>s\<close>.\<close>

definition ticking :: "'w runpod_env \<Rightarrow> ('w \<Rightarrow> rat) \<Rightarrow> bool" where
  "ticking env clk \<longleftrightarrow>
     (\<forall>w. monotonic env w = Fin (clk w))
     \<and> (\<forall>meth url body w. clk w \<le> clk (snd (request env meth url body w)))
     \<and> (\<forall>s w. clk w + s \<le> clk (sleep_for env (Fin s) w))"

definition keeps_clock :: "('w \<Rightarrow> rat) \<Rightarrow> ('w \<Rightarrow> 'a \<times> 'w) \<Rightarrow> bool" where
  "keeps_clock clk f \<longleftrightarrow> (\<forall>w. clk w \<le> clk (snd (f w)))"

lemma tickingD:
  assumes "ticking env clk"
  shows "monotonic env w = Fin (clk w)" "request env meth url body w = (r, w') \<Longrightarrow> clk w \<le> clk w'"
    "clk w + s \<le> clk (sleep_for env (Fin s) w)"
  using assms unfolding ticking_def by (auto dest: spec, metis snd_conv)

lemma is_double_sixteenth: "is_double (1 / 16)"
proof -
  have "pw (- 4) = 1 / 16" by (simp add: pw_def power_int_def power_divide)
  then have "dyadic (1 / 16)"
    unfolding dyadic_def by (intro exI [of _ 1] exI [of _ "- 4"]) simp
  moreover have "\<bar>1 / 16 :: rat\<bar> < pw 1024"
    using pw_less_iff [of 0 1024] by simp
  ultimately show ?thesis by (simp add: is_double_iff)
qed

lemma tenth: "\<exists>d. fl (1 / 10) = Fin d \<and> 0 < d"
proof (cases "fl (1 / 10)")
  case (Fin d)
  then have "1 / 16 \<le> d" using fl_ge(2) [OF is_double_sixteenth _ Fin] by simp
  with Fin show ?thesis by simp
next
  case PInf
  then show ?thesis using fl_le(1) [of 1 "1 / 10"] by simp
next
  case NInf
  then show ?thesis using fl_ge(1) [of 0 "1 / 10"] by simp
qed simp

lemma poll_interval_pos: "\<exists>i. poll_interval (Fin p) = Fin i \<and> 0 < i"
  using tenth by (auto simp: poll_interval_def)

text \<open>A loop whose rounds end after the deadline, or else move the clock on by a fixed step, ends.\<close>

lemma deadline_terminates:
  fixes clk :: "'w \<Rightarrow> rat"
  assumes "0 < i"
    and round: "\<And>v v'. body v = (None, v') \<Longrightarrow> clk v < D \<and> clk v + i \<le> clk v'"
  shows "\<exists>r w'. while_true body w = Some (r, w')"
proof (rule while_true_terminates [where I = "\<lambda>_. True" and m = "\<lambda>v. nat \<lceil>(D - clk v) / i\<rceil>"])
  fix v v' assume "body v = (None, v')"
  with round have early: "clk v < D" and step: "clk v + i \<le> clk v'" by blast+
  have "(D - clk v') / i \<le> (D - clk v - i) / i"
    using step \<open>0 < i\<close> by (intro divide_right_mono) simp_all
  then have "(D - clk v') / i \<le> (D - clk v) / i - 1"
    using \<open>0 < i\<close> by (simp add: diff_divide_distrib)
  then have "\<lceil>(D - clk v') / i\<rceil> \<le> \<lceil>(D - clk v) / i\<rceil> - 1"
    by (metis ceiling_diff_one ceiling_mono)
  moreover have "0 < \<lceil>(D - clk v) / i\<rceil>"
    using early \<open>0 < i\<close> by (simp add: zero_less_ceiling)
  ultimately show "True \<and> nat \<lceil>(D - clk v') / i\<rceil> < nat \<lceil>(D - clk v) / i\<rceil>" by simp
qed simp

lemma serverless_clock:
  assumes "ticking env clk" "serverless_request env meth url body w = (r, w')"
  shows "clk w \<le> clk w'"
  using assms tickingD(2) [OF assms(1)] by (auto simp: serverless_request_def split: prod.splits)

lemma status_call_clock:
  assumes "ticking env clk" "status_call env c job w = (r, w')"
  shows "clk w \<le> clk w'"
  using assms(2) serverless_clock [OF assms(1)]
  by (auto simp: status_call_def Let_def split: prod.splits sum.splits if_splits)

lemma pod_clock:
  assumes "ticking env clk" "pod_request env c meth path body w = (r, w')"
  shows "clk w \<le> clk w'"
  using assms tickingD(2) [OF assms(1)] by (auto simp: pod_request_def Let_def split: prod.splits)

text \<open>A round of either loop that goes on has not reached the deadline, and ends one interval later.\<close>

lemma wait_round_ticks:
  assumes t: "ticking env clk" and u: "\<And>st. keeps_clock clk (on_update st)"
    and go: "wait_round env c job timeout (Fin D) (Fin i) on_update w = (None, w')"
  shows "clk w < D \<and> clk w + i \<le> clk w'"
proof -
  obtain state w1 w2 a where s: "status_call env c job w = (Inr state, w1)"
    and up: "on_update state w1 = (a, w2)"
    and late: "\<not> fle (Fin D) (monotonic env w2)" and w': "w' = sleep_for env (Fin i) w2"
    using go by (auto simp: wait_round_def split: prod.splits sum.splits if_splits)
  have "clk w \<le> clk w1" by (rule status_call_clock [OF t s])
  moreover have "clk w1 \<le> clk w2" using u [of state] up by (auto simp: keeps_clock_def dest: spec [of _ w1])
  moreover have "clk w2 < D" using late by (simp add: tickingD(1) [OF t])
  moreover have "clk w2 + i \<le> clk w'" unfolding w' by (rule tickingD(3) [OF t])
  ultimately show ?thesis by simp
qed

lemma pod_wait_round_ticks:
  assumes t: "ticking env clk" and u: "\<And>st. keeps_clock clk (on_update st)" and k: "keeps_clock clk canceled"
    and go: "pod_wait_round env c pod timeout (Fin D) (Fin i) canceled on_update w = (None, w')"
  shows "clk w < D \<and> clk w + i \<le> clk w'"
proof -
  obtain state w0 w1 w2 a where c: "canceled w = (False, w0)" and s: "pod_get env c pod w0 = (Inr state, w1)"
    and up: "on_update state w1 = (a, w2)"
    and late: "\<not> fle (Fin D) (monotonic env w2)" and w': "w' = sleep_for env (Fin i) w2"
    using go by (auto simp: pod_wait_round_def split: prod.splits sum.splits if_splits)
  have "clk w \<le> clk w0" using k c by (auto simp: keeps_clock_def dest: spec [of _ w])
  moreover have "clk w0 \<le> clk w1" using pod_clock [OF t] s by (auto simp: pod_get_def)
  moreover have "clk w1 \<le> clk w2" using u [of state] up by (auto simp: keeps_clock_def dest: spec [of _ w1])
  moreover have "clk w2 < D" using late by (simp add: tickingD(1) [OF t])
  moreover have "clk w2 + i \<le> clk w'" unfolding w' by (rule tickingD(3) [OF t])
  ultimately show ?thesis by simp
qed

text \<open>C27. Polling ends: on a clock that a sleep moves on, both wait loops return a state or raise,
  whatever the remote side answers, when the deadline is a finite time.\<close>

theorem polling_terminates:
  assumes t: "ticking env clk" and u: "\<And>st. keeps_clock clk (on_update st)" and k: "keeps_clock clk canceled"
    and "fadd (monotonic env w) (fl (of_int timeout)) = Fin D"
  shows "(\<exists>r w'. wait env c job timeout (Fin poll) on_update w = Some (r, w'))
    \<and> (\<exists>r w'. pod_wait env pc pod timeout (Fin poll) canceled on_update w = Some (r, w'))"
proof -
  obtain i where i: "poll_interval (Fin poll) = Fin i" "0 < i" using poll_interval_pos by blast
  have "\<exists>r w'. wait env c job timeout (Fin poll) on_update w = Some (r, w')"
    unfolding wait_def Let_def i(1) assms(4)
    by (rule deadline_terminates [OF i(2), where clk = clk and D = D]) (rule wait_round_ticks [OF t u])
  moreover have "\<exists>r w'. pod_wait env pc pod timeout (Fin poll) canceled on_update w = Some (r, w')"
    unfolding pod_wait_def Let_def i(1) assms(4)
    by (rule deadline_terminates [OF i(2), where clk = clk and D = D]) (rule pod_wait_round_ticks [OF t u k])
  ultimately show ?thesis by blast
qed

text \<open>A world that is its clock, with a remote side that never finishes.\<close>

definition stuck_env :: "rat runpod_env" where
  "stuck_env = \<lparr>request = \<lambda>_ _ _ w. (JsonBody (JObj [(''status'', JStr ''in_progress'')]), w),
     monotonic = \<lambda>w. Fin w, sleep_for = \<lambda>s w. case s of Fin x \<Rightarrow> w + x | _ \<Rightarrow> w\<rparr>"

theorem polling_terminates_witness:
  "\<exists>r w'. wait stuck_env \<lparr>api_key_of = ''k'', endpoint_id = ''e'', base_url = ''u''\<rparr> ''j'' 900 (Fin 5)
      (\<lambda>_ w. (Inr (), w)) 0 = Some (r, w')"
proof -
  have t: "ticking stuck_env (\<lambda>w. w)" by (simp add: ticking_def stuck_env_def)
  have u: "keeps_clock (\<lambda>w::rat. w) (\<lambda>w. (Inr (), w) :: (runpod_error, unit) result \<times> rat)"
    and k: "keeps_clock (\<lambda>w::rat. w) (\<lambda>w. (False, w))"
    by (simp_all add: keeps_clock_def)
  have d: "fadd (monotonic stuck_env 0) (fl (of_int 900)) = Fin 900"
    by (simp add: stuck_env_def fl_double is_double_of_int [of 900, simplified])
  show ?thesis
    using polling_terminates [OF t u k d] by blast
qed

text \<open>What a wait that returns has seen: the last state polled, terminal.\<close>

lemma wait_returns_terminal:
  assumes "wait env c job timeout poll on_update w = Some (Inr state, w')"
  shows "terminal_status (map_of state ''status'')"
proof -
  have "\<forall>st. Inr state = (Inr st :: (runpod_error, (string \<times> json) list) result)
      \<longrightarrow> terminal_status (map_of st ''status'')"
    using assms unfolding wait_def Let_def
    by (rule while_true_inv [where I = "\<lambda>_. True"])
      (auto simp: wait_round_def split: prod.splits sum.splits if_splits)
  then show ?thesis by blast
qed

end
