(* ===== verification/Contracts.thy ===== *)
theory Contracts
  imports Prelude
begin

section \<open>Contracts that several components share\<close>

text \<open>
  Two interfaces recur in the control plane. A submission endpoint is idempotent on a key the
  client chooses: \<open>idempotent_submission\<close>. A background task looks at the row it was sent for
  and does nothing once that row has been closed: \<open>guarded_task\<close>. The locales state what a
  caller relies on and derive what follows for any number of calls; each component interprets
  them on its own endpoint and tasks.
\<close>

subsection \<open>Submission\<close>

text \<open>\<open>submit u rq w\<close> serves the request \<open>rq\<close> in the world \<open>w\<close>, \<open>u\<close> being what it draws afresh
  (ids). \<open>recorded w rq\<close> is the record that already holds the key of the request.\<close>

locale idempotent_submission =
  fixes submit :: "'u \<Rightarrow> 'rq \<Rightarrow> 'w \<Rightarrow> ('e, 'a) result \<times> 'w"
    and accepts :: "'rq \<Rightarrow> bool"
    and recorded :: "'w \<Rightarrow> 'rq \<Rightarrow> 'k option"
    and ident :: "'a \<Rightarrow> 'k"
  assumes accepted: "submit u rq w = (Inr a, w') \<Longrightarrow> accepts rq"
    and stored: "submit u rq w = (Inr a, w') \<Longrightarrow> recorded w' rq = Some (ident a)"
    and hit: "accepts rq \<Longrightarrow> recorded w rq = Some k \<Longrightarrow> \<exists>a. submit u rq w = (Inr a, w) \<and> ident a = k"
begin

lemma replay:
  assumes "submit u rq w = (Inr a, w')"
  shows "\<exists>b. submit v rq w' = (Inr b, w') \<and> ident b = ident a"
  using hit [OF accepted [OF assms] stored [OF assms]] by blast

text \<open>Any number of further submissions of the request, whatever fresh values they draw.\<close>

lemma replays:
  assumes "submit u rq w = (Inr a, w')"
  shows "foldl (\<lambda>x v. snd (submit v rq x)) w' vs = w'"
proof (induction vs)
  case (Cons v vs)
  then show ?case using replay [OF assms, of v] by auto
qed simp

end

text \<open>A submission that fails leaves no trace.\<close>

locale clean_submission = idempotent_submission submit accepts recorded ident
  for submit :: "'u \<Rightarrow> 'rq \<Rightarrow> 'w \<Rightarrow> ('e, 'a) result \<times> 'w" and accepts recorded
    and ident :: "'a \<Rightarrow> 'k" +
  assumes clean: "submit u rq w = (Inl e, w') \<Longrightarrow> w' = w"
begin

lemma retry_after_failure: "submit u rq w = (Inl e, w') \<Longrightarrow> submit v rq w' = submit v rq w"
  by (drule clean) simp

end

subsection \<open>Tasks\<close>

text \<open>\<open>closed w j\<close>: the row of \<open>j\<close> is in a state the task must not leave.\<close>

locale guarded_task =
  fixes run :: "'j \<Rightarrow> 'w \<Rightarrow> ('r \<times> 'w) option"
    and closed :: "'w \<Rightarrow> 'j \<Rightarrow> bool"
  assumes guard: "closed w j \<Longrightarrow> \<exists>r. run j w = Some (r, w)"
begin

lemma keeps_closed: "closed w j \<Longrightarrow> run j w = Some (r, w') \<Longrightarrow> closed w' j"
  using guard by fastforce

text \<open>A message delivered any number of times to a closed row changes nothing.\<close>

lemma redelivery:
  assumes "closed w j"
  shows "foldl (\<lambda>x _. case run j x of Some (_, x') \<Rightarrow> x' | None \<Rightarrow> x) w ds = w"
proof (induction ds)
  case (Cons d ds)
  then show ?case using guard [OF assms] by auto
qed simp

end

end
