(* ===== verification/Offload.thy ===== *)
theory Offload
  imports Artifacts Billing Runpod Contracts
begin

section \<open>Offload jobs\<close>

text \<open>
  \<open>apps/orchestration/models.py\<close>, \<open>tasks.py\<close> and \<open>api.py\<close>: the job table, the Celery tasks that
  move a job through its states, and the endpoints of the tenant's clients. The world is the
  job table, the messages handed to the broker, the derivations posted to the provenance
  service, and whatever lies outside; the libraries (S3, httpx, clock, broker ids, pyarrow,
  the R runtime) act on the whole world, so that the writes other processes make while a call
  is under way are part of it. A row's automatic \<open>updated_at\<close> is not modelled.
\<close>

subsection \<open>The job table\<close>

datatype job_status = QUEUED | RUNNING | SUCCEEDED | FAILED | CANCELED

fun status_text :: "job_status \<Rightarrow> string" where
  "status_text QUEUED = ''queued''"
| "status_text RUNNING = ''running''"
| "status_text SUCCEEDED = ''succeeded''"
| "status_text FAILED = ''failed''"
| "status_text CANCELED = ''canceled''"

record job =
  job_id :: uuid
  job_tenant :: "uuid option"
  operation :: string
  operation_id :: string
  status :: job_status
  celery_task_id :: string
  input_payload_digest :: string
  output_schema_json :: json
  output_artifact_key :: string
  output_payload_digest :: string
  output_rows :: json
  logs :: string
  error :: string
  kwargs_json :: "(string \<times> json) list"
  started_at :: "time option"
  ended_at :: "time option"
  created_at :: time

datatype task_msg = DispatchOffload uuid | RunOffloadR uuid | CancelJob uuid | Revoke string

record 'x world =
  jobs :: "job list"
  sent :: "task_msg list"
  derivations :: "json list"
  outside :: 'x

definition get_job :: "'x world \<Rightarrow> uuid \<Rightarrow> job option" where
  "get_job w j = row_of job_id (jobs w) j"

text \<open>\<open>job.save(update_fields=[...])\<close> writes the named columns of the row; \<open>job.save()\<close> writes them
  all.\<close>

definition modify_job :: "uuid \<Rightarrow> (job \<Rightarrow> job) \<Rightarrow> 'x world \<Rightarrow> 'x world" where
  "modify_job j f w = w\<lparr>jobs := map (\<lambda>r. if job_id r = j then f r else r) (jobs w)\<rparr>"

definition save_job :: "job \<Rightarrow> 'x world \<Rightarrow> 'x world" where
  "save_job r w = modify_job (job_id r) (\<lambda>_. r) w"

definition kw :: "job \<Rightarrow> string \<Rightarrow> json option" where
  "kw r k = map_of (kwargs_json r) k"

text \<open>\<open>d.get(k) or {}\<close>.\<close>

definition or_dict :: "json option \<Rightarrow> json" where
  "or_dict v = (case v of None \<Rightarrow> JObj [] | Some x \<Rightarrow> if truthy x then x else JObj [])"

definition or_list :: "json option \<Rightarrow> json" where
  "or_list v = (case v of None \<Rightarrow> JList [] | Some x \<Rightarrow> if truthy x then x else JList [])"

definition or_null :: "json option \<Rightarrow> json" where
  "or_null v = (case v of None \<Rightarrow> JNull | Some x \<Rightarrow> x)"

subsection \<open>What is outside\<close>

record r_runtime =
  runtime_identity :: "(string, string) result"
  renv_lockfile_hash :: "(string, string) result"
  weighted_mean :: "pyfloat list \<Rightarrow> pyfloat list \<Rightarrow> pyfloat"
  r_runner_source :: bytes

record 'x offload_env =
  s3_cfg :: s3_settings
  s3 :: "'x world s3_client"
  http :: "'x world runpod_env"
  ipc :: arrow_ipc
  r_lib :: r_runtime
  now :: "'x world \<Rightarrow> time"
  millis :: "time \<Rightarrow> int"
  new_task_id :: "'x world \<Rightarrow> string"
  offload_mode :: string
  r_mode :: string
  renv_env_hash :: string
  runpod_key :: string
  runpod_base :: string
  serverless_endpoint :: string
  extraction_endpoint :: string
  worker_image :: string
  extraction_image :: string
  job_timeout :: int
  poll_seconds :: pyfloat
  machine_key :: string

text \<open>\<open>task.delay(...)\<close>: the message goes to the broker, the result carries its id.\<close>

definition send :: "'x offload_env \<Rightarrow> task_msg \<Rightarrow> 'x world \<Rightarrow> string \<times> 'x world" where
  "send env m w = (new_task_id env w, w\<lparr>sent := sent w @ [m]\<rparr>)"

definition post_derivation :: "'x offload_env \<Rightarrow> json \<Rightarrow> 'x world \<Rightarrow> 'x world" where
  "post_derivation env payload w =
     (if machine_key env = [] then w else w\<lparr>derivations := derivations w @ [payload]\<rparr>)"

text \<open>What a task raises when it does not return: the missing row, or a message.\<close>

datatype task_exc = JobDoesNotExist | Uncaught string

type_synonym 'x outcome = "(task_exc, json) result \<times> 'x world"

definition status_reply :: "string \<Rightarrow> json" where
  "status_reply s = JObj [(''status'', JStr s)]"

subsection \<open>Helpers of the tasks\<close>

definition TASK_VERSION :: string where "TASK_VERSION = ''0.2.0''"
definition STUB_TASK_VERSION :: string where "STUB_TASK_VERSION = ''0.1.0-stub''"
definition RENV_LOCKFILE_STUB :: string where "RENV_LOCKFILE_STUB = ''renv.lock:stub''"

definition is_r_operation :: "string \<Rightarrow> bool" where
  "is_r_operation op = prefix ''data_science.r.'' op"

definition is_extraction_operation :: "string \<Rightarrow> bool" where
  "is_extraction_operation op = prefix ''data_science.extraction.'' op"

definition renv_code_ref :: "'x offload_env \<Rightarrow> (string, string) result" where
  "renv_code_ref env =
     (let env_hash = strip (renv_env_hash env)
      in if env_hash \<noteq> [] then Inr env_hash
         else if r_mode env = ''rpy2'' then renv_lockfile_hash (r_lib env)
         else Inr (sha256_hex (utf8 RENV_LOCKFILE_STUB)))"

definition runpod_endpoint_id :: "'x offload_env \<Rightarrow> string \<Rightarrow> string" where
  "runpod_endpoint_id env op =
     (if is_extraction_operation op then extraction_endpoint env else serverless_endpoint env)"

definition runpod_image_digest :: "'x offload_env \<Rightarrow> string \<Rightarrow> string" where
  "runpod_image_digest env op =
     (if is_extraction_operation op then extraction_image env else worker_image env)"

definition LOG_LIMIT :: nat where
  "LOG_LIMIT = 16000"

definition last_chars :: "nat \<Rightarrow> string \<Rightarrow> string" where
  "last_chars n s = drop (length s - n) s"

definition append_log :: "string \<Rightarrow> job \<Rightarrow> job" where
  "append_log line r = r\<lparr>logs := last_chars LOG_LIMIT (logs r @ rstrip line @ [CHR 0x0A])\<rparr>"

definition fail_job :: "'x offload_env \<Rightarrow> uuid \<Rightarrow> string \<Rightarrow> string \<Rightarrow> 'x world \<Rightarrow> 'x outcome" where
  "fail_job env j err log_prefix w =
     (case get_job w j of
        None \<Rightarrow> (Inl JobDoesNotExist, w)
      | Some r \<Rightarrow>
          if status r = CANCELED then (Inr (status_reply ''canceled''), w)
          else let r' = append_log (''['' @ log_prefix @ ''] failed: '' @ err)
                          (r\<lparr>status := FAILED, error := err, ended_at := Some (now env w)\<rparr>)
               in (Inr (JObj [(''status'', JStr ''failed''), (''error'', JStr err)]),
                   modify_job j (\<lambda>q. q\<lparr>status := status r', error := error r',
                                       ended_at := ended_at r', logs := logs r'\<rparr>) w))"

definition params_hash :: "job \<Rightarrow> string" where
  "params_hash r =
     sha256_hex (utf8 (dumps \<lparr>ensure_ascii = True, item_sep = '', '', key_sep = '': ''\<rparr>
                        (or_dict (kw r ''params''))))"

definition derivation ::
  "job \<Rightarrow> string \<Rightarrow> string \<Rightarrow> string \<Rightarrow> string \<Rightarrow> int \<Rightarrow> int \<Rightarrow> string \<Rightarrow> json" where
  "derivation r engine agent_name version code_ref started_ms ended_ms content_hash =
     JObj [(''activity'',
            JObj [(''name'', JStr (operation r)), (''engine'', JStr engine),
                  (''engine_version'', JStr version), (''params_hash'', JStr (params_hash r)),
                  (''code_ref'', JStr code_ref), (''started_at_ms'', JInt started_ms),
                  (''ended_at_ms'', JInt ended_ms)]),
           (''agent'', JObj [(''kind'', JStr ''tool''), (''name'', JStr agent_name), (''version'', JStr version)]),
           (''inputs'', or_list (kw r ''input_entity_ids'')),
           (''outputs'',
            JList [JObj [(''kind'', JStr ''artifact''), (''name'', JStr (operation r @ '':output'')),
                         (''content_hash'', JStr content_hash)]])]"

definition time_or_now :: "'x offload_env \<Rightarrow> 'x world \<Rightarrow> time option \<Rightarrow> int" where
  "time_or_now env w t = millis env (case t of None \<Rightarrow> now env w | Some x \<Rightarrow> x)"

definition post_provenance ::
  "'x offload_env \<Rightarrow> job \<Rightarrow> string \<Rightarrow> string \<Rightarrow> string \<Rightarrow> 'x world \<Rightarrow> 'x world" where
  "post_provenance env r engine agent_name code_ref w =
     post_derivation env
       (derivation r engine agent_name TASK_VERSION code_ref (time_or_now env w (started_at r))
          (time_or_now env w (ended_at r)) (output_payload_digest r)) w"

definition complete_stub ::
  "'x offload_env \<Rightarrow> uuid \<Rightarrow> string \<Rightarrow> string \<Rightarrow> string \<Rightarrow> 'x world \<Rightarrow> 'x outcome" where
  "complete_stub env j engine agent_name code_ref w =
     (case get_job w j of
        None \<Rightarrow> (Inl JobDoesNotExist, w)
      | Some r \<Rightarrow>
          if status r = CANCELED then (Inr (status_reply ''canceled''), w)
          else let started_ms = time_or_now env w (started_at r);
                   out_digest = sha256_hex (utf8 (operation_id r @ '':'' @ input_payload_digest r @ '':stub''));
                   ended = now env w;
                   r' = r\<lparr>output_payload_digest := out_digest,
                          output_schema_json := (case kw r ''input_schema_json'' of None \<Rightarrow> JStr ''{}'' | Some x \<Rightarrow> x),
                          output_rows := or_null (kw r ''input_rows''),
                          logs := ''[StubOffload] completed '' @ operation r @ '' via '' @ agent_name @ [CHR 0x0A],
                          status := SUCCEEDED, ended_at := Some ended\<rparr>
               in (Inr (JObj [(''status'', JStr ''succeeded''), (''output_payload_digest'', JStr out_digest),
                              (''code_ref'', JStr code_ref), (''agent_name'', JStr agent_name)]),
                   post_derivation env
                     (derivation r' engine agent_name STUB_TASK_VERSION code_ref started_ms (millis env ended) out_digest)
                     (save_job r' w)))"

text \<open>The input contract of a RunPod worker.\<close>

definition runpod_input ::
  "'x offload_env \<Rightarrow> job \<Rightarrow> artifact_store \<Rightarrow> string \<Rightarrow> (artifact_error, json) result" where
  "runpod_input env r st out_key =
     (case job_tenant r of
        None \<Rightarrow> Inl (ArtifactValidationError ''RunPod jobs require an admitted tenant'')
      | Some t \<Rightarrow>
          let in_key = str_or_empty (kw r ''input_artifact_key'') in
          rbind (validate_key t in_key) (\<lambda>_.
          rbind (validate_key t out_key) (\<lambda>_.
            if \<not> is_sha256_digest (input_payload_digest r)
            then Inl (ArtifactValidationError ''RunPod input payload digest must be a sha256 digest'')
            else if \<not> truthy (or_null (kw r ''input_schema_json'')) \<or> or_null (kw r ''input_rows'') = JNull
            then Inl (ArtifactValidationError ''RunPod input schema and row count are required'')
            else rbind (presign_get st (s3 env) t in_key) (\<lambda>read_url.
                 rbind (presign_put st (s3 env) t out_key) (\<lambda>write_url.
                 Inr (JObj [(''contract'', JStr ''theorem.offload.v1''), (''operation'', JStr (operation r)),
                   (''operation_id'', JStr (operation_id r)),
                   (''input'', JObj [(''schema_json'', or_null (kw r ''input_schema_json'')),
                      (''rows'', or_null (kw r ''input_rows'')),
                      (''payload_digest'', JStr (input_payload_digest r)),
                      (''artifact_key'', JStr in_key), (''read_url'', JStr read_url)]),
                   (''output'', JObj [(''artifact_key'', JStr out_key), (''write_url'', JStr write_url)]),
                   (''params'', or_dict (kw r ''params'')), (''max_bytes'', JInt (max_bytes st))]))))))"

subsection \<open>What a worker answers\<close>

definition output_descriptor :: "json \<Rightarrow> (string, string \<times> int option \<times> string) result" where
  "output_descriptor output =
     (case output of
        JObj kvs \<Rightarrow>
          (case or_null (map_of kvs ''schema_json'') of
             JStr schema_json \<Rightarrow>
               (case or_null (map_of kvs ''payload_digest'') of
                  JStr digest \<Rightarrow>
                    if \<not> is_sha256_digest digest
                    then Inl ''RunPod output.payload_digest must be a sha256 digest''
                    else (case or_null (map_of kvs ''rows'') of
                            JNull \<Rightarrow> Inr (schema_json, None, digest)
                          | JInt n \<Rightarrow> if n < 0
                                      then Inl ''RunPod output.rows must be a non-negative integer or null''
                                      else Inr (schema_json, Some n, digest)
                          | _ \<Rightarrow> Inl ''RunPod output.rows must be a non-negative integer or null'')
                | _ \<Rightarrow> Inl ''RunPod output.payload_digest must be a sha256 digest'')
           | _ \<Rightarrow> Inl ''RunPod output.schema_json must be a string'')
      | _ \<Rightarrow> Inl ''RunPod output must be an ArrowBatch descriptor object'')"

definition runpod_handler_output :: "(string \<times> json) list \<Rightarrow> (string, json) result" where
  "runpod_handler_output envelope =
     (case or_null (map_of envelope ''output'') of
        JObj out \<Rightarrow>
          (case map_of out ''error'' of
             Some e \<Rightarrow> if truthy e then Inl (''RunPod handler error: '' @ py_str e)
                       else Inr (or_null (map_of out ''output''))
           | None \<Rightarrow> Inr (or_null (map_of out ''output'')))
      | _ \<Rightarrow> Inl ''RunPod status output must contain a handler result object'')"

subsection \<open>A RunPod execution\<close>

text \<open>The exceptions of the first \<open>try\<close>.\<close>

datatype offload_exc = OfArtifact artifact_error | OfRunpod runpod_error

fun offload_text :: "offload_exc \<Rightarrow> string" where
  "offload_text (OfArtifact e) = err_text e"
| "offload_text (OfRunpod e) = runpod_text e"

text \<open>Everything the task settles before it submits: tenant, store, keys, endpoint, image, client and
  input contract.\<close>

record submission =
  s_tenant :: uuid
  s_store :: artifact_store
  s_output_key :: string
  s_endpoint :: string
  s_image :: string
  s_client :: serverless_client
  s_input :: json

definition prepare_submission :: "'x offload_env \<Rightarrow> job \<Rightarrow> (offload_exc, submission) result" where
  "prepare_submission env r =
     (case job_tenant r of
        None \<Rightarrow> Inl (OfArtifact (ArtifactValidationError ''RunPod jobs require an admitted tenant''))
      | Some t \<Rightarrow>
          rbind (map_err OfArtifact (from_settings (s3_cfg env))) (\<lambda>st.
          let out_key = output_key t (operation_id r);
              endpoint = runpod_endpoint_id env (operation r);
              image = runpod_image_digest env (operation r)
          in if endpoint = []
             then Inl (OfRunpod (RunpodConfigurationError ''RunPod endpoint id is required for the selected operation''))
             else if image = []
             then Inl (OfRunpod (RunpodConfigurationError ''RunPod worker image digest is required for provenance''))
             else rbind (map_err OfRunpod (serverless_client_init (runpod_key env) endpoint (runpod_base env))) (\<lambda>c.
                  rbind (map_err OfArtifact (runpod_input env r st out_key)) (\<lambda>inp.
                  Inr \<lparr>s_tenant = t, s_store = st, s_output_key = out_key, s_endpoint = endpoint,
                       s_image = image, s_client = c, s_input = inp\<rparr>))))"

text \<open>The variables of \<open>persist_status\<close>: the job object and the last status and log hash seen. The
  closure runs in a world that carries them. (A row that has disappeared ends in
  \<open>DoesNotExist\<close>: the error given here makes \<open>fail_job\<close> look the row up, and raise it.)\<close>

record poll_vars =
  poll_job :: job
  last_status :: string
  last_logs_hash :: string

definition lift_env :: "'w runpod_env \<Rightarrow> ('c \<times> 'w) runpod_env" where
  "lift_env e = \<lparr>request = \<lambda>m u b (c, w). (case request e m u b w of (r, w') \<Rightarrow> (r, (c, w'))),
     monotonic = \<lambda>(c, w). monotonic e w, sleep_for = \<lambda>s (c, w). (c, sleep_for e s w)\<rparr>"

definition CANCEL_MESSAGE :: string where
  "CANCEL_MESSAGE = ''Job was cancelled during execution''"

definition note_status :: "string \<Rightarrow> string \<Rightarrow> poll_vars \<Rightarrow> poll_vars \<times> bool" where
  "note_status rid st pv =
     (if st \<noteq> last_status pv
      then (pv\<lparr>poll_job := append_log (''[RunPod] '' @ rid @ '': '' @ st) (poll_job pv), last_status := st\<rparr>, True)
      else (pv, False))"

definition note_logs :: "json option \<Rightarrow> poll_vars \<Rightarrow> poll_vars \<times> bool" where
  "note_logs remote pv =
     (case remote of
        None \<Rightarrow> (pv, False)
      | Some v \<Rightarrow>
          if \<not> truthy v then (pv, False)
          else let rendered = (case v of JStr s \<Rightarrow> s
                  | _ \<Rightarrow> dumps \<lparr>ensure_ascii = True, item_sep = '', '', key_sep = '': ''\<rparr> v);
                   h = sha256_hex (utf8 rendered)
               in if h \<noteq> last_logs_hash pv
                  then (pv\<lparr>poll_job := append_log (''[RunPod remote] '' @ last_chars 2000 rendered) (poll_job pv),
                           last_logs_hash := h\<rparr>, True)
                  else (pv, False))"

definition persist_status :: "string \<Rightarrow> (poll_vars \<times> 'x world) callback" where
  "persist_status rid state pvw =
     (case pvw of (pv0, w) \<Rightarrow>
      case get_job w (job_id (poll_job pv0)) of
        None \<Rightarrow> (Inl (RunpodApiError ''Job matching query does not exist.''), (pv0, w))
      | Some row \<Rightarrow>
          let pv = pv0\<lparr>poll_job := row\<rparr> in
          if status row = CANCELED then (Inl (RunpodTimeoutError CANCEL_MESSAGE), (pv, w))
          else let (pv1, c1) = note_status rid (str_or_empty (map_of state ''status'')) pv;
                   (pv2, c2) = note_logs (map_of state ''logs'') pv1
               in (Inr (), (pv2, if c1 \<or> c2
                                 then modify_job (job_id row) (\<lambda>q. q\<lparr>logs := logs (poll_job pv2)\<rparr>) w
                                 else w)))"

definition contains :: "string \<Rightarrow> string \<Rightarrow> bool" where
  "contains p s = list_ex (\<lambda>i. prefix p (drop i s)) [0..<Suc (length s)]"

text \<open>The clause that handles the exceptions of submission and polling.\<close>

definition offload_failed :: "'x offload_env \<Rightarrow> uuid \<Rightarrow> offload_exc \<Rightarrow> 'x world \<Rightarrow> 'x outcome" where
  "offload_failed env j e w =
     (if contains CANCEL_MESSAGE (offload_text e)
         \<and> (case get_job w j of Some r \<Rightarrow> status r = CANCELED | None \<Rightarrow> False)
      then (Inr (status_reply ''canceled''), w)
      else fail_job env j (offload_text e) ''RunPod'' w)"

definition record_submission :: "submission \<Rightarrow> submitted_job \<Rightarrow> job \<Rightarrow> job" where
  "record_submission sub sj r =
     append_log (''[RunPod] submitted '' @ sub_job_id sj @ '': '' @ sub_state sj)
       (r\<lparr>kwargs_json :=
            dict_set (dict_set (kwargs_json r) ''output_artifact_key'' (JStr (s_output_key sub))) ''runpod''
              (JObj [(''endpoint_id'', JStr (s_endpoint sub)), (''job_id'', JStr (sub_job_id sj))])\<rparr>)"

text \<open>After the last poll: the terminal state is judged, the output is read back and checked, and the
  job row is written unless it was canceled meanwhile.\<close>

definition finish_runpod ::
  "'x offload_env \<Rightarrow> submission \<Rightarrow> submitted_job \<Rightarrow> uuid \<Rightarrow> (string \<times> json) list \<Rightarrow> 'x world \<Rightarrow> 'x outcome" where
  "finish_runpod env sub sj j result w =
     (if map_of result ''status'' \<noteq> Some (JStr RUNPOD_SUCCESS)
      then fail_job env j
             (let e = str_or_empty (map_of result ''error'')
              in if e = [] then ''RunPod job finished as '' @ str_or_empty (map_of result ''status'') else e)
             ''RunPod'' w
      else case rbind (runpod_handler_output result) output_descriptor of
        Inl msg \<Rightarrow> fail_job env j msg ''RunPod'' w
      | Inr (schema_json, rows, digest) \<Rightarrow>
        (case read_arrow (s_store sub) (s3 env) (ipc env) (s_tenant sub) (s_output_key sub) digest schema_json rows w of
           Inl e \<Rightarrow> fail_job env j (err_text e) ''RunPod'' w
         | Inr out \<Rightarrow>
             (case get_job w j of
                None \<Rightarrow> (Inl JobDoesNotExist, w)
              | Some r \<Rightarrow>
                  if status r = CANCELED then (Inr (status_reply ''canceled''), w)
                  else let r' = append_log (''[RunPod] completed '' @ sub_job_id sj)
                                 (r\<lparr>output_artifact_key := arrow_key out, output_schema_json := JStr (arrow_schema out),
                                    output_rows := JInt (int (arrow_rows out)),
                                    output_payload_digest := arrow_digest out, status := SUCCEEDED,
                                    ended_at := Some (now env w)\<rparr>)
                       in (Inr (JObj [(''status'', JStr ''succeeded''), (''output_payload_digest'', JStr digest),
                                      (''runpod_job_id'', JStr (sub_job_id sj))]),
                           post_provenance env r' ''runpod-serverless'' ''theorem-control-plane'' (s_image sub)
                             (save_job r' w)))))"

definition after_wait ::
  "'x offload_env \<Rightarrow> submission \<Rightarrow> submitted_job \<Rightarrow> uuid
   \<Rightarrow> ((runpod_error, (string \<times> json) list) result \<times> (poll_vars \<times> 'x world)) option \<Rightarrow> 'x outcome option" where
  "after_wait env sub sj j out =
     (case out of
        None \<Rightarrow> None
      | Some (Inl e, (_, w)) \<Rightarrow> Some (offload_failed env j (OfRunpod e) w)
      | Some (Inr result, (_, w)) \<Rightarrow> Some (finish_runpod env sub sj j result w))"

definition follow_submission ::
  "'x offload_env \<Rightarrow> submission \<Rightarrow> submitted_job \<Rightarrow> job \<Rightarrow> uuid \<Rightarrow> 'x world \<Rightarrow> 'x outcome option" where
  "follow_submission env sub sj r j w1 =
     (let r1 = record_submission sub sj r;
          w2 = modify_job j (\<lambda>q. q\<lparr>kwargs_json := kwargs_json r1, logs := logs r1\<rparr>) w1
      in after_wait env sub sj j
           (wait (lift_env (http env)) (s_client sub) (sub_job_id sj) (job_timeout env) (poll_seconds env)
                (persist_status (sub_job_id sj))
                (\<lparr>poll_job = r1, last_status = [], last_logs_hash = []\<rparr>, w2)))"

definition run_runpod_offload :: "'x offload_env \<Rightarrow> uuid \<Rightarrow> 'x world \<Rightarrow> 'x outcome option" where
  "run_runpod_offload env j w =
     (case get_job w j of
        None \<Rightarrow> Some (Inl JobDoesNotExist, w)
      | Some r \<Rightarrow>
        if status r = CANCELED then Some (Inr (status_reply ''canceled''), w)
        else case prepare_submission env r of
          Inl e \<Rightarrow> Some (offload_failed env j e w)
        | Inr sub \<Rightarrow>
          (case submit (http env) (s_client sub) (s_input sub) w of
             (Inl e, w1) \<Rightarrow> Some (offload_failed env j (OfRunpod e) w1)
           | (Inr sj, w1) \<Rightarrow> follow_submission env sub sj r j w1))"

subsection \<open>An R execution\<close>

text \<open>The survey-weight runner. A column is read by name (an ambiguous name raises), must be
  numeric by its Arrow type, and is cast to \<open>float64\<close>: an integer beyond 2^53 makes the safe cast
  raise \<open>ArrowInvalid\<close>, which the task does not catch. A null stays \<open>None\<close>.\<close>

definition integer_types :: "string list" where
  "integer_types = [''int8'', ''int16'', ''int32'', ''int64'', ''uint8'', ''uint16'', ''uint32'', ''uint64'']"

definition floating_types :: "string list" where
  "floating_types = [''halffloat'', ''float'', ''double'']"

definition column_index :: "table \<Rightarrow> string \<Rightarrow> nat option" where
  "column_index tbl name =
     (case filter (\<lambda>i. field_name (schema_fields (tbl_schema tbl) ! i) = name)
             [0..<length (schema_fields (tbl_schema tbl))] of
        [i] \<Rightarrow> Some i | _ \<Rightarrow> None)"

definition has_column :: "table \<Rightarrow> string \<Rightarrow> bool" where
  "has_column tbl name = list_ex (\<lambda>f. field_name f = name) (schema_fields (tbl_schema tbl))"

definition cast_float64 :: "json \<Rightarrow> (string, pyfloat option) result" where
  "cast_float64 v =
     (case v of
        JInt i \<Rightarrow> if \<bar>i\<bar> \<le> 2 ^ 53 then Inr (Some (fl (of_int i))) else Inl ''ArrowInvalid''
      | JFloat f \<Rightarrow> Inr (Some f)
      | _ \<Rightarrow> Inr None)"

datatype r_exc = RCaught string | RUncaught string

definition survey_column :: "table \<Rightarrow> string \<Rightarrow> (r_exc, nat) result" where
  "survey_column tbl name =
     (case column_index tbl name of None \<Rightarrow> Inl (RUncaught ''KeyError'') | Some i \<Rightarrow> Inr i)"

definition numeric_column :: "table \<Rightarrow> nat \<Rightarrow> bool" where
  "numeric_column tbl i =
     (field_type (schema_fields (tbl_schema tbl) ! i) \<in> set (integer_types @ floating_types))"

definition survey_values :: "table \<Rightarrow> nat \<Rightarrow> (r_exc, pyfloat option list) result" where
  "survey_values tbl i = map_err RUncaught (traverse (\<lambda>row. cast_float64 (row ! i)) (tbl_rows tbl))"

definition finite_value :: "pyfloat option \<Rightarrow> bool" where
  "finite_value v = (case v of None \<Rightarrow> False | Some x \<Rightarrow> isfinite x)"

definition weight_ok :: "pyfloat option \<Rightarrow> bool" where
  "weight_ok v = (case v of None \<Rightarrow> False | Some x \<Rightarrow> isfinite x \<and> \<not> flt x (Fin 0))"

definition survey_input :: "table \<Rightarrow> (r_exc, pyfloat list \<times> pyfloat list) result" where
  "survey_input tbl =
     (if \<not> (has_column tbl ''value'' \<and> has_column tbl ''weight'')
      then Inl (RCaught ''survey_weight requires Arrow columns value and weight'')
      else rbind (survey_column tbl ''value'') (\<lambda>i.
           rbind (survey_column tbl ''weight'') (\<lambda>k.
             if \<not> numeric_column tbl i \<or> \<not> numeric_column tbl k
             then Inl (RCaught ''survey_weight value and weight must be numeric Arrow columns'')
             else rbind (survey_values tbl i) (\<lambda>values.
                  rbind (survey_values tbl k) (\<lambda>weights.
                    if \<not> list_all finite_value values \<or> \<not> list_all weight_ok weights
                       \<or> \<not> list_ex (\<lambda>v. case v of None \<Rightarrow> False | Some x \<Rightarrow> flt (Fin 0) x) weights
                    then Inl (RCaught ''survey_weight requires finite values and non-negative weights with a positive sum'')
                    else Inr (map the values, map the weights))))))"

definition survey_output :: "pyfloat \<Rightarrow> nat \<Rightarrow> table" where
  "survey_output mean n =
     \<lparr>tbl_schema = \<lparr>schema_fields =
          [\<lparr>field_name = ''weighted_mean'', field_type = ''double'', field_nullable = True\<rparr>,
           \<lparr>field_name = ''input_rows'', field_type = ''int64'', field_nullable = True\<rparr>],
        schema_metadata = []\<rparr>,
      tbl_rows = [[JFloat mean, JInt (int n)]]\<rparr>"

definition json_rows :: "json \<Rightarrow> int option" where
  "json_rows v = (case v of JInt n \<Rightarrow> Some n | JBool b \<Rightarrow> Some (if b then 1 else 0) | JNull \<Rightarrow> None
      | JFloat (Fin x) \<Rightarrow> Some (if of_int \<lfloor>x\<rfloor> = x then \<lfloor>x\<rfloor> else - 1) | _ \<Rightarrow> Some (- 1))"

text \<open>The \<open>try\<close> of \<open>_run_r_offload\<close>, up to the written output: the identity of the runtime, the
  lock file hash and the stored artifact. (\<open>expected_rows\<close> is compared with the row count; a
  stored count that is no number equals none, which \<open>json_rows\<close> expresses by -1.)\<close>

definition r_execute ::
  "'x offload_env \<Rightarrow> job \<Rightarrow> 'x world \<Rightarrow> (r_exc, string \<times> string \<times> stored_arrow) result \<times> 'x world" where
  "r_execute env r w =
     (case runtime_identity (r_lib env) of Inl e \<Rightarrow> (Inl (RCaught e), w) | Inr identity \<Rightarrow>
      case renv_code_ref env of Inl e \<Rightarrow> (Inl (RCaught e), w) | Inr lock \<Rightarrow>
      case job_tenant r of None \<Rightarrow> (Inl (RCaught ''R jobs require an admitted tenant''), w) | Some t \<Rightarrow>
      if operation r \<noteq> ''data_science.r.survey_weight''
      then (Inl (RCaught (''R runtime is ready ('' @ identity @ ''; renv='' @ lock
              @ ''), but no real runner is installed for '' @ operation r)), w)
      else case from_settings (s3_cfg env) of Inl e \<Rightarrow> (Inl (RCaught (err_text e)), w) | Inr st \<Rightarrow>
      case read_table st (s3 env) (ipc env) t (str_or_empty (kw r ''input_artifact_key'')) (input_payload_digest r)
             (str_or_empty (kw r ''input_schema_json'')) (json_rows (or_null (kw r ''input_rows''))) w of
        Inl e \<Rightarrow> (Inl (RCaught (err_text e)), w) | Inr tbl \<Rightarrow>
      case survey_input tbl of Inl e \<Rightarrow> (Inl e, w) | Inr (values, weights) \<Rightarrow>
      let mean = weighted_mean (r_lib env) values weights
      in if \<not> isfinite mean then (Inl (RCaught ''R weighted.mean returned a non-finite result''), w)
         else case write_table st (s3 env) (ipc env) t (output_key t (operation_id r))
                     (survey_output mean (length (tbl_rows tbl))) w of
                (Inl e, w') \<Rightarrow> (Inl (RCaught (err_text e)), w')
              | (Inr out, w') \<Rightarrow> (Inr (identity, lock, out), w'))"

definition run_r_offload :: "'x offload_env \<Rightarrow> uuid \<Rightarrow> 'x world \<Rightarrow> 'x outcome" where
  "run_r_offload env j w =
     (case get_job w j of
        None \<Rightarrow> (Inl JobDoesNotExist, w)
      | Some r0 \<Rightarrow>
        if status r0 = CANCELED then (Inr (status_reply ''canceled''), w)
        else (case r_execute env r0 w of
          (Inl (RCaught msg), w1) \<Rightarrow> fail_job env j msg ''R'' w1
        | (Inl (RUncaught msg), w1) \<Rightarrow> (Inl (Uncaught msg), w1)
        | (Inr (identity, lock, out), w1) \<Rightarrow>
            (case get_job w1 j of
               None \<Rightarrow> (Inl JobDoesNotExist, w1)
             | Some r \<Rightarrow>
               if status r = CANCELED then (Inr (status_reply ''canceled''), w1)
               else let r' = append_log (''[R] completed survey_weight ('' @ identity @ '')'')
                             (r\<lparr>output_artifact_key := arrow_key out, output_schema_json := JStr (arrow_schema out),
                                output_rows := JInt (int (arrow_rows out)),
                                output_payload_digest := arrow_digest out, status := SUCCEEDED,
                                ended_at := Some (now env w1)\<rparr>);
                        code_ref = sha256_hex (utf8 (lock @ '':'' @ sha256_hex (r_runner_source (r_lib env))))
                    in (Inr (JObj [(''status'', JStr ''succeeded''),
                                   (''output_payload_digest'', JStr (arrow_digest out))]),
                        post_provenance env r' ''rpy2'' ''R'' code_ref (save_job r' w1)))))"

definition run_offload_r :: "'x offload_env \<Rightarrow> uuid \<Rightarrow> 'x world \<Rightarrow> 'x outcome" where
  "run_offload_r env j w =
     (if r_mode env = ''rpy2'' then run_r_offload env j w
      else if r_mode env \<noteq> ''stub''
      then fail_job env j (''unsupported R_OFFLOAD_EXECUTION_MODE='' @ repr_str (r_mode env)) ''R'' w
      else case renv_code_ref env of
             Inl e \<Rightarrow> (Inl (Uncaught e), w)
           | Inr code_ref \<Rightarrow> complete_stub env j ''celery'' ''R'' code_ref w)"

subsection \<open>Dispatch\<close>

text \<open>The stub executor of extraction operations belongs to the extraction component; it is the
  argument \<open>extraction_stub\<close> here.\<close>

type_synonym 'x executor = "uuid \<Rightarrow> 'x world \<Rightarrow> 'x outcome"

definition run_offload_python :: "'x offload_env \<Rightarrow> 'x executor \<Rightarrow> uuid \<Rightarrow> 'x world \<Rightarrow> 'x outcome option" where
  "run_offload_python env extraction_stub j w =
     (if offload_mode env = ''runpod'' then run_runpod_offload env j w
      else if offload_mode env \<noteq> ''stub''
      then Some (fail_job env j (''unsupported OFFLOAD_EXECUTION_MODE='' @ repr_str (offload_mode env)) ''RunPod'' w)
      else if (case get_job w j of None \<Rightarrow> False | Some r \<Rightarrow> is_extraction_operation (operation r))
      then Some (extraction_stub j w)
      else Some (complete_stub env j ''celery'' ''theorem-control-plane'' ''stub-local'' w))"

definition twin_of :: "'x world \<Rightarrow> job \<Rightarrow> job option" where
  "twin_of w r =
     newest created_at (filter (\<lambda>q. job_tenant q = job_tenant r \<and> operation_id q = operation_id r
                                  \<and> job_id q \<noteq> job_id r \<and> status q \<in> {RUNNING, SUCCEEDED}) (jobs w))"

definition or_text :: "string \<Rightarrow> string \<Rightarrow> string" where
  "or_text a b = (if a = [] then b else a)"

definition dispatch_offload ::
  "'x offload_env \<Rightarrow> 'x executor \<Rightarrow> string \<Rightarrow> uuid \<Rightarrow> 'x world \<Rightarrow> 'x outcome option" where
  "dispatch_offload env extraction_stub request_id j w =
     (case get_job w j of
        None \<Rightarrow> Some (Inr (JObj [(''error'', JStr ''missing'')]), w)
      | Some r \<Rightarrow>
        if status r = CANCELED then Some (Inr (status_reply ''canceled''), w)
        else case twin_of w r of
          Some twin \<Rightarrow> Some (Inr (JObj [(''status'', JStr (status_text (status twin))),
                                         (''joined'', JStr (uuid_str (job_id twin)))]), w)
        | None \<Rightarrow>
          let r1 = r\<lparr>status := RUNNING, started_at := Some (now env w),
                     celery_task_id := or_text request_id (celery_task_id r)\<rparr>;
              w1 = modify_job j (\<lambda>q. q\<lparr>status := RUNNING, started_at := started_at r1,
                                       celery_task_id := celery_task_id r1\<rparr>) w
          in if is_r_operation (operation r)
             then (case send env (RunOffloadR j) w1 of (rid, w2) \<Rightarrow>
                   let tid = or_text rid (celery_task_id r1)
                   in Some (Inr (JObj [(''status'', JStr ''queued''), (''celery_task_id'', JStr tid)]),
                            modify_job j (\<lambda>q. q\<lparr>celery_task_id := tid\<rparr>) w2))
             else run_offload_python env extraction_stub j w1)"

subsection \<open>Cancel and re-run\<close>

definition runpod_metadata :: "job \<Rightarrow> json" where
  "runpod_metadata r = or_dict (kw r ''runpod'')"

text \<open>Stopping the remote half: the remote error, if any, only goes to the log.\<close>

definition cancel_remote :: "'x offload_env \<Rightarrow> job \<Rightarrow> 'x world \<Rightarrow> job \<times> 'x world" where
  "cancel_remote env r w =
     (let remote = jget (runpod_metadata r) ''job_id''
      in if \<not> truthy (or_null remote) \<or> offload_mode env \<noteq> ''runpod'' then (r, w)
         else let endpoint = or_text (str_or_empty (jget (runpod_metadata r) ''endpoint_id''))
                               (runpod_endpoint_id env (operation r))
              in case serverless_client_init (runpod_key env) endpoint (runpod_base env) of
                   Inl e \<Rightarrow> (append_log (''[RunPod] remote cancel deferred: '' @ runpod_text e) r, w)
                 | Inr c \<Rightarrow>
                     (case cancel_call (http env) c (py_str (or_null remote)) w of
                        (Inl e, w') \<Rightarrow> (append_log (''[RunPod] remote cancel deferred: '' @ runpod_text e) r, w')
                      | (Inr _, w') \<Rightarrow> (r, w')))"

definition cancel_job_task :: "'x offload_env \<Rightarrow> uuid \<Rightarrow> 'x world \<Rightarrow> json \<times> 'x world" where
  "cancel_job_task env j w =
     (case get_job w j of
        None \<Rightarrow> (JObj [(''error'', JStr ''missing'')], w)
      | Some r \<Rightarrow>
          let w1 = (if celery_task_id r = [] then w else w\<lparr>sent := sent w @ [Revoke (celery_task_id r)]\<rparr>)
          in case cancel_remote env r w1 of (r', w2) \<Rightarrow>
             (status_reply ''canceled'',
              modify_job j (\<lambda>q. q\<lparr>status := CANCELED, ended_at := Some (now env w2), logs := logs r'\<rparr>) w2))"

definition re_run_job :: "'x offload_env \<Rightarrow> uuid \<Rightarrow> 'x world \<Rightarrow> 'x outcome" where
  "re_run_job env j w =
     (case get_job w j of
        None \<Rightarrow> (Inl JobDoesNotExist, w)
      | Some r \<Rightarrow>
          let w1 = modify_job j (\<lambda>q. q\<lparr>status := QUEUED, error := [], ended_at := None\<rparr>) w
          in case send env (DispatchOffload j) w1 of (tid, w2) \<Rightarrow>
             (Inr (JObj [(''job_id'', JStr (uuid_str j)), (''celery_task_id'', JStr tid)]),
              modify_job j (\<lambda>q. q\<lparr>celery_task_id := tid\<rparr>) w2))"

subsection \<open>The endpoints\<close>

definition REGISTERED_OPERATIONS :: "string list" where
  "REGISTERED_OPERATIONS =
     [''data_science.tabfm.label_aggregate'', ''data_science.gnn.denoise'', ''data_science.gnn.embed'',
      ''data_science.community.assign'', ''data_science.r.survey_weight'', ''data_science.r.mixed_model'',
      ''data_science.r.survival'']"

definition ACTIVE_JOB_STATUSES :: "job_status list" where
  "ACTIVE_JOB_STATUSES = [QUEUED, RUNNING]"

record arrow_batch =
  arrow_schema_json_of :: string
  batch_rows :: "int option"
  batch_digest :: string
  batch_key :: string
  download_url :: string

record invoke_request =
  rq_operation :: string
  rq_operation_id :: string
  rq_input :: arrow_batch
  rq_entity_ids :: "string list"
  rq_params :: "(string \<times> json) list"

record invoke_response =
  rs_job_id :: uuid
  rs_operation_id :: string
  rs_status :: job_status
  rs_reused :: bool

text \<open>The tables and settings the endpoints read beside the world.\<close>

record api_ctx =
  c_verify :: "string \<Rightarrow> string \<Rightarrow> bool"
  c_time :: time
  c_tenants :: "tenant list"
  c_keys :: "api_key list"
  c_billing :: billing_db

definition admit :: "api_ctx \<Rightarrow> string \<Rightarrow> string \<Rightarrow> (http_error, uuid) result" where
  "admit c authorization scope =
     rbind (require_machine_key (c_verify c) (c_time c) (c_tenants c) (c_keys c) authorization scope)
       (\<lambda>p. Inr (tenant_id (p_tenant p)))"

text \<open>The errors of an endpoint: an HTTP error it raises, or an exception it lets through.\<close>

datatype api_exc = Http http_error | Crash string

definition active_jobs :: "job list \<Rightarrow> uuid \<Rightarrow> nat" where
  "active_jobs rows t = length (filter (\<lambda>r. job_tenant r = Some t \<and> status r \<in> set ACTIVE_JOB_STATUSES) rows)"

definition concurrent_limit :: "billing_db \<Rightarrow> uuid \<Rightarrow> (py_exc, int option) result" where
  "concurrent_limit db t =
     (case active_plan db t of
        None \<Rightarrow> Inr None
      | Some p \<Rightarrow>
          (case or_null (if truthy (plan_limits p) then jget (plan_limits p) ''concurrent_jobs'' else None) of
             JNull \<Rightarrow> Inr None
           | raw \<Rightarrow>
               (case py_int raw of
                  Inl OverflowError \<Rightarrow> Inl OverflowError
                | Inl _ \<Rightarrow> Inr None
                | Inr limit \<Rightarrow> Inr (if limit < 0 then None else Some limit))))"

definition enforce_concurrent_job_quota :: "billing_db \<Rightarrow> uuid \<Rightarrow> job list \<Rightarrow> (api_exc, unit) result" where
  "enforce_concurrent_job_quota db t rows =
     rbind (map_err (\<lambda>_. Crash ''OverflowError'') (concurrent_limit db t)) (\<lambda>limit.
       case limit of
         None \<Rightarrow> Inr ()
       | Some n \<Rightarrow>
           if n \<le> int (active_jobs rows t)
           then Inl (Http (HttpError 429 (''concurrent_jobs limit reached ('' @ dec_nat (active_jobs rows t)
                      @ ''/'' @ dec_int n @ '')'')))
           else Inr ())"

definition artifact_store_or_503 :: "'x offload_env \<Rightarrow> (api_exc, artifact_store) result" where
  "artifact_store_or_503 env =
     map_err (\<lambda>e. Http (HttpError 503 (''artifact storage unavailable: '' @ err_text e))) (from_settings (s3_cfg env))"

definition storage_503 :: "artifact_error \<Rightarrow> api_exc" where
  "storage_503 e =
     (if is_storage_error e then Http (HttpError 503 ''artifact storage unavailable'') else Crash (err_text e))"

definition begin_artifact_upload ::
  "'x offload_env \<Rightarrow> api_ctx \<Rightarrow> uuid \<Rightarrow> string \<Rightarrow> (api_exc, string \<times> string \<times> int) result" where
  "begin_artifact_upload env c u authorization =
     rbind (map_err Http (admit c authorization OFFLOAD_INVOKE_SCOPE)) (\<lambda>t.
     rbind (artifact_store_or_503 env) (\<lambda>st.
       let key = allocate_input_key u t in
       rbind (map_err storage_503 (presign_put st (s3 env) t key)) (\<lambda>url.
         Inr (key, url, presign_seconds st))))"

definition requires_artifact :: "'x offload_env \<Rightarrow> string \<Rightarrow> bool" where
  "requires_artifact env op =
     (offload_mode env = ''runpod'' \<or> is_r_operation op \<and> r_mode env = ''rpy2'')"

definition check_artifact_input ::
  "'x offload_env \<Rightarrow> uuid \<Rightarrow> invoke_request \<Rightarrow> (api_exc, unit) result" where
  "check_artifact_input env t body =
     (if \<not> requires_artifact env (rq_operation body) then Inr ()
      else rbind (artifact_store_or_503 env) (\<lambda>_.
        let bad = (\<lambda>m. Inl (Http (HttpError 400 m)) :: (api_exc, unit) result) in
        case validate_key t (batch_key (rq_input body)) of
          Inl e \<Rightarrow> bad (err_text e)
        | Inr _ \<Rightarrow>
            if \<not> is_sha256_digest (batch_digest (rq_input body))
            then bad ''input.payload_digest must be a sha256 digest''
            else if arrow_schema_json_of (rq_input body) = []
            then bad ''input.schema_json is required for live execution''
            else if batch_rows (rq_input body) = None
            then bad ''input.rows is required for live execution''
            else Inr ()))"

definition new_job :: "invoke_request \<Rightarrow> uuid \<Rightarrow> uuid \<Rightarrow> time \<Rightarrow> job" where
  "new_job body t j created =
     \<lparr>job_id = j, job_tenant = Some t, operation = rq_operation body, operation_id = rq_operation_id body,
      status = QUEUED, celery_task_id = [], input_payload_digest = batch_digest (rq_input body),
      output_schema_json = JStr [], output_artifact_key = [], output_payload_digest = [], output_rows = JNull,
      logs = [], error = [],
      kwargs_json =
        [(''params'', JObj (rq_params body)), (''input_entity_ids'', JList (map JStr (rq_entity_ids body))),
         (''input_schema_json'', JStr (arrow_schema_json_of (rq_input body))),
         (''input_rows'', case batch_rows (rq_input body) of None \<Rightarrow> JNull | Some n \<Rightarrow> JInt n),
         (''input_artifact_key'', JStr (batch_key (rq_input body)))],
      started_at = None, ended_at = None, created_at = created\<rparr>"

definition existing_job :: "job list \<Rightarrow> uuid \<Rightarrow> string \<Rightarrow> job option" where
  "existing_job rows t op_id =
     newest created_at (filter (\<lambda>r. job_tenant r = Some t \<and> operation_id r = op_id) rows)"

text \<open>What \<open>invoke_offload\<close> checks before the table is consulted.\<close>

definition invoke_admits :: "'x offload_env \<Rightarrow> api_ctx \<Rightarrow> string \<Rightarrow> invoke_request \<Rightarrow> (api_exc, uuid) result" where
  "invoke_admits env c authorization body =
     rbind (map_err Http (admit c authorization OFFLOAD_INVOKE_SCOPE)) (\<lambda>t.
       if rq_operation body \<notin> set REGISTERED_OPERATIONS
       then Inl (Http (HttpError 400 (''unknown operation: '' @ rq_operation body)))
       else rbind (check_artifact_input env t body) (\<lambda>_. Inr t))"

text \<open>The transaction of \<open>invoke_offload\<close>: under the lock of the tenant row, a job with the same
  operation id is reused; otherwise the quota decides and a queued job is created.\<close>

definition invoke_offload ::
  "'x offload_env \<Rightarrow> api_ctx \<Rightarrow> uuid \<Rightarrow> string \<Rightarrow> invoke_request \<Rightarrow> 'x world
   \<Rightarrow> (api_exc, invoke_response) result \<times> 'x world" where
  "invoke_offload env c new_id authorization body w =
     (case invoke_admits env c authorization body of
        Inl e \<Rightarrow> (Inl e, w)
      | Inr t \<Rightarrow>
        (case existing_job (jobs w) t (rq_operation_id body) of
           Some r \<Rightarrow> (Inr \<lparr>rs_job_id = job_id r, rs_operation_id = operation_id r,
                           rs_status = status r, rs_reused = True\<rparr>, w)
         | None \<Rightarrow>
           (case enforce_concurrent_job_quota (c_billing c) t (jobs w) of
              Inl e \<Rightarrow> (Inl e, w)
            | Inr _ \<Rightarrow>
              let r = new_job body t new_id (now env w);
                  w1 = w\<lparr>jobs := jobs w @ [r]\<rparr>
              in case send env (DispatchOffload new_id) w1 of (tid, w2) \<Rightarrow>
                 (Inr \<lparr>rs_job_id = new_id, rs_operation_id = rq_operation_id body,
                       rs_status = QUEUED, rs_reused = False\<rparr>,
                  modify_job new_id (\<lambda>q. q\<lparr>celery_task_id := tid\<rparr>) w2))))"

record job_status_response =
  js_job_id :: uuid
  js_operation :: string
  js_operation_id :: string
  js_status :: job_status
  js_output :: "arrow_batch option"
  js_error :: string
  js_logs :: string

definition tenant_job :: "'x world \<Rightarrow> uuid \<Rightarrow> uuid \<Rightarrow> (api_exc, job) result" where
  "tenant_job w t j =
     (case get_job w j of
        None \<Rightarrow> Inl (Http (HttpError 404 ''Not Found''))
      | Some r \<Rightarrow> if job_tenant r = Some t then Inr r else Inl (Http (HttpError 404 ''Not Found'')))"

definition json_text :: "json \<Rightarrow> string" where
  "json_text v = (case v of JStr s \<Rightarrow> s | _ \<Rightarrow> [])"

definition get_offload_job ::
  "'x offload_env \<Rightarrow> api_ctx \<Rightarrow> string \<Rightarrow> uuid \<Rightarrow> 'x world \<Rightarrow> (api_exc, job_status_response) result" where
  "get_offload_job env c authorization j w =
     rbind (map_err Http (admit c authorization OFFLOAD_READ_SCOPE)) (\<lambda>t.
     rbind (tenant_job w t j) (\<lambda>r.
     rbind (if status r = SUCCEEDED \<and> output_payload_digest r \<noteq> []
            then rbind (if output_artifact_key r = [] then Inr []
                        else rbind (artifact_store_or_503 env) (\<lambda>st.
                             map_err storage_503 (presign_get st (s3 env) t (output_artifact_key r)))) (\<lambda>url.
                 Inr (Some \<lparr>arrow_schema_json_of = json_text (output_schema_json r),
                            batch_rows = (case output_rows r of JInt n \<Rightarrow> Some n | _ \<Rightarrow> None),
                            batch_digest = output_payload_digest r, batch_key = output_artifact_key r,
                            download_url = url\<rparr>))
            else Inr None) (\<lambda>output.
       Inr \<lparr>js_job_id = job_id r, js_operation = operation r, js_operation_id = operation_id r,
            js_status = status r, js_output = output, js_error = error r, js_logs = logs r\<rparr>)))"

definition cancel_offload_job ::
  "'x offload_env \<Rightarrow> api_ctx \<Rightarrow> string \<Rightarrow> uuid \<Rightarrow> 'x world \<Rightarrow> (api_exc, job_status \<times> bool) result \<times> 'x world" where
  "cancel_offload_job env c authorization j w =
     (case rbind (map_err Http (admit c authorization OFFLOAD_CANCEL_SCOPE)) (\<lambda>t. tenant_job w t j) of
        Inl e \<Rightarrow> (Inl e, w)
      | Inr r \<Rightarrow>
          if status r \<in> {SUCCEEDED, FAILED, CANCELED} then (Inr (status r, False), w)
          else case send env (CancelJob j) w of (_, w1) \<Rightarrow>
               (Inr (CANCELED, True), modify_job j (\<lambda>q. q\<lparr>status := CANCELED\<rparr>) w1))"

subsection \<open>Reads after writes\<close>

lemma modify_fields [simp]:
  "sent (modify_job j f w) = sent w" "derivations (modify_job j f w) = derivations w"
  "outside (modify_job j f w) = outside w"
  by (simp_all add: modify_job_def)

lemma get_job_modify [simp]:
  "(\<And>r. job_id (f r) = job_id r) \<Longrightarrow>
    get_job (modify_job j f w) k = (if k = j then map_option f (get_job w j) else get_job w k)"
  by (simp add: get_job_def modify_job_def row_of_map)

lemma get_job_id: "get_job w j = Some r \<Longrightarrow> job_id r = j"
  by (auto simp: get_job_def dest: row_of_Some)

lemma get_job_save [simp]:
  "get_job w (job_id r) = Some q \<Longrightarrow> get_job (save_job r w) k = (if k = job_id r then Some r else get_job w k)"
  using row_of_upd_row [of job_id "jobs w" r k] row_of_Some [of job_id "jobs w" "job_id r" q]
  by (auto simp: save_job_def get_job_def modify_job_def upd_row_def image_iff)

lemma get_job_sent [simp]: "get_job (w\<lparr>sent := m\<rparr>) j = get_job w j"
  by (simp add: get_job_def)

lemma get_job_post [simp]:
  "get_job (post_derivation env p w) j = get_job w j" "get_job (post_provenance env r e a c w) j = get_job w j"
  by (simp_all add: post_derivation_def post_provenance_def get_job_def)

lemma append_log_fields [simp]:
  "job_id (append_log l r) = job_id r" "status (append_log l r) = status r"
  "job_tenant (append_log l r) = job_tenant r" "operation_id (append_log l r) = operation_id r"
  "output_payload_digest (append_log l r) = output_payload_digest r"
  "output_artifact_key (append_log l r) = output_artifact_key r"
  "output_schema_json (append_log l r) = output_schema_json r"
  "output_rows (append_log l r) = output_rows r" "ended_at (append_log l r) = ended_at r"
  "error (append_log l r) = error r" "kwargs_json (append_log l r) = kwargs_json r"
  "created_at (append_log l r) = created_at r"
  by (simp_all add: append_log_def)

lemma append_log_bound: "length (logs (append_log l r)) \<le> LOG_LIMIT"
  by (simp add: append_log_def last_chars_def)

text \<open>A row is closed to the tasks when it is canceled.\<close>

definition is_canceled :: "'x world \<Rightarrow> uuid \<Rightarrow> bool" where
  "is_canceled w j = (case get_job w j of Some r \<Rightarrow> status r = CANCELED | None \<Rightarrow> False)"

lemma is_canceled_iff: "is_canceled w j \<longleftrightarrow> (\<exists>r. get_job w j = Some r \<and> status r = CANCELED)"
  by (simp add: is_canceled_def split: option.split)

interpretation runpod_task: guarded_task "run_runpod_offload env" is_canceled for env
  by unfold_locales (auto simp: is_canceled_iff run_runpod_offload_def)

interpretation r_task: guarded_task "\<lambda>j w. Some (run_r_offload env j w)" is_canceled for env
  by unfold_locales (auto simp: is_canceled_iff run_r_offload_def)

interpretation stub_task: guarded_task "\<lambda>j w. Some (complete_stub env j engine agent_name code_ref w)" is_canceled
  for env engine agent_name code_ref
  by unfold_locales (auto simp: is_canceled_iff complete_stub_def)

interpretation failure: guarded_task "\<lambda>j w. Some (fail_job env j msg log_prefix w)" is_canceled
  for env msg log_prefix
  by unfold_locales (auto simp: is_canceled_iff fail_job_def)

interpretation dispatch_task: guarded_task "dispatch_offload env extraction_stub request_id" is_canceled
  for env extraction_stub request_id
  by unfold_locales (auto simp: is_canceled_iff dispatch_offload_def)

lemma offload_failed_canceled:
  "is_canceled w j \<Longrightarrow> offload_failed env j e w = (Inr (status_reply ''canceled''), w)"
  by (auto simp: offload_failed_def fail_job_def is_canceled_iff)

lemma finish_canceled:
  assumes "is_canceled w j"
  shows "finish_runpod env sub sj j result w = (Inr (status_reply ''canceled''), w)"
proof -
  obtain r where "get_job w j = Some r" "status r = CANCELED"
    using assms by (auto simp: is_canceled_iff)
  then show ?thesis
    by (auto simp: finish_runpod_def fail_job_def split: sum.split prod.split)
qed

subsection \<open>Cancellation\<close>

text \<open>The rely of the running task: nobody reopens a canceled row while a library call is under way.\<close>

definition keeps_canceled :: "'x offload_env \<Rightarrow> uuid \<Rightarrow> bool" where
  "keeps_canceled env j \<longleftrightarrow>
     (\<forall>meth url body w. is_canceled w j \<longrightarrow> is_canceled (snd (request (http env) meth url body w)) j)"

lemma lift_status_call:
  assumes "status_call (lift_env e) c rid (pv, w) = (res, (pv', w'))"
  shows "pv' = pv \<and> status_call e c rid w = (res, w')"
  using assms
  by (auto simp: status_call_def serverless_request_def lift_env_def Let_def
      split: prod.splits sum.splits if_splits http_reply.splits json.splits)

lemma status_call_request: "snd (status_call e c rid w) = snd (request e ''GET'' (run_url c [''status'', rid]) None w)"
  by (auto simp: status_call_def serverless_request_def Let_def split: prod.split sum.split http_reply.split json.split)

text \<open>C20. Cancellation wins: from any point of the polling, whatever the remote job answers, a task
  whose job row is canceled reports \<open>canceled\<close> at the next poll and leaves the row canceled,
  as long as no one else reopens the row.\<close>

theorem cancellation_wins:
  assumes "keeps_canceled env j" and "is_canceled w j" and "job_id (poll_job pv) = j"
  shows "\<exists>w'. after_wait env sub sj j
      (while_true (wait_round (lift_env (http env)) (s_client sub) rid timeout deadline interval
         (persist_status rid)) (pv, w)) = Some (Inr (status_reply ''canceled''), w') \<and> is_canceled w' j"
proof -
  obtain res pv1 w1 where call: "status_call (lift_env (http env)) (s_client sub) rid (pv, w) = (res, (pv1, w1))"
    by (metis prod_cases3)
  have pv1: "pv1 = pv" and call': "status_call (http env) (s_client sub) rid w = (res, w1)"
    using lift_status_call [OF call] by simp_all
  have c1: "is_canceled w1 j"
    using assms(1,2) status_call_request [of "http env" "s_client sub" rid w]
    by (simp add: keeps_canceled_def call')
  then obtain r where r: "get_job w1 j = Some r" "status r = CANCELED"
    by (auto simp: is_canceled_iff)
  have "\<exists>e pv2. while_true (wait_round (lift_env (http env)) (s_client sub) rid timeout deadline interval
         (persist_status rid)) (pv, w) = Some (Inl e, (pv2, w1))"
    using r call pv1 assms(3)
    by (subst while_true.simps) (auto simp: wait_round_def persist_status_def Let_def split: sum.split)
  then show ?thesis
    using offload_failed_canceled [OF c1] c1 by (auto simp: after_wait_def)
qed

text \<open>An offload environment for the witnesses: an in-memory bucket of one object, a remote that answers
  every request with one JSON body, and a clock at zero.\<close>

definition demo_env :: "json \<Rightarrow> string \<Rightarrow> unit offload_env" where
  "demo_env reply mode =
     \<lparr>s3_cfg = \<lparr>s3_endpoint_url = ''u'', s3_access_key_id = ''a'', s3_secret_access_key = ''s'',
                s3_region = ''r'', s3_bucket = ''b'', s3_presign_seconds = 900, s3_max_bytes = 1000\<rparr>,
      s3 = \<lparr>put_object = \<lambda>_ _ _ w. (None, w), get_object = \<lambda>_ _. Inr (Some 2, [1, 2]),
            delete_object = \<lambda>_ w. (None, w), presigned_url = \<lambda>_ k _ _. Inr (''https://'' @ k)\<rparr>,
      http = \<lparr>request = \<lambda>_ _ _ w. (JsonBody reply, w), monotonic = \<lambda>_. Fin 0, sleep_for = \<lambda>_ w. w\<rparr>,
      ipc = \<lparr>ipc_encode = \<lambda>_. [1, 2],
             ipc_decode = \<lambda>_. Some \<lparr>tbl_schema = \<lparr>schema_fields = [], schema_metadata = []\<rparr>,
                                     tbl_rows = [[], [], []]\<rparr>\<rparr>,
      r_lib = \<lparr>runtime_identity = Inr ''R'', renv_lockfile_hash = Inr ''lock'', weighted_mean = \<lambda>_ _. Fin 1,
               r_runner_source = []\<rparr>,
      now = \<lambda>_. 7, millis = \<lambda>t. 1000 * t, new_task_id = \<lambda>_. ''task'', offload_mode = mode, r_mode = ''stub'',
      renv_env_hash = [], runpod_key = ''key'', runpod_base = ''https://api'', serverless_endpoint = ''ep'',
      extraction_endpoint = ''ex'', worker_image = ''img'', extraction_image = ''img2'', job_timeout = 900,
      poll_seconds = Fin 5, machine_key = []\<rparr>"

definition demo_job :: "job_status \<Rightarrow> job" where
  "demo_job st =
     \<lparr>job_id = 5, job_tenant = Some 1, operation = ''data_science.gnn.embed'', operation_id = ''op'', status = st,
      celery_task_id = [], input_payload_digest = sha256_digest [], output_schema_json = JStr [],
      output_artifact_key = [], output_payload_digest = [], output_rows = JNull, logs = [], error = [],
      kwargs_json = [], started_at = None, ended_at = None, created_at = 0\<rparr>"

definition demo_world :: "job list \<Rightarrow> unit world" where
  "demo_world js = \<lparr>jobs = js, sent = [], derivations = [], outside = ()\<rparr>"

theorem cancellation_wins_witness:
  "\<exists>w'. after_wait (demo_env (JObj [(''status'', JStr ''COMPLETED'')]) ''runpod'')
      \<lparr>s_tenant = 1, s_store = \<lparr>bucket = [], presign_seconds = 1, max_bytes = 1\<rparr>, s_output_key = [],
       s_endpoint = [], s_image = [], s_client = \<lparr>api_key_of = [], endpoint_id = [], base_url = []\<rparr>, s_input = JNull\<rparr>
      \<lparr>sub_job_id = ''r'', sub_state = ''Q''\<rparr> 5
      (while_true (wait_round (lift_env (http (demo_env (JObj [(''status'', JStr ''COMPLETED'')]) ''runpod'')))
          \<lparr>api_key_of = [], endpoint_id = [], base_url = []\<rparr> ''r'' 900 (Fin 900) (Fin 5) (persist_status ''r''))
        (\<lparr>poll_job = demo_job RUNNING, last_status = [], last_logs_hash = []\<rparr>, demo_world [demo_job CANCELED]))
    = Some (Inr (status_reply ''canceled''), w') \<and> is_canceled w' 5"
proof -
  let ?env = "demo_env (JObj [(''status'', JStr ''COMPLETED'')]) ''runpod''"
  let ?sub = "\<lparr>s_tenant = 1, s_store = \<lparr>bucket = [], presign_seconds = 1, max_bytes = 1\<rparr>, s_output_key = [],
       s_endpoint = [], s_image = [], s_client = \<lparr>api_key_of = [], endpoint_id = [], base_url = []\<rparr>, s_input = JNull\<rparr>"
  have k: "keeps_canceled ?env 5" by (simp add: keeps_canceled_def demo_env_def)
  have c: "is_canceled (demo_world [demo_job CANCELED]) 5"
    by (simp add: is_canceled_def get_job_def demo_world_def demo_job_def row_of_def)
  have p: "job_id (poll_job \<lparr>poll_job = demo_job RUNNING, last_status = [], last_logs_hash = []\<rparr>) = 5"
    by (simp add: demo_job_def)
  show ?thesis
    using cancellation_wins [OF k c p, of ?sub] by simp
qed

subsection \<open>What a success has checked\<close>

text \<open>The output fields of a row describe the object \<open>payload\<close> stored under its output key.\<close>

definition describes :: "arrow_ipc \<Rightarrow> job \<Rightarrow> string \<Rightarrow> bytes \<Rightarrow> bool" where
  "describes lib r key payload \<longleftrightarrow>
     output_artifact_key r = key \<and> output_payload_digest r = sha256_digest payload \<and>
     (\<exists>tbl. ipc_decode lib payload = Some tbl \<and> output_rows r = JInt (int (length (tbl_rows tbl)))
        \<and> output_schema_json r = JStr (arrow_schema_json (tbl_schema tbl)))"

lemma read_arrow_ok:
  assumes "read_arrow st c lib t key digest schema rows w = Inr out"
  obtains payload tbl where "get_bytes st c t key w = Inr payload" "ipc_decode lib payload = Some tbl"
    "arrow_key out = key" "arrow_digest out = sha256_digest payload"
    "arrow_schema out = arrow_schema_json (tbl_schema tbl)" "arrow_rows out = length (tbl_rows tbl)"
    "digest \<noteq> [] \<Longrightarrow> digest = sha256_digest payload"
  using assms
  by (auto simp: read_arrow_def decode_arrow_ipc_def result_simps Let_def split: if_splits option.splits)

lemma fail_job_reply: "fail_job env j msg pre w = (Inr reply, w') \<Longrightarrow> jget reply ''status'' \<noteq> Some (JStr ''succeeded'')"
  by (auto simp: fail_job_def status_reply_def jget_def Let_def split: option.splits if_splits)

lemma output_descriptor_digest: "output_descriptor v = Inr (schema, rows, digest) \<Longrightarrow> digest \<noteq> []"
  unfolding output_descriptor_def
  by (simp split: json.split_asm if_split_asm)
    (auto simp: is_sha256_digest_iff SHA256_PREFIX_def)

lemma finish_success:
  assumes "finish_runpod env sub sj j result w = (Inr reply, w')" and "jget reply ''status'' = Some (JStr ''succeeded'')"
  shows "\<exists>r payload. get_job w' j = Some r \<and> status r = SUCCEEDED \<and> ended_at r \<noteq> None \<and> \<not> is_canceled w j
    \<and> get_bytes (s_store sub) (s3 env) (s_tenant sub) (s_output_key sub) w = Inr payload
    \<and> describes (ipc env) r (s_output_key sub) payload
    \<and> jget reply ''output_payload_digest'' = Some (JStr (sha256_digest payload))"
proof -
  have nf: "fail_job env j m ''RunPod'' w \<noteq> (Inr reply, w')" for m
    using fail_job_reply assms(2) by metis
  then obtain schema rows digest out r where
    d: "rbind (runpod_handler_output result) output_descriptor = Inr (schema, rows, digest)"
    and out: "read_arrow (s_store sub) (s3 env) (ipc env) (s_tenant sub) (s_output_key sub) digest schema rows w = Inr out"
    and r: "get_job w j = Some r"
    using assms(1) by (auto simp: finish_runpod_def split: if_splits sum.splits option.splits prod.splits)
  have nc: "status r \<noteq> CANCELED"
    using assms out r d by (auto simp: finish_runpod_def nf jget_def status_reply_def split: if_splits)
  let ?r = "append_log (''[RunPod] completed '' @ sub_job_id sj)
     (r\<lparr>output_artifact_key := arrow_key out, output_schema_json := JStr (arrow_schema out),
        output_rows := JInt (int (arrow_rows out)), output_payload_digest := arrow_digest out, status := SUCCEEDED,
        ended_at := Some (now env w)\<rparr>)"
  have reply: "reply = JObj [(''status'', JStr ''succeeded''), (''output_payload_digest'', JStr digest),
       (''runpod_job_id'', JStr (sub_job_id sj))]"
    and w': "w' = post_provenance env ?r ''runpod-serverless'' ''theorem-control-plane'' (s_image sub) (save_job ?r w)"
    using assms(1) nc out r d by (auto simp: finish_runpod_def nf Let_def split: if_splits)
  have j: "job_id ?r = j" using get_job_id [OF r] by simp
  have got: "get_job w' j = Some ?r"
    using get_job_save [of w ?r r j] j r unfolding w' by simp
  have "digest \<noteq> []"
    using d output_descriptor_digest by (auto simp: result_simps)
  then show ?thesis
    using out got r nc by (auto elim!: read_arrow_ok simp: describes_def is_canceled_iff reply jget_def)
qed


definition demo_reply :: json where
  "demo_reply = JObj [(''id'', JStr ''r1''), (''status'', JStr ''COMPLETED''),
     (''output'', JObj [(''output'', JObj [(''schema_json'', JStr (arrow_schema_json \<lparr>schema_fields = [], schema_metadata = []\<rparr>)),
        (''payload_digest'', JStr (sha256_digest [1, 2])), (''rows'', JInt 3)])])]"

definition live_job :: job where
  "live_job = (demo_job RUNNING)\<lparr>kwargs_json := [(''input_artifact_key'', JStr (allocate_input_key 9 1)),
     (''input_schema_json'', JStr ''{}''), (''input_rows'', JInt 0)]\<rparr>"

lemma demo_names [simp]:
  "strip ''r1'' = ''r1''" "upper (strip ''COMPLETED'') = ''COMPLETED''" "strip ''ep'' = ''ep''" "strip ''key'' = ''key''"
  "blank ''u'' = False" "blank ''a'' = False" "blank ''s'' = False" "blank ''r'' = False" "blank ''b'' = False"
  by code_simp+

lemma demo_store: "from_settings (s3_cfg (demo_env rep mode)) = Inr \<lparr>bucket = ''b'', presign_seconds = 900, max_bytes = 1000\<rparr>"
  by (simp add: from_settings_def demo_env_def)

lemma demo_get_job: "get_job (demo_world [live_job]) 5 = Some live_job"
  by (simp add: get_job_def demo_world_def live_job_def demo_job_def row_of_def)

lemma allocate_nonempty [simp]: "allocate_input_key u t \<noteq> []"
  by (simp add: allocate_input_key_def)

lemma live_fields [simp]:
  "job_tenant live_job = Some 1" "operation live_job = ''data_science.gnn.embed''" "operation_id live_job = ''op''"
  "status live_job = RUNNING" "input_payload_digest live_job = sha256_digest []" "job_id live_job = 5"
  "str_or_empty (kw live_job ''input_artifact_key'') = allocate_input_key 9 1"
  "kw live_job ''input_schema_json'' = Some (JStr ''{}'')" "kw live_job ''input_rows'' = Some (JInt 0)"
  by (simp_all add: live_job_def demo_job_def kw_def str_or_empty_def truthy_def)

lemma demo_fields [simp]:
  "presigned_url (s3 (demo_env rep mode)) m k ct x = Inr (''https://'' @ k)"
  "serverless_endpoint (demo_env rep mode) = ''ep''" "worker_image (demo_env rep mode) = ''img''"
  "runpod_key (demo_env rep mode) = ''key''" "request (http (demo_env rep mode)) meth u b w = (JsonBody rep, w)"
  "get_object (s3 (demo_env rep mode)) k w = Inr (Some 2, [1, 2])"
  "ipc_decode (ipc (demo_env rep mode)) p = Some \<lparr>tbl_schema = \<lparr>schema_fields = [], schema_metadata = []\<rparr>,
                                     tbl_rows = [[], [], []]\<rparr>"
  by (simp_all add: demo_env_def)

lemma demo_prepared: "\<exists>sub. prepare_submission (demo_env demo_reply ''runpod'') live_job = Inr sub
    \<and> s_store sub = \<lparr>bucket = ''b'', presign_seconds = 900, max_bytes = 1000\<rparr> \<and> s_tenant sub = 1
    \<and> s_output_key sub = output_key 1 ''op''"
proof -
  have v: "validate_key 1 (allocate_input_key 9 1) = Inr (allocate_input_key 9 1)"
    "validate_key 1 (output_key 1 ''op'') = Inr (output_key 1 ''op'')"
    by (rule input_key_valid output_key_valid)+
  have "is_ok (runpod_input (demo_env demo_reply ''runpod'') live_job
      \<lparr>bucket = ''b'', presign_seconds = 900, max_bytes = 1000\<rparr> (output_key 1 ''op''))"
    using v
    by (simp add: runpod_input_def or_null_def truthy_def presign_get_def presign_put_def
        presign_put_content_def presign_def ARROW_IPC_CONTENT_TYPE_def Let_def)
  then obtain inp where inp: "runpod_input (demo_env demo_reply ''runpod'') live_job
      \<lparr>bucket = ''b'', presign_seconds = 900, max_bytes = 1000\<rparr> (output_key 1 ''op'') = Inr inp"
    by (auto simp: is_ok_def split: sum.splits)
  show ?thesis
    by (simp add: prepare_submission_def demo_store runpod_endpoint_id_def runpod_image_digest_def
        is_extraction_operation_def serverless_client_init_def inp Let_def)
qed

lemma demo_submit: "\<exists>sj. submit (http (demo_env demo_reply mode)) c p w = (Inr sj, w)"
  by (simp add: submit_def serverless_request_def demo_reply_def str_or_empty_def truthy_def)

lemma demo_status: "status_call (http (demo_env demo_reply mode)) c rid w =
    (Inr (dict_set (case demo_reply of JObj kvs \<Rightarrow> kvs) ''status'' (JStr ''COMPLETED'')), w)"
  by (simp add: status_call_def serverless_request_def demo_reply_def str_or_empty_def truthy_def)

text \<open>The callback of a poll leaves the status of a row that is not canceled alone.\<close>

lemma persist_running:
  assumes "get_job w (job_id (poll_job pv)) = Some r" "status r \<noteq> CANCELED"
  shows "\<exists>pv' w'. persist_status rid state (pv, w) = (Inr (), (pv', w'))
    \<and> (\<exists>r'. get_job w' (job_id (poll_job pv)) = Some r' \<and> status r' = status r)"
proof -
  obtain pv1 c1 where n1: "note_status rid (str_or_empty (map_of state ''status'')) (pv\<lparr>poll_job := r\<rparr>) = (pv1, c1)"
    by fastforce
  obtain pv2 c2 where n2: "note_logs (map_of state ''logs'') pv1 = (pv2, c2)" by fastforce
  show ?thesis
    using assms get_job_id [OF assms(1)] by (simp add: persist_status_def n1 n2)
qed

text \<open>The demonstration job runs to success.\<close>

lemma demo_run:
  "\<exists>reply w'. run_runpod_offload (demo_env demo_reply ''runpod'') 5 (demo_world [live_job]) = Some (Inr reply, w')
     \<and> jget reply ''status'' = Some (JStr ''succeeded'')"
proof -
  let ?env = "demo_env demo_reply ''runpod''" and ?w = "demo_world [live_job]"
  obtain sub where sub: "prepare_submission ?env live_job = Inr sub"
    and st: "s_store sub = \<lparr>bucket = ''b'', presign_seconds = 900, max_bytes = 1000\<rparr>" "s_tenant sub = 1"
      "s_output_key sub = output_key 1 ''op''"
    using demo_prepared by blast
  obtain sj where sj: "submit (http ?env) (s_client sub) (s_input sub) ?w = (Inr sj, ?w)"
    using demo_submit by blast
  let ?kvs = "dict_set (case demo_reply of JObj kvs \<Rightarrow> kvs) ''status'' (JStr ''COMPLETED'')"
  have result: "map_of ?kvs ''status'' = Some (JStr RUNPOD_SUCCESS)"
    "rbind (runpod_handler_output ?kvs) output_descriptor
      = Inr (arrow_schema_json \<lparr>schema_fields = [], schema_metadata = []\<rparr>, Some 3, sha256_digest [1, 2])"
    by (simp_all add: demo_reply_def RUNPOD_SUCCESS_def runpod_handler_output_def or_null_def output_descriptor_def)
  have ra: "\<exists>out. read_arrow (s_store sub) (s3 ?env) (ipc ?env) (s_tenant sub) (s_output_key sub) (sha256_digest [1, 2])
      (arrow_schema_json \<lparr>schema_fields = [], schema_metadata = []\<rparr>) (Some 3) w = Inr out" for w
    using output_key_valid [of 1 "''op''"]
    by (simp add: read_arrow_def get_bytes_def st decode_arrow_ipc_def Let_def)
  have fin: "\<exists>reply w'. finish_runpod ?env sub sj 5 ?kvs w = (Inr reply, w') \<and> jget reply ''status'' = Some (JStr ''succeeded'')"
    if r: "get_job w 5 = Some r" "status r = RUNNING" for w r
    using ra [of w] result r by (auto simp: finish_runpod_def jget_def Let_def)
  let ?r1 = "record_submission sub sj live_job"
  let ?w2 = "modify_job 5 (\<lambda>q. q\<lparr>kwargs_json := kwargs_json ?r1, logs := logs ?r1\<rparr>) ?w"
  let ?pv = "\<lparr>poll_job = ?r1, last_status = [], last_logs_hash = []\<rparr>"
  have id1: "job_id ?r1 = 5" by (simp add: record_submission_def)
  have g2: "\<exists>r. get_job ?w2 5 = Some r \<and> status r = RUNNING"
    by (simp add: demo_get_job)
  have call: "status_call (lift_env (http ?env)) (s_client sub) (sub_job_id sj) (?pv, ?w2) = (Inr ?kvs, (?pv, ?w2))"
  proof -
    obtain res pv1 w1 where c: "status_call (lift_env (http ?env)) (s_client sub) (sub_job_id sj) (?pv, ?w2) = (res, (pv1, w1))"
      by (metis prod_cases3)
    from lift_status_call [OF c] demo_status [of "''runpod''" "s_client sub" "sub_job_id sj" ?w2] c
    show ?thesis by simp
  qed
  obtain pv3 w3 where up: "persist_status (sub_job_id sj) ?kvs (?pv, ?w2) = (Inr (), (pv3, w3))"
    and g3: "\<exists>r. get_job w3 5 = Some r \<and> status r = RUNNING"
    using g2 persist_running [of ?w2 ?pv] id1 by fastforce
  have "wait (lift_env (http ?env)) (s_client sub) (sub_job_id sj) (job_timeout ?env) (poll_seconds ?env)
      (persist_status (sub_job_id sj)) (?pv, ?w2) = Some (Inr ?kvs, (pv3, w3))"
    unfolding wait_def Let_def
    by (subst while_true.simps) (simp add: wait_round_def call up terminal_status_def RUNPOD_SUCCESS_def)
  then have "follow_submission ?env sub sj live_job 5 ?w = Some (finish_runpod ?env sub sj 5 ?kvs w3)"
    by (simp add: follow_submission_def after_wait_def)
  moreover have "run_runpod_offload ?env 5 ?w = follow_submission ?env sub sj live_job 5 ?w"
    by (simp add: run_runpod_offload_def demo_get_job sub sj)
  ultimately show ?thesis using fin g3 by auto
qed


end
