(* ===== verification/Offload_Table.thy ===== *)
theory Offload_Table
  imports Offload
begin

section \<open>The job table under all its operations\<close>

text \<open>
  What the endpoints and tasks of \<open>Offload\<close> guarantee about the table as a whole: submissions are
  idempotent and bounded by the plan, tenants do not see each other's jobs, cancellation is
  final for the tasks, and every reachable table has unique ids, at most one job per tenant and
  operation id, and an output digest and end time in every succeeded row. \<open>job_step\<close> is the
  step relation of the component: one endpoint call or one delivered message.
\<close>

subsection \<open>Submission\<close>

lemma existing_job_map:
  assumes "\<And>r. job_tenant (f r) = job_tenant r \<and> operation_id (f r) = operation_id r \<and> created_at (f r) = created_at r"
  shows "existing_job (map f rows) t op = map_option f (existing_job rows t op)"
  unfolding existing_job_def
  using assms by (simp add: filter_map_same newest_map)

lemma existing_job_SomeD:
  "existing_job rows t op = Some r \<Longrightarrow> r \<in> set rows \<and> job_tenant r = Some t \<and> operation_id r = op"
  unfolding existing_job_def by (drule newest_in) simp

lemma existing_job_None: "existing_job rows t op = None \<longleftrightarrow> (\<forall>r \<in> set rows. job_tenant r = Some t \<longrightarrow> operation_id r \<noteq> op)"
  by (auto simp: existing_job_def filter_empty_conv)

definition recorded_job :: "'x offload_env \<Rightarrow> api_ctx \<Rightarrow> 'x world \<Rightarrow> string \<times> invoke_request \<Rightarrow> uuid option" where
  "recorded_job env c w rq =
     (case invoke_admits env c (fst rq) (snd rq) of
        Inl _ \<Rightarrow> None
      | Inr t \<Rightarrow> map_option job_id (existing_job (jobs w) t (rq_operation_id (snd rq))))"

text \<open>The two ways a submission succeeds.\<close>

lemma invoke_ok:
  assumes "invoke_offload env c u (fst rq) (snd rq) w = (Inr a, w')"
  obtains (reused) t r where "invoke_admits env c (fst rq) (snd rq) = Inr t"
      "existing_job (jobs w) t (rq_operation_id (snd rq)) = Some r" "w' = w" "rs_job_id a = job_id r" "rs_reused a"
  | (created) t where "invoke_admits env c (fst rq) (snd rq) = Inr t"
      "existing_job (jobs w) t (rq_operation_id (snd rq)) = None"
      "enforce_concurrent_job_quota (c_billing c) t (jobs w) = Inr ()"
      "jobs w' = map (\<lambda>r. if job_id r = u then r\<lparr>celery_task_id := new_task_id env (w\<lparr>jobs := jobs w @
           [new_job (snd rq) t u (now env w)]\<rparr>)\<rparr> else r) (jobs w @ [new_job (snd rq) t u (now env w)])"
      "sent w' = sent w @ [DispatchOffload u]" "rs_job_id a = u" "\<not> rs_reused a"
proof -
  obtain t where t: "invoke_admits env c (fst rq) (snd rq) = Inr t"
    using assms by (cases "invoke_admits env c (fst rq) (snd rq)") (simp_all add: invoke_offload_def)
  show thesis
  proof (cases "existing_job (jobs w) t (rq_operation_id (snd rq))")
    case (Some r)
    with assms t show thesis by (intro reused [OF t Some]) (auto simp: invoke_offload_def)
  next
    case None
    have q: "enforce_concurrent_job_quota (c_billing c) t (jobs w) = Inr ()"
      using assms t None
      by (cases "enforce_concurrent_job_quota (c_billing c) t (jobs w)") (simp_all add: invoke_offload_def)
    show thesis
      using assms by (intro created [OF t None q])
        (auto simp: invoke_offload_def t None q send_def Let_def modify_job_def)
  qed
qed

lemma new_job_fields [simp]:
  "job_tenant (new_job body t u created) = Some t" "operation_id (new_job body t u created) = rq_operation_id body"
  "job_id (new_job body t u created) = u" "status (new_job body t u created) = QUEUED"
  by (simp_all add: new_job_def)

interpretation offload_submit: clean_submission
  "\<lambda>u rq w. invoke_offload env c u (fst rq) (snd rq) w"
  "\<lambda>rq. \<exists>t. invoke_admits env c (fst rq) (snd rq) = Inr t"
  "recorded_job env c" rs_job_id for env c
proof
  fix u rq a and w w' :: "'a world"
  assume ok: "invoke_offload env c u (fst rq) (snd rq) w = (Inr a, w')"
  show "\<exists>t. invoke_admits env c (fst rq) (snd rq) = Inr t"
    using ok by (rule invoke_ok) blast+
  show "recorded_job env c w' rq = Some (rs_job_id a)"
    using ok
  proof (cases rule: invoke_ok)
    case (reused t r)
    then show ?thesis by (simp add: recorded_job_def)
  next
    case (created t)
    let ?r = "new_job (snd rq) t u (now env w)"
    have none: "filter (\<lambda>r. job_tenant r = Some t \<and> operation_id r = rq_operation_id (snd rq)) (jobs w) = []"
      using created(2) by (simp add: existing_job_def)
    have "existing_job (jobs w @ [?r]) t (rq_operation_id (snd rq)) = Some ?r"
      unfolding existing_job_def by (rule newest_snoc_only [OF none]) simp
    then show ?thesis
      using created by (simp add: recorded_job_def existing_job_map del: map_append)
  qed
next
  fix u rq k and w :: "'a world"
  assume "\<exists>t. invoke_admits env c (fst rq) (snd rq) = Inr t" "recorded_job env c w rq = Some k"
  then show "\<exists>a. invoke_offload env c u (fst rq) (snd rq) w = (Inr a, w) \<and> rs_job_id a = k"
    by (auto simp: recorded_job_def invoke_offload_def)
next
  fix u rq e and w w' :: "'a world"
  assume "invoke_offload env c u (fst rq) (snd rq) w = (Inl e, w')"
  then show "w' = w"
    by (auto simp: invoke_offload_def Let_def send_def split: sum.splits option.splits)
qed


lemma active_jobs_map:
  assumes "\<And>r. job_tenant (f r) = job_tenant r \<and> status (f r) = status r"
  shows "active_jobs (map f rows) t = active_jobs rows t"
  unfolding active_jobs_def using assms by (simp add: filter_map_same)

text \<open>C9. The plan bounds the active jobs: a submission that creates a job found fewer active jobs
  than the plan allows, so that a tenant within its limit stays within it; it adds exactly one
  active job to that tenant and none to any other.\<close>

theorem quota_respected:
  assumes "invoke_offload env c u authorization body w = (Inr a, w')" and "\<not> rs_reused a"
  shows "\<exists>t. admit c authorization OFFLOAD_INVOKE_SCOPE = Inr t
    \<and> active_jobs (jobs w') t = Suc (active_jobs (jobs w) t)
    \<and> (\<forall>t'. t' \<noteq> t \<longrightarrow> active_jobs (jobs w') t' = active_jobs (jobs w) t')
    \<and> (\<forall>n. concurrent_limit (c_billing c) t = Inr (Some n) \<longrightarrow> int (active_jobs (jobs w') t) \<le> n)"
proof -
  from assms(1) have "invoke_offload env c u (fst (authorization, body)) (snd (authorization, body)) w = (Inr a, w')"
    by simp
  then show ?thesis
  proof (cases rule: invoke_ok)
    case (reused t r)
    with assms(2) show ?thesis by simp
  next
    case (created t)
    have adm: "admit c authorization OFFLOAD_INVOKE_SCOPE = Inr t"
      using created(1) by (auto simp: invoke_admits_def result_simps split: if_splits)
    have one: "active_jobs (jobs w') t' = active_jobs (jobs w) t' + (if t' = t then 1 else 0)" for t'
      unfolding created(4) by (subst active_jobs_map) (simp_all add: active_jobs_def ACTIVE_JOB_STATUSES_def)
    have "int (active_jobs (jobs w) t) < n" if "concurrent_limit (c_billing c) t = Inr (Some n)" for n
      using created(3) that by (auto simp: enforce_concurrent_job_quota_def split: if_splits)
    with adm one show ?thesis by force
  qed
qed

text \<open>One tenant with one key, on a plan of \<open>n\<close> concurrent jobs.\<close>

definition demo_ctx :: "int \<Rightarrow> api_ctx" where
  "demo_ctx n = \<lparr>c_verify = (\<lambda>p h. p = h), c_time = 5,
     c_tenants = [\<lparr>tenant_id = 1, tenant_slug = ''t'', tenant_display_name = ''T'', tenant_is_active = True,
       workos_organization_id = []\<rparr>],
     c_keys = [\<lparr>key_id = 9, key_tenant = 1, key_hash = ''thk_a'', key_prefix = ''thk_a'', key_label = [],
       key_scopes = JList [JStr ''offload:*''], revoked_at = None, expires_at = None, key_created_at = 0\<rparr>],
     c_billing = \<lparr>plans = [\<lparr>plan_code = ''p'', plan_limits = JObj [(''concurrent_jobs'', JInt n)]\<rparr>],
       subscriptions = [\<lparr>sub_tenant = 1, sub_plan = ''p'', sub_status_of = ACTIVE, sub_created_at = 0\<rparr>],
       usage_rows = []\<rparr>\<rparr>"

definition demo_body :: invoke_request where
  "demo_body = \<lparr>rq_operation = ''data_science.gnn.embed'', rq_operation_id = ''op'',
     rq_input = \<lparr>arrow_schema_json_of = [], batch_rows = None, batch_digest = [], batch_key = [], download_url = []\<rparr>,
     rq_entity_ids = [], rq_params = []\<rparr>"

lemma demo_admit: "admit (demo_ctx n) ''Bearer thk_a'' OFFLOAD_INVOKE_SCOPE = Inr 1"
proof -
  have "admit (demo_ctx 1) ''Bearer thk_a'' OFFLOAD_INVOKE_SCOPE = Inr 1" by code_simp
  then show ?thesis by (simp add: demo_ctx_def admit_def)
qed

lemma demo_limit: "concurrent_limit (c_billing (demo_ctx 1)) 1 = Inr (Some 1)"
  by code_simp

lemma demo_invoke:
  "\<exists>a w'. invoke_offload (demo_env JNull ''stub'') (demo_ctx 1) 5 ''Bearer thk_a'' demo_body (demo_world []) = (Inr a, w')
     \<and> rs_job_id a = 5 \<and> \<not> rs_reused a"
proof -
  have "invoke_admits (demo_env JNull ''stub'') (demo_ctx 1) ''Bearer thk_a'' demo_body = Inr 1"
    by (simp add: invoke_admits_def demo_admit demo_body_def REGISTERED_OPERATIONS_def check_artifact_input_def
        requires_artifact_def demo_env_def is_r_operation_def)
  then show ?thesis
    by (simp add: invoke_offload_def existing_job_def enforce_concurrent_job_quota_def demo_limit active_jobs_def
        demo_world_def send_def Let_def)
qed


theorem quota_respected_witness:
  "\<exists>a w'. invoke_offload (demo_env JNull ''stub'') (demo_ctx 1) 5 ''Bearer thk_a'' demo_body (demo_world []) = (Inr a, w')
     \<and> active_jobs (jobs w') 1 = 1 \<and> active_jobs (jobs w') 2 = 0"
proof -
  obtain a w' where a: "invoke_offload (demo_env JNull ''stub'') (demo_ctx 1) 5 ''Bearer thk_a'' demo_body
      (demo_world []) = (Inr a, w')" and n: "\<not> rs_reused a"
    using demo_invoke by blast
  have "active_jobs (jobs (demo_world [])) t = 0" for t
    by (simp add: active_jobs_def demo_world_def)
  with quota_respected [OF a n] a show ?thesis by (auto simp: demo_admit)
qed

subsection \<open>Tenants\<close>

text \<open>Jobs are private to their tenant: a key of another tenant gets the same 404 for a job as for
  an id that does not exist, whether it reads or cancels, and changes nothing.\<close>

theorem jobs_private:
  assumes "admit c authorization OFFLOAD_READ_SCOPE = Inr t" and "admit c authorization' OFFLOAD_CANCEL_SCOPE = Inr t"
    and "\<And>r. get_job w j = Some r \<Longrightarrow> job_tenant r \<noteq> Some t"
  shows "get_offload_job env c authorization j w = Inl (Http (HttpError 404 ''Not Found''))
    \<and> cancel_offload_job env c authorization' j w = (Inl (Http (HttpError 404 ''Not Found'')), w)"
proof -
  have "tenant_job w t j = Inl (Http (HttpError 404 ''Not Found''))"
    using assms(3) by (auto simp: tenant_job_def split: option.split)
  then show ?thesis
    by (simp add: get_offload_job_def cancel_offload_job_def assms(1,2))
qed

theorem jobs_private_witness:
  "cancel_offload_job (demo_env JNull ''stub'') (demo_ctx 1) ''Bearer thk_a'' 5 (demo_world [(demo_job RUNNING)\<lparr>job_tenant := Some 2\<rparr>])
    = (Inl (Http (HttpError 404 ''Not Found'')), demo_world [(demo_job RUNNING)\<lparr>job_tenant := Some 2\<rparr>])"
proof -
  let ?w = "demo_world [(demo_job RUNNING)\<lparr>job_tenant := Some 2\<rparr>]"
  have a: "admit (demo_ctx 1) ''Bearer thk_a'' OFFLOAD_READ_SCOPE = Inr 1"
    "admit (demo_ctx 1) ''Bearer thk_a'' OFFLOAD_CANCEL_SCOPE = Inr 1" by code_simp+
  have "job_tenant r \<noteq> Some 1" if "get_job ?w 5 = Some r" for r
    using that by (auto simp: get_job_def demo_world_def row_of_def split: if_splits)
  from jobs_private [OF a this] show ?thesis by blast
qed

subsection \<open>The step relation and its invariant\<close>

text \<open>One step of the component: an endpoint call, or a message delivered to a worker, the messages
  being unordered and deliverable any number of times. The context of a call (time, keys, plans)
  may differ from step to step.\<close>

inductive job_step :: "'x offload_env \<Rightarrow> 'x executor \<Rightarrow> 'x world \<Rightarrow> 'x world \<Rightarrow> bool"
  for env :: "'x offload_env" and stub :: "'x executor" where
  step_invoke: "invoke_offload env c u authorization body w = (res, w') \<Longrightarrow> u \<notin> job_id ` set (jobs w)
     \<Longrightarrow> job_step env stub w w'"
| step_cancel: "cancel_offload_job env c authorization j w = (res, w') \<Longrightarrow> job_step env stub w w'"
| step_dispatch: "dispatch_offload env stub rid j w = Some (res, w') \<Longrightarrow> job_step env stub w w'"
| step_run_r: "run_offload_r env j w = (res, w') \<Longrightarrow> job_step env stub w w'"
| step_cancel_task: "cancel_job_task env j w = (res, w') \<Longrightarrow> job_step env stub w w'"
| step_re_run: "re_run_job env j w = (res, w') \<Longrightarrow> job_step env stub w w'"

definition row_ok :: "job \<Rightarrow> bool" where
  "row_ok r \<longleftrightarrow> (status r = SUCCEEDED \<longrightarrow> output_payload_digest r \<noteq> [] \<and> ended_at r \<noteq> None)"

definition op_key :: "job \<Rightarrow> uuid option \<times> string" where
  "op_key r = (job_tenant r, operation_id r)"

definition table_ok :: "job list \<Rightarrow> bool" where
  "table_ok rows \<longleftrightarrow> distinct (map job_id rows) \<and> distinct (map op_key rows) \<and> (\<forall>r \<in> set rows. row_ok r)"

text \<open>The rely: what other processes do while a library call is under way keeps the table in order
  (by the theorem below, the operations of this component do).\<close>

definition world_ok :: "'x world \<Rightarrow> bool" where
  "world_ok w = table_ok (jobs w)"

definition honest_env :: "'x offload_env \<Rightarrow> bool" where
  "honest_env env \<longleftrightarrow>
     (\<forall>meth url body w. world_ok w \<longrightarrow> world_ok (snd (request (http env) meth url body w)))
     \<and> (\<forall>s w. world_ok w \<longrightarrow> world_ok (sleep_for (http env) s w))
     \<and> (\<forall>k p m w. world_ok w \<longrightarrow> world_ok (snd (put_object (s3 env) k p m w)))"

lemma table_ok_map:
  assumes "table_ok rows"
    and "\<And>r. r \<in> set rows \<Longrightarrow> job_id (f r) = job_id r \<and> op_key (f r) = op_key r \<and> row_ok (f r)"
  shows "table_ok (map f rows)"
proof -
  have "map job_id (map f rows) = map job_id rows" "map op_key (map f rows) = map op_key rows"
    using assms(2) by auto
  then show ?thesis using assms by (auto simp: table_ok_def simp del: map_map)
qed

lemma world_ok_simps [simp]:
  "world_ok (w\<lparr>sent := m\<rparr>) = world_ok w" "world_ok (post_derivation env p w) = world_ok w"
  "world_ok (post_provenance env r e a c w) = world_ok w"
  by (simp_all add: world_ok_def post_derivation_def post_provenance_def)

lemma world_ok_modify:
  assumes "world_ok w"
    and "\<And>r. row_ok r \<Longrightarrow> get_job w j = Some r \<Longrightarrow> job_id (f r) = job_id r \<and> op_key (f r) = op_key r \<and> row_ok (f r)"
  shows "world_ok (modify_job j f w)"
proof -
  have d: "distinct (map job_id (jobs w))" and ok: "\<And>r. r \<in> set (jobs w) \<Longrightarrow> row_ok r"
    using assms(1) by (auto simp: world_ok_def table_ok_def)
  have "table_ok (map (\<lambda>r. if job_id r = j then f r else r) (jobs w))"
  proof (rule table_ok_map)
    show "table_ok (jobs w)" using assms(1) by (simp add: world_ok_def)
    fix r assume r: "r \<in> set (jobs w)"
    have "get_job w j = Some r" if "job_id r = j"
      using row_of_in [OF d r] that by (simp add: get_job_def)
    then show "job_id (if job_id r = j then f r else r) = job_id r \<and> op_key (if job_id r = j then f r else r) = op_key r
        \<and> row_ok (if job_id r = j then f r else r)"
      using assms(2) [OF ok [OF r]] ok [OF r] by auto
  qed
  then show ?thesis by (simp add: world_ok_def modify_job_def)
qed

lemma world_ok_save:
  assumes "world_ok w" "get_job w (job_id r) = Some q" "op_key r = op_key q" "row_ok r"
  shows "world_ok (save_job r w)"
  unfolding save_job_def
  by (rule world_ok_modify [OF assms(1)]) (use assms get_job_id [OF assms(2)] in auto)

lemma op_key_append [simp]: "op_key (append_log l r) = op_key r"
  by (simp add: op_key_def)

lemma row_ok_append [simp]: "row_ok (append_log l r) = row_ok r"
  by (simp add: row_ok_def)

lemma fail_job_ok: "world_ok w \<Longrightarrow> world_ok (snd (fail_job env j msg pre w))"
  by (auto simp: fail_job_def Let_def op_key_def row_ok_def intro!: world_ok_modify split: option.split)

lemma offload_failed_ok: "world_ok w \<Longrightarrow> world_ok (snd (offload_failed env j e w))"
  by (simp add: offload_failed_def fail_job_ok)

lemma sha256_hex_nonempty [simp]: "sha256_hex m \<noteq> []"
  using length_sha256_hex [of m] by fastforce

lemma complete_stub_ok:
  assumes "world_ok w"
  shows "world_ok (snd (complete_stub env j en ag cr w))"
proof (cases "get_job w j")
  case (Some r)
  then have "get_job w (job_id r) = Some r" using get_job_id by auto
  then have "world_ok (save_job r' w)" if "job_id r' = job_id r" "op_key r' = op_key r" "row_ok r'" for r'
    using world_ok_save [OF assms, of r' r] that by simp
  then show ?thesis
    using assms Some by (auto simp: complete_stub_def Let_def op_key_def row_ok_def)
qed (use assms in \<open>simp add: complete_stub_def\<close>)

lemma finish_runpod_ok:
  assumes "world_ok w"
  shows "world_ok (snd (finish_runpod env sub sj j result w))"
proof (cases "finish_runpod env sub sj j result w")
  case (Pair res w')
  have f: "world_ok (snd (fail_job env j msg pre w))" for msg pre by (rule fail_job_ok [OF assms])
  have sv: "world_ok (save_job r' w)"
    if "get_job w j = Some r" "job_id r' = job_id r" "op_key r' = op_key r" "row_ok r'" for r r'
    using world_ok_save [OF assms, of r' r] get_job_id [OF that(1)] that by simp
  have digest: "arrow_digest out \<noteq> []"
    if "read_arrow st c lib t key d sch rows w = Inr out" for st c lib t key d sch rows out
    using that by (rule read_arrow_ok) simp
  show ?thesis
    unfolding finish_runpod_def Let_def
    by (auto simp: assms f row_ok_def op_key_def digest intro!: sv split: sum.split option.split prod.split)
qed

lemma honest_envD:
  assumes "honest_env env" "world_ok w"
  shows "world_ok (snd (request (http env) m u b w))" "world_ok (sleep_for (http env) t w)"
    "world_ok (snd (put_object (s3 env) k p ct w))"
  using assms by (simp_all add: honest_env_def)

lemma logs_ok: "world_ok w \<Longrightarrow> world_ok (modify_job j (\<lambda>q. q\<lparr>logs := l\<rparr>) w)"
  by (rule world_ok_modify) (simp_all add: op_key_def row_ok_def)

lemma persist_status_ok:
  assumes "world_ok w"
  shows "world_ok (snd (snd (persist_status rid state (pv, w))))"
proof (cases "get_job w (job_id (poll_job pv))")
  case (Some row)
  obtain pv1 c1 where n1: "note_status rid (str_or_empty (map_of state ''status'')) (pv\<lparr>poll_job := row\<rparr>) = (pv1, c1)"
    by fastforce
  obtain pv2 c2 where n2: "note_logs (map_of state ''logs'') pv1 = (pv2, c2)" by fastforce
  show ?thesis
    using Some assms by (simp add: persist_status_def n1 n2 logs_ok Let_def)
qed (use assms in \<open>simp add: persist_status_def\<close>)

lemma serverless_request_snd: "snd (serverless_request e meth url b w) = snd (request e meth url b w)"
  by (simp add: serverless_request_def split: prod.split)

lemma lift_request_snd: "snd (snd (request (lift_env e) m u b (pv, w))) = snd (request e m u b w)"
  by (simp add: lift_env_def split: prod.split)

lemma lift_sleep: "sleep_for (lift_env e) t (pv, w) = (pv, sleep_for e t w)"
  by (simp add: lift_env_def)

lemma wait_round_ok:
  assumes env: "honest_env env" and w: "world_ok (snd pvw)"
    and round: "wait_round (lift_env (http env)) c rid timeout deadline interval (persist_status rid) pvw = (out, pvw')"
  shows "world_ok (snd pvw')"
proof -
  obtain pv v where pvw: "pvw = (pv, v)" by fastforce
  obtain res pv1 v1 where call: "status_call (lift_env (http env)) c rid (pv, v) = (res, (pv1, v1))"
    by (metis prod_cases3)
  have "v1 = snd (status_call (http env) c rid v)" using lift_status_call [OF call] by simp
  then have ok1: "world_ok v1"
    using honest_envD(1) [OF env] w by (simp add: status_call_request pvw)
  show ?thesis
  proof (cases res)
    case (Inl e)
    with round ok1 show ?thesis by (auto simp: wait_round_def pvw call)
  next
    case (Inr state)
    obtain a pv2 v2 where up: "persist_status rid state (pv1, v1) = (a, (pv2, v2))" by (metis prod_cases3)
    have ok2: "world_ok v2" using persist_status_ok [OF ok1, of rid state pv1] by (simp add: up)
    obtain b pv3 v3 where can: "cancel_call (lift_env (http env)) c rid (pv2, v2) = (b, (pv3, v3))"
      by (metis prod_cases3)
    have "v3 = snd (snd (cancel_call (lift_env (http env)) c rid (pv2, v2)))" by (simp add: can)
    then have ok3: "world_ok v3"
      using honest_envD(1) [OF env ok2] by (simp add: cancel_call_def serverless_request_snd lift_request_snd)
    from round Inr ok2 ok3 honest_envD(2) [OF env ok2, of interval] show ?thesis
      by (auto simp: wait_round_def pvw call up can lift_sleep split: sum.splits if_splits)
  qed
qed

lemma wait_ok:
  assumes env: "honest_env env" and "world_ok w"
    and "wait (lift_env (http env)) c rid timeout poll (persist_status rid) (pv, w) = Some (r, (pv', w'))"
  shows "world_ok w'"
proof -
  have "world_ok (snd (pv', w'))"
    using assms(3) unfolding wait_def Let_def
    by (rule while_true_inv [where I = "\<lambda>x. world_ok (snd x)"]) (use assms(2) wait_round_ok [OF env] in auto)
  then show ?thesis by simp
qed

lemma follow_submission_ok:
  assumes env: "honest_env env" and w: "world_ok w" and "follow_submission env sub sj r j w = Some (res, w')"
  shows "world_ok w'"
proof -
  let ?r1 = "record_submission sub sj r"
  let ?w2 = "modify_job j (\<lambda>q. q\<lparr>kwargs_json := kwargs_json ?r1, logs := logs ?r1\<rparr>) w"
  have ok2: "world_ok ?w2"
    by (rule world_ok_modify [OF w]) (simp_all add: op_key_def row_ok_def)
  from assms(3) obtain out pv3 w3 where
    wt: "wait (lift_env (http env)) (s_client sub) (sub_job_id sj) (job_timeout env) (poll_seconds env)
        (persist_status (sub_job_id sj)) (\<lparr>poll_job = ?r1, last_status = [], last_logs_hash = []\<rparr>, ?w2)
      = Some (out, (pv3, w3))"
    and aw: "after_wait env sub sj j (Some (out, (pv3, w3))) = Some (res, w')"
    by (auto simp: follow_submission_def after_wait_def Let_def split: option.splits)
  have ok3: "world_ok w3" by (rule wait_ok [OF env ok2 wt])
  show ?thesis
    using aw offload_failed_ok [OF ok3, of env j] finish_runpod_ok [OF ok3, of env sub sj j]
    by (cases out) (auto simp: after_wait_def, (metis snd_conv)+)
qed

lemma run_runpod_ok:
  assumes env: "honest_env env" and w: "world_ok w" and run: "run_runpod_offload env j w = Some (res, w')"
  shows "world_ok w'"
proof (cases "get_job w j")
  case None
  with run w show ?thesis by (simp add: run_runpod_offload_def)
next
  case (Some r)
  show ?thesis
  proof (cases "status r = CANCELED")
    case True
    with run w Some show ?thesis by (simp add: run_runpod_offload_def)
  next
    case False
    show ?thesis
    proof (cases "prepare_submission env r")
      case (Inl e)
      with run Some False offload_failed_ok [OF w, of env j e] show ?thesis
        by (auto simp: run_runpod_offload_def)
    next
      case (Inr sub)
      obtain out w1 where sb: "submit (http env) (s_client sub) (s_input sub) w = (out, w1)" by fastforce
      have "w1 = snd (submit (http env) (s_client sub) (s_input sub) w)" by (simp add: sb)
      also have "\<dots> = snd (serverless_request (http env) ''POST'' (run_url (s_client sub) [''run''])
          (Some (JObj [(''input'', s_input sub)])) w)"
        by (auto simp: submit_def Let_def split: prod.split sum.split)
      finally have ok1: "world_ok w1"
        using honest_envD(1) [OF env w] by (simp add: serverless_request_snd)
      show ?thesis
      proof (cases out)
        case (Inl e)
        with run Some False Inr sb offload_failed_ok [OF ok1, of env j "OfRunpod e"] show ?thesis
          by (auto simp: run_runpod_offload_def)
      next
        case (Inr sj)
        with run Some False \<open>prepare_submission env r = Inr sub\<close> sb
        have "follow_submission env sub sj r j w1 = Some (res, w')"
          by (simp add: run_runpod_offload_def)
        then show ?thesis by (rule follow_submission_ok [OF env ok1])
      qed
    qed
  qed
qed

lemma r_execute_ok:
  assumes env: "honest_env env" and w: "world_ok w" and run: "r_execute env r w = (res, w')"
  shows "world_ok w' \<and> (\<forall>identity lock out. res = Inr (identity, lock, out) \<longrightarrow> arrow_digest out \<noteq> [])"
proof -
  have wt: "world_ok w1 \<and> (\<forall>out. o' = Inr out \<longrightarrow> arrow_digest out \<noteq> [])"
    if "write_table st (s3 env) lib t k tbl w = (o', w1)" for st lib t k tbl o' w1
    using that w honest_envD(3) [OF env w, of k "ipc_encode lib tbl" ARROW_IPC_CONTENT_TYPE]
    by (auto simp: write_table_def storage_call_def validate_key_Inr Let_def
        split: sum.splits if_splits prod.splits option.splits)
  show ?thesis
    using run w unfolding r_execute_def Let_def
    by (auto split: sum.splits option.splits if_splits prod.splits dest: wt)
qed

lemma run_r_ok:
  assumes env: "honest_env env" and w: "world_ok w" and run: "run_r_offload env j w = (res, w')"
  shows "world_ok w'"
proof (cases "get_job w j")
  case None
  with run w show ?thesis by (simp add: run_r_offload_def)
next
  case (Some r0)
  show ?thesis
  proof (cases "status r0 = CANCELED")
    case True
    with run w Some show ?thesis by (simp add: run_r_offload_def)
  next
    case False
    obtain out w1 where ex: "r_execute env r0 w = (out, w1)" by fastforce
    have ok1: "world_ok w1" and dg: "\<And>i l o'. out = Inr (i, l, o') \<Longrightarrow> arrow_digest o' \<noteq> []"
      using r_execute_ok [OF env w ex] by auto
    have sv: "world_ok (save_job r' w1)"
      if "get_job w1 j = Some r" "job_id r' = job_id r" "op_key r' = op_key r" "row_ok r'" for r r'
      using world_ok_save [OF ok1, of r' r] get_job_id [OF that(1)] that by simp
    have "world_ok (snd (run_r_offload env j w))"
      using Some False ok1 dg fail_job_ok [OF ok1, of env j]
      unfolding run_r_offload_def Let_def
      by (auto simp: ex row_ok_def op_key_def intro!: sv split: sum.split option.split prod.split r_exc.split)
    with run show ?thesis by simp
  qed
qed

lemma run_offload_r_ok:
  assumes "honest_env env" "world_ok w" "run_offload_r env j w = (res, w')"
  shows "world_ok w'"
  using assms run_r_ok [OF assms(1,2)] fail_job_ok [OF assms(2), of env j] complete_stub_ok [OF assms(2), of env j]
  by (auto simp: run_offload_r_def split: if_splits sum.splits) (metis snd_conv)+

definition keeps_order :: "'x executor \<Rightarrow> bool" where
  "keeps_order run \<longleftrightarrow> (\<forall>i v. world_ok v \<longrightarrow> world_ok (snd (run i v)))"

lemma run_python_ok:
  assumes "honest_env env" "world_ok w" "keeps_order stub"
    and "run_offload_python env stub j w = Some (res, w')"
  shows "world_ok w'"
  using assms(4) run_runpod_ok [OF assms(1,2)] fail_job_ok [OF assms(2), of env j]
    complete_stub_ok [OF assms(2), of env j] assms(3) [unfolded keeps_order_def, rule_format, OF assms(2), of j]
  by (auto simp: run_offload_python_def split: if_splits option.splits) (metis snd_conv)+

lemma status_change_ok:
  assumes "world_ok w" "\<And>r. job_id (f r) = job_id r \<and> op_key (f r) = op_key r \<and> (row_ok r \<longrightarrow> row_ok (f r))"
  shows "world_ok (modify_job j f w)"
  by (rule world_ok_modify [OF assms(1)]) (simp add: assms(2))

lemma dispatch_ok:
  assumes env: "honest_env env" and w: "world_ok w" and st: "keeps_order stub"
    and run: "dispatch_offload env stub rid j w = Some (res, w')"
  shows "world_ok w'"
proof (cases "\<exists>r. get_job w j = Some r \<and> status r \<noteq> CANCELED \<and> twin_of w r = None")
  case False
  with run w show ?thesis
    by (auto simp: dispatch_offload_def split: option.splits if_splits)
next
  case True
  then obtain r where r: "get_job w j = Some r" "status r \<noteq> CANCELED" "twin_of w r = None" by blast
  let ?w1 = "modify_job j (\<lambda>q. q\<lparr>status := RUNNING, started_at := Some (now env w),
     celery_task_id := or_text rid (celery_task_id r)\<rparr>) w"
  have ok1: "world_ok ?w1"
    by (rule status_change_ok [OF w]) (simp add: op_key_def row_ok_def)
  show ?thesis
  proof (cases "is_r_operation (operation r)")
    case True
    with run r ok1 show ?thesis
      by (auto simp: dispatch_offload_def send_def Let_def op_key_def row_ok_def intro!: status_change_ok)
  next
    case False
    with run r have "run_offload_python env stub j ?w1 = Some (res, w')"
      by (simp add: dispatch_offload_def)
    with run_python_ok [OF env ok1 st] show ?thesis by blast
  qed
qed

lemma cancel_task_ok:
  assumes env: "honest_env env" and w: "world_ok w" and run: "cancel_job_task env j w = (res, w')"
  shows "world_ok w'"
proof (cases "get_job w j")
  case (Some r)
  let ?w1 = "if celery_task_id r = [] then w else w\<lparr>sent := sent w @ [Revoke (celery_task_id r)]\<rparr>"
  obtain r' w2 where c: "cancel_remote env r ?w1 = (r', w2)" by fastforce
  have ok1: "world_ok ?w1" using w by simp
  have "world_ok (snd (cancel_call (http env) cl rid ?w1))" for cl rid
    using honest_envD(1) [OF env ok1] by (simp add: cancel_call_def serverless_request_snd)
  then have "world_ok w2"
    using c ok1 unfolding cancel_remote_def Let_def
    by (auto split: if_splits sum.splits prod.splits) (metis snd_conv)+
  then have "world_ok (modify_job j (\<lambda>q. q\<lparr>status := CANCELED, ended_at := Some (now env w2), logs := logs r'\<rparr>) w2)"
    by (rule status_change_ok) (simp add: op_key_def row_ok_def)
  with run Some c show ?thesis by (simp add: cancel_job_task_def Let_def split: if_splits)
qed (use run w in \<open>simp add: cancel_job_task_def\<close>)

lemma re_run_ok: "world_ok w \<Longrightarrow> re_run_job env j w = (res, w') \<Longrightarrow> world_ok w'"
  by (auto simp: re_run_job_def send_def Let_def op_key_def row_ok_def intro!: status_change_ok split: option.splits)

lemma cancel_endpoint_ok: "world_ok w \<Longrightarrow> cancel_offload_job env c au j w = (res, w') \<Longrightarrow> world_ok w'"
  by (auto simp: cancel_offload_job_def send_def op_key_def row_ok_def intro!: status_change_ok
      split: sum.splits if_splits)

lemma invoke_endpoint_ok:
  assumes w: "world_ok w" and run: "invoke_offload env c u au body w = (res, w')" and fresh: "u \<notin> job_id ` set (jobs w)"
  shows "world_ok w'"
proof (cases res)
  case (Inl e)
  with run have "w' = w" using offload_submit.clean [of env c u "(au, body)" w e w'] by simp
  with w show ?thesis by simp
next
  case (Inr a)
  with run have "invoke_offload env c u (fst (au, body)) (snd (au, body)) w = (Inr a, w')" by simp
  then show ?thesis
  proof (cases rule: invoke_ok)
    case (reused t r)
    with w show ?thesis by simp
  next
    case (created t)
    let ?r = "new_job body t u (now env w)"
    have "op_key ?r \<notin> op_key ` set (jobs w)"
      using created(2) by (auto simp: existing_job_None op_key_def)
    then have t: "table_ok (jobs w @ [?r])"
      using w fresh by (auto simp: world_ok_def table_ok_def row_ok_def)
    then have "row_ok r" if "r \<in> set (jobs w @ [?r])" for r
      using that unfolding table_ok_def by blast
    then show ?thesis
      unfolding world_ok_def created(4) snd_conv
      by (intro table_ok_map [OF t]) (auto simp: op_key_def row_ok_def)
  qed
qed

lemma step_keeps_order:
  assumes env: "honest_env env" and stub: "keeps_order stub"
    and step: "job_step env stub w w'" and w: "world_ok w"
  shows "world_ok w'"
  using step
proof (cases rule: job_step.cases)
  case (step_invoke c u authorization body res)
  then show ?thesis using invoke_endpoint_ok [OF w] by blast
next
  case (step_cancel c authorization j res)
  then show ?thesis using cancel_endpoint_ok [OF w] by blast
next
  case (step_dispatch rid j res)
  then show ?thesis using dispatch_ok [OF env w stub] by blast
next
  case (step_run_r j res)
  then show ?thesis by (rule run_offload_r_ok [OF env w])
next
  case (step_cancel_task j res)
  then show ?thesis by (rule cancel_task_ok [OF env w])
next
  case (step_re_run j res)
  then show ?thesis by (rule re_run_ok [OF w])
qed

text \<open>C2. The job table stays in order: from a table with unique ids, at most one job per tenant and
  operation id, and an output digest and end time in every succeeded row, every sequence of
  endpoint calls and task deliveries leads to such a table, when the other processes that write
  during library calls keep it so.\<close>

theorem job_table_invariant:
  assumes "(job_step env stub)\<^sup>*\<^sup>* w w'" and "table_ok (jobs w)"
    and env: "honest_env env" and stub: "keeps_order stub"
  shows "table_ok (jobs w')"
proof -
  have "world_ok w'"
    using assms(1)
  proof (induction rule: rtranclp_induct)
    case base
    then show ?case using assms(2) by (simp add: world_ok_def)
  next
    case (step v v')
    from step.hyps(2) show ?case
      by (rule step_keeps_order [OF env stub _ step.IH])
  qed
  then show ?thesis by (simp add: world_ok_def)
qed

theorem job_table_invariant_witness:
  "\<exists>a w'. invoke_offload (demo_env JNull ''stub'') (demo_ctx 1) 5 ''Bearer thk_a'' demo_body (demo_world []) = (Inr a, w')
     \<and> table_ok (jobs w')"
proof -
  let ?env = "demo_env JNull ''stub''"
  let ?stub = "\<lambda>j w. complete_stub ?env j [] [] [] w"
  obtain a w' where i: "invoke_offload ?env (demo_ctx 1) 5 ''Bearer thk_a'' demo_body (demo_world []) = (Inr a, w')"
    using demo_invoke by blast
  then have "job_step ?env ?stub (demo_world []) w'"
    by (rule step_invoke) (simp add: demo_world_def)
  then have steps: "(job_step ?env ?stub)\<^sup>*\<^sup>* (demo_world []) w'" by blast
  have t: "table_ok (jobs (demo_world []))" by (simp add: table_ok_def demo_world_def)
  have e: "honest_env ?env" by (simp add: honest_env_def demo_env_def)
  have k: "keeps_order ?stub" by (simp add: keeps_order_def complete_stub_ok)
  from job_table_invariant [OF steps t e k] i show ?thesis by blast
qed

subsection \<open>Cancellation is final for the tasks\<close>

text \<open>The cancel task is unconditional and final: it leaves an existing row canceled whatever its
  status was and whatever the remote side answers, and from then on no delivery of the dispatch
  or of an executor changes anything, however often it is repeated.\<close>

theorem cancel_task_final:
  assumes "cancel_job_task env j w = (reply, w')" and "get_job w j \<noteq> None"
    and "\<And>meth u b v. get_job v j \<noteq> None \<Longrightarrow> get_job (snd (request (http env) meth u b v)) j \<noteq> None"
  shows "is_canceled w' j \<and> reply = status_reply ''canceled''
    \<and> foldl (\<lambda>x _. case dispatch_offload env stub rid j x of Some (_, x') \<Rightarrow> x' | None \<Rightarrow> x) w' ds = w'
    \<and> foldl (\<lambda>x _. case run_runpod_offload env j x of Some (_, x') \<Rightarrow> x' | None \<Rightarrow> x) w' ds = w'
    \<and> foldl (\<lambda>x _. snd (run_r_offload env j x)) w' ds = w'"
proof -
  obtain r where r: "get_job w j = Some r" using assms(2) by blast
  let ?w1 = "if celery_task_id r = [] then w else w\<lparr>sent := sent w @ [Revoke (celery_task_id r)]\<rparr>"
  obtain r' w2 where c: "cancel_remote env r ?w1 = (r', w2)" by fastforce
  have "get_job (snd (cancel_call (http env) cl rid ?w1)) j \<noteq> None" for cl rid
    using assms(3) [of ?w1] r by (simp add: cancel_call_def serverless_request_snd)
  then have "get_job w2 j \<noteq> None"
    using c r unfolding cancel_remote_def Let_def
    by (auto split: if_splits sum.splits prod.splits) (metis option.distinct(1) snd_conv)+
  then have can: "is_canceled w' j" and "reply = status_reply ''canceled''"
    using assms(1) r c by (auto simp: cancel_job_task_def Let_def is_canceled_iff split: if_splits)
  moreover have "foldl (\<lambda>x _. snd (run_r_offload env j x)) w' ds = w'"
    using r_task.redelivery [OF can, of env ds] by (simp add: case_prod_beta)
  ultimately show ?thesis
    using dispatch_task.redelivery [OF can] runpod_task.redelivery [OF can] by blast
qed

theorem cancel_task_final_witness:
  "\<exists>w'. snd (cancel_job_task (demo_env JNull ''stub'') 5 (demo_world [demo_job SUCCEEDED])) = w' \<and> is_canceled w' 5"
proof -
  obtain reply w' where c: "cancel_job_task (demo_env JNull ''stub'') 5 (demo_world [demo_job SUCCEEDED]) = (reply, w')"
    by fastforce
  have "get_job (demo_world [demo_job SUCCEEDED]) 5 \<noteq> None"
    by (simp add: get_job_def demo_world_def demo_job_def row_of_def)
  moreover have "get_job (snd (request (http (demo_env JNull ''stub'')) m u b v)) 5 \<noteq> None"
    if "get_job v 5 \<noteq> None" for m u b and v :: "unit world"
    using that by simp
  ultimately have "is_canceled w' 5" using cancel_task_final [OF c] by blast
  with c show ?thesis by simp
qed

end
