(* ===== verification/Competence.thy ===== *)
theory Competence
  imports Artifacts Contracts
begin

section \<open>The competence exchange: wire schema, validation, fitter\<close>

text \<open>
  \<open>apps/competence/contract.py\<close> (the schemas and their validators), the request validation of
  \<open>api.py\<close> and the Beta-Bernoulli fitter of \<open>fitter.py\<close>. Floats are IEEE doubles
  (\<open>Floats\<close>), so sums and products round as the code's do. A schema is a record; its
  \<open>model_dump\<close> is a function to JSON; its validators are one boolean function.
\<close>

subsection \<open>Schemas\<close>

definition COMPETENCE_EXCHANGE_SCHEMA :: string where
  "COMPETENCE_EXCHANGE_SCHEMA = ''theorem.competence.v1''"

datatype evidence_class = DETERMINISTIC_FIXTURE | LOCAL | CI | HOSTED | LIVE

fun class_text :: "evidence_class \<Rightarrow> string" where
  "class_text DETERMINISTIC_FIXTURE = ''deterministic_fixture''"
| "class_text LOCAL = ''local''"
| "class_text CI = ''ci''"
| "class_text HOSTED = ''hosted''"
| "class_text LIVE = ''live''"

fun class_rank :: "evidence_class \<Rightarrow> nat" where
  "class_rank DETERMINISTIC_FIXTURE = 0"
| "class_rank LOCAL = 1"
| "class_rank CI = 2"
| "class_rank HOSTED = 3"
| "class_rank LIVE = 4"

text \<open>\<open>EVIDENCE_CLASS_RANK\<close> orders the classes.\<close>

instantiation evidence_class :: linorder
begin

definition less_eq_evidence_class :: "evidence_class \<Rightarrow> evidence_class \<Rightarrow> bool" where
  "a \<le> b \<longleftrightarrow> class_rank a \<le> class_rank b"

definition less_evidence_class :: "evidence_class \<Rightarrow> evidence_class \<Rightarrow> bool" where
  "a < b \<longleftrightarrow> class_rank a < class_rank b"

instance
proof
  fix a b :: evidence_class
  show "a = b" if "a \<le> b" "b \<le> a"
    using that by (cases a; cases b) (simp_all add: less_eq_evidence_class_def)
qed (auto simp: less_eq_evidence_class_def less_evidence_class_def)

end

datatype role = TRAINING | HELD_OUT

datatype message_kind = FIT_REQUEST | REFIT_REQUEST

fun kind_text :: "message_kind \<Rightarrow> string" where
  "kind_text FIT_REQUEST = ''fit_request''"
| "kind_text REFIT_REQUEST = ''refit_request''"

record scope =
  scope_tenant :: uuid
  scope_project :: uuid
  pack_content_hash :: string
  candidate_id :: string
  candidate_lineage_id :: string

record selection =
  decision_ref :: string
  policy_id :: string
  policy_version :: int
  seed :: int
  behavior_probability :: pyfloat
  target_probability :: pyfloat
  importance_weight :: pyfloat
  observed_outcome :: pyfloat
  weighted_outcome :: pyfloat

record evidence =
  causal_lineage_id :: string
  ev_role :: role
  episode_ref :: string
  episode_digest :: string
  survived :: bool
  ev_source_refs :: "string list"
  ev_selection :: "selection option"

record previous_scorer =
  prev_scorer_id :: string
  prev_scorer_version :: string
  prev_model_artifact_id :: string
  prev_prior_pack_id :: string

record fit_request =
  contract :: string
  message_kind_of :: message_kind
  fit_operation_id :: string
  fit_scope :: scope
  training_corpus_digest :: string
  evaluation_corpus_digest :: string
  evidence_list :: "evidence list"
  w02_decision_refs :: "string list"
  source_evidence_refs :: "string list"
  previous :: "previous_scorer option"
  minimum_posterior_mean :: pyfloat
  requested_oracle_class :: evidence_class
  substitution_allowed :: bool
  live_oracle_required :: bool

record beta =
  alpha :: pyfloat
  beta_par :: pyfloat

record content_artifact =
  art_id :: string
  art_kind :: string
  art_digest :: string
  art_media :: string
  art_bytes :: nat

record receipt =
  rc_kind :: string
  rc_model_id :: string
  rc_prior :: json
  rc_observations :: json
  rc_posterior :: json
  rc_metadata :: json
  receipt_hash :: string

record scorer =
  scorer_id :: string
  scorer_version :: string
  model_artifact :: content_artifact
  prior_pack_id :: string
  prior_pack_artifact :: content_artifact
  prior :: beta
  posterior :: beta
  posterior_receipt :: receipt
  sc_minimum :: pyfloat
  distinct_lineage_ids :: "string list"
  selection_decision_refs :: "string list"
  oracle_class :: evidence_class
  evidence_class_of :: evidence_class
  sc_substitution_allowed :: bool
  sc_live_required :: bool
  accepted :: bool

subsection \<open>\<open>model_dump\<close>\<close>

definition opt_field :: "bool \<Rightarrow> string \<Rightarrow> json option \<Rightarrow> (string \<times> json) list" where
  "opt_field exclude_none k v =
     (case v of Some x \<Rightarrow> [(k, x)] | None \<Rightarrow> if exclude_none then [] else [(k, JNull)])"

definition strings :: "string list \<Rightarrow> json" where
  "strings xs = JList (map JStr xs)"

definition dump_scope :: "scope \<Rightarrow> json" where
  "dump_scope s = JObj [(''tenant_id'', JStr (uuid_str (scope_tenant s))),
     (''project_id'', JStr (uuid_str (scope_project s))), (''pack_content_hash'', JStr (pack_content_hash s)),
     (''candidate_id'', JStr (candidate_id s)), (''candidate_lineage_id'', JStr (candidate_lineage_id s))]"

definition dump_selection :: "selection \<Rightarrow> json" where
  "dump_selection s = JObj [(''decision_ref'', JStr (decision_ref s)), (''policy_id'', JStr (policy_id s)),
     (''policy_version'', JInt (policy_version s)), (''seed'', JInt (seed s)),
     (''behavior_probability'', JFloat (behavior_probability s)),
     (''target_probability'', JFloat (target_probability s)),
     (''importance_weight'', JFloat (importance_weight s)),
     (''observed_outcome'', JFloat (observed_outcome s)), (''weighted_outcome'', JFloat (weighted_outcome s))]"

definition role_text :: "role \<Rightarrow> string" where
  "role_text r = (case r of TRAINING \<Rightarrow> ''training'' | HELD_OUT \<Rightarrow> ''held_out'')"

definition dump_evidence :: "bool \<Rightarrow> evidence \<Rightarrow> json" where
  "dump_evidence exclude_none e = JObj ([(''causal_lineage_id'', JStr (causal_lineage_id e)),
     (''role'', JStr (role_text (ev_role e))), (''episode_ref'', JStr (episode_ref e)),
     (''episode_digest'', JStr (episode_digest e)), (''survived'', JBool (survived e)),
     (''source_evidence_refs'', strings (ev_source_refs e))]
     @ opt_field exclude_none ''selection'' (map_option dump_selection (ev_selection e)))"

definition dump_previous :: "previous_scorer \<Rightarrow> json" where
  "dump_previous p = JObj [(''scorer_id'', JStr (prev_scorer_id p)),
     (''scorer_version'', JStr (prev_scorer_version p)),
     (''model_artifact_id'', JStr (prev_model_artifact_id p)), (''prior_pack_id'', JStr (prev_prior_pack_id p))]"

definition request_payload :: "fit_request \<Rightarrow> json" where
  "request_payload b = JObj ([(''contract'', JStr (contract b)),
     (''message_kind'', JStr (kind_text (message_kind_of b))), (''operation_id'', JStr (fit_operation_id b)),
     (''scope'', dump_scope (fit_scope b)), (''training_corpus_digest'', JStr (training_corpus_digest b)),
     (''evaluation_corpus_digest'', JStr (evaluation_corpus_digest b)),
     (''evidence'', JList (map (dump_evidence True) (evidence_list b))),
     (''w02_decision_refs'', strings (w02_decision_refs b)),
     (''source_evidence_refs'', strings (source_evidence_refs b))]
     @ opt_field True ''previous_scorer'' (map_option dump_previous (previous b))
     @ [(''minimum_posterior_mean'', JFloat (minimum_posterior_mean b)),
        (''requested_oracle_class'', JStr (class_text (requested_oracle_class b))),
        (''substitution_allowed'', JBool (substitution_allowed b)),
        (''live_oracle_required'', JBool (live_oracle_required b))])"

definition canonical_digest :: "json \<Rightarrow> string" where
  "canonical_digest v = sha256_digest (utf8 (canonical_json v))"

text \<open>\<open>canonical_json_bytes\<close> and \<open>canonical_hex_digest\<close> refuse a number that is not finite.\<close>

definition canonical_json_bytes :: "json \<Rightarrow> bytes option" where
  "canonical_json_bytes v = (if json_finite v then Some (utf8 (canonical_json v)) else None)"

definition canonical_hex_digest :: "json \<Rightarrow> string option" where
  "canonical_hex_digest v = map_option sha256_hex (canonical_json_bytes v)"

subsection \<open>Validators of the schemas\<close>

definition beta_valid :: "beta \<Rightarrow> bool" where
  "beta_valid b = (isfinite (alpha b) \<and> isfinite (beta_par b) \<and> flt (Fin 0) (alpha b) \<and> flt (Fin 0) (beta_par b))"

definition artifact_valid :: "content_artifact \<Rightarrow> bool" where
  "artifact_valid a = (art_id a = art_digest a \<and> is_sha256_digest (art_digest a) \<and> \<not> blank (art_media a))"

definition receipt_payload :: "receipt \<Rightarrow> json" where
  "receipt_payload r = JObj [(''kind'', JStr (rc_kind r)), (''model_id'', JStr (rc_model_id r)),
     (''prior'', rc_prior r), (''observations'', rc_observations r), (''posterior'', rc_posterior r),
     (''metadata'', rc_metadata r)]"

definition receipt_valid :: "receipt \<Rightarrow> bool" where
  "receipt_valid r = (\<not> blank (rc_kind r) \<and> \<not> blank (rc_model_id r) \<and> is_hex64 (receipt_hash r)
     \<and> canonical_hex_digest (receipt_payload r) = Some (receipt_hash r))"

definition unit_interval :: "pyfloat \<Rightarrow> bool" where
  "unit_interval x = (fle (Fin 0) x \<and> fle x (Fin 1))"

definition scorer_valid :: "scorer \<Rightarrow> bool" where
  "scorer_valid s =
     (artifact_valid (model_artifact s) \<and> artifact_valid (prior_pack_artifact s)
      \<and> \<not> blank (prior_pack_id s) \<and> art_kind (prior_pack_artifact s) = ''prior_pack''
      \<and> beta_valid (prior s) \<and> beta_valid (posterior s) \<and> receipt_valid (posterior_receipt s)
      \<and> \<not> blank (scorer_id s) \<and> \<not> blank (scorer_version s)
      \<and> art_kind (model_artifact s) = ''scorer_model'' \<and> rc_model_id (posterior_receipt s) = scorer_id s
      \<and> isfinite (sc_minimum s) \<and> unit_interval (sc_minimum s)
      \<and> distinct_lineage_ids s = canon (distinct_lineage_ids s) \<and> distinct_lineage_ids s \<noteq> []
      \<and> selection_decision_refs s = canon (selection_decision_refs s) \<and> selection_decision_refs s \<noteq> []
      \<and> \<not> (sc_live_required s \<and> evidence_class_of s \<noteq> LIVE)
      \<and> \<not> (\<not> sc_substitution_allowed s \<and> evidence_class_of s < oracle_class s))"

subsection \<open>Validation of a request\<close>

record refusal =
  ref_code :: string
  ref_detail :: string
  ref_retryable :: bool

definition refuse :: "string \<Rightarrow> string \<Rightarrow> refusal option" where
  "refuse code detail = Some \<lparr>ref_code = code, ref_detail = detail, ref_retryable = False\<rparr>"

definition previous_complete :: "previous_scorer \<Rightarrow> bool" where
  "previous_complete p = (\<not> blank (prev_scorer_id p) \<and> \<not> blank (prev_scorer_version p)
     \<and> is_sha256_digest (prev_model_artifact_id p) \<and> \<not> blank (prev_prior_pack_id p))"

text \<open>The correction a held-out item carries: \<open>1e-12\<close> is the double nearest to it.\<close>

definition TOLERANCE :: pyfloat where
  "TOLERANCE = fl (1 / 10 ^ 12)"

definition close_to :: "pyfloat \<Rightarrow> pyfloat option \<Rightarrow> bool" where
  "close_to a b = (case b of None \<Rightarrow> False | Some y \<Rightarrow> isclose TOLERANCE TOLERANCE a y)"

definition selection_floats :: "selection \<Rightarrow> pyfloat list" where
  "selection_floats s = [behavior_probability s, target_probability s, importance_weight s,
     observed_outcome s, weighted_outcome s]"

definition selection_ok :: "selection \<Rightarrow> bool" where
  "selection_ok s =
     (\<not> blank (decision_ref s)
      \<and> (flt (Fin 0) (behavior_probability s) \<and> fle (behavior_probability s) (Fin 1))
      \<and> unit_interval (target_probability s)
      \<and> list_all isfinite (selection_floats s)
      \<and> \<not> flt (importance_weight s) (Fin 0)
      \<and> unit_interval (observed_outcome s)
      \<and> (fle (Fin 0) (weighted_outcome s) \<and> fle (weighted_outcome s) (importance_weight s))
      \<and> close_to (importance_weight s) (fdiv (target_probability s) (behavior_probability s))
      \<and> close_to (weighted_outcome s) (Some (fmul (observed_outcome s) (importance_weight s))))"

text \<open>The four sets the loop over the evidence fills.\<close>

record seen =
  lineages :: "string list"
  decisions :: "string list"
  sources :: "string list"
  roles :: "role list"

fun scan_evidence :: "evidence list \<Rightarrow> seen \<Rightarrow> (refusal, seen) result" where
  "scan_evidence [] s = Inr s"
| "scan_evidence (e # es) s =
     (if blank (causal_lineage_id e) \<or> causal_lineage_id e \<in> set (lineages s) \<or> blank (episode_ref e)
         \<or> \<not> is_sha256_digest (episode_digest e) \<or> ev_source_refs e = []
         \<or> ev_source_refs e \<noteq> canon (ev_source_refs e)
      then Inl \<lparr>ref_code = ''invalid_evidence'',
                ref_detail = ''evidence must have unique lineages, content identity, and unique source refs'',
                ref_retryable = False\<rparr>
      else let s1 = s\<lparr>lineages := causal_lineage_id e # lineages s, roles := ev_role e # roles s,
                      sources := ev_source_refs e @ sources s\<rparr>
           in if ev_role e \<noteq> HELD_OUT then scan_evidence es s1
              else case ev_selection e of
                None \<Rightarrow> Inl \<lparr>ref_code = ''missing_selection_evidence'',
                             ref_detail = ''held-out evidence requires W02 selection correction'',
                             ref_retryable = False\<rparr>
              | Some sel \<Rightarrow>
                  if \<not> selection_ok sel
                  then Inl \<lparr>ref_code = ''invalid_selection_evidence'',
                            ref_detail = ''W02 correction must be finite and have non-zero behavior support'',
                            ref_retryable = False\<rparr>
                  else scan_evidence es (s1\<lparr>decisions := decision_ref sel # decisions s1\<rparr>))"

definition validate_fit_request :: "fit_request \<Rightarrow> message_kind \<Rightarrow> refusal option" where
  "validate_fit_request b expected =
     (if contract b \<noteq> COMPETENCE_EXCHANGE_SCHEMA
      then refuse ''unsupported_contract'' (''unsupported contract '' @ contract b)
      else if message_kind_of b \<noteq> expected then refuse ''message_kind_mismatch'' (''expected '' @ kind_text expected)
      else if expected = FIT_REQUEST \<and> previous b \<noteq> None
      then refuse ''fit_has_previous_scorer'' ''fit cannot name a previous scorer''
      else if expected = REFIT_REQUEST \<and> previous b = None
      then refuse ''refit_missing_previous_scorer'' ''refit requires a previous scorer''
      else if (case previous b of None \<Rightarrow> False | Some p \<Rightarrow> \<not> previous_complete p)
      then refuse ''invalid_previous_scorer'' ''previous scorer identity is incomplete''
      else if blank (fit_operation_id b) \<or> 128 < length (fit_operation_id b)
      then refuse ''invalid_operation_id'' ''operation_id must contain 1 to 128 characters''
      else if blank (candidate_id (fit_scope b)) \<or> blank (candidate_lineage_id (fit_scope b)) \<or> evidence_list b = []
      then refuse ''incomplete_scope'' ''candidate scope and evidence are required''
      else if \<not> list_all is_sha256_digest [pack_content_hash (fit_scope b), training_corpus_digest b,
                                          evaluation_corpus_digest b]
      then refuse ''invalid_content_address'' ''package and corpus identities must be sha256 content addresses''
      else if training_corpus_digest b = evaluation_corpus_digest b
      then refuse ''corpus_overlap'' ''training and evaluation corpora must be distinct''
      else if \<not> isfinite (minimum_posterior_mean b) \<or> \<not> unit_interval (minimum_posterior_mean b)
      then refuse ''invalid_posterior_floor'' ''minimum_posterior_mean must be in [0, 1]''
      else if live_oracle_required b \<and> requested_oracle_class b \<noteq> LIVE
      then refuse ''live_oracle_mismatch'' ''live_oracle_required requires requested_oracle_class=live''
      else case scan_evidence (evidence_list b) \<lparr>lineages = [], decisions = [], sources = [], roles = []\<rparr> of
        Inl r \<Rightarrow> Some r
      | Inr s \<Rightarrow>
          if set (roles s) \<noteq> {TRAINING, HELD_OUT}
          then refuse ''incomplete_corpora'' ''fit requires training and held-out evidence''
          else if w02_decision_refs b \<noteq> canon (decisions s)
          then refuse ''decision_ref_mismatch'' ''w02_decision_refs must exactly summarize held-out evidence''
          else if source_evidence_refs b \<noteq> canon (sources s)
          then refuse ''source_ref_mismatch'' ''source_evidence_refs must exactly summarize exported evidence''
          else None)"

subsection \<open>The fitter\<close>

definition FITTER_VERSION :: string where "FITTER_VERSION = ''beta-bernoulli-ipw-v1''"
definition SCORER_MEDIA_TYPE :: string where
  "SCORER_MEDIA_TYPE = ''application/vnd.theorem.competence-scorer+json''"
definition PRIOR_PACK_MEDIA_TYPE :: string where
  "PRIOR_PACK_MEDIA_TYPE = ''application/vnd.theorem.prior-pack+json''"

text \<open>What fitting may raise: a refusal, the \<open>ValueError\<close> of a number that JSON cannot carry, a
  division by zero, or the validation error of the scorer.\<close>

datatype fit_error = FitRefusal string string | NotJsonNumber | ZeroDivision | InvalidScorer

definition scorer_id_of :: "fit_request \<Rightarrow> string" where
  "scorer_id_of r = ''capability-competence:'' @ take 32 (sha256_hex (utf8 (canonical_json (dump_scope (fit_scope r)))))"

definition beta_observe :: "beta \<Rightarrow> pyfloat \<Rightarrow> pyfloat \<Rightarrow> beta" where
  "beta_observe p outcome weight =
     \<lparr>alpha = fadd (alpha p) (fmul outcome weight),
      beta_par = fadd (beta_par p) (fmul (fsub (Fin 1) outcome) weight)\<rparr>"

definition learning_ok :: "selection \<Rightarrow> bool" where
  "learning_ok s =
     (list_all isfinite (selection_floats s)
      \<and> (flt (Fin 0) (behavior_probability s) \<and> fle (behavior_probability s) (Fin 1))
      \<and> unit_interval (target_probability s)
      \<and> \<not> flt (importance_weight s) (Fin 0)
      \<and> unit_interval (observed_outcome s)
      \<and> (fle (Fin 0) (weighted_outcome s) \<and> fle (weighted_outcome s) (importance_weight s)))"

fun validate_learning_evidence :: "evidence list \<Rightarrow> (fit_error, unit) result" where
  "validate_learning_evidence [] = Inr ()"
| "validate_learning_evidence (e # es) =
     (if ev_role e \<noteq> HELD_OUT then validate_learning_evidence es
      else case ev_selection e of
        None \<Rightarrow> Inl (FitRefusal ''missing_selection_evidence''
                     ''held-out competence evidence requires W02 selection evidence'')
      | Some s \<Rightarrow>
          if \<not> learning_ok s
          then Inl (FitRefusal ''invalid_selection_evidence''
                 ''selection probabilities and weighted outcomes must be finite probabilities'')
          else validate_learning_evidence es)"

definition starting_prior ::
  "fit_request \<Rightarrow> (scorer \<times> fit_request) option \<Rightarrow> (fit_error, beta) result" where
  "starting_prior r prev =
     (if message_kind_of r = FIT_REQUEST then Inr \<lparr>alpha = Fin 1, beta_par = Fin 1\<rparr>
      else case prev of
        None \<Rightarrow> Inl (FitRefusal ''previous_scorer_not_found''
                     ''refit requires the exact prior scorer inside this tenant and project'')
      | Some (ps, pr) \<Rightarrow>
          if (case previous r of None \<Rightarrow> True | Some p \<Rightarrow>
                prev_scorer_id p \<noteq> scorer_id ps \<or> prev_scorer_version p \<noteq> scorer_version ps
                \<or> prev_model_artifact_id p \<noteq> art_id (model_artifact ps)
                \<or> prev_prior_pack_id p \<noteq> prior_pack_id ps)
          then Inl (FitRefusal ''previous_scorer_mismatch'' ''refit previous scorer identity is not exact'')
          else if fit_scope pr \<noteq> fit_scope r
          then Inl (FitRefusal ''previous_scorer_scope_mismatch''
                 ''refit cannot move a scorer across package or candidate scope'')
          else if set (map causal_lineage_id (evidence_list pr)) \<inter> set (map causal_lineage_id (evidence_list r)) \<noteq> {}
          then Inl (FitRefusal ''refit_lineage_overlap''
                 ''refit evidence overlaps causal lineage already consumed by the prior scorer'')
          else Inr (posterior ps))"

definition with_role :: "role \<Rightarrow> evidence list \<Rightarrow> evidence list" where
  "with_role ro es = sort_key causal_lineage_id (filter (\<lambda>e. ev_role e = ro) es)"

definition observe_training :: "evidence list \<Rightarrow> beta \<Rightarrow> beta" where
  "observe_training es p =
     foldl (\<lambda>b e. beta_observe b (if survived e then Fin 1 else Fin 0) (Fin 1)) p (with_role TRAINING es)"

definition held_out_selections :: "evidence list \<Rightarrow> selection list" where
  "held_out_selections es = map (\<lambda>e. the (ev_selection e)) (with_role HELD_OUT es)"

definition observe_held_out :: "selection list \<Rightarrow> beta \<Rightarrow> beta" where
  "observe_held_out ss p = foldl (\<lambda>b s. beta_observe b (observed_outcome s) (importance_weight s)) p ss"

definition dump_beta :: "beta \<Rightarrow> json" where
  "dump_beta b = JObj [(''alpha'', JFloat (alpha b)), (''beta'', JFloat (beta_par b))]"

definition dump_previous_opt :: "previous_scorer option \<Rightarrow> json" where
  "dump_previous_opt p = (case p of None \<Rightarrow> JNull | Some x \<Rightarrow> dump_previous x)"

record fitted =
  fit_scorer :: scorer
  model_payload :: bytes
  prior_pack_payload :: bytes

definition need :: "'e \<Rightarrow> 'a option \<Rightarrow> ('e, 'a) result" where
  "need e v = (case v of None \<Rightarrow> Inl e | Some x \<Rightarrow> Inr x)"

definition artifact_of :: "string \<Rightarrow> string \<Rightarrow> bytes \<Rightarrow> content_artifact" where
  "artifact_of kind media payload = \<lparr>art_id = sha256_digest payload, art_kind = kind,
     art_digest = sha256_digest payload, art_media = media, art_bytes = length payload\<rparr>"

text \<open>The two payloads, the receipt and the scorer, from what the observations gave.\<close>

definition prior_pack_value :: "fit_request \<Rightarrow> string \<Rightarrow> beta \<Rightarrow> json" where
  "prior_pack_value r digest p = JObj [(''schema'', JStr ''theorem.competence-prior-pack.v1''),
     (''fitter_version'', JStr FITTER_VERSION), (''request_digest'', JStr digest),
     (''scope'', dump_scope (fit_scope r)), (''training_corpus_digest'', JStr (training_corpus_digest r)),
     (''prior'', dump_beta p),
     (''training_lineage_ids'', strings (map causal_lineage_id (with_role TRAINING (evidence_list r)))),
     (''previous_scorer'', dump_previous_opt (previous r))]"

definition scorer_version_of :: "string \<Rightarrow> string" where
  "scorer_version_of digest = FITTER_VERSION @ '':'' @ take 24 (removeprefix SHA256_PREFIX digest)"

definition lineage_ids :: "fit_request \<Rightarrow> string list" where
  "lineage_ids r = sort (map causal_lineage_id (with_role HELD_OUT (evidence_list r)))"

definition decision_refs :: "fit_request \<Rightarrow> string list" where
  "decision_refs r = sort (map decision_ref (held_out_selections (evidence_list r)))"

definition model_value :: "fit_request \<Rightarrow> string \<Rightarrow> string \<Rightarrow> beta \<Rightarrow> beta \<Rightarrow> json" where
  "model_value r digest pack_id p q = JObj [(''schema'', JStr ''theorem.competence-scorer.v1''),
     (''fitter_version'', JStr FITTER_VERSION), (''scorer_id'', JStr (scorer_id_of r)),
     (''scorer_version'', JStr (scorer_version_of digest)), (''request_digest'', JStr digest),
     (''scope'', dump_scope (fit_scope r)), (''training_corpus_digest'', JStr (training_corpus_digest r)),
     (''evaluation_corpus_digest'', JStr (evaluation_corpus_digest r)), (''prior_pack_id'', JStr pack_id),
     (''prior'', dump_beta p), (''posterior'', dump_beta q),
     (''distinct_lineage_ids'', strings (lineage_ids r)),
     (''selection_decision_refs'', strings (decision_refs r)),
     (''previous_scorer'', dump_previous_opt (previous r))]"

definition receipt_of :: "fit_request \<Rightarrow> string \<Rightarrow> string \<Rightarrow> string \<Rightarrow> beta \<Rightarrow> beta \<Rightarrow> receipt" where
  "receipt_of r digest model_digest pack_id p q =
     \<lparr>rc_kind = ''capability_competence'', rc_model_id = scorer_id_of r, rc_prior = dump_beta p,
      rc_observations = JList (map dump_selection (held_out_selections (evidence_list r))),
      rc_posterior = dump_beta q,
      rc_metadata = JObj [(''scope'', JObj [(''tenant_id'', JStr (uuid_str (scope_tenant (fit_scope r)))),
                                        (''project_id'', JStr (uuid_str (scope_project (fit_scope r))))]),
        (''pack_content_hash'', JStr (pack_content_hash (fit_scope r))),
        (''candidate_id'', JStr (candidate_id (fit_scope r))),
        (''candidate_lineage_id'', JStr (candidate_lineage_id (fit_scope r))),
        (''evaluation_corpus_digest'', JStr (evaluation_corpus_digest r)),
        (''scorer_version'', JStr (scorer_version_of digest)), (''model_artifact_hash'', JStr model_digest),
        (''prior_pack_id'', JStr pack_id), (''distinct_lineage_ids'', strings (lineage_ids r)),
        (''selection_decision_refs'', strings (decision_refs r))],
      receipt_hash = []\<rparr>"

definition fit_competence ::
  "fit_request \<Rightarrow> string \<Rightarrow> (scorer \<times> fit_request) option \<Rightarrow> (fit_error, fitted) result" where
  "fit_competence r digest prev =
     rbind (validate_learning_evidence (evidence_list r)) (\<lambda>_.
     rbind (starting_prior r prev) (\<lambda>p0.
     let p = observe_training (evidence_list r) p0;
         q = observe_held_out (held_out_selections (evidence_list r)) p
     in rbind (need NotJsonNumber (canonical_json_bytes (prior_pack_value r digest p))) (\<lambda>pack_bytes.
        let pack_id = sha256_digest pack_bytes in
        rbind (need NotJsonNumber (canonical_json_bytes (model_value r digest pack_id p q))) (\<lambda>model_bytes.
        let rc = receipt_of r digest (sha256_digest model_bytes) pack_id p q in
        rbind (need NotJsonNumber (canonical_hex_digest (receipt_payload rc))) (\<lambda>h.
        rbind (need ZeroDivision (fdiv (alpha q) (fadd (alpha q) (beta_par q)))) (\<lambda>mean.
        let s = \<lparr>scorer_id = scorer_id_of r, scorer_version = scorer_version_of digest,
                 model_artifact = artifact_of ''scorer_model'' SCORER_MEDIA_TYPE model_bytes,
                 prior_pack_id = pack_id,
                 prior_pack_artifact = artifact_of ''prior_pack'' PRIOR_PACK_MEDIA_TYPE pack_bytes,
                 prior = p, posterior = q, posterior_receipt = rc\<lparr>receipt_hash := h\<rparr>,
                 sc_minimum = minimum_posterior_mean r, distinct_lineage_ids = lineage_ids r,
                 selection_decision_refs = decision_refs r, oracle_class = requested_oracle_class r,
                 evidence_class_of = requested_oracle_class r,
                 sc_substitution_allowed = substitution_allowed r, sc_live_required = live_oracle_required r,
                 accepted = fle (minimum_posterior_mean r) mean\<rparr>
        in if scorer_valid s
           then Inr \<lparr>fit_scorer = s, model_payload = model_bytes, prior_pack_payload = pack_bytes\<rparr>
           else Inl InvalidScorer))))))"

subsection \<open>What an accepted request satisfies\<close>

text \<open>The evidence conditions the scan enforces on one item.\<close>

definition item_ok :: "evidence \<Rightarrow> bool" where
  "item_ok e \<longleftrightarrow> \<not> blank (causal_lineage_id e) \<and> \<not> blank (episode_ref e) \<and> is_sha256_digest (episode_digest e)
     \<and> ev_source_refs e \<noteq> [] \<and> sorted (ev_source_refs e) \<and> distinct (ev_source_refs e)
     \<and> (ev_role e = HELD_OUT \<longrightarrow> (\<exists>s. ev_selection e = Some s \<and> selection_ok s))"

definition held_refs :: "evidence list \<Rightarrow> string set" where
  "held_refs es = {decision_ref s | e s. e \<in> set es \<and> ev_role e = HELD_OUT \<and> ev_selection e = Some s}"

lemma held_refs_simps [simp]:
  "held_refs [] = {}"
  "held_refs (e # es) = (case ev_selection e of
      Some s \<Rightarrow> if ev_role e = HELD_OUT then insert (decision_ref s) (held_refs es) else held_refs es
    | None \<Rightarrow> held_refs es)"
  by (auto simp: held_refs_def split: option.splits)

lemma scan_evidence_Inr:
  assumes "scan_evidence es s = Inr s'"
  shows "(\<forall>e \<in> set es. item_ok e) \<and> distinct (map causal_lineage_id es)
    \<and> set (map causal_lineage_id es) \<inter> set (lineages s) = {}
    \<and> set (roles s') = set (map ev_role es) \<union> set (roles s)
    \<and> set (decisions s') = held_refs es \<union> set (decisions s)
    \<and> set (sources s') = (\<Union>e \<in> set es. set (ev_source_refs e)) \<union> set (sources s)"
  using assms
proof (induction es arbitrary: s)
  case (Cons e es)
  let ?s1 = "s\<lparr>lineages := causal_lineage_id e # lineages s, roles := ev_role e # roles s,
                      sources := ev_source_refs e @ sources s\<rparr>"
  have head: "\<not> blank (causal_lineage_id e)" "causal_lineage_id e \<notin> set (lineages s)" "\<not> blank (episode_ref e)"
    "is_sha256_digest (episode_digest e)" "ev_source_refs e \<noteq> []" "ev_source_refs e = canon (ev_source_refs e)"
    using Cons.prems by (auto simp: Let_def split: if_splits)
  show ?case
  proof (cases "ev_role e = HELD_OUT")
    case False
    with Cons.prems head have "scan_evidence es ?s1 = Inr s'" by simp
    from Cons.IH [OF this] head False show ?thesis
      by (auto simp: item_ok_def canon_fixed_iff split: option.split)
  next
    case True
    with Cons.prems head obtain sel where sel: "ev_selection e = Some sel" "selection_ok sel"
      and rest: "scan_evidence es (?s1\<lparr>decisions := decision_ref sel # decisions ?s1\<rparr>) = Inr s'"
      by (auto simp: Let_def split: option.splits if_splits)
    from Cons.IH [OF rest] head True sel show ?thesis
      by (auto simp: item_ok_def canon_fixed_iff)
  qed
qed simp

text \<open>C22. What an accepted fit or refit request guarantees the fitter: distinct lineages, training and
  held-out evidence, a complete correction with every held-out item, distinct corpora, a floor in
  [0, 1], and reference lists that are exactly the sorted references of the evidence.\<close>

theorem accepted_request:
  assumes "validate_fit_request b kind = None"
  shows "distinct (map causal_lineage_id (evidence_list b)) \<and> (\<forall>e \<in> set (evidence_list b). item_ok e)
    \<and> ev_role ` set (evidence_list b) = {TRAINING, HELD_OUT}
    \<and> w02_decision_refs b = sorted_list_of_set (held_refs (evidence_list b))
    \<and> source_evidence_refs b = sorted_list_of_set (\<Union>e \<in> set (evidence_list b). set (ev_source_refs e))
    \<and> training_corpus_digest b \<noteq> evaluation_corpus_digest b
    \<and> isfinite (minimum_posterior_mean b) \<and> unit_interval (minimum_posterior_mean b)
    \<and> message_kind_of b = kind \<and> (previous b = None \<longleftrightarrow> kind = FIT_REQUEST)
    \<and> (live_oracle_required b \<longrightarrow> requested_oracle_class b = LIVE)"
proof -
  have refuse: "refuse c d \<noteq> None" for c d by (simp add: refuse_def)
  from assms obtain s where s: "scan_evidence (evidence_list b) \<lparr>lineages = [], decisions = [], sources = [], roles = []\<rparr> = Inr s"
    and r: "set (roles s) = {TRAINING, HELD_OUT}" and w: "w02_decision_refs b = canon (decisions s)"
    and q: "source_evidence_refs b = canon (sources s)"
    and rest: "training_corpus_digest b \<noteq> evaluation_corpus_digest b"
      "isfinite (minimum_posterior_mean b)" "unit_interval (minimum_posterior_mean b)"
      "message_kind_of b = kind" "live_oracle_required b \<longrightarrow> requested_oracle_class b = LIVE"
      "kind = FIT_REQUEST \<longrightarrow> previous b = None" "kind = REFIT_REQUEST \<longrightarrow> previous b \<noteq> None"
    unfolding validate_fit_request_def
    by (simp add: refuse split: if_split_asm sum.split_asm)
  have c: "canon xs = sorted_list_of_set (set xs)" for xs :: "string list"
    by (simp add: canon_def sorted_list_of_set_sort_remdups)
  from scan_evidence_Inr [OF s] r rest show ?thesis
    unfolding w q c by (cases kind) auto
qed

subsection \<open>The fitter only adds evidence\<close>

text \<open>A running sum: a double of at least \<open>a\<close>, or an overflow to infinity.\<close>

definition above :: "rat \<Rightarrow> pyfloat \<Rightarrow> bool" where
  "above a x \<longleftrightarrow> x = PInf \<or> (\<exists>v. x = Fin v \<and> is_double v \<and> a \<le> v)"

lemma above_fl: "is_double a \<Longrightarrow> a \<le> x \<Longrightarrow> above a (fl x)"
  by (cases "fl x") (auto simp: above_def fl_is_double dest: fl_ge)

lemma above_sum: "is_double v \<Longrightarrow> a \<le> v \<Longrightarrow> 0 \<le> u \<Longrightarrow> above a (fl (v + u))"
  using above_fl [of v "v + u"] by (auto simp: above_def)

lemma above_PInf [simp]: "above a PInf"
  by (simp add: above_def)

lemma above_fadd:
  assumes "above a x" "above 0 y"
  shows "above a (fadd x y)"
proof (cases "x = PInf \<or> y = PInf")
  case True
  then have "fadd x y = PInf" using assms by (auto simp: above_def)
  then show ?thesis by simp
next
  case False
  with assms obtain v u where "x = Fin v" "is_double v" "a \<le> v" "y = Fin u" "0 \<le> u"
    by (auto simp: above_def)
  then show ?thesis using above_sum by simp
qed

lemma above_fmul: "0 \<le> x \<Longrightarrow> 0 \<le> y \<Longrightarrow> above 0 (fl (x * y))"
  using above_fl [of 0 "x * y"] by simp

lemma fsub_unit:
  assumes "0 \<le> x" "x \<le> 1"
  obtains v where "fsub (Fin 1) (Fin x) = Fin v" "0 \<le> v"
proof (cases "fl (1 - x)")
  case (Fin v)
  then have "0 \<le> v" using fl_ge(2) [of 0 "1 - x" v] assms by simp
  with Fin that show thesis by (simp add: fsub_def)
next
  case PInf
  then show thesis using fl_le(1) [of 1 "1 - x"] assms by simp
next
  case NInf
  then show thesis using fl_ge(1) [of 0 "1 - x"] assms by simp
qed simp

definition beta_above :: "rat \<Rightarrow> rat \<Rightarrow> beta \<Rightarrow> bool" where
  "beta_above a b p \<longleftrightarrow> above a (alpha p) \<and> above b (beta_par p)"

lemma beta_above_observe:
  assumes "beta_above a b p" "0 \<le> x" "x \<le> 1" "0 \<le> w"
  shows "beta_above a b (beta_observe p (Fin x) (Fin w))"
proof -
  obtain v where "fsub (Fin 1) (Fin x) = Fin v" "0 \<le> v" using assms(2,3) by (rule fsub_unit)
  then show ?thesis
    using assms by (auto simp: beta_above_def beta_observe_def intro!: above_fadd above_fmul)
qed

lemma observe_training_above: "beta_above a b p \<Longrightarrow> beta_above a b (observe_training es p)"
proof -
  have "beta_above a b (foldl (\<lambda>b e. beta_observe b (if survived e then Fin 1 else Fin 0) (Fin 1)) p xs)"
    if "beta_above a b p" for xs
    using that
  proof (induction xs arbitrary: p)
    case (Cons e xs)
    then have "beta_above a b (beta_observe p (if survived e then Fin 1 else Fin 0) (Fin 1))"
      by (simp add: beta_above_observe)
    with Cons.IH show ?case by simp
  qed simp
  then show "beta_above a b p \<Longrightarrow> ?thesis" by (simp add: observe_training_def)
qed

lemma unit_intervalD: "unit_interval x \<Longrightarrow> \<exists>v. x = Fin v \<and> 0 \<le> v \<and> v \<le> 1"
  by (cases x) (auto simp: unit_interval_def)

lemma learning_okD:
  assumes "learning_ok s"
  obtains x w where "observed_outcome s = Fin x" "0 \<le> x" "x \<le> 1" "importance_weight s = Fin w" "0 \<le> w"
proof -
  have "isfinite (importance_weight s)" "\<not> flt (importance_weight s) (Fin 0)" "unit_interval (observed_outcome s)"
    using assms by (auto simp: learning_ok_def selection_floats_def)
  with that show thesis by (auto simp: isfinite_iff dest!: unit_intervalD)
qed

lemma observe_held_out_above:
  assumes "\<forall>s \<in> set ss. learning_ok s" "beta_above a b p"
  shows "beta_above a b (observe_held_out ss p)"
  using assms
proof (induction ss arbitrary: p)
  case (Cons s ss)
  from Cons.prems(1) have "learning_ok s" by simp
  then obtain x w where "observed_outcome s = Fin x" "0 \<le> x" "x \<le> 1" "importance_weight s = Fin w" "0 \<le> w"
    by (rule learning_okD)
  then have "beta_above a b (beta_observe p (observed_outcome s) (importance_weight s))"
    using beta_above_observe [OF Cons.prems(2)] by simp
  with Cons show ?case by (simp add: observe_held_out_def)
qed (simp add: observe_held_out_def)

lemma validate_learning_iff:
  "validate_learning_evidence es = Inr () \<longleftrightarrow>
     (\<forall>e \<in> set es. ev_role e = HELD_OUT \<longrightarrow> (\<exists>s. ev_selection e = Some s \<and> learning_ok s))"
  by (induction es) (auto split: option.splits)

lemma set_with_role [simp]: "set (with_role ro es) = {e \<in> set es. ev_role e = ro}"
  by (simp add: with_role_def)

lemma held_out_learning:
  "validate_learning_evidence es = Inr () \<Longrightarrow> \<forall>s \<in> set (held_out_selections es). learning_ok s"
  by (auto simp: validate_learning_iff held_out_selections_def)

text \<open>The success of the fitter.\<close>

lemma fit_competence_ok:
  assumes "fit_competence r digest prev = Inr f"
  obtains p0 where "validate_learning_evidence (evidence_list r) = Inr ()" "starting_prior r prev = Inr p0"
    "prior (fit_scorer f) = observe_training (evidence_list r) p0"
    "posterior (fit_scorer f) = observe_held_out (held_out_selections (evidence_list r)) (prior (fit_scorer f))"
    "scorer_valid (fit_scorer f)"
    "distinct_lineage_ids (fit_scorer f) = lineage_ids r" "selection_decision_refs (fit_scorer f) = decision_refs r"
    "model_artifact (fit_scorer f) = artifact_of ''scorer_model'' SCORER_MEDIA_TYPE (model_payload f)"
    "prior_pack_artifact (fit_scorer f) = artifact_of ''prior_pack'' PRIOR_PACK_MEDIA_TYPE (prior_pack_payload f)"
  using assms unfolding fit_competence_def Let_def
  by (auto simp: result_simps split: if_splits)


text \<open>A request with one training item and one held-out item for each of the given lineages, all
  decided by the same decision.\<close>

definition demo_digest :: "char \<Rightarrow> string" where
  "demo_digest c = SHA256_PREFIX @ replicate 64 c"

definition demo_item :: "role \<Rightarrow> string \<Rightarrow> evidence" where
  "demo_item ro l = \<lparr>causal_lineage_id = l, ev_role = ro, episode_ref = ''e'', episode_digest = demo_digest (CHR ''0''),
     survived = True, ev_source_refs = [''s''],
     ev_selection = (if ro = TRAINING then None else
       Some \<lparr>decision_ref = ''d'', policy_id = ''p'', policy_version = 1, seed = 1, behavior_probability = Fin 1,
             target_probability = Fin 1, importance_weight = Fin 1, observed_outcome = Fin 1,
             weighted_outcome = Fin 1\<rparr>)\<rparr>"

definition demo_request :: "string list \<Rightarrow> fit_request" where
  "demo_request ls = \<lparr>contract = COMPETENCE_EXCHANGE_SCHEMA, message_kind_of = FIT_REQUEST, fit_operation_id = ''op'',
     fit_scope = \<lparr>scope_tenant = 1, scope_project = 2, pack_content_hash = demo_digest (CHR ''0''), candidate_id = ''c'',
       candidate_lineage_id = ''cl''\<rparr>,
     training_corpus_digest = demo_digest (CHR ''1''), evaluation_corpus_digest = demo_digest (CHR ''2''),
     evidence_list = demo_item TRAINING ''a'' # map (demo_item HELD_OUT) ls,
     w02_decision_refs = [''d''], source_evidence_refs = [''s''], previous = None, minimum_posterior_mean = Fin 0,
     requested_oracle_class = LOCAL, substitution_allowed = False, live_oracle_required = False\<rparr>"

lemma demo_digest_ok: "is_sha256_digest (demo_digest (CHR ''0''))" "is_sha256_digest (demo_digest (CHR ''1''))"
  "is_sha256_digest (demo_digest (CHR ''2''))"
  by (simp_all add: is_sha256_digest_iff demo_digest_def is_hex64_def hexdigits_def list_all_iff)

lemma demo_digest_neq: "demo_digest (CHR ''1'') \<noteq> demo_digest (CHR ''2'')"
  by (simp add: demo_digest_def)

lemma fl_small [simp]: "fl 0 = Fin 0" "fl 1 = Fin 1" "fl 2 = Fin 2" "fl 3 = Fin 3" "fl 4 = Fin 4"
  using fl_double [of 0] fl_double [of 1] fl_double [OF is_double_of_int [of 2]] fl_double [OF is_double_of_int [of 3]]
    fl_double [OF is_double_of_int [of 4]] by simp_all

lemma demo_selection_ok: "selection_ok (the (ev_selection (demo_item HELD_OUT l)))"
  by (simp add: demo_item_def selection_ok_def blank_iff py_isspace_def unit_interval_def selection_floats_def
      isfinite_def close_to_def isclose_def feq_def)

lemma demo_accepted: "validate_fit_request (demo_request [''b'']) FIT_REQUEST = None"
  "validate_fit_request (demo_request [''b'', ''c'']) FIT_REQUEST = None"
  using demo_selection_ok
  by (simp_all add: validate_fit_request_def demo_request_def demo_item_def demo_digest_ok blank_iff py_isspace_def
      unit_interval_def isfinite_def canon_def demo_digest_neq insert_commute)

theorem accepted_request_witness:
  "validate_fit_request (demo_request [''b'']) FIT_REQUEST = None
   \<and> w02_decision_refs (demo_request [''b'']) = sorted_list_of_set (held_refs (evidence_list (demo_request [''b''])))"
  using accepted_request [OF demo_accepted(1)] demo_accepted(1) by blast

lemma demo_not_blank: "\<not> blank (scorer_id_of r)" "\<not> blank (scorer_version_of d)" "\<not> blank SCORER_MEDIA_TYPE"
  "\<not> blank PRIOR_PACK_MEDIA_TYPE"
  by (auto simp: scorer_id_of_def scorer_version_of_def FITTER_VERSION_def SCORER_MEDIA_TYPE_def
      PRIOR_PACK_MEDIA_TYPE_def blank_iff py_isspace_def)

lemma sha256_digest_not_blank [simp]: "\<not> blank (sha256_digest m)"
  by (simp add: sha256_digest_def SHA256_PREFIX_def blank_iff py_isspace_def)

lemma receipt_valid_receipt_of:
  "canonical_hex_digest (receipt_payload (receipt_of r d m p x y)) = Some h
    \<Longrightarrow> receipt_valid (receipt_of r d m p x y\<lparr>receipt_hash := h\<rparr>)"
  using demo_not_blank(1) [of r]
  by (auto simp: receipt_valid_def receipt_of_def receipt_payload_def canonical_hex_digest_def canonical_json_bytes_def
      blank_iff py_isspace_def split: if_splits)

lemma demo_learning: "validate_learning_evidence (evidence_list (demo_request ls)) = Inr ()"
  by (auto simp: validate_learning_iff demo_request_def demo_item_def learning_ok_def selection_floats_def isfinite_def
      unit_interval_def)

lemma demo_fit: "\<exists>f. fit_competence (demo_request [''b'']) d None = Inr f"
proof -
  let ?r = "demo_request [''b'']"
  let ?p = "\<lparr>alpha = Fin 2, beta_par = Fin 1\<rparr>" and ?q = "\<lparr>alpha = Fin 3, beta_par = Fin 1\<rparr>"
  have start: "starting_prior ?r None = Inr \<lparr>alpha = Fin 1, beta_par = Fin 1\<rparr>"
    by (simp add: starting_prior_def demo_request_def)
  have p: "observe_training (evidence_list ?r) \<lparr>alpha = Fin 1, beta_par = Fin 1\<rparr> = ?p"
    by (simp add: observe_training_def with_role_def demo_request_def demo_item_def beta_observe_def fsub_def)
  have h: "held_out_selections (evidence_list ?r) = [the (ev_selection (demo_item HELD_OUT ''b''))]"
    by (simp add: held_out_selections_def with_role_def demo_request_def demo_item_def)
  have q: "observe_held_out (held_out_selections (evidence_list ?r)) ?p = ?q"
    unfolding h by (simp add: observe_held_out_def demo_item_def beta_observe_def fsub_def)
  obtain pb where pb: "canonical_json_bytes (prior_pack_value ?r d ?p) = Some pb"
    by (simp add: canonical_json_bytes_def prior_pack_value_def dump_scope_def dump_beta_def isfinite_def strings_def
        dump_previous_opt_def demo_request_def list_all_iff)
  obtain mb where mb: "canonical_json_bytes (model_value ?r d (sha256_digest pb) ?p ?q) = Some mb"
    by (simp add: canonical_json_bytes_def model_value_def dump_scope_def dump_beta_def isfinite_def strings_def
        dump_previous_opt_def demo_request_def list_all_iff)
  obtain hh where hh: "canonical_hex_digest (receipt_payload (receipt_of ?r d (sha256_digest mb) (sha256_digest pb) ?p ?q)) = Some hh"
    by (simp add: canonical_hex_digest_def canonical_json_bytes_def receipt_payload_def receipt_of_def dump_beta_def
        isfinite_def strings_def list_all_iff h demo_item_def dump_selection_def)
  have refs: "decision_refs ?r = [''d'']" "lineage_ids ?r = [''b'']"
    unfolding decision_refs_def h
    by (simp_all add: lineage_ids_def with_role_def demo_request_def demo_item_def)
  have fields: "minimum_posterior_mean ?r = Fin 0" "live_oracle_required ?r = False" "requested_oracle_class ?r = LOCAL"
    by (simp_all add: demo_request_def)
  have rid: "rc_model_id (receipt_of ?r d m k x y) = scorer_id_of ?r" for m k x y
    by (simp add: receipt_of_def)
  show ?thesis
    by (simp add: fit_competence_def demo_learning start p q pb mb hh need_def Let_def scorer_valid_def
        artifact_valid_def artifact_of_def demo_not_blank beta_valid_def isfinite_def receipt_valid_receipt_of [OF hh]
        rid fields unit_interval_def refs canon_def)
qed


subsection \<open>The order of the evidence does not matter\<close>

lemma with_role_perm:
  assumes "mset es = mset es'" "distinct (map causal_lineage_id es)"
  shows "with_role ro es = with_role ro es'"
proof -
  let ?P = "\<lambda>e. ev_role e = ro"
  have m: "mset (filter ?P es) = mset (filter ?P es')" using assms(1) by (simp add: mset_filter)
  have "inj_on causal_lineage_id (set (filter ?P es))"
    using assms(2) by (auto simp: distinct_map intro: inj_on_subset)
  moreover have "set (filter ?P es') = set (filter ?P es)" using m by (metis set_mset_mset)
  ultimately show ?thesis
    unfolding with_role_def using m by (intro sort_key_inj_key_eq) auto
qed

text \<open>C23. The fitter is a function of the evidence as a set: two requests that differ only in the order
  in which the evidence is listed are fitted to the same scorer and the same artifact bytes.\<close>

theorem fit_order_independent:
  assumes "fit_competence r digest prev = Inr f" and "distinct (map causal_lineage_id (evidence_list r))"
    and "mset es = mset (evidence_list r)"
  shows "fit_competence (r\<lparr>evidence_list := es\<rparr>) digest prev = Inr f"
proof -
  let ?r = "r\<lparr>evidence_list := es\<rparr>"
  have set: "set es = set (evidence_list r)" using assms(3) by (metis set_mset_mset)
  have w: "with_role ro es = with_role ro (evidence_list r)" for ro
    using with_role_perm [OF assms(3) [symmetric] assms(2)] by simp
  have h: "held_out_selections es = held_out_selections (evidence_list r)"
    and t: "observe_training es = observe_training (evidence_list r)"
    by (simp_all add: held_out_selections_def observe_training_def w fun_eq_iff)
  have l: "validate_learning_evidence es = Inr ()"
    using fit_competence_ok [OF assms(1)] set by (metis validate_learning_iff)
  have s: "starting_prior ?r prev = starting_prior r prev"
    by (cases prev) (simp_all add: starting_prior_def set split: prod.split)
  have vals: "prior_pack_value ?r = prior_pack_value r" "model_value ?r = model_value r" "receipt_of ?r = receipt_of r"
    "lineage_ids ?r = lineage_ids r" "decision_refs ?r = decision_refs r" "scorer_id_of ?r = scorer_id_of r"
    by (simp_all add: prior_pack_value_def model_value_def receipt_of_def lineage_ids_def decision_refs_def
        scorer_id_of_def w h fun_eq_iff)
  have lr: "validate_learning_evidence (evidence_list r) = Inr ()"
    using assms(1) by (rule fit_competence_ok)
  show ?thesis
    using assms(1) unfolding fit_competence_def by (simp add: l lr s vals h t)
qed

theorem fit_order_independent_witness:
  "\<exists>f. fit_competence (demo_request [''b'']) ''sha256:0'' None = Inr f
     \<and> fit_competence ((demo_request [''b''])\<lparr>evidence_list := [demo_item HELD_OUT ''b'', demo_item TRAINING ''a'']\<rparr>)
         ''sha256:0'' None = Inr f"
proof -
  obtain f where f: "fit_competence (demo_request [''b'']) ''sha256:0'' None = Inr f" using demo_fit by blast
  have d: "distinct (map causal_lineage_id (evidence_list (demo_request [''b''])))"
    by (simp add: demo_request_def demo_item_def)
  have m: "mset [demo_item HELD_OUT ''b'', demo_item TRAINING ''a''] = mset (evidence_list (demo_request [''b'']))"
    by (simp add: demo_request_def)
  from fit_order_independent [OF f d m] f show ?thesis by blast
qed

text \<open>A decision that selected two held-out items is never fitted: the fitter lists the decision
  references of the items with their repetitions, and the scorer schema refuses such a list. The
  request itself is accepted, since the endpoint compares its references as a set.\<close>

theorem shared_decision_not_fitted:
  assumes "\<not> distinct (map decision_ref (held_out_selections (evidence_list r)))"
  shows "fit_competence r digest prev \<noteq> Inr f"
proof
  assume fit: "fit_competence r digest prev = Inr f"
  have "scorer_valid (fit_scorer f)" "selection_decision_refs (fit_scorer f) = decision_refs r"
    using fit by (rule fit_competence_ok, simp)+
  then have "decision_refs r = canon (decision_refs r)" by (simp add: scorer_valid_def)
  then have "distinct (decision_refs r)" by (metis distinct_canon)
  with assms show False by (simp add: decision_refs_def distinct_map)
qed

theorem shared_decision_not_fitted_witness:
  "validate_fit_request (demo_request [''b'', ''c'']) FIT_REQUEST = None
   \<and> \<not> is_ok (fit_competence (demo_request [''b'', ''c'']) ''sha256:0'' None)"
proof -
  have "\<not> distinct (map decision_ref (held_out_selections (evidence_list (demo_request [''b'', ''c'']))))"
    by (simp add: held_out_selections_def with_role_def demo_request_def demo_item_def)
  from shared_decision_not_fitted [OF this] demo_accepted(2) show ?thesis
    by (auto simp: is_ok_def split: sum.split)
qed

end
