(* ===== verification/Competence_Jobs.thy ===== *)
theory Competence_Jobs
  imports Competence Offload
begin

section \<open>Competence jobs: endpoints, task and sweep\<close>

text \<open>
  The job rows of \<open>apps/competence/models.py\<close>, the endpoints of \<open>api.py\<close> (fit, refit, status,
  cleanup) and the Celery tasks of \<open>tasks.py\<close> (the fit task and the sleep-cycle sweep). A
  request and a scorer are stored as the records of \<open>Competence\<close>: what \<open>model_dump\<close> writes
  into a JSON column \<open>model_validate\<close> reads back, so that only the validators can fail. A
  transaction that locks the row is one step; a call of the object store acts on the whole
  world, so whatever else runs meanwhile is part of what the call does.
\<close>

subsection \<open>Rows and world\<close>

datatype fit_operation = FIT | REFIT

fun operation_kind :: "fit_operation \<Rightarrow> message_kind" where
  "operation_kind FIT = FIT_REQUEST"
| "operation_kind REFIT = REFIT_REQUEST"

datatype fit_status = FitQueued | FitRunning | FitSucceeded | FitFailed | FitRefused | FitCanceled

record cleanup_request =
  cl_contract :: string
  cleanup_operation_id :: string
  cl_job_id :: uuid
  cl_scope :: scope
  cl_artifact_ids :: "string list"

record cleanup_receipt =
  receipt_id :: string
  rcpt_operation_id :: string
  rcpt_digest :: string
  rcpt_job_id :: uuid
  rcpt_scope :: scope
  rcpt_artifact_ids :: "string list"
  cleaned :: bool
  rcpt_reused :: bool

record competence_job =
  cj_id :: uuid
  cj_tenant :: uuid
  cj_project :: uuid
  cj_operation :: fit_operation
  cj_operation_id :: string
  request_digest :: string
  request_json :: fit_request
  cj_status :: fit_status
  cj_task_id :: string
  attempt_count :: nat
  scorer_json :: "scorer option"
  refusal_json :: "refusal option"
  artifact_keys_json :: json
  cleanup_request_digest :: string
  cleanup_receipt_json :: "cleanup_receipt option"
  cj_error :: string
  cj_started_at :: "time option"
  cj_ended_at :: "time option"
  cj_created_at :: time
  cj_updated_at :: time

text \<open>\<open>cqueue\<close> holds the job ids sent to the broker as fit messages; \<open>elsewhere\<close> is the object store
  and whatever else the calls act on.\<close>

record 'x cworld =
  cjobs :: "competence_job list"
  cqueue :: "uuid list"
  elsewhere :: 'x

record 'x cenv =
  ce_cfg :: s3_settings
  ce_s3 :: "'x cworld s3_client"
  ce_now :: "'x cworld \<Rightarrow> time"
  broker_up :: "'x cworld \<Rightarrow> bool"
  error_text :: "fit_error \<Rightarrow> string"
  stale_after :: int
  sweep_batch :: nat

definition get_fit :: "'x cworld \<Rightarrow> uuid \<Rightarrow> competence_job option" where
  "get_fit w j = row_of cj_id (cjobs w) j"

text \<open>A save with \<open>updated_at\<close> among its fields, of the row of \<open>j\<close> as it is at that moment.\<close>

definition modify_fit :: "'x cenv \<Rightarrow> uuid \<Rightarrow> (competence_job \<Rightarrow> competence_job) \<Rightarrow> 'x cworld \<Rightarrow> 'x cworld" where
  "modify_fit env j f w =
     w\<lparr>cjobs := map (\<lambda>r. if cj_id r = j then (f r)\<lparr>cj_updated_at := ce_now env w\<rparr> else r) (cjobs w)\<rparr>"

subsection \<open>Submission\<close>

datatype fit_http = CHttp http_error | CRefused nat refusal | CCrash string

definition refuse_with :: "nat \<Rightarrow> string \<Rightarrow> string \<Rightarrow> fit_http" where
  "refuse_with code name detail = CRefused code \<lparr>ref_code = name, ref_detail = detail, ref_retryable = False\<rparr>"

definition retry_with :: "nat \<Rightarrow> string \<Rightarrow> string \<Rightarrow> fit_http" where
  "retry_with code name detail = CRefused code \<lparr>ref_code = name, ref_detail = detail, ref_retryable = True\<rparr>"

record submission_receipt =
  sub_job :: uuid
  sub_operation_id :: string
  sub_digest :: string
  sub_status :: fit_status
  sub_reused :: bool

definition submission_of :: "competence_job \<Rightarrow> bool \<Rightarrow> submission_receipt" where
  "submission_of r reused = \<lparr>sub_job = cj_id r, sub_operation_id = cj_operation_id r,
     sub_digest = request_digest r, sub_status = cj_status r, sub_reused = reused\<rparr>"

text \<open>A broker outage is logged; the durable row waits for the sweep.\<close>

definition dispatch_competence_job :: "'x cenv \<Rightarrow> uuid \<Rightarrow> 'x cworld \<Rightarrow> 'x cworld" where
  "dispatch_competence_job env j w = (if broker_up env w then w\<lparr>cqueue := cqueue w @ [j]\<rparr> else w)"

text \<open>The checks of \<open>_submit\<close> before its transaction: key, contract, tenant, project.\<close>

definition fit_admits ::
  "api_ctx \<Rightarrow> project list \<Rightarrow> string \<Rightarrow> fit_request \<Rightarrow> message_kind \<Rightarrow> (fit_http, uuid \<times> uuid) result" where
  "fit_admits c projects authorization body expected =
     rbind (map_err CHttp (admit c authorization COMPETENCE_FIT_SCOPE)) (\<lambda>t.
       case validate_fit_request body expected of
         Some problem \<Rightarrow> Inl (CRefused 422 problem)
       | None \<Rightarrow>
           if scope_tenant (fit_scope body) \<noteq> t
           then Inl (refuse_with 403 ''tenant_substitution_refused''
                  ''request tenant must equal the tenant derived from the verified machine key'')
           else case find (\<lambda>p. project_id p = scope_project (fit_scope body) \<and> project_tenant p = t) projects of
             None \<Rightarrow> Inl (refuse_with 404 ''project_not_found'' ''project does not exist inside the admitted tenant'')
           | Some p \<Rightarrow> Inr (t, project_id p))"

definition existing_fit :: "competence_job list \<Rightarrow> uuid \<Rightarrow> string \<Rightarrow> competence_job option" where
  "existing_fit rows t op =
     newest cj_created_at (filter (\<lambda>r. cj_tenant r = t \<and> cj_operation_id r = op) rows)"

definition same_submission :: "uuid \<Rightarrow> fit_operation \<Rightarrow> fit_request \<Rightarrow> competence_job \<Rightarrow> bool" where
  "same_submission project oper body r =
     (cj_project r = project \<and> cj_operation r = oper
      \<and> request_digest r = canonical_digest (request_payload body)
      \<and> request_payload (request_json r) = request_payload body)"

definition new_fit ::
  "uuid \<Rightarrow> uuid \<Rightarrow> uuid \<Rightarrow> fit_operation \<Rightarrow> fit_request \<Rightarrow> time \<Rightarrow> competence_job" where
  "new_fit u t project oper body created =
     \<lparr>cj_id = u, cj_tenant = t, cj_project = project, cj_operation = oper,
      cj_operation_id = fit_operation_id body, request_digest = canonical_digest (request_payload body),
      request_json = body, cj_status = FitQueued, cj_task_id = [], attempt_count = 0, scorer_json = None,
      refusal_json = None, artifact_keys_json = JObj [], cleanup_request_digest = [],
      cleanup_receipt_json = None, cj_error = [], cj_started_at = None, cj_ended_at = None,
      cj_created_at = created, cj_updated_at = created\<rparr>"

text \<open>A payload with a number that is not finite cannot be inserted: the JSON column of either
  database refuses the text. The validation lets one through only in a selection that a training
  item carries.\<close>

definition submit_fit ::
  "'x cenv \<Rightarrow> api_ctx \<Rightarrow> project list \<Rightarrow> fit_operation \<Rightarrow> uuid \<Rightarrow> string \<Rightarrow> fit_request \<Rightarrow> 'x cworld
   \<Rightarrow> (fit_http, submission_receipt) result \<times> 'x cworld" where
  "submit_fit env c projects oper u authorization body w =
     (case fit_admits c projects authorization body (operation_kind oper) of
        Inl e \<Rightarrow> (Inl e, w)
      | Inr (t, project) \<Rightarrow>
          (case existing_fit (cjobs w) t (fit_operation_id body) of
             Some r \<Rightarrow>
               if \<not> same_submission project oper body r
               then (Inl (refuse_with 409 ''conflicting_idempotency_key''
                            ''operation_id is already bound to another request digest''), w)
               else (Inr (submission_of r True), w)
           | None \<Rightarrow>
               if \<not> json_finite (request_payload body) then (Inl (CCrash ''DataError''), w)
               else let r = new_fit u t project oper body (ce_now env w)
                    in (Inr (submission_of r False),
                        dispatch_competence_job env u (w\<lparr>cjobs := cjobs w @ [r]\<rparr>))))"

definition fit_endpoint where
  "fit_endpoint env c projects = submit_fit env c projects FIT"

definition refit_endpoint where
  "refit_endpoint env c projects = submit_fit env c projects REFIT"

subsection \<open>Status\<close>

record fit_job_status =
  st_job :: uuid
  st_operation_id :: string
  st_digest :: string
  st_status :: fit_status
  st_scope :: scope
  st_result :: "scorer option"
  st_refusal :: "refusal option"

definition tenant_fit :: "'x cworld \<Rightarrow> uuid \<Rightarrow> uuid \<Rightarrow> competence_job option" where
  "tenant_fit w t j = newest cj_created_at (filter (\<lambda>r. cj_id r = j \<and> cj_tenant r = t) (cjobs w))"

definition shown_refusal :: "competence_job \<Rightarrow> refusal option" where
  "shown_refusal r =
     (if cj_status r = FitRefused \<or> cj_status r = FitFailed
      then Some (case refusal_json r of
          Some x \<Rightarrow> x
        | None \<Rightarrow> \<lparr>ref_code = ''job_failed'',
                   ref_detail = (if cj_error r = [] then ''competence job failed'' else cj_error r),
                   ref_retryable = False\<rparr>)
      else None)"

definition get_competence_job ::
  "api_ctx \<Rightarrow> string \<Rightarrow> uuid \<Rightarrow> 'x cworld \<Rightarrow> (fit_http, fit_job_status) result" where
  "get_competence_job c authorization j w =
     rbind (map_err CHttp (admit c authorization COMPETENCE_READ_SCOPE)) (\<lambda>t.
       case tenant_fit w t j of
         None \<Rightarrow> Inl (refuse_with 404 ''job_not_found'' ''competence job was not found'')
       | Some r \<Rightarrow>
           if cj_status r = FitSucceeded \<and> (case scorer_json r of None \<Rightarrow> True | Some s \<Rightarrow> \<not> scorer_valid s)
           then Inl (refuse_with 500 ''incomplete_scorer'' ''succeeded competence job lacks a valid scorer artifact'')
           else Inr \<lparr>st_job = cj_id r, st_operation_id = cj_operation_id r, st_digest = request_digest r,
                     st_status = cj_status r, st_scope = fit_scope (request_json r),
                     st_result = (if cj_status r = FitSucceeded then scorer_json r else None),
                     st_refusal = shown_refusal r\<rparr>)"

subsection \<open>Cleanup\<close>

definition dump_cleanup :: "cleanup_request \<Rightarrow> json" where
  "dump_cleanup b = JObj [(''contract'', JStr (cl_contract b)), (''message_kind'', JStr ''cleanup_request''),
     (''cleanup_operation_id'', JStr (cleanup_operation_id b)), (''job_id'', JStr (uuid_str (cl_job_id b))),
     (''scope'', dump_scope (cl_scope b)), (''artifact_ids'', strings (cl_artifact_ids b))]"

definition cleanup_digest :: "cleanup_request \<Rightarrow> string" where
  "cleanup_digest b = canonical_digest (dump_cleanup b)"

text \<open>The checks before the transaction.\<close>

definition cleanup_admits ::
  "api_ctx \<Rightarrow> string \<Rightarrow> uuid \<Rightarrow> cleanup_request \<Rightarrow> (fit_http, uuid) result" where
  "cleanup_admits c authorization j body =
     rbind (map_err CHttp (admit c authorization COMPETENCE_CLEANUP_SCOPE)) (\<lambda>t.
       if cl_contract body \<noteq> COMPETENCE_EXCHANGE_SCHEMA
       then Inl (refuse_with 400 ''unsupported_contract'' (''unsupported contract '' @ cl_contract body))
       else if cl_job_id body \<noteq> j then Inl (refuse_with 400 ''job_id_mismatch'' ''path and body job_id must match'')
       else if scope_tenant (cl_scope body) \<noteq> t
       then Inl (refuse_with 403 ''tenant_substitution_refused''
              ''request tenant must equal the tenant derived from the verified machine key'')
       else if blank (cleanup_operation_id body) \<or> cl_artifact_ids body = []
          \<or> cl_artifact_ids body \<noteq> canon (cl_artifact_ids body) \<or> \<not> list_all is_sha256_digest (cl_artifact_ids body)
       then Inl (refuse_with 400 ''invalid_cleanup_scope''
              ''cleanup requires a canonical non-empty list of content-addressed artifacts'')
       else Inr t)"

fun delete_artifacts ::
  "'x cenv \<Rightarrow> uuid \<Rightarrow> uuid \<Rightarrow> string \<Rightarrow> (string \<times> json) list \<Rightarrow> string list \<Rightarrow> 'x cworld
   \<Rightarrow> (artifact_error, unit) result \<times> 'x cworld" where
  "delete_artifacts env t project candidate keys [] w = (Inr (), w)"
| "delete_artifacts env t project candidate keys (a # ids) w =
     (case map_of keys a of
        Some (JStr k) \<Rightarrow>
          (case delete_competence_artifact (ce_s3 env) t project candidate k w of
             (Inl e, w1) \<Rightarrow> (Inl e, w1)
           | (Inr _, w1) \<Rightarrow> delete_artifacts env t project candidate keys ids w1)
      | _ \<Rightarrow> (Inl (ArtifactValidationError ''artifact ownership record is malformed''), w))"

definition cleanup_error :: "artifact_error \<Rightarrow> fit_http" where
  "cleanup_error e =
     (case e of
        ArtifactConfigurationError m \<Rightarrow> retry_with 503 ''artifact_storage_unavailable'' m
      | ArtifactValidationError m \<Rightarrow> refuse_with 409 ''artifact_ownership_mismatch'' m
      | _ \<Rightarrow> retry_with 503 ''artifact_cleanup_failed'' ''artifact storage could not complete cleanup'')"

definition receipt_for :: "uuid \<Rightarrow> cleanup_request \<Rightarrow> cleanup_receipt" where
  "receipt_for j body =
     \<lparr>receipt_id = canonical_digest (JObj [(''cleanup_operation_id'', JStr (cleanup_operation_id body)),
        (''request_digest'', JStr (cleanup_digest body)), (''job_id'', JStr (uuid_str j)),
        (''scope'', dump_scope (cl_scope body)), (''artifact_ids'', strings (cl_artifact_ids body))]),
      rcpt_operation_id = cleanup_operation_id body, rcpt_digest = cleanup_digest body, rcpt_job_id = j,
      rcpt_scope = cl_scope body, rcpt_artifact_ids = cl_artifact_ids body, cleaned = True, rcpt_reused = False\<rparr>"

text \<open>The object store is configured and called only once the request is known to be a fresh cleanup of
  exactly the job's artifacts. The row is locked, so the fields saved at the end are of the row
  as it was read.\<close>

definition clean_artifacts ::
  "'x cenv \<Rightarrow> uuid \<Rightarrow> cleanup_request \<Rightarrow> competence_job \<Rightarrow> 'x cworld
   \<Rightarrow> (artifact_error, unit) result \<times> 'x cworld" where
  "clean_artifacts env t body r w =
     (case from_settings (ce_cfg env) of
        Inl e \<Rightarrow> (Inl e, w)
      | Inr _ \<Rightarrow>
          (case artifact_keys_json r of
             JObj keys \<Rightarrow> delete_artifacts env t (cj_project r) (candidate_id (cl_scope body)) keys (cl_artifact_ids body) w
           | _ \<Rightarrow> (Inr (), w)))"

definition owns_exactly :: "competence_job \<Rightarrow> string list \<Rightarrow> bool" where
  "owns_exactly r ids = (case artifact_keys_json r of JObj keys \<Rightarrow> set ids = fst ` set keys | _ \<Rightarrow> False)"

definition cleanup_competence_job ::
  "'x cenv \<Rightarrow> api_ctx \<Rightarrow> string \<Rightarrow> uuid \<Rightarrow> cleanup_request \<Rightarrow> 'x cworld
   \<Rightarrow> (fit_http, cleanup_receipt) result \<times> 'x cworld" where
  "cleanup_competence_job env c authorization j body w =
     (case cleanup_admits c authorization j body of
        Inl e \<Rightarrow> (Inl e, w)
      | Inr t \<Rightarrow>
        (case tenant_fit w t j of
           None \<Rightarrow> (Inl (refuse_with 404 ''job_not_found'' ''competence job was not found''), w)
         | Some r \<Rightarrow>
             if dump_scope (cl_scope body) \<noteq> dump_scope (fit_scope (request_json r))
                \<or> cj_project r \<noteq> scope_project (cl_scope body)
             then (Inl (refuse_with 409 ''cleanup_scope_mismatch''
                          ''cleanup scope does not match the exact competence job''), w)
             else (case cleanup_receipt_json r of
               Some rcpt \<Rightarrow>
                 if cleanup_request_digest r \<noteq> cleanup_digest body
                 then (Inl (refuse_with 409 ''conflicting_cleanup_replay''
                              ''job cleanup is already bound to another request digest''), w)
                 else (Inr (rcpt\<lparr>rcpt_reused := True\<rparr>), w)
             | None \<Rightarrow>
                 if \<not> owns_exactly r (cl_artifact_ids body)
                 then (Inl (refuse_with 409 ''artifact_ownership_mismatch''
                              ''cleanup artifacts do not exactly match this job's owned artifacts''), w)
                 else (case clean_artifacts env t body r w of
                     (Inl e, w1) \<Rightarrow> (Inl (cleanup_error e), w1)
                   | (Inr _, w1) \<Rightarrow>
                       let rcpt = receipt_for j body
                       in (Inr rcpt, modify_fit env j
                             (\<lambda>q. q\<lparr>cleanup_request_digest := cleanup_digest body, cleanup_receipt_json := Some rcpt\<rparr>)
                             w1)))))"

subsection \<open>The fit task\<close>

text \<open>A delivery carries the Celery id of its task and the number of retries made so far.\<close>

definition task_identity :: "string \<Rightarrow> uuid \<Rightarrow> string" where
  "task_identity request_id j = (if request_id = [] then ''eager:'' @ uuid_str j else request_id)"

definition claim_job ::
  "'x cenv \<Rightarrow> uuid \<Rightarrow> string \<Rightarrow> 'x cworld \<Rightarrow> competence_job option \<times> 'x cworld" where
  "claim_job env j task w =
     (case get_fit w j of
        None \<Rightarrow> (None, w)
      | Some r \<Rightarrow>
          if cj_status r \<in> {FitSucceeded, FitRefused, FitCanceled} then (Some r, w)
          else if cj_status r = FitRunning \<and> cj_task_id r \<noteq> [] \<and> cj_task_id r \<noteq> task then (Some r, w)
          else let w1 = modify_fit env j (\<lambda>q. q\<lparr>cj_status := FitRunning, cj_task_id := task,
                          cj_started_at := Some (case cj_started_at r of Some s \<Rightarrow> s | None \<Rightarrow> ce_now env w),
                          attempt_count := attempt_count r + 1, cj_error := [], refusal_json := None\<rparr>) w
               in (get_fit w1 j, w1))"

text \<open>The succeeded jobs of the project, newest first; the first one that carries the expected scorer.\<close>

definition names_scorer :: "previous_scorer \<Rightarrow> scorer \<Rightarrow> bool" where
  "names_scorer p s = (scorer_id s = prev_scorer_id p \<and> scorer_version s = prev_scorer_version p
     \<and> art_id (model_artifact s) = prev_model_artifact_id p \<and> prior_pack_id s = prev_prior_pack_id p)"

definition carries_scorer :: "previous_scorer \<Rightarrow> competence_job \<Rightarrow> bool" where
  "carries_scorer p r = (case scorer_json r of None \<Rightarrow> False | Some s \<Rightarrow> scorer_valid s \<and> names_scorer p s)"

definition resolve_previous ::
  "competence_job list \<Rightarrow> competence_job \<Rightarrow> fit_request \<Rightarrow> (fit_error, (scorer \<times> fit_request) option) result" where
  "resolve_previous rows r req =
     (case previous req of
        None \<Rightarrow> Inr None
      | Some expected \<Rightarrow>
          let candidates = sort_key (\<lambda>q. - cj_created_at q)
                (filter (\<lambda>q. cj_tenant q = cj_tenant r \<and> cj_project q = cj_project r
                   \<and> cj_status q = FitSucceeded \<and> cj_id q \<noteq> cj_id r) rows)
          in (case find (carries_scorer expected) candidates of
                Some q \<Rightarrow> Inr (map_option (\<lambda>s. (s, request_json q)) (scorer_json q))
              | None \<Rightarrow> Inl (FitRefusal ''previous_scorer_not_found''
                              ''refit requires the exact prior scorer inside this tenant and project'')))"

definition validate_job_binding :: "competence_job \<Rightarrow> fit_request \<Rightarrow> (fit_error, unit) result" where
  "validate_job_binding r req =
     rbind (need NotJsonNumber (canonical_hex_digest (request_payload req))) (\<lambda>h.
       if contract req \<noteq> COMPETENCE_EXCHANGE_SCHEMA \<or> message_kind_of req \<noteq> operation_kind (cj_operation r)
          \<or> SHA256_PREFIX @ h \<noteq> request_digest r \<or> scope_tenant (fit_scope req) \<noteq> cj_tenant r
          \<or> scope_project (fit_scope req) \<noteq> cj_project r
       then Inl (FitRefusal ''job_binding_mismatch''
              ''persisted competence request does not match its immutable job binding'')
       else Inr ())"

text \<open>What the \<open>try\<close> block of the task may raise.\<close>

datatype fit_exc = FitExc fit_error | ArtExc artifact_error | JobMissing | NotADict

definition record_artifact ::
  "'x cenv \<Rightarrow> uuid \<Rightarrow> string \<Rightarrow> string \<Rightarrow> 'x cworld \<Rightarrow> (fit_exc, unit) result \<times> 'x cworld" where
  "record_artifact env j artifact key w =
     (case get_fit w j of
        None \<Rightarrow> (Inl JobMissing, w)
      | Some r \<Rightarrow>
          (case artifact_keys_json r of
             JObj artifacts \<Rightarrow>
               if map_of artifacts artifact \<notin> {None, Some JNull, Some (JStr key)}
               then (Inl (ArtExc (ArtifactValidationError
                       ''artifact identity is already bound to a different object key'')), w)
               else (Inr (), modify_fit env j
                       (\<lambda>q. q\<lparr>artifact_keys_json := JObj (dict_set artifacts artifact (JStr key))\<rparr>) w)
           | _ \<Rightarrow> (Inl NotADict, w)))"

text \<open>One of the two artifacts: written, compared with its descriptor, recorded in the row.\<close>

definition publish_one ::
  "'x cenv \<Rightarrow> artifact_store \<Rightarrow> competence_job \<Rightarrow> string \<Rightarrow> bytes \<Rightarrow> content_artifact \<Rightarrow> string \<Rightarrow> 'x cworld
   \<Rightarrow> (fit_exc, stored_content) result \<times> 'x cworld" where
  "publish_one env st r kind payload descriptor mismatch w =
     (case write_competence_artifact st (ce_s3 env) (cj_tenant r) (cj_project r)
             (candidate_id (fit_scope (request_json r))) kind payload (art_media descriptor) w of
        (Inl e, w1) \<Rightarrow> (Inl (ArtExc e), w1)
      | (Inr a, w1) \<Rightarrow>
          if payload_digest a \<noteq> art_digest descriptor \<or> byte_length a \<noteq> art_bytes descriptor
          then (Inl (ArtExc (ArtifactValidationError mismatch)), w1)
          else (case record_artifact env (cj_id r) (payload_digest a) (artifact_key a) w1 of
                  (Inl e, w2) \<Rightarrow> (Inl e, w2)
                | (Inr _, w2) \<Rightarrow> (Inr a, w2)))"

definition publish ::
  "'x cenv \<Rightarrow> artifact_store \<Rightarrow> competence_job \<Rightarrow> fitted \<Rightarrow> 'x cworld
   \<Rightarrow> (fit_exc, (string \<times> json) list) result \<times> 'x cworld" where
  "publish env st r f w =
     (case publish_one env st r ''prior_pack'' (prior_pack_payload f) (prior_pack_artifact (fit_scorer f))
             ''published prior pack does not match its fitted descriptor'' w of
        (Inl e, w1) \<Rightarrow> (Inl e, w1)
      | (Inr pack, w1) \<Rightarrow>
          (case publish_one env st r ''scorer_model'' (model_payload f) (model_artifact (fit_scorer f))
                  ''published scorer model does not match its fitted descriptor'' w1 of
             (Inl e, w2) \<Rightarrow> (Inl e, w2)
           | (Inr model, w2) \<Rightarrow>
               (Inr (dict_set [(payload_digest pack, JStr (artifact_key pack))]
                       (payload_digest model) (JStr (artifact_key model))), w2)))"

datatype fit_reply =
    FitMissing | FitJoined fit_status | FitReused | FitDone scorer | FitProblem fit_status string bool
  | FitStopped | FitRetry nat

definition finish_success ::
  "'x cenv \<Rightarrow> uuid \<Rightarrow> scorer \<Rightarrow> (string \<times> json) list \<Rightarrow> 'x cworld \<Rightarrow> (fit_exc, fit_reply) result \<times> 'x cworld" where
  "finish_success env j s keys w =
     (case get_fit w j of
        None \<Rightarrow> (Inl JobMissing, w)
      | Some r \<Rightarrow>
          if cj_status r = FitCanceled then (Inr FitStopped, w)
          else if cj_status r = FitSucceeded then (Inr FitReused, w)
          else if cj_status r \<noteq> FitRunning then (Inr (FitJoined (cj_status r)), w)
          else (Inr (FitDone s), modify_fit env j (\<lambda>q. q\<lparr>scorer_json := Some s, artifact_keys_json := JObj keys,
                  cj_status := FitSucceeded, cj_ended_at := Some (ce_now env w), cj_error := [],
                  refusal_json := None\<rparr>) w))"

definition finish_problem ::
  "'x cenv \<Rightarrow> uuid \<Rightarrow> fit_status \<Rightarrow> string \<Rightarrow> string \<Rightarrow> bool \<Rightarrow> 'x cworld
   \<Rightarrow> (fit_exc, fit_reply) result \<times> 'x cworld" where
  "finish_problem env j st code detail retryable w =
     (case get_fit w j of
        None \<Rightarrow> (Inl JobMissing, w)
      | Some r \<Rightarrow>
          if cj_status r = FitCanceled then (Inr FitStopped, w)
          else (Inr (FitProblem st code retryable), modify_fit env j (\<lambda>q. q\<lparr>cj_status := st, cj_error := detail,
                  refusal_json := Some \<lparr>ref_code = code, ref_detail = detail, ref_retryable = retryable\<rparr>,
                  cj_ended_at := Some (ce_now env w)\<rparr>) w))"

text \<open>The \<open>try\<close> block.\<close>

definition attempt_fit ::
  "'x cenv \<Rightarrow> uuid \<Rightarrow> competence_job \<Rightarrow> 'x cworld \<Rightarrow> (fit_exc, fit_reply) result \<times> 'x cworld" where
  "attempt_fit env j r w =
     (case rbind (validate_job_binding r (request_json r)) (\<lambda>_.
           rbind (resolve_previous (cjobs w) r (request_json r)) (\<lambda>prev.
             fit_competence (request_json r) (request_digest r) prev)) of
        Inl e \<Rightarrow> (Inl (FitExc e), w)
      | Inr f \<Rightarrow>
        (case from_settings (ce_cfg env) of
           Inl e \<Rightarrow> (Inl (ArtExc e), w)
         | Inr st \<Rightarrow>
           (case publish env st r f w of
              (Inl e, w1) \<Rightarrow> (Inl e, w1)
            | (Inr keys, w1) \<Rightarrow> finish_success env j (fit_scorer f) keys w1)))"

definition MAX_RETRIES :: nat where "MAX_RETRIES = 3"

text \<open>The \<open>except\<close> clauses, in their order. A retry goes back to the broker under the same task id.\<close>

definition handle_exc ::
  "'x cenv \<Rightarrow> uuid \<Rightarrow> nat \<Rightarrow> fit_exc \<Rightarrow> 'x cworld \<Rightarrow> (fit_exc, fit_reply) result \<times> 'x cworld" where
  "handle_exc env j retries e w =
     (case e of
        FitExc (FitRefusal code detail) \<Rightarrow> finish_problem env j FitRefused code detail False w
      | FitExc InvalidScorer \<Rightarrow>
          finish_problem env j FitRefused ''invalid_persisted_request'' (take 2000 (error_text env InvalidScorer)) False w
      | FitExc x \<Rightarrow> finish_problem env j FitFailed ''competence_fit_failed'' (take 2000 (error_text env x)) False w
      | ArtExc (ArtifactValidationError m) \<Rightarrow> finish_problem env j FitFailed ''artifact_publication_invalid'' m False w
      | ArtExc x \<Rightarrow>
          if retries < MAX_RETRIES
          then (Inr (FitRetry (min (2 ^ (retries + 1)) 60)), w\<lparr>cqueue := cqueue w @ [j]\<rparr>)
          else finish_problem env j FitFailed ''artifact_storage_unavailable'' (err_text x) True w
      | JobMissing \<Rightarrow>
          finish_problem env j FitFailed ''competence_fit_failed'' ''CompetenceJob matching query does not exist.'' False w
      | NotADict \<Rightarrow> finish_problem env j FitFailed ''competence_fit_failed'' ''not a mapping'' False w)"

text \<open>An \<open>Inl\<close> here is the exception that the handler itself raises: the row is gone.\<close>

definition run_competence_fit ::
  "'x cenv \<Rightarrow> string \<Rightarrow> nat \<Rightarrow> uuid \<Rightarrow> 'x cworld \<Rightarrow> (fit_exc, fit_reply) result \<times> 'x cworld" where
  "run_competence_fit env request_id retries j w =
     (case claim_job env j (task_identity request_id j) w of
        (None, w1) \<Rightarrow> (Inr FitMissing, w1)
      | (Some r, w1) \<Rightarrow>
          if cj_status r \<noteq> FitRunning then (Inr (FitJoined (cj_status r)), w1)
          else (case attempt_fit env j r w1 of
                  (Inr reply, w2) \<Rightarrow> (Inr reply, w2)
                | (Inl e, w2) \<Rightarrow> handle_exc env j retries e w2))"

subsection \<open>The sleep-cycle sweep\<close>

text \<open>A stale running row is queued again (an \<open>update\<close>, which leaves \<open>updated_at\<close> alone), then the
  oldest queued rows are sent. A broker error leaves the task.\<close>

definition is_stale :: "time \<Rightarrow> competence_job \<Rightarrow> bool" where
  "is_stale cutoff r = (cj_status r = FitRunning \<and> cj_updated_at r < cutoff)"

definition recover :: "time \<Rightarrow> competence_job list \<Rightarrow> competence_job list" where
  "recover cutoff rows = map (\<lambda>r. if is_stale cutoff r then r\<lparr>cj_status := FitQueued, cj_task_id := []\<rparr> else r) rows"

definition queued_ids :: "nat \<Rightarrow> competence_job list \<Rightarrow> uuid list" where
  "queued_ids n rows = take n (map cj_id (sort_key cj_created_at (filter (\<lambda>r. cj_status r = FitQueued) rows)))"

definition sweep_competence_jobs ::
  "'x cenv \<Rightarrow> 'x cworld \<Rightarrow> (unit, nat \<times> nat) result \<times> 'x cworld" where
  "sweep_competence_jobs env w =
     (let cutoff = ce_now env w - stale_after env;
          recovered = length (filter (is_stale cutoff) (cjobs w));
          w1 = w\<lparr>cjobs := recover cutoff (cjobs w)\<rparr>;
          ids = queued_ids (sweep_batch env) (cjobs w1)
      in if ids \<noteq> [] \<and> \<not> broker_up env w1 then (Inl (), w1)
         else (Inr (recovered, length ids), w1\<lparr>cqueue := cqueue w1 @ ids\<rparr>))"

end
