(* ===== verification/Competence_Cycle.thy ===== *)
theory Competence_Cycle
  imports Competence_Jobs
begin

section \<open>The life of a competence job\<close>

text \<open>
  What the operations of \<open>Competence_Jobs\<close> guarantee together: submission is idempotent on the
  operation id and bound to the digest of the request, a closed job is not run again, a success
  is the fit of the stored request with both artifacts published, cleanup removes exactly the
  artifacts of the job, and every reachable table is in order. Two deliveries of one job are not
  kept apart, and a late failure overwrites a success: both are shown on the model.
\<close>

lemma get_modify_fit [simp]:
  assumes "\<And>r. cj_id (f r) = cj_id r"
  shows "get_fit (modify_fit env j f w) k =
    (if k = j then map_option (\<lambda>r. (f r)\<lparr>cj_updated_at := ce_now env w\<rparr>) (get_fit w j) else get_fit w k)"
proof -
  let ?g = "\<lambda>r. (f r)\<lparr>cj_updated_at := ce_now env w\<rparr>"
  have "row_of cj_id (map (\<lambda>r. if cj_id r = j then ?g r else r) (cjobs w)) k =
    (if k = j then map_option ?g (row_of cj_id (cjobs w) j) else row_of cj_id (cjobs w) k)"
    by (rule row_of_map [where key = cj_id and f = ?g]) (simp add: assms)
  then show ?thesis unfolding get_fit_def modify_fit_def by simp
qed

lemma get_fit_id: "get_fit w j = Some r \<Longrightarrow> r \<in> set (cjobs w) \<and> cj_id r = j"
  unfolding get_fit_def by (rule row_of_Some)

subsection \<open>Submission\<close>

definition recorded_fit ::
  "api_ctx \<Rightarrow> project list \<Rightarrow> fit_operation \<Rightarrow> 'x cworld \<Rightarrow> string \<times> fit_request \<Rightarrow> uuid option" where
  "recorded_fit c projects oper w rq =
     (case fit_admits c projects (fst rq) (snd rq) (operation_kind oper) of
        Inl _ \<Rightarrow> None
      | Inr (t, project) \<Rightarrow>
          (case existing_fit (cjobs w) t (fit_operation_id (snd rq)) of
             None \<Rightarrow> None
           | Some r \<Rightarrow> if same_submission project oper (snd rq) r then Some (cj_id r) else None))"

lemma cjobs_dispatch [simp]: "cjobs (dispatch_competence_job env j w) = cjobs w"
  by (simp add: dispatch_competence_job_def)

lemma existing_fit_new:
  assumes "existing_fit rows t (fit_operation_id body) = None"
  shows "existing_fit (rows @ [new_fit u t project oper body created]) t (fit_operation_id body)
    = Some (new_fit u t project oper body created)"
proof -
  have "filter (\<lambda>r. cj_tenant r = t \<and> cj_operation_id r = fit_operation_id body) rows = []"
    using assms by (simp add: existing_fit_def)
  then show ?thesis
    unfolding existing_fit_def by (rule newest_snoc_only) (simp add: new_fit_def)
qed

lemma same_submission_new [simp]: "same_submission project oper body (new_fit u t project oper body created)"
  by (simp add: same_submission_def new_fit_def)

text \<open>The two ways a submission succeeds.\<close>

lemma submit_fit_ok:
  assumes "submit_fit env c projects oper u authorization body w = (Inr a, w')"
  obtains (reused) t project r where "fit_admits c projects authorization body (operation_kind oper) = Inr (t, project)"
      "existing_fit (cjobs w) t (fit_operation_id body) = Some r" "same_submission project oper body r"
      "w' = w" "a = submission_of r True"
  | (created) t project where "fit_admits c projects authorization body (operation_kind oper) = Inr (t, project)"
      "existing_fit (cjobs w) t (fit_operation_id body) = None" "json_finite (request_payload body)"
      "cjobs w' = cjobs w @ [new_fit u t project oper body (ce_now env w)]"
      "a = submission_of (new_fit u t project oper body (ce_now env w)) False"
proof -
  obtain x where "fit_admits c projects authorization body (operation_kind oper) = Inr x"
    using assms by (cases "fit_admits c projects authorization body (operation_kind oper)") (simp_all add: submit_fit_def)
  then obtain t project where t: "fit_admits c projects authorization body (operation_kind oper) = Inr (t, project)"
    by (cases x) simp
  show thesis
  proof (cases "existing_fit (cjobs w) t (fit_operation_id body)")
    case (Some r)
    with assms t show thesis
      by (cases "same_submission project oper body r") (auto simp: submit_fit_def intro: reused)
  next
    case None
    with assms t show thesis
      by (cases "json_finite (request_payload body)") (auto simp: submit_fit_def Let_def intro: created)
  qed
qed

interpretation fit_submit: clean_submission
  "\<lambda>u rq w. submit_fit env c projects oper u (fst rq) (snd rq) w"
  "\<lambda>rq. \<exists>x. fit_admits c projects (fst rq) (snd rq) (operation_kind oper) = Inr x"
  "recorded_fit c projects oper" sub_job for env c projects oper
proof
  fix u rq a and w w' :: "'a cworld"
  assume ok: "submit_fit env c projects oper u (fst rq) (snd rq) w = (Inr a, w')"
  show "\<exists>x. fit_admits c projects (fst rq) (snd rq) (operation_kind oper) = Inr x"
    using ok by (rule submit_fit_ok) blast+
  show "recorded_fit c projects oper w' rq = Some (sub_job a)"
    using ok
  proof (cases rule: submit_fit_ok)
    case (reused t project r)
    then show ?thesis by (simp add: recorded_fit_def submission_of_def)
  next
    case (created t project)
    then show ?thesis
      by (simp add: recorded_fit_def existing_fit_new submission_of_def)
  qed
next
  fix u rq k and w :: "'a cworld"
  assume "\<exists>x. fit_admits c projects (fst rq) (snd rq) (operation_kind oper) = Inr x"
    and "recorded_fit c projects oper w rq = Some k"
  then show "\<exists>a. submit_fit env c projects oper u (fst rq) (snd rq) w = (Inr a, w) \<and> sub_job a = k"
    by (auto simp: recorded_fit_def submit_fit_def submission_of_def split: option.splits if_splits)
next
  fix u rq e and w w' :: "'a cworld"
  assume "submit_fit env c projects oper u (fst rq) (snd rq) w = (Inl e, w')"
  then show "w' = w"
    by (auto simp: submit_fit_def Let_def split: sum.splits prod.splits option.splits if_splits)
qed


subsection \<open>The task\<close>

definition fit_closed :: "'x cworld \<Rightarrow> uuid \<Rightarrow> bool" where
  "fit_closed w j =
     (case get_fit w j of None \<Rightarrow> False | Some r \<Rightarrow> cj_status r \<in> {FitSucceeded, FitRefused, FitCanceled})"

interpretation fit_task: guarded_task "\<lambda>j w. Some (run_competence_fit env request_id retries j w)" fit_closed
  for env request_id retries
proof
  fix j and w :: "'a cworld"
  assume "fit_closed w j"
  then obtain r where r: "get_fit w j = Some r" "cj_status r \<in> {FitSucceeded, FitRefused, FitCanceled}"
    by (auto simp: fit_closed_def split: option.splits)
  then have "claim_job env j (task_identity request_id j) w = (Some r, w)" by (simp add: claim_job_def)
  with r(2) have "run_competence_fit env request_id retries j w = (Inr (FitJoined (cj_status r)), w)"
    by (auto simp: run_competence_fit_def)
  then show "\<exists>x. Some (run_competence_fit env request_id retries j w) = Some (x, w)" by blast
qed

text \<open>What a claim leaves of the row: the immutable part is as it was.\<close>

definition same_binding :: "competence_job \<Rightarrow> competence_job \<Rightarrow> bool" where
  "same_binding r q = (cj_id q = cj_id r \<and> cj_tenant q = cj_tenant r \<and> cj_project q = cj_project r
     \<and> cj_operation q = cj_operation r \<and> request_digest q = request_digest r \<and> request_json q = request_json r)"

lemma claim_job_Some:
  assumes "claim_job env j task w = (Some q, w1)"
  obtains r where "get_fit w j = Some r" "same_binding r q" "get_fit w1 j = Some q"
  using assms unfolding claim_job_def
  by (cases "get_fit w j") (auto simp: same_binding_def Let_def split: if_split_asm)

lemma finish_success_done:
  assumes "finish_success env j s keys w = (Inr (FitDone s'), w')"
  obtains r where "get_fit w j = Some r" "cj_status r = FitRunning" "s' = s"
    "get_fit w' j = Some (r\<lparr>scorer_json := Some s, artifact_keys_json := JObj keys, cj_status := FitSucceeded,
        cj_ended_at := Some (ce_now env w), cj_error := [], refusal_json := None, cj_updated_at := ce_now env w\<rparr>)"
  using assms unfolding finish_success_def
  by (cases "get_fit w j") (auto split: if_split_asm)

lemma finish_problem_not_done: "finish_problem env j st code detail retryable w \<noteq> (Inr (FitDone s), w')"
  unfolding finish_problem_def by (cases "get_fit w j") auto

lemma handle_exc_not_done: "handle_exc env j retries e w \<noteq> (Inr (FitDone s), w')"
  unfolding handle_exc_def
  by (cases e) (auto simp: finish_problem_not_done split: fit_error.splits artifact_error.splits)

text \<open>The success of one publication.\<close>

lemma publish_one_ok:
  assumes "publish_one env st r kind payload descriptor mismatch w = (Inr a, w2)"
  obtains w1 where "write_competence_artifact st (ce_s3 env) (cj_tenant r) (cj_project r)
        (candidate_id (fit_scope (request_json r))) kind payload (art_media descriptor) w = (Inr a, w1)"
    "payload_digest a = art_digest descriptor"
  using assms unfolding publish_one_def
  by (auto split: prod.splits sum.splits if_split_asm)

lemma attempt_fit_done:
  assumes "attempt_fit env j r w = (Inr (FitDone s), w')"
  obtains prev f st pack w1 w2 model where
    "validate_job_binding r (request_json r) = Inr ()"
    "fit_competence (request_json r) (request_digest r) prev = Inr f"
    "publish_one env st r ''prior_pack'' (prior_pack_payload f) (prior_pack_artifact (fit_scorer f))
       ''published prior pack does not match its fitted descriptor'' w = (Inr pack, w1)"
    "publish_one env st r ''scorer_model'' (model_payload f) (model_artifact (fit_scorer f))
       ''published scorer model does not match its fitted descriptor'' w1 = (Inr model, w2)"
    "finish_success env j (fit_scorer f) (dict_set [(payload_digest pack, JStr (artifact_key pack))]
                       (payload_digest model) (JStr (artifact_key model))) w2 = (Inr (FitDone s), w')"
proof -
  obtain prev f where b: "validate_job_binding r (request_json r) = Inr ()"
    and f: "fit_competence (request_json r) (request_digest r) prev = Inr f"
    and st: "(case from_settings (ce_cfg env) of Inl e \<Rightarrow> (Inl (ArtExc e), w)
         | Inr st \<Rightarrow> (case publish env st r f w of (Inl e, w1) \<Rightarrow> (Inl e, w1)
            | (Inr keys, w1) \<Rightarrow> finish_success env j (fit_scorer f) keys w1)) = (Inr (FitDone s), w')"
    using assms unfolding attempt_fit_def by (auto simp: result_simps split: sum.split_asm)
  obtain st keys w2 where p: "publish env st r f w = (Inr keys, w2)"
    and fin: "finish_success env j (fit_scorer f) keys w2 = (Inr (FitDone s), w')"
    using st by (auto split: sum.split_asm prod.split_asm)
  obtain pack w1 model where
    "publish_one env st r ''prior_pack'' (prior_pack_payload f) (prior_pack_artifact (fit_scorer f))
       ''published prior pack does not match its fitted descriptor'' w = (Inr pack, w1)"
    "publish_one env st r ''scorer_model'' (model_payload f) (model_artifact (fit_scorer f))
       ''published scorer model does not match its fitted descriptor'' w1 = (Inr model, w2)"
    "keys = dict_set [(payload_digest pack, JStr (artifact_key pack))] (payload_digest model) (JStr (artifact_key model))"
    using p unfolding publish_def
    by (auto simp del: dict_set.simps split: sum.split_asm prod.split_asm)
  with fin show thesis by (intro that [OF b f]) auto
qed

text \<open>C11. A job succeeds only with the fit of the request it was submitted with, published in its own
  scope: when the task reports a scorer, the stored request still has the digest the row was bound
  to, the scorer is what the fitter gives for it and satisfies its schema, each of the two
  artifacts was read back as the fitted bytes under a key of that tenant, project and candidate,
  and the row is left succeeded with that scorer and those keys.\<close>

theorem fit_success_published:
  assumes "run_competence_fit env request_id retries j w = (Inr (FitDone s), w')"
  shows "\<exists>r prev f st pack model w1 w2.
      get_fit w j = Some r
    \<and> request_digest r = canonical_digest (request_payload (request_json r))
    \<and> fit_competence (request_json r) (request_digest r) prev = Inr f \<and> s = fit_scorer f \<and> scorer_valid s
    \<and> get_bytes st (ce_s3 env) (cj_tenant r) pack w1 = Inr (prior_pack_payload f)
    \<and> get_bytes st (ce_s3 env) (cj_tenant r) model w2 = Inr (model_payload f)
    \<and> (\<forall>k \<in> {pack, model}. validate_competence_key (cj_tenant r) (cj_project r)
          (candidate_id (fit_scope (request_json r))) k = Inr k)
    \<and> (\<exists>q. get_fit w' j = Some q \<and> cj_status q = FitSucceeded \<and> scorer_json q = Some s
          \<and> artifact_keys_json q = JObj (dict_set [(sha256_digest (prior_pack_payload f), JStr pack)]
                (sha256_digest (model_payload f)) (JStr model)))"
proof -
  obtain q w0 where c: "claim_job env j (task_identity request_id j) w = (Some q, w0)"
    and a: "attempt_fit env j q w0 = (Inr (FitDone s), w')"
    using assms unfolding run_competence_fit_def
    by (auto simp: handle_exc_not_done split: prod.split_asm option.split_asm if_split_asm sum.split_asm)
  obtain r where r: "get_fit w j = Some r" "same_binding r q" using c by (rule claim_job_Some)
  from a obtain prev f st pack w1 w2 model where
    b: "validate_job_binding q (request_json q) = Inr ()"
    and f: "fit_competence (request_json q) (request_digest q) prev = Inr f"
    and p1: "publish_one env st q ''prior_pack'' (prior_pack_payload f) (prior_pack_artifact (fit_scorer f))
       ''published prior pack does not match its fitted descriptor'' w0 = (Inr pack, w1)"
    and p2: "publish_one env st q ''scorer_model'' (model_payload f) (model_artifact (fit_scorer f))
       ''published scorer model does not match its fitted descriptor'' w1 = (Inr model, w2)"
    and fin: "finish_success env j (fit_scorer f) (dict_set [(payload_digest pack, JStr (artifact_key pack))]
                       (payload_digest model) (JStr (artifact_key model))) w2 = (Inr (FitDone s), w')"
    by (rule attempt_fit_done)
  let ?cand = "candidate_id (fit_scope (request_json q))"
  obtain v1 where v1: "write_competence_artifact st (ce_s3 env) (cj_tenant q) (cj_project q) ?cand ''prior_pack''
      (prior_pack_payload f) (art_media (prior_pack_artifact (fit_scorer f))) w0 = (Inr pack, v1)"
    using p1 by (rule publish_one_ok)
  obtain v2 where v2: "write_competence_artifact st (ce_s3 env) (cj_tenant q) (cj_project q) ?cand ''scorer_model''
      (model_payload f) (art_media (model_artifact (fit_scorer f))) w1 = (Inr model, v2)"
    using p2 by (rule publish_one_ok)
  note w1 = write_competence_ok [OF v1] write_competence_scope [OF v1]
  note w2 = write_competence_ok [OF v2] write_competence_scope [OF v2]
  obtain x where x: "s = fit_scorer f" "get_fit w' j = Some (x\<lparr>scorer_json := Some s, artifact_keys_json :=
        JObj (dict_set [(payload_digest pack, JStr (artifact_key pack))] (payload_digest model) (JStr (artifact_key model))),
        cj_status := FitSucceeded, cj_ended_at := Some (ce_now env w2), cj_error := [], refusal_json := None,
        cj_updated_at := ce_now env w2\<rparr>)"
    using fin by (rule finish_success_done) simp
  have valid: "scorer_valid (fit_scorer f)" using f by (rule fit_competence_ok)
  have digest: "request_digest q = canonical_digest (request_payload (request_json q))"
    using b by (auto simp: validate_job_binding_def result_simps need_def canonical_hex_digest_def
        canonical_json_bytes_def canonical_digest_def sha256_digest_def split: option.split_asm if_split_asm)
  have same: "cj_tenant q = cj_tenant r" "cj_project q = cj_project r" "request_digest q = request_digest r"
    "request_json q = request_json r"
    using r(2) by (simp_all add: same_binding_def)
  show ?thesis
    apply (rule exI [of _ r], rule exI [of _ prev], rule exI [of _ f], rule exI [of _ st])
    apply (rule exI [of _ "artifact_key pack"], rule exI [of _ "artifact_key model"], rule exI [of _ v1], rule exI [of _ v2])
    using r(1) digest f valid w1 w2 x unfolding same by simp
qed

text \<open>A closed job is never run again: whatever messages are delivered for it, under whatever task
  ids and retry counts, each of them answers with the status of the row and changes nothing.\<close>

theorem closed_fit_final:
  assumes "get_fit w j = Some r" and "cj_status r \<in> {FitSucceeded, FitRefused, FitCanceled}"
  shows "run_competence_fit env request_id retries j w = (Inr (FitJoined (cj_status r)), w)
    \<and> foldl (\<lambda>x (rid, n). snd (run_competence_fit env rid n j x)) w ds = w"
proof -
  have closed: "fit_closed w j" using assms by (simp add: fit_closed_def)
  have "snd (run_competence_fit env rid n j w) = w" for rid n
    using fit_task.guard [OF closed, of env rid n] by auto
  then have "foldl (\<lambda>x (rid, n). snd (run_competence_fit env rid n j x)) w ds = w"
    by (induction ds) (auto simp: case_prod_beta)
  moreover have "run_competence_fit env request_id retries j w = (Inr (FitJoined (cj_status r)), w)"
    using assms by (auto simp: run_competence_fit_def claim_job_def)
  ultimately show ?thesis by blast
qed

text \<open>Two deliveries of a job are not kept apart, and a late failure overwrites a success: a delivery
  that finds the job running under another task executes it all the same, and if its publication
  is found invalid after the other task has succeeded, the row ends failed, with the scorer of the
  success still in it.\<close>

theorem late_failure_overwrites:
  assumes "get_fit w j = Some r" and "cj_status r = FitRunning" and "cj_task_id r \<noteq> []"
    and "cj_task_id r \<noteq> task_identity request_id j"
    and "attempt_fit env j r w = (Inl (ArtExc (ArtifactValidationError m)), w1)"
    and "get_fit w1 j = Some q" and "cj_status q = FitSucceeded"
  shows "claim_job env j (task_identity request_id j) w = (Some r, w)
    \<and> (\<exists>w' q'. run_competence_fit env request_id retries j w
           = (Inr (FitProblem FitFailed ''artifact_publication_invalid'' False), w')
         \<and> get_fit w' j = Some q' \<and> cj_status q' = FitFailed \<and> scorer_json q' = scorer_json q)"
proof -
  have c: "claim_job env j (task_identity request_id j) w = (Some r, w)"
    using assms(1-4) by (simp add: claim_job_def)
  then have "run_competence_fit env request_id retries j w =
      finish_problem env j FitFailed ''artifact_publication_invalid'' m False w1"
    using assms(2,5) by (simp add: run_competence_fit_def handle_exc_def)
  then show ?thesis
    using c assms(6,7) by (simp add: finish_problem_def)
qed

subsection \<open>The table under all operations\<close>

definition fit_row_ok :: "competence_job \<Rightarrow> bool" where
  "fit_row_ok r \<longleftrightarrow>
     request_digest r = canonical_digest (request_payload (request_json r))
   \<and> json_finite (request_payload (request_json r)) \<and> contract (request_json r) = COMPETENCE_EXCHANGE_SCHEMA
   \<and> message_kind_of (request_json r) = operation_kind (cj_operation r)
   \<and> scope_tenant (fit_scope (request_json r)) = cj_tenant r
   \<and> scope_project (fit_scope (request_json r)) = cj_project r
   \<and> (cj_status r = FitRunning \<longrightarrow> cj_task_id r \<noteq> [] \<and> cj_started_at r \<noteq> None \<and> 0 < attempt_count r)
   \<and> (cj_status r = FitSucceeded \<longrightarrow> (\<exists>s. scorer_json r = Some s \<and> scorer_valid s) \<and> cj_ended_at r \<noteq> None)
   \<and> (cj_status r \<in> {FitRefused, FitFailed} \<longrightarrow> refusal_json r \<noteq> None \<and> cj_ended_at r \<noteq> None)"

definition fit_table_ok :: "competence_job list \<Rightarrow> bool" where
  "fit_table_ok rows \<longleftrightarrow> distinct (map cj_id rows) \<and> distinct (map (\<lambda>r. (cj_tenant r, cj_operation_id r)) rows)
     \<and> (\<forall>r \<in> set rows. fit_row_ok r)"

definition fit_world_ok :: "'x cworld \<Rightarrow> bool" where
  "fit_world_ok w \<longleftrightarrow> fit_table_ok (cjobs w)"

lemma fit_row_updated [simp]: "fit_row_ok (r\<lparr>cj_updated_at := x\<rparr>) = fit_row_ok r"
  by (simp add: fit_row_ok_def)

lemma fit_table_map:
  assumes "fit_table_ok rows"
    and "\<And>r. cj_id (g r) = cj_id r \<and> cj_tenant (g r) = cj_tenant r \<and> cj_operation_id (g r) = cj_operation_id r"
    and "\<And>r. r \<in> set rows \<Longrightarrow> fit_row_ok r \<Longrightarrow> fit_row_ok (g r)"
  shows "fit_table_ok (map g rows)"
proof -
  have "map cj_id (map g rows) = map cj_id rows"
    "map (\<lambda>r. (cj_tenant r, cj_operation_id r)) (map g rows) = map (\<lambda>r. (cj_tenant r, cj_operation_id r)) rows"
    using assms(2) by simp_all
  with assms(1,3) show ?thesis unfolding fit_table_ok_def by (auto simp del: map_map)
qed

lemma fit_world_modify:
  assumes "fit_world_ok w"
    and "\<And>r. cj_id (f r) = cj_id r \<and> cj_tenant (f r) = cj_tenant r \<and> cj_operation_id (f r) = cj_operation_id r"
    and "\<And>r. r \<in> set (cjobs w) \<Longrightarrow> cj_id r = j \<Longrightarrow> fit_row_ok r \<Longrightarrow> fit_row_ok (f r)"
  shows "fit_world_ok (modify_fit env j f w)"
  unfolding fit_world_ok_def modify_fit_def
  using assms fit_table_map [of "cjobs w" "\<lambda>r. if cj_id r = j then (f r)\<lparr>cj_updated_at := ce_now env w\<rparr> else r"]
  by (simp add: fit_world_ok_def)

lemma fit_world_row: "fit_world_ok w \<Longrightarrow> get_fit w j = Some r \<Longrightarrow> fit_row_ok r"
  using get_fit_id by (auto simp: fit_world_ok_def fit_table_ok_def)

text \<open>What else writes during a call of the object store keeps the table in order.\<close>

definition keeps_fit_order :: "'x cenv \<Rightarrow> bool" where
  "keeps_fit_order env \<longleftrightarrow> (\<forall>w. fit_world_ok w \<longrightarrow>
     (\<forall>k p m. fit_world_ok (snd (put_object (ce_s3 env) k p m w)))
     \<and> (\<forall>k. fit_world_ok (snd (delete_object (ce_s3 env) k w))))"

lemma storage_call_snd [simp]: "snd (storage_call action x) = snd x"
  by (auto simp: storage_call_def split: prod.split option.split)

lemma storage_call_world: "storage_call action x = (y, s) \<Longrightarrow> s = snd x"
  using storage_call_snd [of action x] by simp

named_theorems fit_keeps \<open>operations that keep the table in order\<close>

lemma write_keeps [fit_keeps]:
  assumes "keeps_fit_order env" "fit_world_ok w"
  shows "fit_world_ok (snd (write_competence_artifact st (ce_s3 env) t p cand kind payload media w))"
proof -
  have put: "fit_world_ok w1" if "storage_call a (put_object (ce_s3 env) k q m w) = (x, w1)" for a k q m x w1
    using assms storage_call_snd [of a "put_object (ce_s3 env) k q m w"] that
    by (simp add: keeps_fit_order_def)
  show ?thesis
    using assms(2) unfolding write_competence_artifact_def Let_def
    by (auto split: sum.split prod.split dest: put)
qed

lemma record_keeps [fit_keeps]: "fit_world_ok w \<Longrightarrow> fit_world_ok (snd (record_artifact env j a k w))"
  unfolding record_artifact_def
  by (auto split: option.split json.split intro!: fit_world_modify) (simp_all add: fit_row_ok_def)

lemma publish_one_keeps [fit_keeps]:
  assumes "keeps_fit_order env" "fit_world_ok w"
  shows "fit_world_ok (snd (publish_one env st r kind payload d mismatch w))"
proof -
  have w: "fit_world_ok w1" if "write_competence_artifact st (ce_s3 env) t p cand k q m w = (x, w1)" for t p cand k q m x w1
    using write_keeps [OF assms, of st t p cand k q m] that by simp
  have r: "fit_world_ok w2" if "record_artifact env i a k w1 = (x, w2)" "fit_world_ok w1" for i a k w1 w2 x
    using record_keeps [OF that(2), of env i a k] that(1) by simp
  show ?thesis
    unfolding publish_one_def by (auto split: prod.split sum.split dest: w intro: r)
qed

lemma publish_keeps [fit_keeps]:
  assumes "keeps_fit_order env" "fit_world_ok w"
  shows "fit_world_ok (snd (publish env st r f w))"
proof -
  have one: "fit_world_ok v2" if "publish_one env st r kind payload d mm v1 = (x, v2)" "fit_world_ok v1"
    for kind payload d mm v1 x v2
    using publish_one_keeps [OF assms(1) that(2), of st r kind payload d mm] that(1) by simp
  show ?thesis
    unfolding publish_def using assms(2) by (auto split: prod.split sum.split dest: one)
qed

lemma finish_success_keeps [fit_keeps]:
  "fit_world_ok w \<Longrightarrow> scorer_valid s \<Longrightarrow> fit_world_ok (snd (finish_success env j s keys w))"
  unfolding finish_success_def
  by (auto split: option.split intro!: fit_world_modify) (simp add: fit_row_ok_def)

lemma finish_problem_keeps [fit_keeps]:
  "fit_world_ok w \<Longrightarrow> st \<in> {FitRefused, FitFailed} \<Longrightarrow>
    fit_world_ok (snd (finish_problem env j st code detail retryable w))"
  unfolding finish_problem_def
  by (auto split: option.split intro!: fit_world_modify) (auto simp: fit_row_ok_def)

lemma claim_keeps [fit_keeps]: "fit_world_ok w \<Longrightarrow> fit_world_ok (snd (claim_job env j (task_identity rid j) w))"
  unfolding claim_job_def
  by (auto simp: Let_def split: option.split intro!: fit_world_modify)
    (auto simp: fit_row_ok_def task_identity_def)

lemma attempt_keeps [fit_keeps]:
  assumes "keeps_fit_order env" "fit_world_ok w"
  shows "fit_world_ok (snd (attempt_fit env j r w))"
proof -
  have p: "fit_world_ok w1" if "publish env st r f w = (x, w1)" for st f x w1
    using publish_keeps [OF assms, of st r f] that by simp
  have s: "fit_world_ok (snd (finish_success env j (fit_scorer f) keys w1))"
    if "fit_world_ok w1" "fit_competence rq d prev = Inr f" for f keys w1 rq d prev
    using finish_success_keeps [OF that(1)] fit_competence_ok [OF that(2)] by blast
  show ?thesis
    unfolding attempt_fit_def using assms(2)
    by (auto simp: result_simps split: sum.split prod.split dest: p intro: s)
qed

lemma handle_keeps [fit_keeps]: "fit_world_ok w \<Longrightarrow> fit_world_ok (snd (handle_exc env j n e w))"
  unfolding handle_exc_def
  by (auto split: fit_exc.split fit_error.split artifact_error.split intro!: finish_problem_keeps)
    (simp_all add: fit_world_ok_def)

lemma run_keeps [fit_keeps]:
  assumes "keeps_fit_order env" "fit_world_ok w"
  shows "fit_world_ok (snd (run_competence_fit env rid n j w))"
proof -
  have c: "fit_world_ok w1" if "claim_job env j (task_identity rid j) w = (x, w1)" for x w1
    using claim_keeps [OF assms(2), of env j rid] that by simp
  have a: "fit_world_ok w2" if "attempt_fit env j r w1 = (x, w2)" "fit_world_ok w1" for r x w1 w2
    using attempt_keeps [OF assms(1) that(2), of j r] that(1) by simp
  show ?thesis
    unfolding run_competence_fit_def
    by (auto split: prod.split option.split sum.split dest: c a intro: handle_keeps)
qed

lemma sweep_keeps [fit_keeps]: "fit_world_ok w \<Longrightarrow> fit_world_ok (snd (sweep_competence_jobs env w))"
proof -
  have "fit_table_ok (recover cutoff rows)" if "fit_table_ok rows" for cutoff rows
    unfolding recover_def by (rule fit_table_map [OF that]) (auto simp: fit_row_ok_def)
  then show "fit_world_ok w \<Longrightarrow> ?thesis"
    by (simp add: sweep_competence_jobs_def Let_def fit_world_ok_def)
qed

lemma delete_artifacts_keeps [fit_keeps]:
  assumes "keeps_fit_order env" "fit_world_ok w"
  shows "fit_world_ok (snd (delete_artifacts env t p cand keys ids w))"
  using assms(2)
proof (induction ids arbitrary: w)
  case (Cons a ids w)
  show ?case
  proof (cases "map_of keys a")
    case (Some v)
    have del: "fit_world_ok w1" if "delete_competence_artifact (ce_s3 env) t p cand k w = (x, w1)" for k x w1
      using that assms(1) Cons.prems unfolding delete_competence_artifact_def keeps_fit_order_def
      by (auto split: sum.splits dest!: storage_call_world)
    show ?thesis
      using Some Cons by (cases v) (auto split: prod.split sum.split dest: del)
  qed (simp add: Cons.prems)
qed simp

lemma cleanup_keeps [fit_keeps]:
  assumes "keeps_fit_order env" "fit_world_ok w"
  shows "fit_world_ok (snd (cleanup_competence_job env c authorization j body w))"
proof -
  have cl: "fit_world_ok w1" if "clean_artifacts env t body r w = (x, w1)" for t r x w1
  proof -
    have "fit_world_ok (snd (clean_artifacts env t body r w))"
      unfolding clean_artifacts_def using assms
      by (auto split: sum.split json.split intro: delete_artifacts_keeps)
    with that show ?thesis by simp
  qed
  have m: "fit_world_ok (modify_fit env j (\<lambda>q. q\<lparr>cleanup_request_digest := d, cleanup_receipt_json := x\<rparr>) w1)"
    if "fit_world_ok w1" for d x w1
    using that by (rule fit_world_modify) (simp_all add: fit_row_ok_def)
  show ?thesis
    unfolding cleanup_competence_job_def using assms(2)
    by (auto simp: Let_def split: sum.split option.split prod.split dest: cl intro!: m)
qed

lemma validated_request:
  assumes "validate_fit_request b kind = None"
  shows "contract b = COMPETENCE_EXCHANGE_SCHEMA \<and> message_kind_of b = kind"
proof -
  have refuse: "refuse x y \<noteq> None" for x y by (simp add: refuse_def)
  from assms show ?thesis
    unfolding validate_fit_request_def by (simp add: refuse split: if_split_asm)
qed

lemma fit_admits_ok:
  assumes "fit_admits c projects authorization body kind = Inr (t, p)"
  shows "scope_tenant (fit_scope body) = t \<and> scope_project (fit_scope body) = p
    \<and> contract body = COMPETENCE_EXCHANGE_SCHEMA \<and> message_kind_of body = kind"
  using assms validated_request [of body kind]
  by (auto simp: fit_admits_def result_simps find_Some_iff split: option.split_asm if_split_asm)

lemma existing_fit_None:
  "existing_fit rows t op = None \<Longrightarrow> (t, op) \<notin> (\<lambda>r. (cj_tenant r, cj_operation_id r)) ` set rows"
  by (auto simp: existing_fit_def filter_empty_conv)

lemma submit_keeps [fit_keeps]:
  assumes "fit_world_ok w" "u \<notin> cj_id ` set (cjobs w)"
    and s: "submit_fit env c projects oper u authorization body w = (x, w')"
  shows "fit_world_ok w'"
proof (cases x)
  case (Inl e)
  then have "w' = w" using fit_submit.clean [of env c projects oper u "(authorization, body)" w e w'] s by simp
  with assms(1) show ?thesis by simp
next
  case (Inr a)
  with s have "submit_fit env c projects oper u authorization body w = (Inr a, w')" by simp
  then show ?thesis
  proof (cases rule: submit_fit_ok)
    case (created t project)
    let ?r = "new_fit u t project oper body (ce_now env w)"
    have "fit_row_ok ?r"
      using fit_admits_ok [OF created(1)] created(3) by (simp add: fit_row_ok_def new_fit_def)
    moreover have "cj_id ?r = u" "cj_tenant ?r = t" "cj_operation_id ?r = fit_operation_id body"
      by (simp_all add: new_fit_def)
    ultimately show ?thesis
      using assms(1,2) existing_fit_None [OF created(2)] unfolding fit_world_ok_def fit_table_ok_def created(4)
      by auto
  qed (use assms(1) in simp)
qed

text \<open>One call of an endpoint, one delivery, or one run of the sweep.\<close>

inductive fit_step :: "'x cenv \<Rightarrow> 'x cworld \<Rightarrow> 'x cworld \<Rightarrow> bool" for env where
  submitted: "u \<notin> cj_id ` set (cjobs w) \<Longrightarrow>
    submit_fit env c projects oper u authorization body w = (x, w') \<Longrightarrow> fit_step env w w'"
| delivered: "run_competence_fit env rid retries j w = (y, w') \<Longrightarrow> fit_step env w w'"
| swept: "sweep_competence_jobs env w = (z, w') \<Longrightarrow> fit_step env w w'"
| cleaned_up: "cleanup_competence_job env c authorization j body' w = (v, w') \<Longrightarrow> fit_step env w w'"

lemma fit_step_keeps:
  assumes "keeps_fit_order env" "fit_step env w w'" "fit_world_ok w"
  shows "fit_world_ok w'"
  using assms(2)
proof cases
  case (submitted u c projects oper authorization body x)
  with assms(3) show ?thesis using submit_keeps by blast
next
  case (delivered rid retries j y)
  then show ?thesis using run_keeps [OF assms(1,3), of rid retries j] by simp
next
  case (swept z)
  then show ?thesis using sweep_keeps [OF assms(3), of env] by simp
next
  case (cleaned_up c authorization j body' v)
  then show ?thesis using cleanup_keeps [OF assms(1,3), of c authorization j body'] by simp
qed

lemma fit_steps_keep:
  assumes "keeps_fit_order env" "(fit_step env)\<^sup>*\<^sup>* w w'" "fit_world_ok w"
  shows "fit_world_ok w'"
  using assms(2,3) by (induction rule: rtranclp_induct) (auto intro: fit_step_keeps [OF assms(1)])

lemma fit_row_binding: "fit_row_ok r \<Longrightarrow> validate_job_binding r (request_json r) = Inr ()"
  by (simp add: fit_row_ok_def validate_job_binding_def need_def canonical_hex_digest_def canonical_json_bytes_def
      canonical_digest_def sha256_digest_def)


subsection \<open>Cleanup\<close>

text \<open>What the object store documents about a deletion, for a view \<open>object_at\<close> of the bucket: it touches
  one key, and a success leaves nothing there. A write of the table does not touch the bucket.\<close>

definition deletes_one :: "'x cenv \<Rightarrow> ('x cworld \<Rightarrow> string \<Rightarrow> bytes option) \<Rightarrow> bool" where
  "deletes_one env object_at \<longleftrightarrow>
     (\<forall>k w. (\<forall>k'. k' \<noteq> k \<longrightarrow> object_at (snd (delete_object (ce_s3 env) k w)) k' = object_at w k')
       \<and> (fst (delete_object (ce_s3 env) k w) = None \<longrightarrow> object_at (snd (delete_object (ce_s3 env) k w)) k = None))
   \<and> (\<forall>w rows. object_at (w\<lparr>cjobs := rows\<rparr>) = object_at w)"

text \<open>The rows of one job id, which the transaction holds locked.\<close>

definition rows_of :: "'x cworld \<Rightarrow> uuid \<Rightarrow> competence_job list" where
  "rows_of w j = filter (\<lambda>r. cj_id r = j) (cjobs w)"

definition holds_lock :: "'x cenv \<Rightarrow> uuid \<Rightarrow> bool" where
  "holds_lock env j \<longleftrightarrow> (\<forall>k w. rows_of (snd (delete_object (ce_s3 env) k w)) j = rows_of w j)"

lemma tenant_fit_rows: "tenant_fit w t j = newest cj_created_at (filter (\<lambda>r. cj_tenant r = t) (rows_of w j))"
  by (simp add: tenant_fit_def rows_of_def conj_commute)

lemma delete_one_ok:
  assumes "delete_competence_artifact c t p cand k w = (x, w1)"
  shows "w1 = w \<and> \<not> is_ok x \<or> validate_competence_key t p cand k = Inr k \<and> w1 = snd (delete_object c k w)
      \<and> (is_ok x \<longrightarrow> fst (delete_object c k w) = None)"
proof (cases "validate_competence_key t p cand k")
  case (Inr k')
  then have "k' = k" by (auto simp: validate_competence_key_def result_simps validate_key_Inr split: if_split_asm)
  with assms Inr show ?thesis
    by (cases "delete_object c k w")
      (auto simp: delete_competence_artifact_def storage_call_def split: option.splits)
qed (use assms in \<open>auto simp: delete_competence_artifact_def\<close>)

lemma delete_artifacts_effect:
  assumes "deletes_one env object_at" and "delete_artifacts env t p cand keys ids w = (x, w')"
  shows "(\<forall>k. object_at w' k \<noteq> object_at w k \<longrightarrow>
       (\<exists>a \<in> set ids. map_of keys a = Some (JStr k)) \<and> validate_competence_key t p cand k = Inr k)
    \<and> (is_ok x \<longrightarrow> (\<forall>a \<in> set ids. \<exists>k. map_of keys a = Some (JStr k) \<and> object_at w' k = None)
         \<and> (\<forall>k. object_at w k = None \<longrightarrow> object_at w' k = None))"
  using assms(2)
proof (induction ids arbitrary: w)
  case (Cons a ids w)
  show ?case
  proof (cases "\<exists>k. map_of keys a = Some (JStr k)")
    case True
    then obtain k where k: "map_of keys a = Some (JStr k)" by blast
    obtain y w1 where d: "delete_competence_artifact (ce_s3 env) t p cand k w = (y, w1)" by (cases rule: prod.exhaust)
    have del: "k' \<noteq> k \<Longrightarrow> object_at (snd (delete_object (ce_s3 env) k w)) k' = object_at w k'"
      "fst (delete_object (ce_s3 env) k w) = None \<Longrightarrow> object_at (snd (delete_object (ce_s3 env) k w)) k = None" for k'
      using assms(1) by (auto simp: deletes_one_def)
    have one: "k' = k \<and> validate_competence_key t p cand k = Inr k" if "object_at w1 k' \<noteq> object_at w k'" for k'
      using delete_one_ok [OF d] del(1) [of k'] that by blast
    have gone: "object_at w1 k = None" if "is_ok y"
      using delete_one_ok [OF d] del(2) that by auto
    show ?thesis
    proof (cases y)
      case (Inl e)
      with Cons.prems k d have "x = Inl e" "w' = w1" by simp_all
      with one k show ?thesis by auto
    next
      case (Inr u)
      with Cons.prems k d have "delete_artifacts env t p cand keys ids w1 = (x, w')" by simp
      note ih = Cons.IH [OF this]
      have g: "object_at w1 k = None" using gone Inr by simp
      have keep: "object_at w k' = None \<Longrightarrow> object_at w1 k' = None" for k' using one g by metis
      have "(\<exists>b \<in> set (a # ids). map_of keys b = Some (JStr k')) \<and> validate_competence_key t p cand k' = Inr k'"
        if "object_at w' k' \<noteq> object_at w k'" for k'
        using that ih one k by (cases "object_at w1 k' = object_at w k'") auto
      moreover have "is_ok x \<longrightarrow> (\<forall>b \<in> set (a # ids). \<exists>k. map_of keys b = Some (JStr k) \<and> object_at w' k = None)
         \<and> (\<forall>k. object_at w k = None \<longrightarrow> object_at w' k = None)"
        using ih g k keep by auto
      ultimately show ?thesis by blast
    qed
  next
    case False
    with Cons.prems have "w' = w \<and> \<not> is_ok x"
      by (auto split: option.split_asm json.split_asm)
    then show ?thesis by simp
  qed
qed simp

lemma dump_scope_candidate: "dump_scope a = dump_scope b \<Longrightarrow> candidate_id a = candidate_id b"
  by (simp add: dump_scope_def)

text \<open>The walk of a cleanup to its end: refused without an effect, replayed, or performed.\<close>

lemma cleanup_cases:
  assumes "cleanup_competence_job env c authorization j body w = (x, w')"
  obtains (refused) "w' = w" "\<not> is_ok x"
  | (replayed) t r rcpt where "cleanup_admits c authorization j body = Inr t" "tenant_fit w t j = Some r"
      "cleanup_receipt_json r = Some rcpt" "w' = w" "x = Inr (rcpt\<lparr>rcpt_reused := True\<rparr>)"
      "dump_scope (cl_scope body) = dump_scope (fit_scope (request_json r))"
      "cj_project r = scope_project (cl_scope body)" "cleanup_request_digest r = cleanup_digest body"
  | (failed) t r keys e where "cleanup_admits c authorization j body = Inr t" "tenant_fit w t j = Some r"
      "candidate_id (cl_scope body) = candidate_id (fit_scope (request_json r))" "artifact_keys_json r = JObj keys"
      "delete_artifacts env t (cj_project r) (candidate_id (cl_scope body)) keys (cl_artifact_ids body) w = (Inl e, w')"
      "\<not> is_ok x"
  | (performed) t r keys w1 where "cleanup_admits c authorization j body = Inr t" "tenant_fit w t j = Some r"
      "dump_scope (cl_scope body) = dump_scope (fit_scope (request_json r))"
      "cj_project r = scope_project (cl_scope body)" "cleanup_receipt_json r = None" "artifact_keys_json r = JObj keys"
      "set (cl_artifact_ids body) = fst ` set keys"
      "delete_artifacts env t (cj_project r) (candidate_id (cl_scope body)) keys (cl_artifact_ids body) w = (Inr (), w1)"
      "x = Inr (receipt_for j body)"
      "w' = modify_fit env j (\<lambda>q. q\<lparr>cleanup_request_digest := cleanup_digest body,
              cleanup_receipt_json := Some (receipt_for j body)\<rparr>) w1"
proof -
  let ?run = "cleanup_competence_job env c authorization j body w"
  have none: thesis if "\<not> is_ok (fst ?run)" "snd ?run = w"
    using refused that assms by simp
  show thesis
  proof (cases "cleanup_admits c authorization j body")
    case (Inl e)
    then show thesis by (intro none) (simp_all add: cleanup_competence_job_def)
  next
    case (Inr t)
    note adm = Inr
    show thesis
    proof (cases "tenant_fit w t j")
      case None
      with adm show thesis by (intro none) (simp_all add: cleanup_competence_job_def)
    next
      case (Some r)
      note row = Some
      show thesis
      proof (cases "dump_scope (cl_scope body) = dump_scope (fit_scope (request_json r)) \<and> cj_project r = scope_project (cl_scope body)")
        case False
        with adm row show thesis by (intro none) (simp_all add: cleanup_competence_job_def)
      next
        case True
        note scope = True
        show thesis
        proof (cases "cleanup_receipt_json r")
          case (Some rcpt)
          show thesis
          proof (cases "cleanup_request_digest r = cleanup_digest body")
            case True
            with assms adm row scope Some show thesis
              by (intro replayed [OF adm row Some]) (simp_all add: cleanup_competence_job_def)
          next
            case False
            with adm row scope Some show thesis by (intro none) (simp_all add: cleanup_competence_job_def)
          qed
        next
          case None
          note fresh = None
          show thesis
          proof (cases "owns_exactly r (cl_artifact_ids body)")
            case False
            with adm row scope fresh show thesis by (intro none) (simp_all add: cleanup_competence_job_def)
          next
            case True
            then obtain keys where keys: "artifact_keys_json r = JObj keys" "set (cl_artifact_ids body) = fst ` set keys"
              by (auto simp: owns_exactly_def split: json.splits)
            show thesis
            proof (cases "from_settings (ce_cfg env)")
              case (Inl e)
              with adm row scope fresh True show thesis
                by (intro none) (simp_all add: cleanup_competence_job_def clean_artifacts_def)
            next
              case (Inr st)
              obtain y w1 where d: "delete_artifacts env t (cj_project r) (candidate_id (cl_scope body)) keys
                  (cl_artifact_ids body) w = (y, w1)" by (cases rule: prod.exhaust)
              have run: "clean_artifacts env t body r w = (y, w1)"
                using Inr keys(1) d by (simp add: clean_artifacts_def)
              have res: "(x, w') = (case y of Inl e \<Rightarrow> (Inl (cleanup_error e), w1)
                  | Inr u \<Rightarrow> (Inr (receipt_for j body), modify_fit env j (\<lambda>q. q\<lparr>cleanup_request_digest := cleanup_digest body,
                      cleanup_receipt_json := Some (receipt_for j body)\<rparr>) w1))"
                using assms adm row scope fresh True run
                by (cases y) (auto simp: cleanup_competence_job_def Let_def)
              show thesis
              proof (cases y)
                case (Inl e)
                with res d show thesis
                  by (intro failed [OF adm row dump_scope_candidate [OF conjunct1 [OF scope]] keys(1)]) auto
              next
                case (Inr u)
                with res d show thesis
                  by (intro performed [OF adm row conjunct1 [OF scope] conjunct2 [OF scope] fresh keys]) auto
              qed
            qed
          qed
        qed
      qed
    qed
  qed
qed

text \<open>C17. Cleanup removes exactly what the job owns: whatever the outcome, an object that a cleanup touches
  is an artifact recorded for that job of the calling tenant, under a key of the tenant, project
  and candidate of the job; and after a cleanup that was performed, none of the recorded artifacts
  is left in the bucket.\<close>

theorem cleanup_exact:
  assumes "deletes_one env object_at" and "cleanup_competence_job env c authorization j body w = (x, w')"
  shows "(\<forall>k. object_at w' k \<noteq> object_at w k \<longrightarrow>
      (\<exists>t r keys a. admit c authorization COMPETENCE_CLEANUP_SCOPE = Inr t \<and> tenant_fit w t j = Some r
        \<and> artifact_keys_json r = JObj keys \<and> map_of keys a = Some (JStr k)
        \<and> validate_competence_key t (cj_project r) (candidate_id (fit_scope (request_json r))) k = Inr k))
    \<and> (\<forall>rcpt t r keys a k. x = Inr rcpt \<and> \<not> rcpt_reused rcpt \<and> admit c authorization COMPETENCE_CLEANUP_SCOPE = Inr t
         \<and> tenant_fit w t j = Some r \<and> artifact_keys_json r = JObj keys \<and> map_of keys a = Some (JStr k)
         \<longrightarrow> object_at w' k = None)"
  using assms(2)
proof (cases rule: cleanup_cases)
  case refused
  then show ?thesis by auto
next
  case (replayed t r rcpt)
  then show ?thesis by auto
next
  case (failed t r keys e)
  have t: "admit c authorization COMPETENCE_CLEANUP_SCOPE = Inr t"
    using failed(1) by (auto simp: cleanup_admits_def result_simps split: if_split_asm)
  show ?thesis
    using delete_artifacts_effect [OF assms(1) failed(5)] t failed by auto
next
  case (performed t r keys w1)
  have t: "admit c authorization COMPETENCE_CLEANUP_SCOPE = Inr t"
    using performed(1) by (auto simp: cleanup_admits_def result_simps split: if_split_asm)
  have at: "object_at w' = object_at w1"
    using assms(1) performed(10) by (simp add: deletes_one_def modify_fit_def)
  note cand = dump_scope_candidate [OF performed(3)]
  have "a \<in> set (cl_artifact_ids body)" if "map_of keys a = Some v" for a v
    using performed(7) map_of_SomeD [OF that] by force
  with delete_artifacts_effect [OF assms(1) performed(8)] show ?thesis
    using t performed(2,6,9) unfolding at cand by (auto, fastforce)
qed

lemma rows_of_delete:
  assumes "holds_lock env j" and "delete_artifacts env t p cand keys ids w = (x, w')"
  shows "rows_of w' j = rows_of w j"
  using assms(2)
proof (induction ids arbitrary: w)
  case (Cons a ids w)
  show ?case
  proof (cases "\<exists>k. map_of keys a = Some (JStr k)")
    case True
    then obtain k where k: "map_of keys a = Some (JStr k)" by blast
    obtain y w1 where d: "delete_competence_artifact (ce_s3 env) t p cand k w = (y, w1)" by (cases rule: prod.exhaust)
    have "rows_of w1 j = rows_of w j"
      using delete_one_ok [OF d] assms(1) by (auto simp: holds_lock_def)
    then show ?thesis using Cons.IH [of w1] Cons.prems k d by (cases y) auto
  next
    case False
    with Cons.prems show ?thesis by (auto split: option.split_asm json.split_asm)
  qed
qed simp

lemma tenant_fit_modify:
  assumes "\<And>r. cj_id (f r) = cj_id r \<and> cj_tenant (f r) = cj_tenant r \<and> cj_created_at (f r) = cj_created_at r"
  shows "tenant_fit (modify_fit env j f w) t j =
    map_option (\<lambda>r. (f r)\<lparr>cj_updated_at := ce_now env w\<rparr>) (tenant_fit w t j)"
proof -
  let ?g = "\<lambda>r. (f r)\<lparr>cj_updated_at := ce_now env w\<rparr>"
  have "rows_of (modify_fit env j f w) j = map ?g (rows_of w j)"
  proof -
    have "filter (\<lambda>r. cj_id r = j) (map (\<lambda>r. if cj_id r = j then ?g r else r) rows)
        = map ?g (filter (\<lambda>r. cj_id r = j) rows)" for rows
      by (induction rows) (simp_all add: assms)
    then show ?thesis by (simp add: rows_of_def modify_fit_def)
  qed
  moreover have "filter (\<lambda>r. cj_tenant r = t) (map ?g xs) = map ?g (filter (\<lambda>r. cj_tenant r = t) xs)" for xs
    by (rule filter_map_same) (simp add: assms)
  moreover have "newest cj_created_at (map ?g xs) = map_option ?g (newest cj_created_at xs)" for xs
    by (rule newest_map) (simp add: assms)
  ultimately show ?thesis unfolding tenant_fit_rows by simp
qed

lemma tenant_fit_id: "tenant_fit w t j = Some r \<Longrightarrow> cj_id r = j \<and> cj_tenant r = t"
  unfolding tenant_fit_def by (drule newest_in) simp

text \<open>A cleanup is performed once: repeated after a success, it returns the same receipt, marked as
  reused, and changes nothing, and any cleanup of the job with another digest is refused without
  an effect, as long as no one else writes the row that the transaction has locked.\<close>

theorem cleanup_replay:
  assumes "holds_lock env j" and "cleanup_competence_job env c authorization j body w = (Inr rcpt, w')"
  shows "cleanup_competence_job env c authorization j body w' = (Inr (rcpt\<lparr>rcpt_reused := True\<rparr>), w')
    \<and> (cleanup_digest other \<noteq> cleanup_digest body \<longrightarrow>
        (\<exists>e. cleanup_competence_job env c authorization j other w' = (Inl e, w')))"
proof -
  have other: "\<exists>e. cleanup_competence_job env c authorization j other w' = (Inl e, w')"
    if "cleanup_digest other \<noteq> cleanup_digest body" "admit c authorization COMPETENCE_CLEANUP_SCOPE = Inr t"
      "tenant_fit w' t j = Some q" "cleanup_receipt_json q = Some rc" "cleanup_request_digest q = cleanup_digest body"
    for t q rc
  proof (cases "cleanup_admits c authorization j other")
    case (Inr t')
    then have "t' = t" using that(2) by (auto simp: cleanup_admits_def result_simps split: if_split_asm)
    with Inr that show ?thesis by (simp add: cleanup_competence_job_def)
  qed (simp add: cleanup_competence_job_def)
  have adm: "admit c authorization COMPETENCE_CLEANUP_SCOPE = Inr t" if "cleanup_admits c authorization j body = Inr t" for t
    using that by (auto simp: cleanup_admits_def result_simps split: if_split_asm)
  show ?thesis
    using assms(2)
  proof (cases rule: cleanup_cases)
    case (replayed t r rc)
    then show ?thesis
      using other [OF _ adm [OF replayed(1)]] by (simp add: cleanup_competence_job_def)
  next
    case (performed t r keys w1)
    let ?q = "r\<lparr>cleanup_request_digest := cleanup_digest body, cleanup_receipt_json := Some (receipt_for j body),
        cj_updated_at := ce_now env w1\<rparr>"
    have "tenant_fit w1 t j = Some r"
      using performed(2) rows_of_delete [OF assms(1) performed(8)] by (simp add: tenant_fit_rows)
    then have q: "tenant_fit w' t j = Some ?q"
      unfolding performed(10) by (subst tenant_fit_modify) simp_all
    show ?thesis
      using performed(1,3,4,9) q other [OF _ adm [OF performed(1)] q] by (simp add: cleanup_competence_job_def)
  qed simp_all
qed

subsection \<open>Concrete runs\<close>

text \<open>A bucket inside the world, a caller of tenant 1 and project 2, and a job of the demo request.\<close>

definition shelf :: "(string \<times> bytes) list cworld s3_client" where
  "shelf = \<lparr>put_object = \<lambda>k p m w. (None, w\<lparr>elsewhere := (k, p) # elsewhere w\<rparr>),
     get_object = \<lambda>k w. (case map_of (elsewhere w) k of None \<Rightarrow> Inl (ClientError ''NoSuchKey'' (Some 404))
                          | Some p \<Rightarrow> Inr (Some (int (length p)), p)),
     delete_object = \<lambda>k w. (None, w\<lparr>elsewhere := filter (\<lambda>(k', _). k' \<noteq> k) (elsewhere w)\<rparr>),
     presigned_url = \<lambda>m k ct e. Inr (''https://'' @ k)\<rparr>"

definition shelf_env :: "'x cworld s3_client \<Rightarrow> int \<Rightarrow> 'x cenv" where
  "shelf_env cl n = \<lparr>ce_cfg = \<lparr>s3_endpoint_url = ''u'', s3_access_key_id = ''a'', s3_secret_access_key = ''s'',
       s3_region = ''r'', s3_bucket = ''b'', s3_presign_seconds = 900, s3_max_bytes = n\<rparr>,
     ce_s3 = cl, ce_now = (\<lambda>_. 7), broker_up = (\<lambda>_. True), error_text = (\<lambda>_. ''e''),
     stale_after = 900, sweep_batch = 100\<rparr>"

definition fit_ctx :: api_ctx where
  "fit_ctx = \<lparr>c_verify = (\<lambda>p h. p = h), c_time = 5,
     c_tenants = [\<lparr>tenant_id = 1, tenant_slug = ''t'', tenant_display_name = ''T'', tenant_is_active = True,
       workos_organization_id = []\<rparr>],
     c_keys = [\<lparr>key_id = 9, key_tenant = 1, key_hash = ''thk_a'', key_prefix = ''thk_a'', key_label = [],
       key_scopes = JList [JStr ''competence:*''], revoked_at = None, expires_at = None, key_created_at = 0\<rparr>],
     c_billing = \<lparr>plans = [], subscriptions = [], usage_rows = []\<rparr>\<rparr>"

definition fit_projects :: "project list" where
  "fit_projects = [\<lparr>project_id = 2, project_tenant = 1, project_slug = ''p'', project_display_name = ''P''\<rparr>]"

definition demo_row :: "fit_status \<Rightarrow> string \<Rightarrow> competence_job" where
  "demo_row st task = (new_fit 5 1 2 FIT (demo_request [''b'']) 0)\<lparr>cj_status := st, cj_task_id := task\<rparr>"

definition demo_table :: "competence_job list \<Rightarrow> 'x \<Rightarrow> 'x cworld" where
  "demo_table rows x = \<lparr>cjobs = rows, cqueue = [], elsewhere = x\<rparr>"

lemma fit_ctx_admits: "admit fit_ctx ''Bearer thk_a'' COMPETENCE_FIT_SCOPE = Inr 1"
  "admit fit_ctx ''Bearer thk_a'' COMPETENCE_CLEANUP_SCOPE = Inr 1"
  by code_simp+

lemma demo_scope [simp]: "scope_tenant (fit_scope (demo_request ls)) = 1" "scope_project (fit_scope (demo_request ls)) = 2"
  "candidate_id (fit_scope (demo_request ls)) = ''c''" "contract (demo_request ls) = COMPETENCE_EXCHANGE_SCHEMA"
  "message_kind_of (demo_request ls) = FIT_REQUEST" "previous (demo_request ls) = None"
  by (simp_all add: demo_request_def)

lemma demo_row_simps [simp]: "cj_id (demo_row st task) = 5" "cj_status (demo_row st task) = st"
  "cj_task_id (demo_row st task) = task" "cj_tenant (demo_row st task) = 1" "cj_project (demo_row st task) = 2"
  "request_json (demo_row st task) = demo_request [''b'']" "cj_operation (demo_row st task) = FIT"
  "request_digest (demo_row st task) = canonical_digest (request_payload (demo_request [''b'']))"
  "artifact_keys_json (demo_row st task) = JObj []"
  by (simp_all add: demo_row_def new_fit_def)

lemma get_demo [simp]: "cj_id r = 5 \<Longrightarrow> get_fit (demo_table [r] x) 5 = Some r"
  by (simp add: get_fit_def demo_table_def table_simps)

lemma demo_admitted: "fit_admits fit_ctx fit_projects ''Bearer thk_a'' (demo_request [''b'']) FIT_REQUEST = Inr (1, 2)"
  by (simp add: fit_admits_def fit_ctx_admits demo_accepted fit_projects_def)

lemma demo_finite: "json_finite (request_payload (demo_request [''b'']))"
  by (simp add: request_payload_def demo_request_def demo_item_def dump_evidence_def dump_scope_def dump_selection_def
      opt_field_def strings_def isfinite_def list_all_iff)

lemma demo_submit_fit:
  "submit_fit (shelf_env cl n) fit_ctx fit_projects FIT 5 ''Bearer thk_a'' (demo_request [''b'']) (demo_table [] x)
    = (Inr (submission_of (new_fit 5 1 2 FIT (demo_request [''b'']) 7) False),
       \<lparr>cjobs = [new_fit 5 1 2 FIT (demo_request [''b'']) 7], cqueue = [5], elsewhere = x\<rparr>)"
  by (simp add: submit_fit_def demo_admitted existing_fit_def demo_table_def demo_finite Let_def
      dispatch_competence_job_def shelf_env_def)


theorem closed_fit_final_witness:
  "run_competence_fit (shelf_env shelf 9) ''t'' 0 5 (demo_table [demo_row FitRefused ''o''] [])
    = (Inr (FitJoined FitRefused), demo_table [demo_row FitRefused ''o''] [])"
proof -
  have "get_fit (demo_table [demo_row FitRefused ''o''] []) 5 = Some (demo_row FitRefused ''o'')" by simp
  from closed_fit_final [OF this, of "shelf_env shelf 9" "''t''" 0] show ?thesis by simp
qed


text \<open>A publication against the bucket, in a world where another process drops the ownership record
  at each write (which keeps the run independent of whether two digests differ).\<close>

definition forgetful :: "(string \<times> bytes) list cworld s3_client" where
  "forgetful = shelf\<lparr>put_object := \<lambda>k p m w. (None, w\<lparr>elsewhere := (k, p) # elsewhere w,
     cjobs := map (\<lambda>r. r\<lparr>artifact_keys_json := JObj []\<rparr>) (cjobs w)\<rparr>)\<rparr>"

definition running_row :: "'x cworld \<Rightarrow> bool" where
  "running_row w \<longleftrightarrow> (\<exists>r. cjobs w = [r] \<and> cj_id r = 5 \<and> cj_status r = FitRunning)"

lemma forgetful_write:
  assumes "competence_media kind = Some media" "kind \<in> set [''scorer_model'', ''prior_pack'']"
    and "p \<noteq> []" "int (length p) \<le> max_bytes st" "running_row w"
  obtains a w1 r where "write_competence_artifact st forgetful 1 2 ''c'' kind p media w = (Inr a, w1)"
    "payload_digest a = sha256_digest p" "byte_length a = length p"
    "cjobs w1 = [r]" "cj_id r = 5" "cj_status r = FitRunning" "artifact_keys_json r = JObj []"
proof -
  obtain k where k: "competence_artifact_key 1 2 ''c'' kind (sha256_digest p) = Inr k"
    using assms(2) by (simp add: competence_artifact_key_def blank_iff py_isspace_def)
  then have "validate_competence_key 1 2 ''c'' k = Inr k" by (rule competence_key_valid)
  then have v: "validate_key 1 k = Inr k"
    by (auto simp: validate_competence_key_def result_simps validate_key_Inr split: if_split_asm)
  let ?w1 = "snd (put_object forgetful k p media w)"
  have get: "get_bytes st forgetful 1 k ?w1 = Inr p"
    using assms(4) by (simp add: get_bytes_def v forgetful_def shelf_def Let_def)
  have put: "storage_call x (put_object forgetful k p media w) = (Inr (), ?w1)" for x
    by (simp add: storage_call_def forgetful_def)
  obtain r where r: "cjobs w = [r]" "cj_id r = 5" "cj_status r = FitRunning"
    using assms(5) by (auto simp: running_row_def)
  show thesis
    by (rule that [of "\<lparr>artifact_key = k, payload_digest = sha256_digest p, media_type = media, byte_length = length p\<rparr>"
          ?w1 "r\<lparr>artifact_keys_json := JObj []\<rparr>"])
      (use assms(1,3,4) k get put r in \<open>simp_all add: write_competence_artifact_def forgetful_def\<close>)
qed

lemma forgetful_publish_one:
  assumes "competence_media kind = Some (art_media d)" "kind \<in> set [''scorer_model'', ''prior_pack'']"
    and "p \<noteq> []" "int (length p) \<le> max_bytes st" "running_row w"
    and "art_digest d = sha256_digest p" "art_bytes d = length p"
    and "cj_tenant r = 1" "cj_project r = 2" "cj_id r = 5" "request_json r = demo_request [''b'']"
  obtains a w2 where "publish_one (shelf_env forgetful n) st r kind p d mismatch w = (Inr a, w2)" "running_row w2"
proof -
  obtain a w1 q where w: "write_competence_artifact st forgetful 1 2 ''c'' kind p (art_media d) w = (Inr a, w1)"
    "payload_digest a = sha256_digest p" "byte_length a = length p"
    and q: "cjobs w1 = [q]" "cj_id q = 5" "cj_status q = FitRunning" "artifact_keys_json q = JObj []"
    using forgetful_write [OF assms(1-5)] by blast
  have g: "get_fit w1 5 = Some q" using q by (simp add: get_fit_def table_simps)
  have c: "ce_s3 (shelf_env forgetful n) = forgetful" by (simp add: shelf_env_def)
  obtain w2 where rec: "record_artifact (shelf_env forgetful n) 5 (payload_digest a) (artifact_key a) w1 = (Inr (), w2)"
    and run: "running_row w2"
    using g q by (simp add: record_artifact_def running_row_def modify_fit_def)
  have "publish_one (shelf_env forgetful n) st r kind p d mismatch w = (Inr a, w2)"
    using assms(6-11) w rec c by (simp add: publish_one_def)
  then show thesis using run by (rule that)
qed

lemma fit_payload_nonempty:
  assumes "fit_competence r digest prev = Inr f"
  shows "prior_pack_payload f \<noteq> []" "model_payload f \<noteq> []"
proof -
  have ne: "b \<noteq> []" if "canonical_json_bytes (JObj kvs) = Some b" for kvs b
    using that by (auto simp: canonical_json_bytes_def canonical_json_def utf8_def utf8_char_def split: if_split_asm)
  obtain p digest' x y q where "canonical_json_bytes (prior_pack_value r digest p) = Some (prior_pack_payload f)"
    "canonical_json_bytes (model_value r digest x y q) = Some (model_payload f)"
    using assms unfolding fit_competence_def Let_def
    by (auto simp: result_simps need_def split: if_split_asm option.split_asm)
  then show "prior_pack_payload f \<noteq> []" "model_payload f \<noteq> []"
    using ne unfolding prior_pack_value_def model_value_def by blast+
qed

lemma demo_attempt:
  assumes "int (max (length (prior_pack_payload f)) (length (model_payload f))) = n" "0 < n"
    and "fit_competence (demo_request [''b'']) (request_digest q) None = Inr f"
    and "running_row w" "cj_tenant q = 1" "cj_project q = 2" "cj_id q = 5" "request_json q = demo_request [''b'']"
    and "cj_operation q = FIT" "request_digest q = canonical_digest (request_payload (demo_request [''b'']))"
  shows "\<exists>w'. attempt_fit (shelf_env forgetful n) 5 q w = (Inr (FitDone (fit_scorer f)), w')"
proof -
  let ?e = "shelf_env forgetful n" and ?st = "\<lparr>bucket = ''b'', presign_seconds = 900, max_bytes = n\<rparr>"
  have len: "int (length (prior_pack_payload f)) \<le> max_bytes ?st" "int (length (model_payload f)) \<le> max_bytes ?st"
    using assms(1) by auto
  have art: "model_artifact (fit_scorer f) = artifact_of ''scorer_model'' SCORER_MEDIA_TYPE (model_payload f)"
    "prior_pack_artifact (fit_scorer f) = artifact_of ''prior_pack'' PRIOR_PACK_MEDIA_TYPE (prior_pack_payload f)"
    using assms(3) by (rule fit_competence_ok, simp)+
  have media: "competence_media ''scorer_model'' = Some (art_media (model_artifact (fit_scorer f)))"
    "competence_media ''prior_pack'' = Some (art_media (prior_pack_artifact (fit_scorer f)))"
    by (simp_all add: competence_media_def art artifact_of_def SCORER_MEDIA_TYPE_def PRIOR_PACK_MEDIA_TYPE_def)
  obtain a w1 where 1: "publish_one ?e ?st q ''prior_pack'' (prior_pack_payload f) (prior_pack_artifact (fit_scorer f))
       ''published prior pack does not match its fitted descriptor'' w = (Inr a, w1)" and r1: "running_row w1"
    by (rule forgetful_publish_one [OF media(2) _ fit_payload_nonempty(1) [OF assms(3)] len(1) assms(4)])
      (use assms(5-8) in \<open>simp_all add: art artifact_of_def\<close>)
  obtain b w2 where 2: "publish_one ?e ?st q ''scorer_model'' (model_payload f) (model_artifact (fit_scorer f))
       ''published scorer model does not match its fitted descriptor'' w1 = (Inr b, w2)" and r2: "running_row w2"
    by (rule forgetful_publish_one [OF media(1) _ fit_payload_nonempty(2) [OF assms(3)] len(2) r1])
      (use assms(5-8) in \<open>simp_all add: art artifact_of_def\<close>)
  obtain x where x: "get_fit w2 5 = Some x" "cj_status x = FitRunning"
    using r2 by (auto simp: running_row_def get_fit_def table_simps)
  have bind: "validate_job_binding q (request_json q) = Inr ()"
    using assms(5-10) demo_finite by (simp add: validate_job_binding_def need_def canonical_hex_digest_def
        canonical_json_bytes_def canonical_digest_def sha256_digest_def)
  have prev: "resolve_previous rows q (request_json q) = Inr None" for rows
    using assms(8) by (simp add: resolve_previous_def)
  have cfg: "from_settings (ce_cfg ?e) = Inr ?st"
    using assms(2) by (simp add: shelf_env_def from_settings_def blank_iff py_isspace_def)
  show ?thesis
    using bind prev assms(3,8) cfg 1 2 x
    by (simp add: attempt_fit_def publish_def finish_success_def del: dict_set.simps)
qed

lemma demo_claim:
  obtains q w1 where "claim_job env 5 ''t'' (demo_table [demo_row FitQueued []] x) = (Some q, w1)" "running_row w1"
    "cj_status q = FitRunning" "cj_tenant q = 1" "cj_project q = 2" "cj_id q = 5" "request_json q = demo_request [''b'']"
    "cj_operation q = FIT" "request_digest q = canonical_digest (request_payload (demo_request [''b'']))"
proof -
  let ?w = "demo_table [demo_row FitQueued []] x" and ?r = "demo_row FitQueued []"
  let ?f = "\<lambda>q. q\<lparr>cj_status := FitRunning, cj_task_id := ''t'',
      cj_started_at := Some (case cj_started_at ?r of Some s \<Rightarrow> s | None \<Rightarrow> ce_now env ?w),
      attempt_count := attempt_count ?r + 1, cj_error := [], refusal_json := None\<rparr>"
  let ?w1 = "modify_fit env 5 ?f ?w" and ?q = "(?f ?r)\<lparr>cj_updated_at := ce_now env ?w\<rparr>"
  have rows: "cjobs ?w1 = [?q]" by (simp add: modify_fit_def demo_table_def)
  then have "get_fit ?w1 5 = Some ?q" by (simp add: get_fit_def table_simps)
  then have "claim_job env 5 ''t'' ?w = (Some ?q, ?w1)" by (simp add: claim_job_def Let_def)
  moreover have "running_row ?w1" using rows by (simp add: running_row_def)
  ultimately show thesis by (rule that) simp_all
qed

theorem fit_success_published_witness:
  "\<exists>n s w' q. run_competence_fit (shelf_env forgetful n) ''t'' 0 5 (demo_table [demo_row FitQueued []] []) = (Inr (FitDone s), w')
     \<and> get_fit w' 5 = Some q \<and> scorer_json q = Some s"
proof -
  obtain f where f: "fit_competence (demo_request [''b'']) (canonical_digest (request_payload (demo_request [''b'']))) None = Inr f"
    using demo_fit by blast
  let ?n = "int (max (length (prior_pack_payload f)) (length (model_payload f)))"
  have n: "0 < ?n" using fit_payload_nonempty [OF f] by (cases "model_payload f") auto
  obtain q w1 where c: "claim_job (shelf_env forgetful ?n) 5 ''t'' (demo_table [demo_row FitQueued []] []) = (Some q, w1)"
    and run: "running_row w1" and q: "cj_status q = FitRunning" "cj_tenant q = 1" "cj_project q = 2" "cj_id q = 5"
      "request_json q = demo_request [''b'']" "cj_operation q = FIT"
      "request_digest q = canonical_digest (request_payload (demo_request [''b'']))"
    by (rule demo_claim)
  have fit: "fit_competence (demo_request [''b'']) (request_digest q) None = Inr f" using f q by simp
  obtain w' where a: "attempt_fit (shelf_env forgetful ?n) 5 q w1 = (Inr (FitDone (fit_scorer f)), w')"
    using demo_attempt [OF refl n fit run q(2-7)] by blast
  have r: "run_competence_fit (shelf_env forgetful ?n) ''t'' 0 5 (demo_table [demo_row FitQueued []] [])
      = (Inr (FitDone (fit_scorer f)), w')"
    using c a q(1) by (simp add: run_competence_fit_def task_identity_def)
  from fit_success_published [OF r] r show ?thesis by blast
qed

text \<open>A world in which the other delivery succeeds during the first write, and the readback is empty.\<close>

definition racing :: "unit cworld s3_client" where
  "racing = \<lparr>put_object = \<lambda>k p m w. (None, w\<lparr>cjobs := map (\<lambda>r. r\<lparr>cj_status := FitSucceeded\<rparr>) (cjobs w)\<rparr>),
     get_object = \<lambda>k w. Inr (None, []), delete_object = \<lambda>k w. (None, w), presigned_url = \<lambda>m k ct e. Inr k\<rparr>"

lemma racing_write:
  assumes "competence_media kind = Some media" "kind \<in> set [''scorer_model'', ''prior_pack'']"
    and "p \<noteq> []" "int (length p) \<le> max_bytes st"
  shows "write_competence_artifact st racing 1 2 ''c'' kind p media w
    = (Inl (ArtifactValidationError ''competence artifact readback does not match published bytes''),
       w\<lparr>cjobs := map (\<lambda>r. r\<lparr>cj_status := FitSucceeded\<rparr>) (cjobs w)\<rparr>)"
proof -
  obtain k where k: "competence_artifact_key 1 2 ''c'' kind (sha256_digest p) = Inr k"
    using assms(2) by (simp add: competence_artifact_key_def blank_iff py_isspace_def)
  then have "validate_competence_key 1 2 ''c'' k = Inr k" by (rule competence_key_valid)
  then have v: "validate_key 1 k = Inr k"
    by (auto simp: validate_competence_key_def result_simps validate_key_Inr split: if_split_asm)
  have get: "get_bytes st racing 1 k v = Inr []" for v
    using assms(3,4) by (cases p) (simp_all add: get_bytes_def v racing_def Let_def)
  have put: "storage_call x (put_object racing k p media w)
      = (Inr (), w\<lparr>cjobs := map (\<lambda>r. r\<lparr>cj_status := FitSucceeded\<rparr>) (cjobs w)\<rparr>)" for x
    by (simp add: storage_call_def racing_def)
  show ?thesis
    using assms(1,3,4) k get put by (simp add: write_competence_artifact_def)
qed

theorem late_failure_overwrites_witness:
  "\<exists>n w' q'. run_competence_fit (shelf_env racing n) ''t'' 0 5 (demo_table [demo_row FitRunning ''o''] ())
        = (Inr (FitProblem FitFailed ''artifact_publication_invalid'' False), w')
      \<and> get_fit w' 5 = Some q' \<and> cj_status q' = FitFailed"
proof -
  let ?q = "demo_row FitRunning ''o''" and ?w = "demo_table [demo_row FitRunning ''o''] ()"
  obtain f where f: "fit_competence (demo_request [''b'']) (canonical_digest (request_payload (demo_request [''b'']))) None = Inr f"
    using demo_fit by blast
  let ?n = "int (length (prior_pack_payload f))"
  let ?e = "shelf_env racing ?n" and ?st = "\<lparr>bucket = ''b'', presign_seconds = 900, max_bytes = ?n\<rparr>"
  have n: "0 < ?n" using fit_payload_nonempty(1) [OF f] by simp
  have cfg: "from_settings (ce_cfg ?e) = Inr ?st"
    using n by (simp add: shelf_env_def from_settings_def blank_iff py_isspace_def)
  have art: "prior_pack_artifact (fit_scorer f) = artifact_of ''prior_pack'' PRIOR_PACK_MEDIA_TYPE (prior_pack_payload f)"
    using f by (rule fit_competence_ok, simp)
  have media: "competence_media ''prior_pack'' = Some (art_media (prior_pack_artifact (fit_scorer f)))"
    by (simp add: competence_media_def art artifact_of_def PRIOR_PACK_MEDIA_TYPE_def)
  have bind: "validate_job_binding ?q (request_json ?q) = Inr ()"
    using demo_finite by (simp add: validate_job_binding_def need_def canonical_hex_digest_def
        canonical_json_bytes_def canonical_digest_def sha256_digest_def)
  have prev: "resolve_previous rows ?q (request_json ?q) = Inr None" for rows
    by (simp add: resolve_previous_def)
  let ?w1 = "?w\<lparr>cjobs := map (\<lambda>r. r\<lparr>cj_status := FitSucceeded\<rparr>) (cjobs ?w)\<rparr>"
  have wr: "write_competence_artifact ?st racing 1 2 ''c'' ''prior_pack'' (prior_pack_payload f)
      (art_media (prior_pack_artifact (fit_scorer f))) ?w
    = (Inl (ArtifactValidationError ''competence artifact readback does not match published bytes''), ?w1)"
    by (rule racing_write [OF media _ fit_payload_nonempty(1) [OF f]]) simp_all
  have s3: "ce_s3 ?e = racing" by (simp add: shelf_env_def)
  have a: "attempt_fit ?e 5 ?q ?w
      = (Inl (ArtExc (ArtifactValidationError ''competence artifact readback does not match published bytes'')), ?w1)"
    using bind prev f cfg wr s3 by (simp add: attempt_fit_def publish_def publish_one_def)
  have g: "get_fit ?w 5 = Some ?q" by simp
  have g1: "get_fit ?w1 5 = Some (?q\<lparr>cj_status := FitSucceeded\<rparr>)"
    by (simp add: get_fit_def demo_table_def table_simps)
  have "task_identity ''t'' 5 = ''t''" by (simp add: task_identity_def)
  with late_failure_overwrites [OF g _ _ _ a g1, of "''t''" 0] show ?thesis by auto
qed

text \<open>A succeeded job with one artifact, and its cleanup.\<close>

definition owned_row :: "string \<Rightarrow> competence_job" where
  "owned_row k = (demo_row FitSucceeded ''o'')\<lparr>artifact_keys_json := JObj [(demo_digest (CHR ''0''), JStr k)]\<rparr>"

definition demo_cleanup :: cleanup_request where
  "demo_cleanup = \<lparr>cl_contract = COMPETENCE_EXCHANGE_SCHEMA, cleanup_operation_id = ''x'', cl_job_id = 5,
     cl_scope = fit_scope (demo_request [''b'']), cl_artifact_ids = [demo_digest (CHR ''0'')]\<rparr>"

lemma demo_cleanup_run:
  assumes "validate_competence_key 1 2 ''c'' k = Inr k"
  obtains rcpt w' where "cleanup_competence_job (shelf_env shelf 9) fit_ctx ''Bearer thk_a'' 5 demo_cleanup
      (demo_table [owned_row k] [(k, [1])]) = (Inr rcpt, w')" "\<not> rcpt_reused rcpt"
proof -
  let ?w = "demo_table [owned_row k] [(k, [1])]"
  have adm: "cleanup_admits fit_ctx ''Bearer thk_a'' 5 demo_cleanup = Inr 1"
    by (simp add: cleanup_admits_def fit_ctx_admits demo_cleanup_def canon_def demo_digest_ok blank_iff py_isspace_def)
  have row: "tenant_fit ?w 1 5 = Some (owned_row k)"
    by (simp add: tenant_fit_def demo_table_def owned_row_def)
  have r: "request_json (owned_row k) = demo_request [''b'']" "cj_project (owned_row k) = 2"
    "cleanup_receipt_json (owned_row k) = None" "artifact_keys_json (owned_row k) = JObj [(demo_digest (CHR ''0''), JStr k)]"
    by (simp_all add: owned_row_def) (simp add: demo_row_def new_fit_def)
  have cl: "cl_scope demo_cleanup = fit_scope (demo_request [''b''])" "cl_artifact_ids demo_cleanup = [demo_digest (CHR ''0'')]"
    by (simp_all add: demo_cleanup_def)
  obtain st where st: "from_settings (ce_cfg (shelf_env shelf 9)) = Inr st"
    by (simp add: shelf_env_def from_settings_def blank_iff py_isspace_def)
  obtain w1 where del: "delete_competence_artifact (ce_s3 (shelf_env shelf 9)) 1 2 ''c'' k ?w = (Inr (), w1)"
    using assms by (simp add: delete_competence_artifact_def shelf_env_def shelf_def storage_call_def)
  have own: "owns_exactly (owned_row k) (cl_artifact_ids demo_cleanup)"
    unfolding owns_exactly_def r cl by simp
  have clean: "clean_artifacts (shelf_env shelf 9) 1 demo_cleanup (owned_row k) ?w = (Inr (), w1)"
    by (simp add: clean_artifacts_def st r cl del)
  have "cleanup_competence_job (shelf_env shelf 9) fit_ctx ''Bearer thk_a'' 5 demo_cleanup ?w
      = (Inr (receipt_for 5 demo_cleanup), modify_fit (shelf_env shelf 9) 5
          (\<lambda>q. q\<lparr>cleanup_request_digest := cleanup_digest demo_cleanup,
                cleanup_receipt_json := Some (receipt_for 5 demo_cleanup)\<rparr>) w1)"
    by (simp add: cleanup_competence_job_def adm row own [unfolded cl] clean r cl Let_def)
  then show thesis by (rule that) (simp add: receipt_for_def)
qed

lemma demo_key: "\<exists>k. validate_competence_key 1 2 ''c'' k = Inr k"
proof -
  obtain k where "competence_artifact_key 1 2 ''c'' ''prior_pack'' (sha256_digest [1]) = Inr k"
    by (simp add: competence_artifact_key_def blank_iff py_isspace_def)
  then show ?thesis using competence_key_valid by blast
qed

theorem cleanup_exact_witness:
  "\<exists>k rcpt w'. cleanup_competence_job (shelf_env shelf 9) fit_ctx ''Bearer thk_a'' 5 demo_cleanup
      (demo_table [owned_row k] [(k, [1])]) = (Inr rcpt, w') \<and> map_of (elsewhere w') k = None"
proof -
  obtain k where k: "validate_competence_key 1 2 ''c'' k = Inr k" using demo_key by blast
  obtain rcpt w' where run: "cleanup_competence_job (shelf_env shelf 9) fit_ctx ''Bearer thk_a'' 5 demo_cleanup
      (demo_table [owned_row k] [(k, [1])]) = (Inr rcpt, w')" and n: "\<not> rcpt_reused rcpt"
    using k by (rule demo_cleanup_run)
  have flt: "map_of (filter (\<lambda>(k', _). k' \<noteq> a) xs) b = (if b = a then None else map_of xs b)" for a b and xs :: "(string \<times> bytes) list"
    by (induction xs) auto
  have d: "deletes_one (shelf_env shelf 9) (\<lambda>w. map_of (elsewhere w))"
    by (simp add: deletes_one_def shelf_env_def shelf_def flt)
  have row: "tenant_fit (demo_table [owned_row k] [(k, [1])]) 1 5 = Some (owned_row k)"
    by (simp add: tenant_fit_def demo_table_def owned_row_def)
  have "artifact_keys_json (owned_row k) = JObj [(demo_digest (CHR ''0''), JStr k)]" by (simp add: owned_row_def)
  then have "map_of (elsewhere w') k = None"
    using cleanup_exact [OF d run] fit_ctx_admits(2) n row by (metis map_of_Cons_code(2))
  with run show ?thesis by blast
qed

theorem cleanup_replay_witness:
  "\<exists>k rcpt w'. cleanup_competence_job (shelf_env shelf 9) fit_ctx ''Bearer thk_a'' 5 demo_cleanup
      (demo_table [owned_row k] [(k, [1])]) = (Inr rcpt, w')
    \<and> cleanup_competence_job (shelf_env shelf 9) fit_ctx ''Bearer thk_a'' 5 demo_cleanup w'
        = (Inr (rcpt\<lparr>rcpt_reused := True\<rparr>), w')"
proof -
  obtain k where k: "validate_competence_key 1 2 ''c'' k = Inr k" using demo_key by blast
  obtain rcpt w' where run: "cleanup_competence_job (shelf_env shelf 9) fit_ctx ''Bearer thk_a'' 5 demo_cleanup
      (demo_table [owned_row k] [(k, [1])]) = (Inr rcpt, w')"
    using k by (rule demo_cleanup_run)
  have "holds_lock (shelf_env shelf 9) 5"
    by (simp add: holds_lock_def shelf_env_def shelf_def rows_of_def)
  from cleanup_replay [OF this run] run show ?thesis by blast
qed

end
