(* ===== verification/Planner.thy ===== *)
theory Planner
  imports Offload
begin

section \<open>Planning the shards of an extraction\<close>

text \<open>
  \<open>apps/extraction/planner.py\<close>: a source of passages (one Arrow artifact, or the pages of a remote
  listing) is cut into Arrow shards of bounded encoded size, each written under a fresh planning
  prefix; a planning that fails deletes what it wrote. The Arrow encoder, the cast to a schema,
  the HTTP client and \<open>json.loads\<close> are parameters. A page is planned before the next one is
  requested, as the generator of the code does it.
\<close>

subsection \<open>Errors, plans and the environment\<close>

text \<open>\<open>PageTooLarge\<close> is the private subclass of \<open>ExtractionPlanningError\<close>; \<open>PlanCrash\<close> is any exception
  the component does not raise itself.\<close>

datatype plan_error = Planning string | PageTooLarge string | PlanArtifact artifact_error | PlanCrash string

definition is_planning_error :: "plan_error \<Rightarrow> bool" where
  "is_planning_error e = (case e of Planning _ \<Rightarrow> True | PageTooLarge _ \<Rightarrow> True | _ \<Rightarrow> False)"

definition plan_text :: "plan_error \<Rightarrow> string" where
  "plan_text e = (case e of Planning m \<Rightarrow> m | PageTooLarge m \<Rightarrow> m | PlanArtifact a \<Rightarrow> err_text a | PlanCrash m \<Rightarrow> m)"

record shard_plan =
  plan_index :: nat
  plan_key :: string
  plan_digest :: string
  plan_schema :: string
  plan_rows :: nat
  plan_bytes :: nat

record passage_query =
  q_tenant :: string
  q_source :: string
  q_limit :: nat
  q_cursor :: "string option"

text \<open>A streamed response: the chunks that arrive, and whether the transport or the status then failed.\<close>

datatype page_reply = PageReply "bytes list" bool

record 'x plan_env =
  pl_cfg :: s3_settings
  pl_s3 :: "'x s3_client"
  pl_ipc :: arrow_ipc
  pl_cast :: "table \<Rightarrow> (bool, table) result"
  pl_http :: "passage_query \<Rightarrow> 'x \<Rightarrow> page_reply \<times> 'x"
  pl_loads :: "bytes \<Rightarrow> json option"
  passages_key :: string

definition REMOTE_PAGE_SIZE :: nat where "REMOTE_PAGE_SIZE = 1000"
definition REMOTE_ESTIMATED_PASSAGE_BYTES :: int where "REMOTE_ESTIMATED_PASSAGE_BYTES = 1024"

subsection \<open>Passage tables\<close>

definition passage_schema :: table_schema where
  "passage_schema = \<lparr>schema_fields =
     [\<lparr>field_name = ''passage_id'', field_type = ''string'', field_nullable = False\<rparr>,
      \<lparr>field_name = ''text'', field_type = ''string'', field_nullable = False\<rparr>,
      \<lparr>field_name = ''metadata_json'', field_type = ''string'', field_nullable = True\<rparr>],
     schema_metadata = []\<rparr>"

definition schema_names :: "table_schema \<Rightarrow> string list" where
  "schema_names s = map field_name (schema_fields s)"

text \<open>\<open>pl_cast\<close> selects the three columns under the schema; \<open>Inl True\<close> is an exception the code
  translates, \<open>Inl False\<close> any other.\<close>

definition validate_passage_table :: "'x plan_env \<Rightarrow> table \<Rightarrow> (plan_error, table) result" where
  "validate_passage_table env tbl =
     rbind (if schema_fields (tbl_schema tbl) = schema_fields passage_schema then Inr tbl
            else let missing = filter (\<lambda>n. n \<notin> set (schema_names (tbl_schema tbl))) (schema_names passage_schema)
                 in if missing \<noteq> []
                    then Inl (Planning (''passage source omitted columns: '' @ join '', '' (canon missing)))
                    else map_err (\<lambda>known. if known then Planning ''passage source does not match the Arrow schema''
                                          else PlanCrash ''KeyError'') (pl_cast env tbl))
       (\<lambda>normalized.
          if list_ex (\<lambda>row. row ! 0 = JNull) (tbl_rows normalized)
          then Inl (Planning ''passage_id cannot contain nulls'')
          else if list_ex (\<lambda>row. row ! 1 = JNull) (tbl_rows normalized)
          then Inl (Planning ''text cannot contain nulls'')
          else Inr normalized)"

definition artifact_source ::
  "'x plan_env \<Rightarrow> artifact_store \<Rightarrow> uuid \<Rightarrow> json \<Rightarrow> 'x \<Rightarrow> (plan_error, table) result" where
  "artifact_source env st t source_ref w =
     (case jget source_ref ''artifact_key'' of
        Some (JStr key) \<Rightarrow>
          if key = [] then Inl (Planning ''artifact source requires artifact_key'')
          else rbind (map_err PlanArtifact (read_table st (pl_s3 env) (pl_ipc env) t key
                        (str_or_empty (jget source_ref ''payload_digest''))
                        (str_or_empty (jget source_ref ''schema_json''))
                        (json_rows (or_null (jget source_ref ''rows''))) w))
                 (validate_passage_table env)
      | _ \<Rightarrow> Inl (Planning ''artifact source requires artifact_key''))"

subsection \<open>Cutting a table\<close>

text \<open>\<open>table.slice(start, count)\<close>.\<close>

definition slice :: "table \<Rightarrow> nat \<Rightarrow> nat \<Rightarrow> table" where
  "slice tbl start n = tbl\<lparr>tbl_rows := take n (drop start (tbl_rows tbl))\<rparr>"

definition fits :: "arrow_ipc \<Rightarrow> int \<Rightarrow> table \<Rightarrow> nat \<Rightarrow> nat \<Rightarrow> bool" where
  "fits ipc_lib limit tbl start n \<longleftrightarrow> int (length (ipc_encode ipc_lib (slice tbl start n))) \<le> limit"

text \<open>The doubling and the halving loop over \<open>low\<close> and \<open>high\<close>. \<open>high\<close> starts at 1 and only grows: that it
  is positive is asked again at every round only so that the function is total.\<close>

function grow :: "(nat \<Rightarrow> bool) \<Rightarrow> nat \<Rightarrow> nat \<Rightarrow> nat \<Rightarrow> nat \<times> nat" where
  "grow ok remaining low high =
     (if 0 < high \<and> high \<le> remaining \<and> ok high then grow ok remaining high (high * 2) else (low, high))"
  by pat_completeness auto

termination by (relation "measure (\<lambda>(ok, remaining, low, high). Suc remaining - high)") auto

function bisect :: "(nat \<Rightarrow> bool) \<Rightarrow> nat \<Rightarrow> nat \<Rightarrow> nat" where
  "bisect ok low high =
     (if low + 1 < high
      then let middle = (low + high) div 2 in if ok middle then bisect ok middle high else bisect ok low middle
      else low)"
  by pat_completeness auto

termination by (relation "measure (\<lambda>(ok, low, high). high - low)") auto

declare grow.simps [simp del] bisect.simps [simp del]

definition best_count :: "(nat \<Rightarrow> bool) \<Rightarrow> nat \<Rightarrow> nat" where
  "best_count ok remaining =
     (case grow ok remaining 0 1 of (low, high) \<Rightarrow> bisect ok low (min high (remaining + 1)))"

function split_from :: "arrow_ipc \<Rightarrow> int \<Rightarrow> table \<Rightarrow> nat \<Rightarrow> (plan_error, table list) result" where
  "split_from il limit tbl start =
     (if start < length (tbl_rows tbl)
      then let best = best_count (fits il limit tbl start) (length (tbl_rows tbl) - start)
           in if best = 0
              then Inl (Planning (''passage row '' @ dec_nat start @ '' exceeds EXTRACTION_MAX_INPUT_BYTES''))
              else rbind (split_from il limit tbl (start + best)) (\<lambda>rest. Inr (slice tbl start best # rest))
      else Inr [])"
  by pat_completeness auto

termination by (relation "measure (\<lambda>(il, limit, tbl, start). length (tbl_rows tbl) - start)") auto

declare split_from.simps [simp del]

definition split_table :: "arrow_ipc \<Rightarrow> table \<Rightarrow> int \<Rightarrow> (plan_error, table list) result" where
  "split_table il tbl limit =
     (if limit \<le> 0 then Inl (Planning ''max_input_bytes must be positive'') else split_from il limit tbl 0)"

subsection \<open>The remote listing\<close>

text \<open>The bytes of a response, refused as soon as they exceed the limit.\<close>

datatype page_error = TooLarge | HttpFailure

fun read_chunks :: "int \<Rightarrow> bytes \<Rightarrow> bytes list \<Rightarrow> bool \<Rightarrow> (page_error, bytes) result" where
  "read_chunks limit acc [] failed = (if failed then Inl HttpFailure else Inr acc)"
| "read_chunks limit acc (c # cs) failed =
     (if limit < int (length acc + length c) then Inl TooLarge else read_chunks limit (acc @ c) cs failed)"

definition passage_query_of :: "uuid \<Rightarrow> string \<Rightarrow> string option \<Rightarrow> nat \<Rightarrow> passage_query" where
  "passage_query_of t kind cursor page_size =
     \<lparr>q_tenant = uuid_str t, q_source = kind, q_limit = page_size, q_cursor = cursor\<rparr>"

text \<open>The inner loop: one page, requested again with half the rows while the response is too large. The
  page size that worked is kept for the pages to come. (It is never 0: see \<open>first_page_size\<close>.)\<close>

function fetch_page ::
  "'x plan_env \<Rightarrow> uuid \<Rightarrow> string \<Rightarrow> int \<Rightarrow> string option \<Rightarrow> nat \<Rightarrow> 'x \<Rightarrow> (plan_error, json) result \<times> nat \<times> 'x" where
  "fetch_page env t kind limit cursor page_size w =
     (case pl_http env (passage_query_of t kind cursor page_size) w of
        (PageReply chunks failed, w1) \<Rightarrow>
          (case read_chunks limit [] chunks failed of
             Inl HttpFailure \<Rightarrow> (Inl (Planning ''passage listing request failed''), page_size, w1)
           | Inl TooLarge \<Rightarrow>
               if page_size \<le> 1
               then (Inl (PageTooLarge ''passage listing page exceeds the response byte limit''), page_size, w1)
               else fetch_page env t kind limit cursor (max 1 (page_size div 2)) w1
           | Inr encoded \<Rightarrow>
               (case pl_loads env encoded of
                  None \<Rightarrow> (Inl (Planning ''passage listing request failed''), page_size, w1)
                | Some payload \<Rightarrow> (Inr payload, page_size, w1))))"
  by pat_completeness auto

termination by (relation "measure (\<lambda>(env, t, kind, limit, cursor, page_size, w). page_size)") auto

declare fetch_page.simps [simp del]

definition first_page_size :: "int \<Rightarrow> nat" where
  "first_page_size limit = max 1 (nat (min (int REMOTE_PAGE_SIZE) (limit div REMOTE_ESTIMATED_PASSAGE_BYTES)))"

text \<open>\<open>a or b\<close> on the results of \<open>get\<close>.\<close>

definition get_or :: "json \<Rightarrow> string \<Rightarrow> string \<Rightarrow> json" where
  "get_or item a b = (case jget item a of Some v \<Rightarrow> if truthy v then v else or_null (jget item b)
     | None \<Rightarrow> or_null (jget item b))"

definition passage_metadata :: "json \<Rightarrow> json" where
  "passage_metadata item =
     (case or_null (jget item ''metadata_json'') of
        JNull \<Rightarrow> (case or_null (jget item ''metadata'') of
            JNull \<Rightarrow> JNull
          | m \<Rightarrow> JStr (dumps \<lparr>ensure_ascii = True, item_sep = '','', key_sep = '':''\<rparr> m))
      | m \<Rightarrow> m)"

definition passage_row :: "uuid \<Rightarrow> json \<Rightarrow> (plan_error, json list) result" where
  "passage_row t item =
     (case item of
        JObj _ \<Rightarrow>
          let asserted = or_null (jget item ''tenant_id'') in
          if asserted \<noteq> JNull \<and> py_str asserted \<noteq> uuid_str t
          then Inl (Planning ''passage listing crossed the admitted tenant'')
          else (case (get_or item ''passage_id'' ''id'', or_null (jget item ''text'')) of
              (JStr pid, JStr txt) \<Rightarrow>
                (case passage_metadata item of
                   JNull \<Rightarrow> Inr [JStr pid, JStr txt, JNull]
                 | JStr m \<Rightarrow> Inr [JStr pid, JStr txt, JStr m]
                 | _ \<Rightarrow> Inl (Planning ''metadata_json must be a string or null''))
            | _ \<Rightarrow> Inl (Planning ''passage rows require passage_id and text''))
      | _ \<Rightarrow> Inl (Planning ''passage listing rows must be objects''))"

definition page_table :: "uuid \<Rightarrow> json \<Rightarrow> (plan_error, table) result" where
  "page_table t payload =
     (case (case payload of JObj _ \<Rightarrow> or_null (jget payload ''passages'') | _ \<Rightarrow> payload) of
        JList items \<Rightarrow> rbind (traverse (passage_row t) items)
          (\<lambda>rows. Inr \<lparr>tbl_schema = passage_schema, tbl_rows = rows\<rparr>)
      | _ \<Rightarrow> Inl (Planning ''passage listing must return a list''))"

text \<open>The cursor of the next page: \<open>None\<close> ends the listing.\<close>

definition next_cursor :: "json \<Rightarrow> string list \<Rightarrow> (plan_error, string option) result" where
  "next_cursor payload seen =
     (case (case payload of JObj _ \<Rightarrow> or_null (jget payload ''next_cursor'') | _ \<Rightarrow> JNull) of
        JNull \<Rightarrow> Inr None
      | JStr c \<Rightarrow>
          if c = [] then Inl (Planning ''passage listing next_cursor must be a non-empty string'')
          else if c \<in> set seen then Inl (Planning ''passage listing repeated a cursor'')
          else Inr (Some c)
      | _ \<Rightarrow> Inl (Planning ''passage listing next_cursor must be a non-empty string''))"

subsection \<open>Writing and discarding plans\<close>

definition input_key :: "uuid \<Rightarrow> uuid \<Rightarrow> uuid \<Rightarrow> nat \<Rightarrow> string" where
  "input_key t j planning index =
     tenant_prefix t @ ''extraction/'' @ uuid_str j @ ''/in/'' @ uuid_str planning @ ''/'' @ dec_nat index @ ''.arrow''"

definition write_plan ::
  "'x plan_env \<Rightarrow> artifact_store \<Rightarrow> uuid \<Rightarrow> uuid \<Rightarrow> uuid \<Rightarrow> nat \<Rightarrow> table \<Rightarrow> 'x
   \<Rightarrow> (artifact_error, shard_plan) result \<times> 'x" where
  "write_plan env st t j planning index tbl w =
     (case write_table st (pl_s3 env) (pl_ipc env) t (input_key t j planning index) tbl w of
        (Inl e, w1) \<Rightarrow> (Inl e, w1)
      | (Inr stored, w1) \<Rightarrow>
          (Inr \<lparr>plan_index = index, plan_key = arrow_key stored, plan_digest = arrow_digest stored,
                plan_schema = arrow_schema stored, plan_rows = arrow_rows stored,
                plan_bytes = length (ipc_encode (pl_ipc env) tbl)\<rparr>, w1))"

text \<open>The loop over the shards of one table: what was written is known also when a write fails.\<close>

fun write_all ::
  "'x plan_env \<Rightarrow> artifact_store \<Rightarrow> uuid \<Rightarrow> uuid \<Rightarrow> uuid \<Rightarrow> table list \<Rightarrow> shard_plan list \<Rightarrow> 'x
   \<Rightarrow> plan_error option \<times> shard_plan list \<times> 'x" where
  "write_all env st t j planning [] ps w = (None, ps, w)"
| "write_all env st t j planning (tbl # tbls) ps w =
     (case write_plan env st t j planning (length ps) tbl w of
        (Inl e, w1) \<Rightarrow> (Some (PlanArtifact e), ps, w1)
      | (Inr p, w1) \<Rightarrow> write_all env st t j planning tbls (ps @ [p]) w1)"

definition plan_page ::
  "'x plan_env \<Rightarrow> artifact_store \<Rightarrow> uuid \<Rightarrow> uuid \<Rightarrow> uuid \<Rightarrow> int \<Rightarrow> table \<Rightarrow> shard_plan list \<Rightarrow> 'x
   \<Rightarrow> plan_error option \<times> shard_plan list \<times> 'x" where
  "plan_page env st t j planning limit tbl ps w =
     (case split_table (pl_ipc env) tbl limit of
        Inl e \<Rightarrow> (Some e, ps, w)
      | Inr shards \<Rightarrow> write_all env st t j planning shards ps w)"

text \<open>The explicit artifacts of one planning are deleted last to first; a storage error is remembered and
  raised at the end, any other error is raised at once.\<close>

fun discard_loop ::
  "'x s3_client \<Rightarrow> uuid \<Rightarrow> shard_plan list \<Rightarrow> bool \<Rightarrow> 'x \<Rightarrow> (artifact_error, bool) result \<times> 'x" where
  "discard_loop c t [] failed w = (Inr failed, w)"
| "discard_loop c t (p # rest) failed w =
     (case delete_artifact c t (plan_key p) w of
        (Inl e, w1) \<Rightarrow> if is_storage_error e then discard_loop c t rest True w1 else (Inl e, w1)
      | (Inr _, w1) \<Rightarrow> discard_loop c t rest failed w1)"

definition discard_plans ::
  "'x s3_client \<Rightarrow> uuid \<Rightarrow> shard_plan list \<Rightarrow> 'x \<Rightarrow> (artifact_error, unit) result \<times> 'x" where
  "discard_plans c t ps w =
     (case discard_loop c t (rev ps) False w of
        (Inl e, w1) \<Rightarrow> (Inl e, w1)
      | (Inr failed, w1) \<Rightarrow>
          if failed then (Inl (ArtifactStorageError ''artifact storage cleanup failed''), w1) else (Inr (), w1))"

text \<open>What becomes of an exception: the plans are discarded and it is raised again, unless the discarding
  fails too.\<close>

definition abandon ::
  "string \<Rightarrow> 'x s3_client \<Rightarrow> uuid \<Rightarrow> shard_plan list \<Rightarrow> 'e \<Rightarrow> (artifact_error \<Rightarrow> 'e) \<Rightarrow> 'x \<Rightarrow> 'e \<times> 'x" where
  "abandon message c t ps e wrap w =
     (case discard_plans c t ps w of
        (Inl a, w1) \<Rightarrow> (wrap (if is_storage_error a then ArtifactStorageError message else a), w1)
      | (Inr _, w1) \<Rightarrow> (e, w1))"

subsection \<open>The planning\<close>

text \<open>State of the outer loop over the pages: cursor, cursors seen, page size, plans, world.\<close>

type_synonym 'x remote_state = "string option \<times> string list \<times> nat \<times> shard_plan list \<times> 'x"

definition max_response_bytes :: "int \<Rightarrow> int" where
  "max_response_bytes limit = max (limit * 2) (64 * 1024)"

definition remote_round ::
  "'x plan_env \<Rightarrow> artifact_store \<Rightarrow> uuid \<Rightarrow> uuid \<Rightarrow> uuid \<Rightarrow> string \<Rightarrow> int \<Rightarrow> 'x remote_state
   \<Rightarrow> plan_error option option \<times> 'x remote_state" where
  "remote_round env st t j planning kind limit state =
     (case state of (cursor, seen, page_size, ps, w) \<Rightarrow>
       (case fetch_page env t kind (max_response_bytes limit) cursor page_size w of
          (Inl e, size1, w1) \<Rightarrow> (Some (Some e), (cursor, seen, size1, ps, w1))
        | (Inr payload, size1, w1) \<Rightarrow>
            (case page_table t payload of
               Inl e \<Rightarrow> (Some (Some e), (cursor, seen, size1, ps, w1))
             | Inr tbl \<Rightarrow>
                 (case plan_page env st t j planning limit tbl ps w1 of
                    (Some e, ps1, w2) \<Rightarrow> (Some (Some e), (cursor, seen, size1, ps1, w2))
                  | (None, ps1, w2) \<Rightarrow>
                      (case next_cursor payload seen of
                         Inl e \<Rightarrow> (Some (Some e), (cursor, seen, size1, ps1, w2))
                       | Inr None \<Rightarrow> (Some None, (cursor, seen, size1, ps1, w2))
                       | Inr (Some c) \<Rightarrow> (None, (Some c, c # seen, size1, ps1, w2)))))))"

definition plan_source ::
  "'x plan_env \<Rightarrow> artifact_store \<Rightarrow> uuid \<Rightarrow> uuid \<Rightarrow> uuid \<Rightarrow> string \<Rightarrow> json \<Rightarrow> int \<Rightarrow> 'x
   \<Rightarrow> (plan_error option \<times> shard_plan list \<times> 'x) option" where
  "plan_source env st t j planning kind source_ref limit w =
     (case (if truthy source_ref then source_ref else JObj []) of
        JObj kvs \<Rightarrow>
          if kind = ''artifact''
          then Some (case artifact_source env st t (JObj kvs) w of
              Inl e \<Rightarrow> (Some e, [], w)
            | Inr tbl \<Rightarrow> plan_page env st t j planning limit tbl [] w)
          else if kind \<in> set [''web_corpus'', ''life_email'']
          then if passages_key env = []
               then Some (Some (Planning ''THEOREM_MACHINE_KEY_PASSAGES is required''), [], w)
               else (case while_true (remote_round env st t j planning kind limit)
                            (None, [], first_page_size (max_response_bytes limit), [], w) of
                       None \<Rightarrow> None
                     | Some (r, (_, _, _, ps, w1)) \<Rightarrow> Some (r, ps, w1))
          else Some (Some (Planning (''unsupported extraction source: '' @ kind)), [], w)
      | _ \<Rightarrow> Some (Some (Planning ''source_ref must be an object''), [], w))"

definition PLANNING_CLEANUP :: string where
  "PLANNING_CLEANUP = ''artifact storage cleanup failed after extraction planning''"

definition plan_shards ::
  "'x plan_env \<Rightarrow> uuid \<Rightarrow> uuid \<Rightarrow> uuid \<Rightarrow> string \<Rightarrow> json \<Rightarrow> int \<Rightarrow> 'x
   \<Rightarrow> ((plan_error, shard_plan list) result \<times> 'x) option" where
  "plan_shards env t j planning kind source_ref limit w =
     (case from_settings (pl_cfg env) of
        Inl e \<Rightarrow> Some (Inl (PlanArtifact e), w)
      | Inr st \<Rightarrow>
        (case plan_source env st t j planning kind source_ref limit w of
           None \<Rightarrow> None
         | Some (Some e, ps, w1) \<Rightarrow>
             Some (case abandon PLANNING_CLEANUP (pl_s3 env) t ps e PlanArtifact w1 of (e1, w2) \<Rightarrow> (Inl e1, w2))
         | Some (None, ps, w1) \<Rightarrow>
             if ps \<noteq> [] then Some (Inr ps, w1)
             else Some (case write_plan env st t j planning 0 \<lparr>tbl_schema = passage_schema, tbl_rows = []\<rparr> w1 of
                 (Inr p, w2) \<Rightarrow> (Inr [p], w2)
               | (Inl e, w2) \<Rightarrow>
                   (case abandon PLANNING_CLEANUP (pl_s3 env) t [] (PlanArtifact e) PlanArtifact w2 of
                      (e1, w3) \<Rightarrow> (Inl e1, w3)))))"

end
