(* ===== verification/Ledger.thy ===== *)
theory Ledger
  imports Planner
begin

section \<open>The extraction ledger\<close>

text \<open>
  \<open>apps/extraction/models.py\<close> (jobs, shards), \<open>tasks.py\<close> and \<open>planner.replan_shard\<close>: an extraction
  job is planned into shards, each shard is executed by one offload job of \<open>Offload\<close>, and the
  reconciliation folds their statuses back. The tables live in the outside of the offload world,
  so a call of the object store or the broker acts on both. A task works on the row objects it
  loaded: a save writes their named columns, or all of them. A transaction that locks its rows is
  one step at its commit. The contract document is a file of the repository and an argument; so
  are the clock, the fresh ids and the stored form of a JSON column, which the database compares.
\<close>

subsection \<open>Rows\<close>

datatype extraction_op = ATLAS | TYPED

fun op_text :: "extraction_op \<Rightarrow> string" where
  "op_text ATLAS = ''atlas''"
| "op_text TYPED = ''typed''"

datatype source_kind = ARTIFACT | WEB_CORPUS | LIFE_EMAIL

fun source_text :: "source_kind \<Rightarrow> string" where
  "source_text ARTIFACT = ''artifact''"
| "source_text WEB_CORPUS = ''web_corpus''"
| "source_text LIFE_EMAIL = ''life_email''"

datatype xstatus = XQueued | XRunning | XPartial | XSucceeded | XFailed | XCanceled

fun xstatus_text :: "xstatus \<Rightarrow> string" where
  "xstatus_text XQueued = ''queued''"
| "xstatus_text XRunning = ''running''"
| "xstatus_text XPartial = ''partial''"
| "xstatus_text XSucceeded = ''succeeded''"
| "xstatus_text XFailed = ''failed''"
| "xstatus_text XCanceled = ''canceled''"

record extraction_job =
  x_id :: uuid
  x_tenant :: uuid
  x_operation :: extraction_op
  x_source_kind :: source_kind
  x_source_ref :: json
  x_params :: json
  x_params_hash :: string
  x_status :: xstatus
  x_shard_count :: nat
  x_rows_total :: int
  x_error :: string
  x_created :: time

datatype shard_status = SQueued | SRunning | SSucceeded | SFailed | SCanceled | SSuperseded

record shard =
  sh_id :: nat
  sh_job :: uuid
  sh_index :: nat
  sh_offload :: "uuid option"
  sh_key :: string
  sh_digest :: string
  sh_schema :: string
  sh_rows :: nat
  sh_out_key :: string
  sh_out_rows :: json
  sh_out_digest :: string
  sh_status :: shard_status
  sh_error :: string

record review =
  rv_id :: uuid
  rv_tenant :: uuid
  rv_job :: "uuid option"
  rv_digest :: string
  rv_version :: int
  rv_claim :: "string option"
  rv_decision :: string
  rv_target :: "string option"
  rv_reason :: string
  rv_reviewer :: string
  rv_created :: time

text \<open>\<open>xqueue\<close> holds the ids sent to the broker as submission messages.\<close>

record 'x ledger =
  xjobs :: "extraction_job list"
  xshards :: "shard list"
  xreviews :: "review list"
  xqueue :: "uuid list"
  beyond :: 'x

type_synonym 'x eworld = "'x ledger world"

record 'x extraction_env =
  xe_off :: "'x ledger offload_env"
  xe_plan :: "'x eworld plan_env"
  xe_contract :: json
  xe_uuid :: "'x eworld \<Rightarrow> uuid"
  xe_max_input :: int
  xe_jsonb :: "json \<Rightarrow> json"

definition get_x :: "'x eworld \<Rightarrow> uuid \<Rightarrow> extraction_job option" where
  "get_x w j = row_of x_id (xjobs (outside w)) j"

definition on_ledger :: "('x ledger \<Rightarrow> 'x ledger) \<Rightarrow> 'x eworld \<Rightarrow> 'x eworld" where
  "on_ledger f w = w\<lparr>outside := f (outside w)\<rparr>"

definition modify_x :: "uuid \<Rightarrow> (extraction_job \<Rightarrow> extraction_job) \<Rightarrow> 'x eworld \<Rightarrow> 'x eworld" where
  "modify_x j f = on_ledger (\<lambda>l. l\<lparr>xjobs := map (\<lambda>r. if x_id r = j then f r else r) (xjobs l)\<rparr>)"

definition modify_shard :: "nat \<Rightarrow> (shard \<Rightarrow> shard) \<Rightarrow> 'x eworld \<Rightarrow> 'x eworld" where
  "modify_shard i f = on_ledger (\<lambda>l. l\<lparr>xshards := map (\<lambda>s. if sh_id s = i then f s else s) (xshards l)\<rparr>)"

definition get_shard :: "'x eworld \<Rightarrow> nat \<Rightarrow> shard option" where
  "get_shard w i = row_of sh_id (xshards (outside w)) i"

text \<open>\<open>job.shards\<close> in the order of the table's \<open>ordering\<close>; an automatic primary key is one more than every
  key before.\<close>

definition shards_of :: "'x eworld \<Rightarrow> uuid \<Rightarrow> shard list" where
  "shards_of w j = sort_key sh_index (filter (\<lambda>s. sh_job s = j) (xshards (outside w)))"

definition next_pk :: "shard list \<Rightarrow> nat" where
  "next_pk ss = Suc (fold max (map sh_id ss) 0)"

subsection \<open>Offload jobs of shards\<close>

definition canonical_hash :: "json \<Rightarrow> string" where
  "canonical_hash v = sha256_hex (utf8 (dumps \<lparr>ensure_ascii = False, item_sep = '','', key_sep = '':''\<rparr> v))"

definition shard_operation_id :: "uuid \<Rightarrow> nat \<Rightarrow> string \<Rightarrow> string" where
  "shard_operation_id j index digest =
     sha256_hex (utf8 (uuid_str j @ '':'' @ dec_nat index @ '':'' @ digest))"

definition dict_items :: "json \<Rightarrow> (string \<times> json) list" where
  "dict_items v = (case v of JObj kvs \<Rightarrow> kvs | _ \<Rightarrow> [])"

definition dict_update :: "(string \<times> json) list \<Rightarrow> (string \<times> json) list \<Rightarrow> (string \<times> json) list" where
  "dict_update d new = fold (\<lambda>(k, v) d. dict_set d k v) new d"

definition prompt_hashes :: "json \<Rightarrow> json" where
  "prompt_hashes contract =
     JObj (map (\<lambda>(name, prompt). (name, or_null (jget prompt ''sha256'')))
       (dict_items (or_null (jget contract ''prompts''))))"

text \<open>\<open>params.get("model_id") or contract["model"]["default_id"]\<close>.\<close>

definition model_id_of :: "json \<Rightarrow> (string \<times> json) list \<Rightarrow> json" where
  "model_id_of contract params =
     (case map_of params ''model_id'' of
        Some v \<Rightarrow> if truthy v then v else or_null (jget (or_null (jget contract ''model'')) ''default_id'')
      | None \<Rightarrow> or_null (jget (or_null (jget contract ''model'')) ''default_id''))"

definition is_object :: "json option \<Rightarrow> bool" where
  "is_object v = (case v of Some (JObj _) \<Rightarrow> True | _ \<Rightarrow> False)"

definition operation_params :: "json \<Rightarrow> extraction_job \<Rightarrow> shard \<Rightarrow> (plan_error, json) result" where
  "operation_params contract r s =
     (let params = dict_items (x_params r);
          params = dict_update params
            [(''contract'', or_null (jget contract ''contract'')), (''chunking'', or_null (jget contract ''chunking'')),
             (''model'', or_null (jget contract ''model'')), (''model_id'', model_id_of contract params),
             (''prompt_hashes'', prompt_hashes contract), (''schema_hash'', or_null (jget contract ''schema_sha256'')),
             (''tenant_id'', JStr (uuid_str (x_tenant r))), (''job_id'', JStr (uuid_str (x_id r))),
             (''shard'', JInt (int (sh_index s)))]
      in if x_operation r = TYPED \<and> \<not> is_object (map_of params ''object_type'')
         then Inl (PlanCrash ''typed extraction requires params.object_type'')
         else Inr (JObj params))"

definition shard_offload_job :: "extraction_job \<Rightarrow> shard \<Rightarrow> json \<Rightarrow> uuid \<Rightarrow> time \<Rightarrow> job" where
  "shard_offload_job r s params j created =
     \<lparr>job_id = j, job_tenant = Some (x_tenant r), operation = ''data_science.extraction.'' @ op_text (x_operation r),
      operation_id = shard_operation_id (x_id r) (sh_index s) (sh_digest s), status = QUEUED, celery_task_id = [],
      input_payload_digest = sh_digest s, output_schema_json = JStr [], output_artifact_key = [],
      output_payload_digest = [], output_rows = JNull, logs = [], error = [],
      kwargs_json =
        [(''input_artifact_key'', JStr (sh_key s)), (''input_schema_json'', JStr (sh_schema s)),
         (''input_rows'', JInt (int (sh_rows s))), (''input_entity_ids'', JList []), (''params'', params)],
      started_at = None, ended_at = None, created_at = created\<rparr>"

text \<open>The row of the offload job and the reference to it; the uniqueness of \<open>(tenant, operation_id)\<close> is the
  table's. It answers the shard object with its new reference.\<close>

definition create_orchestration_job ::
  "'x extraction_env \<Rightarrow> shard \<Rightarrow> 'x eworld \<Rightarrow> (plan_error, shard) result \<times> 'x eworld" where
  "create_orchestration_job env s w =
     (case get_x w (sh_job s) of
        None \<Rightarrow> (Inl (PlanCrash ''ExtractionJob matching query does not exist.''), w)
      | Some r \<Rightarrow>
        (case operation_params (xe_contract env) r s of
           Inl e \<Rightarrow> (Inl e, w)
         | Inr params \<Rightarrow>
             if existing_job (jobs w) (x_tenant r) (shard_operation_id (x_id r) (sh_index s) (sh_digest s)) \<noteq> None
             then (Inl (PlanCrash ''IntegrityError''), w)
             else let j = xe_uuid env w
                  in (Inr (s\<lparr>sh_offload := Some j\<rparr>),
                      modify_shard (sh_id s) (\<lambda>q. q\<lparr>sh_offload := Some j\<rparr>)
                        (w\<lparr>jobs := jobs w @ [shard_offload_job r s params j (now (xe_off env) w)]\<rparr>))))"

fun create_all ::
  "'x extraction_env \<Rightarrow> shard list \<Rightarrow> 'x eworld \<Rightarrow> (plan_error, shard list) result \<times> 'x eworld" where
  "create_all env [] w = (Inr [], w)"
| "create_all env (s # ss) w =
     (case create_orchestration_job env s w of
        (Inl e, w1) \<Rightarrow> (Inl e, w1)
      | (Inr s1, w1) \<Rightarrow>
          (case create_all env ss w1 of
             (Inl e, w2) \<Rightarrow> (Inl e, w2)
           | (Inr ss1, w2) \<Rightarrow> (Inr (s1 # ss1), w2)))"

definition new_shard :: "uuid \<Rightarrow> nat \<Rightarrow> shard_plan \<Rightarrow> shard" where
  "new_shard j pk p =
     \<lparr>sh_id = pk, sh_job = j, sh_index = plan_index p, sh_offload = None, sh_key = plan_key p,
      sh_digest = plan_digest p, sh_schema = plan_schema p, sh_rows = plan_rows p, sh_out_key = [],
      sh_out_rows = JNull, sh_out_digest = [], sh_status = SQueued, sh_error = []\<rparr>"

fun new_shards :: "uuid \<Rightarrow> nat \<Rightarrow> shard_plan list \<Rightarrow> shard list" where
  "new_shards j pk [] = []"
| "new_shards j pk (p # ps) = new_shard j pk p # new_shards j (Suc pk) ps"

definition dispatch_shard :: "'x extraction_env \<Rightarrow> shard \<Rightarrow> 'x eworld \<Rightarrow> (plan_error, unit) result \<times> 'x eworld" where
  "dispatch_shard env s w =
     (case (case sh_offload s of Some _ \<Rightarrow> (Inr s, w) | None \<Rightarrow> create_orchestration_job env s w) of
        (Inl e, w1) \<Rightarrow> (Inl e, w1)
      | (Inr s1, w1) \<Rightarrow>
          (case sh_offload s1 of
             None \<Rightarrow> (Inr (), w1)
           | Some j \<Rightarrow>
               (case send (xe_off env) (DispatchOffload j) w1 of
                  (task, w2) \<Rightarrow> (Inr (), if task = [] then w2 else modify_job j (\<lambda>r. r\<lparr>celery_task_id := task\<rparr>) w2))))"

fun dispatch_all :: "'x extraction_env \<Rightarrow> shard list \<Rightarrow> 'x eworld \<Rightarrow> (plan_error, unit) result \<times> 'x eworld" where
  "dispatch_all env [] w = (Inr (), w)"
| "dispatch_all env (s # ss) w =
     (case dispatch_shard env s w of
        (Inl e, w1) \<Rightarrow> (Inl e, w1)
      | (Inr _, w1) \<Rightarrow> dispatch_all env ss w1)"

subsection \<open>Following the offload jobs\<close>

fun shard_status_of :: "job_status \<Rightarrow> shard_status" where
  "shard_status_of QUEUED = SQueued"
| "shard_status_of RUNNING = SRunning"
| "shard_status_of SUCCEEDED = SSucceeded"
| "shard_status_of FAILED = SFailed"
| "shard_status_of CANCELED = SCanceled"

definition follow_job :: "job \<Rightarrow> shard \<Rightarrow> shard" where
  "follow_job r s = s\<lparr>sh_status := shard_status_of (status r), sh_out_key := output_artifact_key r,
     sh_out_rows := output_rows r, sh_out_digest := output_payload_digest r, sh_error := error r\<rparr>"

text \<open>The whole row object is saved when one of the fields has changed.\<close>

definition sync_shard :: "shard \<Rightarrow> 'x eworld \<Rightarrow> (plan_error, shard) result \<times> 'x eworld" where
  "sync_shard s w =
     (case sh_offload s of
        None \<Rightarrow> (Inr s, w)
      | Some j \<Rightarrow>
          (case get_job w j of
             None \<Rightarrow> (Inl (PlanCrash ''Job matching query does not exist.''), w)
           | Some r \<Rightarrow> (Inr (follow_job r s),
               if follow_job r s \<noteq> s then modify_shard (sh_id s) (\<lambda>_. follow_job r s) w else w)))"

fun sync_all :: "shard list \<Rightarrow> 'x eworld \<Rightarrow> (plan_error, shard list) result \<times> 'x eworld" where
  "sync_all [] w = (Inr [], w)"
| "sync_all (s # ss) w =
     (case sync_shard s w of
        (Inl e, w1) \<Rightarrow> (Inl e, w1)
      | (Inr s1, w1) \<Rightarrow>
          (case sync_all ss w1 of
             (Inl e, w2) \<Rightarrow> (Inl e, w2)
           | (Inr ss1, w2) \<Rightarrow> (Inr (s1 # ss1), w2)))"

subsection \<open>Replanning a refused shard\<close>

definition halve :: "table \<Rightarrow> (plan_error, table list) result" where
  "halve tbl =
     (let n = length (tbl_rows tbl); k = n div 2
      in if n < 2 then Inl (Planning ''a one-row shard cannot be split further'')
         else Inr [slice tbl 0 k, slice tbl k (n - k)])"

fun write_from ::
  "'x plan_env \<Rightarrow> artifact_store \<Rightarrow> uuid \<Rightarrow> uuid \<Rightarrow> uuid \<Rightarrow> nat \<Rightarrow> table list \<Rightarrow> shard_plan list \<Rightarrow> 'x
   \<Rightarrow> artifact_error option \<times> shard_plan list \<times> 'x" where
  "write_from env st t j planning index [] ps w = (None, ps, w)"
| "write_from env st t j planning index (tbl # tbls) ps w =
     (case write_plan env st t j planning index tbl w of
        (Inl e, w1) \<Rightarrow> (Some e, ps, w1)
      | (Inr p, w1) \<Rightarrow> write_from env st t j planning (Suc index) tbls (ps @ [p]) w1)"

definition REPLANNING_CLEANUP :: string where
  "REPLANNING_CLEANUP = ''artifact storage cleanup failed after shard replanning''"

definition next_index :: "'x eworld \<Rightarrow> uuid \<Rightarrow> nat" where
  "next_index w j = fold max (map sh_index (shards_of w j)) 0 + 1"

text \<open>The commit of the transaction: the replacements are created and the original is superseded.\<close>

definition adopt_replacements :: "shard \<Rightarrow> shard_plan list \<Rightarrow> 'x eworld \<Rightarrow> shard list \<times> 'x eworld" where
  "adopt_replacements s ps w =
     (let new = new_shards (sh_job s) (next_pk (xshards (outside w))) ps
      in (new, modify_shard (sh_id s) (\<lambda>q. q\<lparr>sh_status := SSuperseded\<rparr>)
                 (on_ledger (\<lambda>l. l\<lparr>xshards := xshards l @ new\<rparr>) w)))"

definition replan_shard ::
  "'x extraction_env \<Rightarrow> artifact_store \<Rightarrow> shard \<Rightarrow> 'x eworld \<Rightarrow> (plan_error, shard list) result \<times> 'x eworld" where
  "replan_shard env st s w =
     (case get_x w (sh_job s) of
        None \<Rightarrow> (Inl (PlanCrash ''ExtractionJob matching query does not exist.''), w)
      | Some r \<Rightarrow>
        (case rbind (map_err PlanArtifact (read_table st (pl_s3 (xe_plan env)) (pl_ipc (xe_plan env)) (x_tenant r)
                       (sh_key s) (sh_digest s) (sh_schema s) (Some (int (sh_rows s))) w)) halve of
           Inl e \<Rightarrow> (Inl e, w)
         | Inr halves \<Rightarrow>
           (case get_shard w (sh_id s) of
              None \<Rightarrow> (Inl (PlanCrash ''ExtractionShard matching query does not exist.''), w)
            | Some locked \<Rightarrow>
                if sh_status locked = SSuperseded then (Inr [], w)
                else (case write_from (xe_plan env) st (x_tenant r) (x_id r) (xe_uuid env w)
                               (next_index w (x_id r)) halves [] w of
                    (Some e, ps, w1) \<Rightarrow>
                      (case abandon REPLANNING_CLEANUP (pl_s3 (xe_plan env)) (x_tenant r) ps (PlanArtifact e) PlanArtifact w1 of
                         (e1, w2) \<Rightarrow> (Inl e1, w2))
                  | (None, ps, w1) \<Rightarrow> (case adopt_replacements s ps w1 of (new, w2) \<Rightarrow> (Inr new, w2))))))"

subsection \<open>Reconciliation\<close>

definition OVERSIZE :: string where
  "OVERSIZE = ''output_exceeds_max_bytes''"

definition oversized :: "shard \<Rightarrow> bool" where
  "oversized s \<longleftrightarrow> sh_status s = SFailed \<and> contains OVERSIZE (sh_error s)"

text \<open>The exceptions of a replanning that leave the shard failed.\<close>

definition refuses :: "plan_error \<Rightarrow> bool" where
  "refuses e = (is_planning_error e \<or> (case e of PlanArtifact (ArtifactValidationError _) \<Rightarrow> True | _ \<Rightarrow> False))"

definition note_refusal :: "shard \<Rightarrow> plan_error \<Rightarrow> 'x eworld \<Rightarrow> 'x eworld" where
  "note_refusal s e w =
     (let msg = sh_error s @ ''; replan refused: '' @ plan_text e;
          w1 = modify_shard (sh_id s) (\<lambda>q. q\<lparr>sh_error := msg\<rparr>) w
      in case sh_offload s of None \<Rightarrow> w1 | Some j \<Rightarrow> modify_job j (\<lambda>r. r\<lparr>error := msg\<rparr>) w1)"

definition store_and_replan ::
  "'x extraction_env \<Rightarrow> shard \<Rightarrow> 'x eworld \<Rightarrow> (plan_error, shard list) result \<times> 'x eworld" where
  "store_and_replan env s w =
     (case from_settings (pl_cfg (xe_plan env)) of
        Inl e \<Rightarrow> (Inl (PlanArtifact e), w)
      | Inr st \<Rightarrow> replan_shard env st s w)"

fun reconcile_loop ::
  "'x extraction_env \<Rightarrow> shard list \<Rightarrow> shard list \<Rightarrow> 'x eworld \<Rightarrow> (plan_error, shard list) result \<times> 'x eworld" where
  "reconcile_loop env [] fresh w = (Inr fresh, w)"
| "reconcile_loop env (s # ss) fresh w =
     (if sh_status s = SSuperseded then reconcile_loop env ss fresh w
      else case sync_shard s w of
        (Inl e, w1) \<Rightarrow> (Inl e, w1)
      | (Inr s1, w1) \<Rightarrow>
          if \<not> oversized s1 then reconcile_loop env ss fresh w1
          else (case store_and_replan env s1 w1 of
              (Inl e, w2) \<Rightarrow>
                if refuses e then reconcile_loop env ss fresh (note_refusal s1 e w2) else (Inl e, w2)
            | (Inr new, w2) \<Rightarrow>
                (case create_all env new w2 of
                   (Inl e, w3) \<Rightarrow> (Inl e, w3)
                 | (Inr new1, w3) \<Rightarrow> reconcile_loop env ss (fresh @ new1) w3)))"

definition fold_status :: "shard_status list \<Rightarrow> xstatus" where
  "fold_status statuses =
     (if statuses \<noteq> [] \<and> set statuses = {SSucceeded} then XSucceeded
      else if SRunning \<in> set statuses \<or> SQueued \<in> set statuses then XRunning
      else if statuses \<noteq> [] \<and> set statuses \<subseteq> {SCanceled} then XCanceled
      else if SSucceeded \<in> set statuses then XPartial
      else XFailed)"

definition rows_or_zero :: "shard \<Rightarrow> int" where
  "rows_or_zero s = (case sh_out_rows s of JInt n \<Rightarrow> n | _ \<Rightarrow> 0)"

definition active_shards :: "'x eworld \<Rightarrow> uuid \<Rightarrow> shard list" where
  "active_shards w j = filter (\<lambda>s. sh_status s \<noteq> SSuperseded) (shards_of w j)"

definition fold_shards :: "uuid \<Rightarrow> 'x eworld \<Rightarrow> (plan_error, json) result \<times> 'x eworld" where
  "fold_shards j w =
     (case sync_all (active_shards w j) w of
        (Inl e, w1) \<Rightarrow> (Inl e, w1)
      | (Inr active, w1) \<Rightarrow>
          (let st = fold_status (map sh_status active); total = sum_list (map rows_or_zero active)
           in (Inr (JObj [(''status'', JStr (xstatus_text st)), (''shards'', JInt (int (length active))), (''rows'', JInt total)]),
               modify_x j (\<lambda>r. r\<lparr>x_status := st, x_shard_count := length active, x_rows_total := total\<rparr>) w1)))"

definition reconcile_extraction :: "'x extraction_env \<Rightarrow> uuid \<Rightarrow> 'x eworld \<Rightarrow> (plan_error, json) result \<times> 'x eworld" where
  "reconcile_extraction env j w =
     (case get_x w j of
        None \<Rightarrow> (Inl (PlanCrash ''ExtractionJob matching query does not exist.''), w)
      | Some r \<Rightarrow>
          if x_status r = XCanceled then (Inr (status_reply ''canceled''), w)
          else (case reconcile_loop env (shards_of w j) [] w of
              (Inl e, w1) \<Rightarrow> (Inl e, w1)
            | (Inr fresh, w1) \<Rightarrow>
                (case dispatch_all env fresh w1 of
                   (Inl e, w2) \<Rightarrow> (Inl e, w2)
                 | (Inr _, w2) \<Rightarrow> fold_shards j w2)))"

fun sweep_loop :: "'x extraction_env \<Rightarrow> uuid list \<Rightarrow> nat \<Rightarrow> 'x eworld \<Rightarrow> (plan_error, json) result \<times> 'x eworld" where
  "sweep_loop env [] n w = (Inr (JObj [(''reconciled'', JInt (int n))]), w)"
| "sweep_loop env (j # js) n w =
     (case reconcile_extraction env j w of
        (Inl e, w1) \<Rightarrow> (Inl e, w1)
      | (Inr _, w1) \<Rightarrow> sweep_loop env js (Suc n) w1)"

definition sweep_extraction_jobs :: "'x extraction_env \<Rightarrow> 'x eworld \<Rightarrow> (plan_error, json) result \<times> 'x eworld" where
  "sweep_extraction_jobs env w =
     sweep_loop env (map x_id (filter (\<lambda>r. x_status r \<in> set [XQueued, XRunning]) (xjobs (outside w)))) 0 w"

subsection \<open>Submission\<close>

definition ADOPTION_CLEANUP :: string where
  "ADOPTION_CLEANUP = ''artifact storage cleanup failed after shard adoption''"

text \<open>The exceptions of a planning that fail the job.\<close>

definition fails_job :: "plan_error \<Rightarrow> bool" where
  "fails_job e = (is_planning_error e \<or> (case e of PlanArtifact _ \<Rightarrow> True | _ \<Rightarrow> False))"

definition reused_reply :: "xstatus \<Rightarrow> json" where
  "reused_reply st = JObj [(''status'', JStr (xstatus_text st)), (''reused'', JBool True)]"

text \<open>The transaction of a failed planning.\<close>

definition record_failure :: "uuid \<Rightarrow> plan_error \<Rightarrow> 'x eworld \<Rightarrow> (plan_error, json) result \<times> 'x eworld" where
  "record_failure j e w =
     (case get_x w j of
        None \<Rightarrow> (Inl (PlanCrash ''ExtractionJob matching query does not exist.''), w)
      | Some r \<Rightarrow>
          if x_status r = XCanceled then (Inr (status_reply ''canceled''), w)
          else if shards_of w j \<noteq> [] then (Inr (reused_reply (x_status r)), w)
          else (Inr (JObj [(''status'', JStr ''failed''), (''error'', JStr (plan_text e))]),
                modify_x j (\<lambda>r. r\<lparr>x_status := XFailed, x_error := plan_text e\<rparr>) w))"

text \<open>The transaction that adopts the plans: a reply instead of shards when the job was canceled or planned
  meanwhile. An exception rolls every row back.\<close>

definition adopt_plans ::
  "'x extraction_env \<Rightarrow> uuid \<Rightarrow> shard_plan list \<Rightarrow> 'x eworld \<Rightarrow> (plan_error, json + shard list) result \<times> 'x eworld" where
  "adopt_plans env j ps w =
     (case get_x w j of
        None \<Rightarrow> (Inl (PlanCrash ''ExtractionJob matching query does not exist.''), w)
      | Some r \<Rightarrow>
          if x_status r = XCanceled then (Inr (Inl (status_reply ''canceled'')), w)
          else if shards_of w j \<noteq> [] then (Inr (Inl (reused_reply (x_status r))), w)
          else let new = new_shards j (next_pk (xshards (outside w))) ps;
                   w1 = modify_x j (\<lambda>r. r\<lparr>x_shard_count := length new, x_status := XRunning, x_error := []\<rparr>)
                          (on_ledger (\<lambda>l. l\<lparr>xshards := xshards l @ new\<rparr>) w)
               in (case create_all env new w1 of
                     (Inl e, _) \<Rightarrow> (Inl e, w)
                   | (Inr new1, w2) \<Rightarrow> (Inr (Inr new1), w2)))"

definition submit_extraction ::
  "'x extraction_env \<Rightarrow> uuid \<Rightarrow> 'x eworld \<Rightarrow> ((plan_error, json) result \<times> 'x eworld) option" where
  "submit_extraction env j w =
     (case get_x w j of
        None \<Rightarrow> Some (Inl (PlanCrash ''ExtractionJob matching query does not exist.''), w)
      | Some r \<Rightarrow>
          if x_status r = XCanceled then Some (Inr (status_reply ''canceled''), w)
          else if shards_of w j \<noteq> [] then Some (reconcile_extraction env j w)
          else (case plan_shards (xe_plan env) (x_tenant r) j (xe_uuid env w) (source_text (x_source_kind r))
                       (x_source_ref r) (xe_max_input env) w of
              None \<Rightarrow> None
            | Some (Inl e, w1) \<Rightarrow> Some (if fails_job e then record_failure j e w1 else (Inl e, w1))
            | Some (Inr ps, w1) \<Rightarrow> Some (case adopt_plans env j ps w1 of
                (Inl e, w2) \<Rightarrow>
                  (case abandon ADOPTION_CLEANUP (pl_s3 (xe_plan env)) (x_tenant r) ps e PlanArtifact w2 of
                     (e1, w3) \<Rightarrow> (Inl e1, w3))
              | (Inr (Inl reply), w2) \<Rightarrow>
                  (case discard_plans (pl_s3 (xe_plan env)) (x_tenant r) ps w2 of
                     (Inl e, w3) \<Rightarrow> (Inl (PlanArtifact e), w3)
                   | (Inr _, w3) \<Rightarrow> (Inr reply, w3))
              | (Inr (Inr new), w2) \<Rightarrow>
                  (case dispatch_all env new w2 of
                     (Inl e, w3) \<Rightarrow> (Inl e, w3)
                   | (Inr _, w3) \<Rightarrow> reconcile_extraction env j w3))))"

end
