(* ===== verification/Extraction_Api.thy ===== *)
theory Extraction_Api
  imports Ledger
begin

section \<open>Extraction endpoints and reviews\<close>

text \<open>
  The endpoints of \<open>apps/extraction/api.py\<close> over the ledger (submit, status, cancel, review and the
  review feed), the candidate identity of \<open>reviews.py\<close> and the newest decisions of \<open>models.py\<close>.
\<close>

subsection \<open>Payload checks\<close>

text \<open>The tenant assertions of a payload, at any depth.\<close>

fun assert_tenant :: "uuid \<Rightarrow> json \<Rightarrow> bool" where
  "assert_tenant t (JObj kvs) =
     list_all (\<lambda>(k, v). (k \<in> set [''tenant'', ''tenant_id''] \<longrightarrow> py_str v = uuid_str t) \<and> assert_tenant t v) kvs"
| "assert_tenant t (JList vs) = list_all (assert_tenant t) vs"
| "assert_tenant t _ = True"

definition TENANT_MISMATCH :: http_error where
  "TENANT_MISMATCH = HttpError 403 ''payload tenant does not match the machine key''"

text \<open>\<open>json.loads(json.dumps(value, sort_keys=True))\<close>: the same value with its keys in order.\<close>

fun canonical_object :: "json \<Rightarrow> json" where
  "canonical_object (JObj kvs) = JObj (sort_key fst (map (\<lambda>(k, v). (k, canonical_object v)) kvs))"
| "canonical_object (JList vs) = JList (map canonical_object vs)"
| "canonical_object v = v"

definition effective_params :: "json \<Rightarrow> json \<Rightarrow> json" where
  "effective_params contract given =
     (let params = dict_items (canonical_object given)
      in JObj (dict_update params
           [(''contract'', or_null (jget contract ''contract'')), (''model_id'', model_id_of contract params),
            (''prompt_hashes'', prompt_hashes contract), (''schema_hash'', or_null (jget contract ''schema_sha256''))]))"

definition blank_text :: "json option \<Rightarrow> bool" where
  "blank_text v = (case v of Some (JStr s) \<Rightarrow> blank s | _ \<Rightarrow> True)"

definition validate_typed_params :: "json \<Rightarrow> (http_error, unit) result" where
  "validate_typed_params params =
     (case jget params ''object_type'' of
        Some (JObj obj) \<Rightarrow>
          (case find (\<lambda>n. blank_text (map_of obj n)) [''object_type_id'', ''label_identifier_field'', ''system''] of
             Some n \<Rightarrow> Inl (HttpError 400 (''params.object_type.'' @ n @ '' must be a non-empty string''))
           | None \<Rightarrow>
               if is_object (map_of obj ''schema'') then Inr ()
               else Inl (HttpError 400 ''params.object_type.schema must be an object''))
      | _ \<Rightarrow> Inl (HttpError 400 ''typed extraction requires params.object_type''))"

subsection \<open>Submission\<close>

record x_request =
  xq_operation :: string
  xq_source_kind :: string
  xq_source_ref :: json
  xq_params :: json

record x_response =
  xr_job :: uuid
  xr_shards :: nat
  xr_replay :: bool

definition parse_op :: "string \<Rightarrow> extraction_op option" where
  "parse_op s = find (\<lambda>x. op_text x = s) [ATLAS, TYPED]"

definition parse_source :: "string \<Rightarrow> source_kind option" where
  "parse_source s = find (\<lambda>x. source_text x = s) [ARTIFACT, WEB_CORPUS, LIFE_EMAIL]"

record x_admitted =
  xa_tenant :: uuid
  xa_operation :: extraction_op
  xa_source :: source_kind
  xa_ref :: json
  xa_params :: json

definition submit_admits :: "json \<Rightarrow> api_ctx \<Rightarrow> string \<Rightarrow> x_request \<Rightarrow> (http_error, x_admitted) result" where
  "submit_admits contract c authorization body =
     rbind (admit c authorization EXTRACTION_SUBMIT_SCOPE) (\<lambda>t.
       case parse_op (xq_operation body) of
         None \<Rightarrow> Inl (HttpError 400 (''unsupported extraction operation: '' @ xq_operation body))
       | Some oper \<Rightarrow>
         (case parse_source (xq_source_kind body) of
            None \<Rightarrow> Inl (HttpError 400 (''unsupported extraction source: '' @ xq_source_kind body))
          | Some src \<Rightarrow>
              if \<not> assert_tenant t (xq_source_ref body) \<or> \<not> assert_tenant t (xq_params body) then Inl TENANT_MISMATCH
              else let params = effective_params contract (xq_params body)
                   in rbind (if oper = TYPED then validate_typed_params params else Inr ()) (\<lambda>_.
                        Inr \<lparr>xa_tenant = t, xa_operation = oper, xa_source = src,
                             xa_ref = canonical_object (xq_source_ref body), xa_params = params\<rparr>)))"

definition existing_extraction :: "(json \<Rightarrow> json) \<Rightarrow> extraction_job list \<Rightarrow> x_admitted \<Rightarrow> extraction_job option" where
  "existing_extraction stored rows a =
     newest x_created (filter (\<lambda>r. x_tenant r = xa_tenant a \<and> x_operation r = xa_operation a
        \<and> x_source_kind r = xa_source a \<and> x_params_hash r = canonical_hash (xa_params a)
        \<and> stored (x_source_ref r) = stored (xa_ref a)) rows)"

definition new_extraction :: "x_admitted \<Rightarrow> uuid \<Rightarrow> time \<Rightarrow> extraction_job" where
  "new_extraction a j created =
     \<lparr>x_id = j, x_tenant = xa_tenant a, x_operation = xa_operation a, x_source_kind = xa_source a,
      x_source_ref = xa_ref a, x_params = xa_params a, x_params_hash = canonical_hash (xa_params a),
      x_status = XQueued, x_shard_count = 0, x_rows_total = 0, x_error = [], x_created = created\<rparr>"

text \<open>The lookup and the insertion are one transaction under the lock of the tenant row.\<close>

definition submit_endpoint ::
  "'x extraction_env \<Rightarrow> api_ctx \<Rightarrow> string \<Rightarrow> x_request \<Rightarrow> 'x eworld \<Rightarrow> (http_error, x_response) result \<times> 'x eworld" where
  "submit_endpoint env c authorization body w =
     (case submit_admits (xe_contract env) c authorization body of
        Inl e \<Rightarrow> (Inl e, w)
      | Inr a \<Rightarrow>
        (case existing_extraction (xe_jsonb env) (xjobs (outside w)) a of
           Some r \<Rightarrow> (Inr \<lparr>xr_job = x_id r, xr_shards = x_shard_count r, xr_replay = True\<rparr>, w)
         | None \<Rightarrow>
             let j = xe_uuid env w; r = new_extraction a j (now (xe_off env) w)
             in (Inr \<lparr>xr_job = j, xr_shards = x_shard_count r, xr_replay = False\<rparr>,
                 on_ledger (\<lambda>l. l\<lparr>xjobs := xjobs l @ [r], xqueue := xqueue l @ [j]\<rparr>) w)))"

subsection \<open>Status and cancellation\<close>

record shard_view =
  sv_index :: nat
  sv_status :: shard_status
  sv_output :: "arrow_batch option"
  sv_error :: string

record extraction_view =
  xv_job :: uuid
  xv_operation :: extraction_op
  xv_status :: xstatus
  xv_shard_count :: nat
  xv_rows_total :: int
  xv_error :: string
  xv_shards :: "shard_view list"

definition tenant_extraction :: "'x eworld \<Rightarrow> uuid \<Rightarrow> uuid \<Rightarrow> (api_exc, extraction_job) result" where
  "tenant_extraction w t j =
     (case get_x w j of
        None \<Rightarrow> Inl (Http (HttpError 404 ''Not Found''))
      | Some r \<Rightarrow> if x_tenant r = t then Inr r else Inl (Http (HttpError 404 ''Not Found'')))"

definition shard_output :: "'x extraction_env \<Rightarrow> uuid \<Rightarrow> 'x eworld \<Rightarrow> shard \<Rightarrow> (api_exc, shard_view) result" where
  "shard_output env t w s =
     rbind (if sh_out_key s \<noteq> [] \<and> sh_out_digest s \<noteq> []
            then rbind (artifact_store_or_503 (xe_off env)) (\<lambda>st.
                 rbind (map_err storage_503 (presign_get st (s3 (xe_off env)) t (sh_out_key s))) (\<lambda>url.
                 Inr (Some \<lparr>arrow_schema_json_of =
                              (case sh_offload s of None \<Rightarrow> [] | Some o_id \<Rightarrow>
                                 (case get_job w o_id of None \<Rightarrow> [] | Some r \<Rightarrow> json_text (output_schema_json r))),
                            batch_rows = (case sh_out_rows s of JInt n \<Rightarrow> Some n | _ \<Rightarrow> None),
                            batch_digest = sh_out_digest s, batch_key = sh_out_key s, download_url = url\<rparr>)))
            else Inr None) (\<lambda>out.
       Inr \<lparr>sv_index = sh_index s, sv_status = sh_status s, sv_output = out, sv_error = sh_error s\<rparr>)"

definition status_endpoint ::
  "'x extraction_env \<Rightarrow> api_ctx \<Rightarrow> string \<Rightarrow> uuid \<Rightarrow> 'x eworld \<Rightarrow> (api_exc, extraction_view) result" where
  "status_endpoint env c authorization j w =
     rbind (map_err Http (admit c authorization EXTRACTION_READ_SCOPE)) (\<lambda>t.
     rbind (tenant_extraction w t j) (\<lambda>r.
     rbind (traverse (shard_output env t w) (shards_of w (x_id r))) (\<lambda>views.
       Inr \<lparr>xv_job = x_id r, xv_operation = x_operation r, xv_status = x_status r, xv_shard_count = x_shard_count r,
            xv_rows_total = x_rows_total r, xv_error = x_error r, xv_shards = views\<rparr>)))"

definition shard_closed :: "shard_status \<Rightarrow> bool" where
  "shard_closed st \<longleftrightarrow> st \<in> set [SSucceeded, SFailed, SCanceled, SSuperseded]"

definition cancel_shard :: "'x extraction_env \<Rightarrow> shard \<Rightarrow> 'x eworld \<Rightarrow> 'x eworld" where
  "cancel_shard env s w =
     (case sh_offload s of
        None \<Rightarrow> w
      | Some j \<Rightarrow>
          if shard_closed (sh_status s) then w
          else modify_shard (sh_id s) (\<lambda>q. q\<lparr>sh_status := SCanceled\<rparr>) (snd (send (xe_off env) (CancelJob j) w)))"

definition cancel_reply :: "extraction_job \<Rightarrow> xstatus \<Rightarrow> bool \<Rightarrow> json" where
  "cancel_reply r st b = JObj [(''job_id'', JStr (uuid_str (x_id r))), (''status'', JStr (xstatus_text st)), (''canceled'', JBool b)]"

definition cancel_extraction ::
  "'x extraction_env \<Rightarrow> api_ctx \<Rightarrow> string \<Rightarrow> uuid \<Rightarrow> 'x eworld \<Rightarrow> (api_exc, json) result \<times> 'x eworld" where
  "cancel_extraction env c authorization j w =
     (case rbind (map_err Http (admit c authorization EXTRACTION_SUBMIT_SCOPE)) (\<lambda>t. tenant_extraction w t j) of
        Inl e \<Rightarrow> (Inl e, w)
      | Inr r \<Rightarrow>
          if x_status r \<in> set [XSucceeded, XFailed, XCanceled] then (Inr (cancel_reply r (x_status r) False), w)
          else (Inr (cancel_reply r XCanceled True),
                modify_x (x_id r) (\<lambda>q. q\<lparr>x_status := XCanceled\<rparr>) (fold (cancel_shard env) (shards_of w (x_id r)) w)))"

end
