(* ===== verification/Plan_Bucket.thy ===== *)
theory Plan_Bucket
  imports Shard_Plans
begin

section \<open>What a planning leaves in the bucket\<close>

text \<open>
  A planning that succeeds has written every passage of its source once and in order, under fresh
  keys; one that fails has deleted what it wrote. \<open>bucket_view\<close> states what the planner relies on
  of the object store, over a view of its objects: a write or delete that succeeds has its effect,
  no call touches another object, and the passage listing touches none.
\<close>

subsection \<open>The object store\<close>

definition same_but :: "('x \<Rightarrow> string \<Rightarrow> bytes option) \<Rightarrow> string set \<Rightarrow> 'x \<Rightarrow> 'x \<Rightarrow> bool" where
  "same_but obj ks v w \<longleftrightarrow> (\<forall>k. k \<notin> ks \<longrightarrow> obj w k = obj v k)"

definition bucket_view :: "'x plan_env \<Rightarrow> ('x \<Rightarrow> string \<Rightarrow> bytes option) \<Rightarrow> bool" where
  "bucket_view env obj \<longleftrightarrow>
     (\<forall>k p m w r v. put_object (pl_s3 env) k p m w = (r, v) \<longrightarrow>
        same_but obj {k} w v \<and> (r = None \<longrightarrow> obj v k = Some p))
   \<and> (\<forall>k w r v. delete_object (pl_s3 env) k w = (r, v) \<longrightarrow>
        same_but obj {k} w v \<and> (r = None \<longrightarrow> obj v k = None))
   \<and> (\<forall>q w. obj (snd (pl_http env q w)) = obj w)"

lemma same_but_refl [simp]: "same_but obj ks w w"
  by (simp add: same_but_def)

lemma same_but_trans: "same_but obj ks u v \<Longrightarrow> same_but obj ls v w \<Longrightarrow> same_but obj (ks \<union> ls) u w"
  by (simp add: same_but_def)

lemma same_but_mono: "same_but obj ks v w \<Longrightarrow> ks \<subseteq> ls \<Longrightarrow> same_but obj ls v w"
  by (auto simp: same_but_def)

lemma same_but_get: "same_but obj ks v w \<Longrightarrow> k \<notin> ks \<Longrightarrow> obj w k = obj v k"
  by (simp add: same_but_def)

lemma view_put: "bucket_view env obj \<Longrightarrow> put_object (pl_s3 env) k p m w = (r, v) \<Longrightarrow>
    same_but obj {k} w v \<and> (r = None \<longrightarrow> obj v k = Some p)"
  unfolding bucket_view_def by blast

lemma view_delete: "bucket_view env obj \<Longrightarrow> delete_object (pl_s3 env) k w = (r, v) \<Longrightarrow>
    same_but obj {k} w v \<and> (r = None \<longrightarrow> obj v k = None)"
  unfolding bucket_view_def by blast


subsection \<open>Written plans\<close>

lemma input_key_inj: "input_key t j u m = input_key t j u n \<longleftrightarrow> m = n"
  by (simp add: input_key_def dec_nat_inj)

definition plan_for :: "arrow_ipc \<Rightarrow> uuid \<Rightarrow> uuid \<Rightarrow> uuid \<Rightarrow> nat \<Rightarrow> table \<Rightarrow> shard_plan" where
  "plan_for il t j planning i tbl =
     \<lparr>plan_index = i, plan_key = input_key t j planning i, plan_digest = sha256_digest (ipc_encode il tbl),
      plan_schema = arrow_schema_json (tbl_schema tbl), plan_rows = length (tbl_rows tbl),
      plan_bytes = length (ipc_encode il tbl)\<rparr>"

text \<open>The plans describe the tables, in order; each table is in the bucket under its key; nothing else
  has changed since \<open>v\<close>.\<close>

definition written ::
  "'x plan_env \<Rightarrow> ('x \<Rightarrow> string \<Rightarrow> bytes option) \<Rightarrow> uuid \<Rightarrow> uuid \<Rightarrow> uuid \<Rightarrow> table list \<Rightarrow> shard_plan list \<Rightarrow> 'x \<Rightarrow> 'x \<Rightarrow> bool" where
  "written env obj t j planning tables ps v w \<longleftrightarrow>
     ps = map (\<lambda>i. plan_for (pl_ipc env) t j planning i (tables ! i)) [0..<length tables]
   \<and> (\<forall>i < length tables. validate_key t (input_key t j planning i) = Inr (input_key t j planning i)
        \<and> obj w (input_key t j planning i) = Some (ipc_encode (pl_ipc env) (tables ! i)))
   \<and> same_but obj (input_key t j planning ` {..<length tables}) v w"

lemma written_length: "written env obj t j planning tables ps v w \<Longrightarrow> length ps = length tables"
  by (simp add: written_def)

lemma written_none [simp]: "written env obj t j planning [] ps v w \<longleftrightarrow> ps = [] \<and> same_but obj {} v w"
  by (auto simp: written_def)

lemma written_same: "written env obj t j planning tables ps u v \<Longrightarrow> obj w = obj v \<Longrightarrow> written env obj t j planning tables ps u w"
  by (simp add: written_def same_but_def)

lemma write_plan_ok:
  assumes view: "bucket_view env obj" and "write_plan env st t j planning i tbl w = (Inr p, v)"
  shows "p = plan_for (pl_ipc env) t j planning i tbl
    \<and> validate_key t (input_key t j planning i) = Inr (input_key t j planning i)
    \<and> obj v (input_key t j planning i) = Some (ipc_encode (pl_ipc env) tbl)
    \<and> same_but obj {input_key t j planning i} w v"
  using assms(2) unfolding write_plan_def write_table_def
  by (auto simp: Let_def storage_call_def plan_for_def dest!: view_put [OF view] dest: validate_key_Inr [THEN iffD1]
      split: sum.splits prod.splits option.splits if_split_asm)

lemma write_plan_error:
  assumes view: "bucket_view env obj" and "write_plan env st t j planning i tbl w = (Inl e, v)"
  shows "same_but obj {input_key t j planning i} w v \<and> (e \<noteq> ArtifactStorageError ''artifact storage write failed'' \<longrightarrow> v = w)"
  using assms(2) unfolding write_plan_def write_table_def
  by (auto simp: Let_def storage_call_def dest!: view_put [OF view] dest: validate_key_Inr [THEN iffD1]
      split: sum.splits prod.splits option.splits if_split_asm)

lemma written_snoc:
  assumes "written env obj t j planning tables ps u v"
    and p: "p = plan_for (pl_ipc env) t j planning (length ps) tbl
      \<and> validate_key t (input_key t j planning (length ps)) = Inr (input_key t j planning (length ps))
      \<and> obj w (input_key t j planning (length ps)) = Some (ipc_encode (pl_ipc env) tbl)
      \<and> same_but obj {input_key t j planning (length ps)} v w"
  shows "written env obj t j planning (tables @ [tbl]) (ps @ [p]) u w"
proof -
  note l = written_length [OF assms(1)]
  have "obj w (input_key t j planning i) = obj v (input_key t j planning i)" if "i < length tables" for i
    using p that by (intro same_but_get) (auto simp: l input_key_inj)
  moreover have "same_but obj (input_key t j planning ` {..<length (tables @ [tbl])}) u w"
    using assms p by (auto simp: written_def l lessThan_Suc intro: same_but_mono [OF same_but_trans])
  ultimately show ?thesis
    using assms by (auto simp: written_def l nth_append less_Suc_eq)
qed

text \<open>What a failure leaves: the plans written so far and, when a write failed, perhaps its object.\<close>

definition left_over ::
  "'x plan_env \<Rightarrow> ('x \<Rightarrow> string \<Rightarrow> bytes option) \<Rightarrow> uuid \<Rightarrow> uuid \<Rightarrow> uuid \<Rightarrow> plan_error \<Rightarrow> shard_plan list \<Rightarrow> 'x \<Rightarrow> 'x \<Rightarrow> bool" where
  "left_over env obj t j planning e ps u w \<longleftrightarrow>
     (\<exists>tables v. written env obj t j planning tables ps u v
        \<and> same_but obj {input_key t j planning (length ps)} v w
        \<and> (e \<noteq> PlanArtifact (ArtifactStorageError ''artifact storage write failed'') \<longrightarrow> obj w = obj v))"

lemma left_over_written: "written env obj t j planning tables ps u w \<Longrightarrow> left_over env obj t j planning e ps u w"
  unfolding left_over_def by (intro exI [of _ tables] exI [of _ w]) simp

lemma write_all_result:
  assumes view: "bucket_view env obj"
    and "write_all env st t j planning tbls ps v = (r, ps1, w)" "written env obj t j planning tables ps u v"
  shows "case r of None \<Rightarrow> written env obj t j planning (tables @ tbls) ps1 u w
    | Some e \<Rightarrow> left_over env obj t j planning e ps1 u w"
  using assms(2,3)
proof (induction tbls arbitrary: tables ps v)
  case Nil
  then show ?case by simp
next
  case (Cons tbl tbls)
  show ?case
  proof (cases "write_plan env st t j planning (length ps) tbl v")
    case (Pair q v1)
    show ?thesis
    proof (cases q)
      case (Inl e)
      with Pair Cons.prems(1) have eqs: "r = Some (PlanArtifact e)" "ps1 = ps" "w = v1" by auto
      from write_plan_error [OF view Pair [unfolded Inl]] show ?thesis
        using Cons.prems(2) unfolding left_over_def
        by (simp only: eqs option.case) (intro exI [of _ tables] exI [of _ v], simp)
    next
      case (Inr p)
      with Pair Cons.prems(1) have rest: "write_all env st t j planning tbls (ps @ [p]) v1 = (r, ps1, w)" by simp
      note snoc = written_snoc [OF Cons.prems(2) write_plan_ok [OF view Pair [unfolded Inr]]]
      from Cons.IH [OF rest snoc] show ?thesis by (simp only: append_assoc append.simps)
    qed
  qed
qed

text \<open>One page: its pieces join those of the pages before.\<close>

definition cut_of :: "arrow_ipc \<Rightarrow> int \<Rightarrow> table list \<Rightarrow> table list \<Rightarrow> bool" where
  "cut_of il limit pages tables \<longleftrightarrow>
     concat (map tbl_rows tables) = concat (map tbl_rows pages)
   \<and> (\<forall>p \<in> set tables. tbl_rows p \<noteq> [] \<and> int (length (ipc_encode il p)) \<le> limit)"

lemma plan_page_result:
  assumes view: "bucket_view env obj"
    and page: "plan_page env st t j planning limit tbl ps v = (r, ps1, w)"
    and before: "written env obj t j planning tables ps u v" "cut_of (pl_ipc env) limit pages tables"
  shows "case r of
      None \<Rightarrow> \<exists>tables1. written env obj t j planning tables1 ps1 u w \<and> cut_of (pl_ipc env) limit (pages @ [tbl]) tables1
    | Some e \<Rightarrow> left_over env obj t j planning e ps1 u w"
proof (cases "split_table (pl_ipc env) tbl limit")
  case (Inl e)
  with page before(1) show ?thesis by (auto simp: plan_page_def intro: left_over_written)
next
  case (Inr shards)
  with page have w: "write_all env st t j planning shards ps v = (r, ps1, w)" by (simp add: plan_page_def)
  have "cut_of (pl_ipc env) limit (pages @ [tbl]) (tables @ shards)"
    using by_size.pieces [OF Inr] before(2) by (auto simp: cut_of_def)
  then show ?thesis using write_all_result [OF view w before(1)] by (cases r) auto
qed

subsection \<open>The source\<close>

text \<open>A page the listing serves for a cursor, and the chain of pages that follows the cursors.\<close>

definition served :: "'x plan_env \<Rightarrow> uuid \<Rightarrow> string \<Rightarrow> int \<Rightarrow> string option \<Rightarrow> json \<Rightarrow> bool" where
  "served env t kind limit cursor payload \<longleftrightarrow>
     (\<exists>n w chunks. 0 < n \<and> fst (pl_http env (passage_query_of t kind cursor n) w) = PageReply chunks False
        \<and> int (length (concat chunks)) \<le> limit \<and> pl_loads env (concat chunks) = Some payload)"

definition cursor_of :: "json \<Rightarrow> string option" where
  "cursor_of payload =
     (case payload of
        JObj _ \<Rightarrow> (case jget payload ''next_cursor'' of Some (JStr c) \<Rightarrow> Some c | _ \<Rightarrow> None)
      | _ \<Rightarrow> None)"

inductive chain :: "'x plan_env \<Rightarrow> uuid \<Rightarrow> string \<Rightarrow> int \<Rightarrow> json list \<Rightarrow> string option \<Rightarrow> bool"
  for env t kind limit where
  chain_start: "chain env t kind limit [] None"
| chain_page: "chain env t kind limit payloads c \<Longrightarrow> payloads = [] \<or> c \<noteq> None \<Longrightarrow> served env t kind limit c payload
    \<Longrightarrow> chain env t kind limit (payloads @ [payload]) (cursor_of payload)"

lemma next_cursor_ok: "next_cursor payload seen = Inr c \<Longrightarrow> cursor_of payload = c \<and> (\<forall>d. c = Some d \<longrightarrow> d \<notin> set seen)"
  by (auto simp: next_cursor_def cursor_of_def or_null_def split: json.splits option.splits if_split_asm)

lemma fetch_page_object:
  assumes "bucket_view env obj" "fetch_page env t kind limit cursor page_size w = (r, n, v)"
  shows "obj v = obj w"
  using assms
proof (induction env t kind limit cursor page_size w rule: fetch_page.induct)
  case (1 env t kind limit cursor page_size w)
  obtain chunks failed v0 where h: "pl_http env (passage_query_of t kind cursor page_size) w = (PageReply chunks failed, v0)"
    by (metis page_reply.exhaust surj_pair)
  have v0: "obj v0 = obj w" using 1(2) h unfolding bucket_view_def by (metis snd_conv)
  show ?case
  proof (cases "read_chunks limit [] chunks failed = Inl TooLarge \<and> 1 < page_size")
    case True
    then have big: "\<not> page_size \<le> 1" by simp
    have "fetch_page env t kind limit cursor (max 1 (page_size div 2)) v0 = (r, n, v)"
      using 1(3) True h by (subst (asm) fetch_page.simps) simp
    from 1(1) [OF h [symmetric] refl True [THEN conjunct1] refl big 1(2) this] v0 show ?thesis by simp
  next
    case False
    with 1(3) h have "v = v0"
      by (subst (asm) fetch_page.simps) (simp split: sum.split_asm page_error.split_asm option.split_asm if_split_asm)
    with v0 show ?thesis by simp
  qed
qed

text \<open>A state of the loop over the pages: the pages so far, what was cut from them, and what is in the
  bucket.\<close>

definition paged ::
  "'x plan_env \<Rightarrow> ('x \<Rightarrow> string \<Rightarrow> bytes option) \<Rightarrow> uuid \<Rightarrow> uuid \<Rightarrow> uuid \<Rightarrow> string \<Rightarrow> int \<Rightarrow> 'x \<Rightarrow> string option
   \<Rightarrow> shard_plan list \<Rightarrow> 'x \<Rightarrow> bool" where
  "paged env obj t j planning kind limit u cursor ps w \<longleftrightarrow>
     (\<exists>payloads pages tables. chain env t kind (max_response_bytes limit) payloads cursor
        \<and> (payloads = [] \<or> cursor \<noteq> None) \<and> list_all2 (\<lambda>p tbl. page_table t p = Inr tbl) payloads pages
        \<and> cut_of (pl_ipc env) limit pages tables \<and> written env obj t j planning tables ps u w)"

definition source_pages :: "'x plan_env \<Rightarrow> artifact_store \<Rightarrow> uuid \<Rightarrow> string \<Rightarrow> json \<Rightarrow> int \<Rightarrow> 'x \<Rightarrow> table list \<Rightarrow> bool" where
  "source_pages env st t kind source_ref limit w pages \<longleftrightarrow>
     (if kind = ''artifact''
      then \<exists>tbl. artifact_source env st t (if truthy source_ref then source_ref else JObj []) w = Inr tbl \<and> pages = [tbl]
      else kind \<in> set [''web_corpus'', ''life_email''] \<and> (\<exists>payloads. payloads \<noteq> []
        \<and> chain env t kind (max_response_bytes limit) payloads None
        \<and> list_all2 (\<lambda>p tbl. page_table t p = Inr tbl) payloads pages))"

lemma max_response_bytes_pos [simp]: "0 \<le> max_response_bytes limit"
  by (simp add: max_response_bytes_def)

lemma fetch_page_served:
  assumes "fetch_page env t kind (max_response_bytes limit) cursor n w = (Inr payload, n1, v)" "0 < n"
  shows "0 < n1 \<and> served env t kind (max_response_bytes limit) cursor payload"
proof -
  from fetch_page_spec [OF assms max_response_bytes_pos] obtain chunks failed w0 where
    "0 < n1" "pl_http env (passage_query_of t kind cursor n1) w0 = (PageReply chunks failed, v)"
    "\<not> failed" "int (length (concat chunks)) \<le> max_response_bytes limit" "pl_loads env (concat chunks) = Some payload"
    by auto
  then show ?thesis unfolding served_def
    by (intro conjI exI [of _ n1] exI [of _ w0] exI [of _ chunks]) simp_all
qed

lemma remote_round_result:
  assumes view: "bucket_view env obj" and n: "0 < n"
    and before: "paged env obj t j planning kind limit u cursor ps v"
    and rnd: "remote_round env st t j planning kind limit (cursor, seen, n, ps, v) = (r, (cursor1, seen1, n1, ps1, w))"
  shows "case r of
      None \<Rightarrow> 0 < n1 \<and> paged env obj t j planning kind limit u cursor1 ps1 w
        \<and> (\<exists>c payload. cursor1 = Some c \<and> served env t kind (max_response_bytes limit) cursor payload
             \<and> cursor_of payload = Some c \<and> c \<notin> set seen \<and> seen1 = c # seen)
    | Some None \<Rightarrow> \<exists>payloads pages tables. payloads \<noteq> [] \<and> chain env t kind (max_response_bytes limit) payloads None
        \<and> list_all2 (\<lambda>p tbl. page_table t p = Inr tbl) payloads pages
        \<and> cut_of (pl_ipc env) limit pages tables \<and> written env obj t j planning tables ps1 u w
    | Some (Some e) \<Rightarrow> left_over env obj t j planning e ps1 u w"
proof -
  from before obtain payloads pages tables where
    ch: "chain env t kind (max_response_bytes limit) payloads cursor" "payloads = [] \<or> cursor \<noteq> None"
    and pg: "list_all2 (\<lambda>p tbl. page_table t p = Inr tbl) payloads pages"
    and cut: "cut_of (pl_ipc env) limit pages tables" and wr: "written env obj t j planning tables ps u v"
    unfolding paged_def by blast
  obtain q m v1 where f: "fetch_page env t kind (max_response_bytes limit) cursor n v = (q, m, v1)" by (metis surj_pair)
  have wr1: "written env obj t j planning tables ps u v1"
    using written_same [OF wr fetch_page_object [OF view f]] .
  show ?thesis
  proof (cases q)
    case (Inl e)
    with rnd f have "r = Some (Some e)" "ps1 = ps" "w = v1" by (auto simp: remote_round_def)
    with left_over_written [OF wr1] show ?thesis by simp
  next
    case q: (Inr payload)
    note srv = fetch_page_served [OF f [unfolded q] n]
    show ?thesis
    proof (cases "page_table t payload")
      case (Inl e)
      with rnd f q have "r = Some (Some e)" "ps1 = ps" "w = v1" by (auto simp: remote_round_def)
      with left_over_written [OF wr1] show ?thesis by simp
    next
      case tbl: (Inr tbl)
      obtain x ps2 v2 where p: "plan_page env st t j planning limit tbl ps v1 = (x, ps2, v2)" by (metis surj_pair)
      note pr = plan_page_result [OF view p wr1 cut]
      show ?thesis
      proof (cases x)
        case (Some e)
        with rnd f q tbl p have "r = Some (Some e)" "ps1 = ps2" "w = v2" by (auto simp: remote_round_def)
        with pr Some show ?thesis by simp
      next
        case None
        with pr obtain tables1 where t1: "written env obj t j planning tables1 ps2 u v2"
          "cut_of (pl_ipc env) limit (pages @ [tbl]) tables1" by auto
        have pg1: "list_all2 (\<lambda>p tbl. page_table t p = Inr tbl) (payloads @ [payload]) (pages @ [tbl])"
          using pg tbl by (simp add: list_all2_appendI)
        show ?thesis
        proof (cases "next_cursor payload seen")
          case (Inl e)
          with rnd f q tbl p None have "r = Some (Some e)" "ps1 = ps2" "w = v2" by (auto simp: remote_round_def)
          with left_over_written [OF t1(1)] show ?thesis by simp
        next
          case (Inr c)
          note nc = next_cursor_ok [OF Inr]
          have ch1: "chain env t kind (max_response_bytes limit) (payloads @ [payload]) c"
            using chain_page [OF ch srv [THEN conjunct2]] nc by simp
          show ?thesis
          proof (cases c)
            case None
            with rnd f q tbl p \<open>x = None\<close> Inr have "r = Some None" "ps1 = ps2" "w = v2" by (auto simp: remote_round_def)
            then show ?thesis
              using ch1 pg1 t1 None
              by (simp only: option.case) (intro exI [of _ "payloads @ [payload]"] exI [of _ "pages @ [tbl]"] exI [of _ tables1] conjI; simp)
          next
            case (Some d)
            with rnd f q tbl p None Inr have eqs: "r = None" "cursor1 = Some d" "seen1 = d # seen" "n1 = m" "ps1 = ps2" "w = v2"
              by (auto simp: remote_round_def)
            have "paged env obj t j planning kind limit u (Some d) ps2 v2"
              unfolding paged_def using ch1 pg1 t1 Some
              by (intro exI [of _ "payloads @ [payload]"] exI [of _ "pages @ [tbl]"] exI [of _ tables1] conjI; simp)
            with srv nc Some show ?thesis by (auto simp: eqs)
          qed
        qed
      qed
    qed
  qed
qed

lemma plan_source_result:
  assumes view: "bucket_view env obj" and res: "plan_source env st t j planning kind source_ref limit u = Some (r, ps, w)"
  shows "case r of
      None \<Rightarrow> \<exists>pages tables. source_pages env st t kind source_ref limit u pages
        \<and> cut_of (pl_ipc env) limit pages tables \<and> written env obj t j planning tables ps u w
    | Some e \<Rightarrow> left_over env obj t j planning e ps u w"
proof -
  have start: "written env obj t j planning [] [] u u" by simp
  have refused: ?thesis if "r = Some e" "ps = []" "w = u" for e
    using left_over_written [OF start] that by simp
  show ?thesis
  proof (cases "\<exists>kvs. (if truthy source_ref then source_ref else JObj []) = JObj kvs")
    case True
    then obtain kvs where JObj: "(if truthy source_ref then source_ref else JObj []) = JObj kvs" by blast
    show ?thesis
    proof (cases "kind = ''artifact''")
      case art: True
      show ?thesis
      proof (cases "artifact_source env st t (JObj kvs) u")
        case (Inl e)
        with res JObj art have "r = Some e" "ps = []" "w = u" by (simp_all add: plan_source_def)
        then show ?thesis by (rule refused)
      next
        case (Inr tbl)
        with res JObj art have p: "plan_page env st t j planning limit tbl [] u = (r, ps, w)" by (simp add: plan_source_def)
        have "source_pages env st t kind source_ref limit u [tbl]"
          using art Inr by (simp only: source_pages_def JObj if_True) simp
        moreover have "cut_of (pl_ipc env) limit [] []" by (simp add: cut_of_def)
        note plan_page_result [OF view p start this]
        ultimately show ?thesis by (cases r) (simp_all, blast)
      qed
    next
      case other: False
      show ?thesis
      proof (cases "kind \<in> set [''web_corpus'', ''life_email''] \<and> passages_key env \<noteq> []")
        case False
        with res JObj other obtain e where "r = Some e" "ps = []" "w = u"
          by (auto simp: plan_source_def split: if_split_asm)
        then show ?thesis by (rule refused)
      next
        case remote: True
        with res JObj other obtain c s n where loop: "while_true (remote_round env st t j planning kind limit)
            (None, [], first_page_size (max_response_bytes limit), [], u) = Some (r, (c, s, n, ps, w))"
          by (auto simp: plan_source_def split: option.split_asm)
        have "case (c, s, n, ps, w) of (c, s, n, ps, w) \<Rightarrow> (case r of
            None \<Rightarrow> \<exists>payloads pages tables. payloads \<noteq> [] \<and> chain env t kind (max_response_bytes limit) payloads None
              \<and> list_all2 (\<lambda>p tbl. page_table t p = Inr tbl) payloads pages
              \<and> cut_of (pl_ipc env) limit pages tables \<and> written env obj t j planning tables ps u w
          | Some e \<Rightarrow> left_over env obj t j planning e ps u w)"
        proof (rule while_true_inv [OF loop, where I = "\<lambda>(c, s, n, ps, v). 0 < n \<and> paged env obj t j planning kind limit u c ps v"])
          show "case (None, [], first_page_size (max_response_bytes limit), [], u) of
              (c, s, n, ps, v) \<Rightarrow> 0 < n \<and> paged env obj t j planning kind limit u c ps v"
            by (auto simp: first_page_size_def paged_def cut_of_def chain_start intro!: exI [of _ "[]"])
        next
          fix a b assume "case a of (c, s, n, ps, v) \<Rightarrow> 0 < n \<and> paged env obj t j planning kind limit u c ps v"
            "remote_round env st t j planning kind limit a = (None, b)"
          then show "case b of (c, s, n, ps, v) \<Rightarrow> 0 < n \<and> paged env obj t j planning kind limit u c ps v"
            by (cases a, cases b) (auto dest!: remote_round_result [OF view])
        next
          fix a b r' assume "case a of (c, s, n, ps, v) \<Rightarrow> 0 < n \<and> paged env obj t j planning kind limit u c ps v"
            "remote_round env st t j planning kind limit a = (Some r', b)"
          then show "case b of (c, s, n, ps, w) \<Rightarrow> (case r' of
              None \<Rightarrow> \<exists>payloads pages tables. payloads \<noteq> [] \<and> chain env t kind (max_response_bytes limit) payloads None
                \<and> list_all2 (\<lambda>p tbl. page_table t p = Inr tbl) payloads pages
                \<and> cut_of (pl_ipc env) limit pages tables \<and> written env obj t j planning tables ps u w
            | Some e \<Rightarrow> left_over env obj t j planning e ps u w)"
            by (cases a, cases b) (auto dest!: remote_round_result [OF view])
        qed
        then show ?thesis using other remote by (cases r) (auto simp: source_pages_def)
      qed
    qed
  next
    case False
    then have "plan_source env st t j planning kind source_ref limit u
        = Some (Some (Planning ''source_ref must be an object''), [], u)"
      by (cases "if truthy source_ref then source_ref else JObj []") (simp_all add: plan_source_def split del: if_split)
    with res have "r = Some (Planning ''source_ref must be an object'')" "ps = []" "w = u" by simp_all
    then show ?thesis by (rule refused)
  qed
qed

subsection \<open>Discarding\<close>

lemma discard_loop_result:
  assumes view: "bucket_view env obj" and "\<forall>p \<in> set ps. validate_key t (plan_key p) = Inr (plan_key p)"
  shows "\<exists>f v. discard_loop (pl_s3 env) t ps failed w = (Inr f, v) \<and> same_but obj (plan_key ` set ps) w v
    \<and> (\<not> f \<longrightarrow> \<not> failed \<and> (\<forall>p \<in> set ps. obj v (plan_key p) = None))"
  using assms(2)
proof (induction ps arbitrary: failed w)
  case Nil
  then show ?case by simp
next
  case (Cons p ps)
  obtain x v where d: "delete_object (pl_s3 env) (plan_key p) w = (x, v)" by fastforce
  note eff = view_delete [OF view d]
  have run: "discard_loop (pl_s3 env) t (p # ps) failed w = discard_loop (pl_s3 env) t ps (failed \<or> x \<noteq> None) v"
    using Cons.prems d by (cases x) (simp_all add: delete_artifact_def storage_call_def is_storage_error_def)
  have keys: "\<forall>q \<in> set ps. validate_key t (plan_key q) = Inr (plan_key q)" using Cons.prems by simp
  from Cons.IH [OF keys, of "failed \<or> x \<noteq> None" v] obtain f v1 where
    ih: "discard_loop (pl_s3 env) t ps (failed \<or> x \<noteq> None) v = (Inr f, v1)" "same_but obj (plan_key ` set ps) v v1"
      "\<not> f \<longrightarrow> \<not> (failed \<or> x \<noteq> None) \<and> (\<forall>p \<in> set ps. obj v1 (plan_key p) = None)" by blast
  have "same_but obj (plan_key ` set (p # ps)) w v1"
    using same_but_trans [OF eff [THEN conjunct1] ih(2)] by simp
  moreover have "\<not> f \<longrightarrow> obj v1 (plan_key p) = None"
    using ih(3) eff same_but_get [OF ih(2), of "plan_key p"] by (cases "plan_key p \<in> plan_key ` set ps") auto
  ultimately show ?case unfolding run ih(1) using ih(3) by auto
qed

lemma abandon_result:
  assumes view: "bucket_view env obj" and keys: "\<forall>p \<in> set ps. validate_key t (plan_key p) = Inr (plan_key p)"
    and res: "abandon message (pl_s3 env) t ps e wrap w = (e1, v)"
  shows "same_but obj (plan_key ` set ps) w v
    \<and> (e1 = wrap (ArtifactStorageError message) \<or> e1 = e \<and> (\<forall>p \<in> set ps. obj v (plan_key p) = None))"
proof -
  from keys have keys': "\<forall>p \<in> set (rev ps). validate_key t (plan_key p) = Inr (plan_key p)" by simp
  from discard_loop_result [OF view keys', of False w] obtain f v1 where
    d: "discard_loop (pl_s3 env) t (rev ps) False w = (Inr f, v1)" "same_but obj (plan_key ` set ps) w v1"
      "\<not> f \<longrightarrow> (\<forall>p \<in> set ps. obj v1 (plan_key p) = None)" by auto
  then show ?thesis using res
    by (cases f) (auto simp: abandon_def discard_plans_def is_storage_error_def)
qed

lemma written_keys:
  assumes "written env obj t j planning tables ps v w"
  shows "\<forall>p \<in> set ps. validate_key t (plan_key p) = Inr (plan_key p)"
    and "plan_key ` set ps = input_key t j planning ` {..<length ps}"
  using assms by (auto simp: written_def plan_for_def image_image atLeast0LessThan [symmetric])

text \<open>What becomes of the plans of a failed planning whose keys were fresh.\<close>

lemma left_over_abandoned:
  assumes view: "bucket_view env obj" and left: "left_over env obj t j planning e ps u w"
    and fresh: "\<forall>i. obj u (input_key t j planning i) = None"
    and res: "abandon message (pl_s3 env) t ps e wrap w = (e1, v)"
  shows "e1 = wrap (ArtifactStorageError message) \<and> same_but obj (range (input_key t j planning)) u v
    \<or> e1 = e \<and> (\<exists>n. same_but obj {input_key t j planning n} u v)
      \<and> (e \<noteq> PlanArtifact (ArtifactStorageError ''artifact storage write failed'') \<longrightarrow> obj v = obj u)"
proof -
  from left obtain tables v0 where wr: "written env obj t j planning tables ps u v0"
    and one: "same_but obj {input_key t j planning (length ps)} v0 w"
    and kept: "e \<noteq> PlanArtifact (ArtifactStorageError ''artifact storage write failed'') \<longrightarrow> obj w = obj v0"
    unfolding left_over_def by blast
  let ?ks = "input_key t j planning ` {..<length ps}"
  have uv0: "same_but obj ?ks u v0" using wr by (simp add: written_def)
  note ab = abandon_result [OF view written_keys(1) [OF wr] res, unfolded written_keys(2) [OF wr]]
  then have wv: "same_but obj ?ks w v" by simp
  have "same_but obj (range (input_key t j planning)) u v"
    by (rule same_but_mono [OF same_but_trans [OF same_but_trans [OF uv0 one] wv]]) auto
  moreover have "(\<exists>n. same_but obj {input_key t j planning n} u v)
      \<and> (e \<noteq> PlanArtifact (ArtifactStorageError ''artifact storage write failed'') \<longrightarrow> obj v = obj u)"
    if gone: "\<forall>p \<in> set ps. obj v (plan_key p) = None"
  proof -
    have here: "obj v k = obj u k" if "k \<in> ?ks" for k
      using that gone fresh written_keys(2) [OF wr] by (metis image_iff)
    have there: "obj v k = obj v0 k" if "k \<notin> ?ks" "k \<noteq> input_key t j planning (length ps) \<or> obj w = obj v0" for k
      using same_but_get [OF wv that(1)] same_but_get [OF one, of k] that(2) by auto
    have "obj v k = obj u k" if "k \<noteq> input_key t j planning (length ps) \<or> obj w = obj v0" for k
      using here [of k] there [of k] same_but_get [OF uv0, of k] that by fastforce
    then show ?thesis using kept unfolding same_but_def
      by (intro conjI exI [of _ "length ps"] impI ext) auto
  qed
  ultimately show ?thesis using ab by blast
qed

lemma input_key_admitted:
  assumes "length (dec_nat n) \<le> 373"
  shows "validate_key t (input_key t j u n) = Inr (input_key t j u n)"
proof -
  have plain: "CHR ''/'' \<notin> set (dec_nat n)" "CHR 0x5C \<notin> set (dec_nat n)"
    using set_dec_nat [of n] by auto
  have "split_on (CHR ''/'') (''extraction/'' @ uuid_str j @ ''/in/'' @ uuid_str u @ ''/'' @ dec_nat n @ ''.arrow'')
      = [''extraction'', uuid_str j, ''in'', uuid_str u, dec_nat n @ ''.arrow'']"
    using split_on_append [of "CHR ''/''" "''extraction''"] split_on_append [of "CHR ''/''" "uuid_str j"]
      split_on_append [of "CHR ''/''" "''in''"] split_on_append [of "CHR ''/''" "uuid_str u"]
      split_on_single [of "CHR ''/''" "dec_nat n @ ''.arrow''"] plain by simp
  then show ?thesis
    using assms plain unfolding input_key_def validate_tenant_key
    by (auto dest: arg_cong [where f = length])
qed

subsection \<open>The planning\<close>

text \<open>C28. A successful planning has materialized its source: its plans are numbered from 0 and describe
  tables that are in the bucket under the keys of this planning; their rows are, in order and
  once each, those of the pages of the source (the one artifact, or the chain of pages that follows the
  cursors of the listing to its end), or the one table without rows when the source has none;
  each table encodes within the input limit, and no other object of the bucket has changed.\<close>

theorem plan_shards_complete:
  assumes "bucket_view env obj" and "from_settings (pl_cfg env) = Inr st"
    and "plan_shards env t j planning kind source_ref limit w = Some (Inr ps, w')"
  shows "ps \<noteq> [] \<and> (\<exists>pages tables. source_pages env st t kind source_ref limit w pages
    \<and> concat (map tbl_rows tables) = concat (map tbl_rows pages)
    \<and> (tables = [\<lparr>tbl_schema = passage_schema, tbl_rows = []\<rparr>]
       \<or> (\<forall>p \<in> set tables. tbl_rows p \<noteq> [] \<and> int (length (ipc_encode (pl_ipc env) p)) \<le> limit))
    \<and> written env obj t j planning tables ps w w')"
proof -
  obtain r ps0 w1 where src: "plan_source env st t j planning kind source_ref limit w = Some (r, ps0, w1)"
    using assms(2,3) by (auto simp: plan_shards_def split: option.split_asm)
  have r: "r = None" using assms(2,3) src by (cases r) (auto simp: plan_shards_def split: prod.split_asm)
  from plan_source_result [OF assms(1) src] obtain pages tables where
    pages: "source_pages env st t kind source_ref limit w pages" "cut_of (pl_ipc env) limit pages tables"
    and wr: "written env obj t j planning tables ps0 w w1" unfolding r option.case by blast
  show ?thesis
  proof (cases "ps0 = []")
    case False
    with assms(2,3) src r have "ps = ps0" "w' = w1" by (auto simp: plan_shards_def)
    with False pages wr show ?thesis unfolding cut_of_def by blast
  next
    case True
    with assms(2,3) src r obtain p where
      p: "write_plan env st t j planning 0 \<lparr>tbl_schema = passage_schema, tbl_rows = []\<rparr> w1 = (Inr p, w')" "ps = [p]"
      by (auto simp: plan_shards_def split: prod.split_asm sum.split_asm)
    have none: "tables = []" using written_length [OF wr] True by simp
    from written_snoc [OF wr, unfolded True none, simplified, OF write_plan_ok [OF assms(1) p(1)]]
    have "written env obj t j planning [\<lparr>tbl_schema = passage_schema, tbl_rows = []\<rparr>] ps w w'" using p(2) by simp
    moreover have "concat (map tbl_rows pages) = []" using pages(2) none by (simp add: cut_of_def)
    ultimately show ?thesis using pages(1) p(2)
      by (intro conjI exI [of _ pages] exI [of _ "[\<lparr>tbl_schema = passage_schema, tbl_rows = []\<rparr>]"]) simp_all
  qed
qed

text \<open>C29. A failed planning cleans up: unless the deletion itself fails, which its message says, the bucket
  is as it was before, except that a write which reported an error may have left its own object;
  and no object outside the keys of this planning has changed in any case.\<close>

theorem plan_shards_clean:
  assumes "bucket_view env obj" and "\<forall>i. obj w (input_key t j planning i) = None"
    and "plan_shards env t j planning kind source_ref limit w = Some (Inl e, w')"
  shows "e = PlanArtifact (ArtifactStorageError PLANNING_CLEANUP) \<and> same_but obj (range (input_key t j planning)) w w'
    \<or> (\<exists>n. same_but obj {input_key t j planning n} w w')
      \<and> (e \<noteq> PlanArtifact (ArtifactStorageError ''artifact storage write failed'') \<longrightarrow> obj w' = obj w)"
proof (cases "from_settings (pl_cfg env)")
  case (Inl e1)
  with assms(3) show ?thesis by (simp add: plan_shards_def)
next
  case (Inr st)
  obtain r ps0 w1 where src: "plan_source env st t j planning kind source_ref limit w = Some (r, ps0, w1)"
    using Inr assms(3) by (auto simp: plan_shards_def split: option.split_asm)
  note res = plan_source_result [OF assms(1) src]
  show ?thesis
  proof (cases r)
    case (Some e0)
    obtain e1 w2 where a: "abandon PLANNING_CLEANUP (pl_s3 env) t ps0 e0 PlanArtifact w1 = (e1, w2)" by (metis surj_pair)
    with assms(3) Inr src Some have "e = e1" "w' = w2" by (simp_all add: plan_shards_def)
    with left_over_abandoned [OF assms(1) _ assms(2) a] res Some show ?thesis by auto
  next
    case None
    with res obtain tables where wr: "written env obj t j planning tables ps0 w w1" by auto
    from assms(3) Inr src None obtain e0 w2 where ps0: "ps0 = []"
      and p: "write_plan env st t j planning 0 \<lparr>tbl_schema = passage_schema, tbl_rows = []\<rparr> w1 = (Inl e0, w2)"
      and a: "abandon PLANNING_CLEANUP (pl_s3 env) t [] (PlanArtifact e0) PlanArtifact w2 = (e, w')"
      by (auto simp: plan_shards_def split: prod.split_asm sum.split_asm if_split_asm)
    have "left_over env obj t j planning (PlanArtifact e0) [] w w2"
      using wr write_plan_error [OF assms(1) p] unfolding left_over_def ps0
      by (intro exI [of _ tables] exI [of _ w1]) simp
    from left_over_abandoned [OF assms(1) this assms(2) a] show ?thesis by auto
  qed
qed

text \<open>C30. A planning ends when the cursors of the listing are drawn from a finite set, since the planner
  refuses a cursor it has seen; an artifact source always ends.\<close>

theorem plan_shards_ends:
  assumes "bucket_view env obj" and "finite cursors"
    and "\<forall>c payload d. served env t kind (max_response_bytes limit) c payload \<and> cursor_of payload = Some d \<longrightarrow> d \<in> cursors"
  shows "\<exists>r w'. plan_shards env t j planning kind source_ref limit w = Some (r, w')"
proof -
  have loop: "\<exists>r v. while_true (remote_round env st t j planning kind limit)
      (None, [], first_page_size (max_response_bytes limit), [], w) = Some (r, v)" for st
  proof (rule while_true_terminates [where m = "\<lambda>(c, seen, n, ps, v). card (cursors - set seen)"
      and I = "\<lambda>(c, seen, n, ps, v). 0 < n \<and> paged env obj t j planning kind limit w c ps v"])
    show "case (None, [], first_page_size (max_response_bytes limit), [], w) of
        (c, seen, n, ps, v) \<Rightarrow> 0 < n \<and> paged env obj t j planning kind limit w c ps v"
      by (auto simp: first_page_size_def paged_def cut_of_def chain_start intro!: exI [of _ "[]"])
  next
    fix a b
    assume a: "case a of (c, seen, n, ps, v) \<Rightarrow> 0 < n \<and> paged env obj t j planning kind limit w c ps v"
      "remote_round env st t j planning kind limit a = (None, b)"
    obtain c seen n ps v c1 seen1 n1 ps1 v1 where ab: "a = (c, seen, n, ps, v)" "b = (c1, seen1, n1, ps1, v1)"
      by (metis prod_cases5)
    with a have "0 < n" "paged env obj t j planning kind limit w c ps v"
      "remote_round env st t j planning kind limit (c, seen, n, ps, v) = (None, (c1, seen1, n1, ps1, v1))" by simp_all
    from remote_round_result [OF assms(1) this] obtain d payload where
      next1: "0 < n1" "paged env obj t j planning kind limit w c1 ps1 v1" "seen1 = d # seen" "d \<notin> set seen"
        "served env t kind (max_response_bytes limit) c payload" "cursor_of payload = Some d" by auto
    with assms(3) have "d \<in> cursors" by blast
    with assms(2) next1(4) have "card (cursors - set (d # seen)) < card (cursors - set seen)"
      by (intro psubset_card_mono) auto
    with next1 show "(case b of (c, seen, n, ps, v) \<Rightarrow> 0 < n \<and> paged env obj t j planning kind limit w c ps v)
        \<and> (case b of (c, seen, n, ps, v) \<Rightarrow> card (cursors - set seen)) < (case a of (c, seen, n, ps, v) \<Rightarrow> card (cursors - set seen))"
      by (simp add: ab)
  qed
  show ?thesis
  proof (cases "from_settings (pl_cfg env)")
    case (Inr st)
    from loop [of st] obtain r c seen n ps v where "while_true (remote_round env st t j planning kind limit)
        (None, [], first_page_size (max_response_bytes limit), [], w) = Some (r, (c, seen, n, ps, v))" by (metis prod_cases5)
    note ends = this
    have "\<exists>x. plan_source env st t j planning kind source_ref limit w = Some x"
      unfolding plan_source_def
    proof (cases "if truthy source_ref then source_ref else JObj []", simp_all only: json.case option.inject ex_simps)
      fix kvs
      show "\<exists>x. (if kind = ''artifact'' then Some (case artifact_source env st t (JObj kvs) w of
              Inl e \<Rightarrow> (Some e, [], w) | Inr tbl \<Rightarrow> plan_page env st t j planning limit tbl [] w)
          else if kind \<in> set [''web_corpus'', ''life_email''] then
            if passages_key env = [] then Some (Some (Planning ''THEOREM_MACHINE_KEY_PASSAGES is required''), [], w)
            else (case while_true (remote_round env st t j planning kind limit)
                    (None, [], first_page_size (max_response_bytes limit), [], w) of
                    None \<Rightarrow> None | Some (r, uu, uua, uub, ps, w1) \<Rightarrow> Some (r, ps, w1))
          else Some (Some (Planning (''unsupported extraction source: '' @ kind)), [], w)) = Some x"
        unfolding ends by (simp del: split_paired_Ex)
    qed simp_all
    then show ?thesis using Inr by (auto simp: plan_shards_def split: option.split prod.split sum.split)
  qed (simp add: plan_shards_def)
qed

subsection \<open>A listing of three passages\<close>

text \<open>The parameter of the witnesses: a bucket in memory, and a listing whose first page has three
  passages and names \<open>after\<close> as its next cursor; a request with a cursor fails.\<close>

definition demo_payload :: "json \<Rightarrow> json" where
  "demo_payload after = JObj [(''passages'', JList (map (\<lambda>s. JObj [(''id'', JStr s), (''text'', JStr ''x'')]) [''a'', ''b'', ''c''])),
     (''next_cursor'', after)]"

definition demo_plan_env :: "json \<Rightarrow> (string \<times> bytes) list plan_env" where
  "demo_plan_env after = \<lparr>pl_cfg = \<lparr>s3_endpoint_url = ''e'', s3_access_key_id = ''a'', s3_secret_access_key = ''s'',
       s3_region = ''r'', s3_bucket = ''b'', s3_presign_seconds = 900, s3_max_bytes = 1000\<rparr>,
     pl_s3 = memory_bucket, pl_ipc = demo_ipc, pl_cast = Inr,
     pl_http = (\<lambda>q w. (if q_cursor q = None then PageReply [[1]] False else PageReply [] True, w)),
     pl_loads = (\<lambda>_. Some (demo_payload after)), passages_key = ''k''\<rparr>"

lemma demo_plan_fields [simp]: "pl_s3 (demo_plan_env a) = memory_bucket" "pl_ipc (demo_plan_env a) = demo_ipc"
  "pl_http (demo_plan_env a) q w = (if q_cursor q = None then PageReply [[1]] False else PageReply [] True, w)"
  "pl_loads (demo_plan_env a) b = Some (demo_payload a)" "passages_key (demo_plan_env a) = ''k''"
  by (simp_all add: demo_plan_env_def)

lemma demo_plan_store: "from_settings (pl_cfg (demo_plan_env a)) = Inr \<lparr>bucket = ''b'', presign_seconds = 900, max_bytes = 1000\<rparr>"
  by (simp add: demo_plan_env_def from_settings_def blank_iff py_isspace_def)

lemma demo_view: "bucket_view (demo_plan_env a) map_of"
proof -
  have "map_of (filter (\<lambda>(k', _). k' \<noteq> k) s) l = (if l = k then None else map_of s l)" for k l and s :: "(string \<times> bytes) list"
    by (induction s) auto
  then show ?thesis by (simp add: bucket_view_def memory_bucket_def same_but_def)
qed

lemma demo_page: "page_table t (demo_payload a) = Inr demo_passages"
  by (simp add: page_table_def demo_payload_def jget_def or_null_def result_simps passage_row_def get_or_def truthy_def
      passage_metadata_def demo_passages_def)

lemma demo_cursor: "next_cursor (demo_payload a) [] =
    (case a of JNull \<Rightarrow> Inr None
     | JStr c \<Rightarrow> if c = [] then Inl (Planning ''passage listing next_cursor must be a non-empty string'') else Inr (Some c)
     | _ \<Rightarrow> Inl (Planning ''passage listing next_cursor must be a non-empty string''))"
  by (simp add: next_cursor_def demo_payload_def jget_def or_null_def split: json.split)

lemma demo_fetch: "fetch_page (demo_plan_env a) t kind 65536 None 64 w = (Inr (demo_payload a), 64, w)"
  "fetch_page (demo_plan_env a) t kind 65536 (Some c) 64 w = (Inl (Planning ''passage listing request failed''), 64, w)"
  by (simp_all add: fetch_page.simps [of _ _ _ _ _ 64] passage_query_of_def)

lemma demo_sizes: "max_response_bytes 26 = 65536" "first_page_size 65536 = 64"
  by (simp_all add: max_response_bytes_def first_page_size_def REMOTE_PAGE_SIZE_def REMOTE_ESTIMATED_PASSAGE_BYTES_def)

lemma demo_index: "dec_nat 0 = ''0''" "dec_nat (Suc 0) = ''1''"
  by code_simp+

lemma demo_keys: "validate_key t (input_key t j u 0) = Inr (input_key t j u 0)"
  "validate_key t (input_key t j u (Suc 0)) = Inr (input_key t j u (Suc 0))"
  by (rule input_key_admitted, simp add: demo_index)+

lemma demo_lengths: "length (ipc_encode demo_ipc (slice demo_passages 0 2)) = 26"
  "length (ipc_encode demo_ipc (slice demo_passages 2 (Suc 0))) = 18"
  by (simp_all add: demo_ipc_def demo_passages_def)

abbreviation demo_planned :: "(string \<times> bytes) list plan_env \<Rightarrow> (string \<times> bytes) list
    \<Rightarrow> ((plan_error, shard_plan list) result \<times> (string \<times> bytes) list) option" where
  "demo_planned env w \<equiv> plan_shards env 7 8 9 ''web_corpus'' (JObj []) 26 w"

definition demo_plans :: "shard_plan list" where
  "demo_plans = [plan_for demo_ipc 7 8 9 0 (slice demo_passages 0 2), plan_for demo_ipc 7 8 9 1 (slice demo_passages 2 1)]"

lemma demo_plan_page:
  "\<exists>v. plan_page (demo_plan_env a) \<lparr>bucket = ''b'', presign_seconds = 900, max_bytes = 1000\<rparr> 7 8 9 26 demo_passages [] w
    = (None, demo_plans, v)"
  by (simp add: plan_page_def demo_split write_plan_def write_table_def demo_keys Let_def storage_call_def memory_bucket_def
      demo_lengths demo_plans_def plan_for_def)

lemma demo_plan_ok: "\<exists>v. demo_planned (demo_plan_env JNull) [] = Some (Inr demo_plans, v)"
proof -
  let ?st = "\<lparr>bucket = ''b'', presign_seconds = 900, max_bytes = 1000\<rparr>"
  obtain v where "plan_page (demo_plan_env JNull) ?st 7 8 9 26 demo_passages [] [] = (None, demo_plans, v)"
    using demo_plan_page by blast
  then have "remote_round (demo_plan_env JNull) ?st 7 8 9 ''web_corpus'' 26 (None, [], 64, [], [])
      = (Some None, (None, [], 64, demo_plans, v))"
    by (simp add: remote_round_def demo_sizes demo_fetch demo_page demo_cursor)
  then show ?thesis
    by (intro exI [of _ v]) (simp add: plan_shards_def demo_plan_store plan_source_def truthy_def demo_sizes while_true.simps demo_plans_def)
qed

lemma demo_plan_failed:
  "\<exists>v. demo_planned (demo_plan_env (JStr ''n'')) [] = Some (Inl (Planning ''passage listing request failed''), v)"
proof -
  let ?env = "demo_plan_env (JStr ''n'')"
  let ?st = "\<lparr>bucket = ''b'', presign_seconds = 900, max_bytes = 1000\<rparr>"
  obtain v where "plan_page ?env ?st 7 8 9 26 demo_passages [] [] = (None, demo_plans, v)"
    using demo_plan_page by blast
  then have r: "remote_round ?env ?st 7 8 9 ''web_corpus'' 26 (None, [], 64, [], [])
      = (None, (Some ''n'', [''n''], 64, demo_plans, v))"
    "remote_round ?env ?st 7 8 9 ''web_corpus'' 26 (Some ''n'', [''n''], 64, demo_plans, v)
      = (Some (Some (Planning ''passage listing request failed'')), (Some ''n'', [''n''], 64, demo_plans, v))"
    by (simp_all add: remote_round_def demo_sizes demo_fetch demo_page demo_cursor)
  have l: "while_true (remote_round ?env ?st 7 8 9 ''web_corpus'' 26) (None, [], 64, [], [])
      = Some (Some (Planning ''passage listing request failed''), (Some ''n'', [''n''], 64, demo_plans, v))"
    by (subst while_true.simps, simp add: r(1)) (subst while_true.simps, simp add: r(2))
  show ?thesis
    by (simp add: plan_shards_def demo_plan_store plan_source_def truthy_def demo_sizes l abandon_def discard_plans_def
        demo_plans_def plan_for_def delete_artifact_def demo_keys storage_call_def memory_bucket_def)
qed

text \<open>A page request ends whatever the listing answers: it never raises the page size, and it returns a page that was within the
  byte limit and parsed, or the error of the listing; the error of a page that stays too large is
  raised only when a single row was requested.\<close>

theorem fetch_page_result:
  assumes "fetch_page env t kind limit cursor page_size w = (r, size1, w1)" and "0 < page_size" and "0 \<le> limit"
  shows "0 < size1 \<and> size1 \<le> page_size
    \<and> (\<exists>chunks failed w0. pl_http env (passage_query_of t kind cursor size1) w0 = (PageReply chunks failed, w1)
        \<and> (case r of
              Inr payload \<Rightarrow> \<not> failed \<and> int (length (concat chunks)) \<le> limit \<and> pl_loads env (concat chunks) = Some payload
            | Inl e \<Rightarrow> e = Planning ''passage listing request failed''
                \<or> e = PageTooLarge ''passage listing page exceeds the response byte limit'' \<and> size1 = 1))"
  using assms by (rule fetch_page_spec)

theorem fetch_page_result_witness:
  "served (demo_plan_env JNull) 7 ''web_corpus'' 65536 None (demo_payload JNull)
   \<and> (\<exists>chunks failed w0. pl_http (demo_plan_env JNull) (passage_query_of 7 ''web_corpus'' None 64) w0 = (PageReply chunks failed, [])
        \<and> \<not> failed)"
proof -
  from fetch_page_result [OF demo_fetch(1) [of JNull 7 "''web_corpus''" "[]"]] show ?thesis
    by (auto simp: served_def passage_query_of_def intro: exI [of _ 64] exI [of _ "[1]"])
qed

theorem plan_shards_complete_witness:
  "\<exists>v (pages :: table list) tables. demo_planned (demo_plan_env JNull) [] = Some (Inr demo_plans, v)
    \<and> concat (map tbl_rows tables) = concat (map tbl_rows pages)
    \<and> written (demo_plan_env JNull) map_of 7 8 9 tables demo_plans [] v"
proof -
  obtain v where v: "demo_planned (demo_plan_env JNull) [] = Some (Inr demo_plans, v)" using demo_plan_ok by blast
  from plan_shards_complete [OF demo_view demo_plan_store v] obtain pages :: "table list" and tables where
    "concat (map tbl_rows tables) = concat (map tbl_rows pages)"
    "written (demo_plan_env JNull) map_of 7 8 9 tables demo_plans [] v" by blast
  with v show ?thesis by (intro exI [of _ v] exI [of _ pages] exI [of _ tables] conjI)
qed

theorem plan_shards_clean_witness:
  "\<exists>v. demo_planned (demo_plan_env (JStr ''n'')) [] = Some (Inl (Planning ''passage listing request failed''), v)
    \<and> map_of v = map_of []"
proof -
  obtain v where v: "demo_planned (demo_plan_env (JStr ''n'')) [] = Some (Inl (Planning ''passage listing request failed''), v)"
    using demo_plan_failed by blast
  from plan_shards_clean [OF demo_view _ v] v show ?thesis by simp
qed

theorem plan_shards_ends_witness: "\<exists>r v. demo_planned (demo_plan_env (JStr ''n'')) [] = Some (r, v)"
proof (rule plan_shards_ends [OF demo_view, of "{''n''}"])
  show "\<forall>c payload d. served (demo_plan_env (JStr ''n'')) 7 ''web_corpus'' (max_response_bytes 26) c payload
      \<and> cursor_of payload = Some d \<longrightarrow> d \<in> {''n''}"
    by (auto simp: served_def cursor_of_def demo_payload_def jget_def)
qed simp

end
