(* ===== verification/Ledger_Cycle.thy ===== *)
theory Ledger_Cycle
  imports Extraction_Api Plan_Bucket
begin

section \<open>What the extraction ledger guarantees\<close>

text \<open>
  A submission is idempotent; the reconciliation writes the fold of what the offload jobs say; a
  replanned shard is replaced by a partition of its rows; a planned job fans out into one queued
  offload job per shard. The interfaces of \<open>Contracts\<close> and \<open>Shard_Plans\<close> are interpreted on the
  ledger.
\<close>

subsection \<open>Reads after writes\<close>

lemma modify_shard_fields [simp]:
  "jobs (modify_shard i f w) = jobs w" "sent (modify_shard i f w) = sent w"
  "xjobs (outside (modify_shard i f w)) = xjobs (outside w)"
  "xshards (outside (modify_shard i f w)) = map (\<lambda>s. if sh_id s = i then f s else s) (xshards (outside w))"
  by (simp_all add: modify_shard_def on_ledger_def)

lemma modify_x_fields [simp]:
  "jobs (modify_x j f w) = jobs w" "sent (modify_x j f w) = sent w"
  "xshards (outside (modify_x j f w)) = xshards (outside w)"
  "xjobs (outside (modify_x j f w)) = map (\<lambda>r. if x_id r = j then f r else r) (xjobs (outside w))"
  by (simp_all add: modify_x_def on_ledger_def)

lemma get_job_cong: "jobs w = jobs v \<Longrightarrow> get_job w = get_job v"
  by (simp add: get_job_def fun_eq_iff)

lemma get_job_modify_shard [simp]: "get_job (modify_shard i f w) = get_job w"
  by (rule get_job_cong) simp

lemma get_job_modify_x [simp]: "get_job (modify_x i f w) = get_job w"
  by (rule get_job_cong) simp

lemma get_x_modify_x:
  assumes "\<And>r. x_id (f r) = x_id r"
  shows "get_x (modify_x j f w) k = (if k = j then map_option f (get_x w j) else get_x w k)"
  unfolding get_x_def modify_x_fields by (rule row_of_map) (rule assms)

lemma get_x_modify_shard [simp]: "get_x (modify_shard i f w) j = get_x w j"
  by (simp add: get_x_def)

lemma get_x_id: "get_x w j = Some r \<Longrightarrow> x_id r = j \<and> r \<in> set (xjobs (outside w))"
  unfolding get_x_def by (auto dest: row_of_Some)

lemma shards_of_modify_x [simp]: "shards_of (modify_x j f w) k = shards_of w k"
  by (simp add: shards_of_def)

lemma set_shards_of [simp]: "set (shards_of w j) = {s \<in> set (xshards (outside w)). sh_job s = j}"
  by (auto simp: shards_of_def)

subsection \<open>The submission endpoint\<close>

definition recorded_extraction :: "'x extraction_env \<Rightarrow> api_ctx \<Rightarrow> 'x eworld \<Rightarrow> string \<times> x_request \<Rightarrow> uuid option" where
  "recorded_extraction env c w rq =
     (case submit_admits (xe_contract env) c (fst rq) (snd rq) of
        Inl _ \<Rightarrow> None
      | Inr a \<Rightarrow> map_option x_id (existing_extraction (xe_jsonb env) (xjobs (outside w)) a))"

lemma existing_after:
  assumes "existing_extraction stored rows a = None"
  shows "existing_extraction stored (rows @ [new_extraction a j t]) a = Some (new_extraction a j t)"
proof -
  have "filter (\<lambda>r. x_tenant r = xa_tenant a \<and> x_operation r = xa_operation a
        \<and> x_source_kind r = xa_source a \<and> x_params_hash r = canonical_hash (xa_params a)
        \<and> stored (x_source_ref r) = stored (xa_ref a)) rows = []"
    using assms by (simp add: existing_extraction_def)
  then show ?thesis unfolding existing_extraction_def
    by (rule newest_snoc_only) (simp add: new_extraction_def)
qed

text \<open>What the endpoint draws afresh is in its environment, so the fresh values are environments that
  differ in nothing else.\<close>

definition draw :: "'x extraction_env \<Rightarrow> uuid \<Rightarrow> 'x extraction_env" where
  "draw env u = env\<lparr>xe_uuid := \<lambda>_. u\<rparr>"

lemma draw_fields [simp]: "xe_contract (draw env u) = xe_contract env" "xe_jsonb (draw env u) = xe_jsonb env"
  "xe_off (draw env u) = xe_off env" "xe_uuid (draw env u) w = u"
  by (simp_all add: draw_def)

interpretation extraction_submit: clean_submission
  "\<lambda>u rq w. submit_endpoint (draw env u) c (fst rq) (snd rq) w"
  "\<lambda>rq. \<exists>a. submit_admits (xe_contract env) c (fst rq) (snd rq) = Inr a"
  "recorded_extraction env c" xr_job for env c
proof
  fix u rq a and w w' :: "'a eworld"
  assume ok: "submit_endpoint (draw env u) c (fst rq) (snd rq) w = (Inr a, w')"
  then show "\<exists>a. submit_admits (xe_contract env) c (fst rq) (snd rq) = Inr a"
    by (auto simp: submit_endpoint_def split: sum.split_asm)
  then obtain x where x: "submit_admits (xe_contract env) c (fst rq) (snd rq) = Inr x" by blast
  show "recorded_extraction env c w' rq = Some (xr_job a)"
  proof (cases "existing_extraction (xe_jsonb env) (xjobs (outside w)) x")
    case None
    then have "xjobs (outside w') = xjobs (outside w) @ [new_extraction x u (now (xe_off env) w)]" "xr_job a = u"
      using ok x by (auto simp: submit_endpoint_def Let_def on_ledger_def)
    with x existing_after [OF None] show ?thesis by (simp add: recorded_extraction_def) (simp add: new_extraction_def)
  next
    case (Some r)
    then show ?thesis using ok x by (auto simp: submit_endpoint_def recorded_extraction_def)
  qed
next
  fix rq w k u
  assume "\<exists>a. submit_admits (xe_contract env) c (fst rq) (snd rq) = Inr a" "recorded_extraction env c w rq = Some k"
  then show "\<exists>a. submit_endpoint (draw env u) c (fst rq) (snd rq) w = (Inr a, w) \<and> xr_job a = k"
    by (auto simp: recorded_extraction_def submit_endpoint_def)
next
  fix u rq e and w w' :: "'a eworld"
  assume "submit_endpoint (draw env u) c (fst rq) (snd rq) w = (Inl e, w')"
  then show "w' = w" by (auto simp: submit_endpoint_def Let_def split: sum.split_asm option.split_asm)
qed

subsection \<open>The fold of the shards\<close>

lemma sync_shard_ok:
  assumes "sync_shard s w = (Inr s1, w1)"
  shows "sh_id s1 = sh_id s \<and> sh_job s1 = sh_job s \<and> sh_index s1 = sh_index s \<and> sh_offload s1 = sh_offload s
    \<and> (sh_status s \<noteq> SSuperseded \<longrightarrow> sh_status s1 \<noteq> SSuperseded)
    \<and> (\<forall>j. sh_offload s = Some j \<longrightarrow> (\<exists>r. get_job w j = Some r \<and> s1 = follow_job r s))
    \<and> (w1 = w \<and> s1 = s \<or> w1 = modify_shard (sh_id s) (\<lambda>_. s1) w)"
proof -
  have "shard_status_of st \<noteq> SSuperseded" for st by (cases st) simp_all
  with assms show ?thesis
    by (auto simp: sync_shard_def follow_job_def split: option.split_asm if_split_asm)
qed

definition put_rows :: "shard list \<Rightarrow> shard \<Rightarrow> shard" where
  "put_rows act s = (case row_of sh_id act (sh_id s) of None \<Rightarrow> s | Some a \<Rightarrow> a)"

definition followed :: "'x eworld \<Rightarrow> shard \<Rightarrow> shard \<Rightarrow> bool" where
  "followed w s a \<longleftrightarrow> sh_id a = sh_id s \<and> sh_job a = sh_job s \<and> sh_index a = sh_index s \<and> sh_offload a = sh_offload s
     \<and> (sh_status s \<noteq> SSuperseded \<longrightarrow> sh_status a \<noteq> SSuperseded)
     \<and> (\<forall>j. sh_offload s = Some j \<longrightarrow> (\<exists>r. get_job w j = Some r \<and> a = follow_job r s))"

lemma row_by_id: "distinct (map sh_id rows) \<Longrightarrow> s \<in> set rows \<Longrightarrow> r \<in> set rows \<Longrightarrow> sh_id r = sh_id s \<Longrightarrow> r = s"
  by (simp add: distinct_map inj_on_def)

lemma sync_all_ok:
  assumes "sync_all ss w = (Inr act, w1)" "distinct (map sh_id ss)" "set ss \<subseteq> set (xshards (outside w))"
    "distinct (map sh_id (xshards (outside w)))"
  shows "list_all2 (followed w) ss act \<and> jobs w1 = jobs w \<and> sent w1 = sent w \<and> xjobs (outside w1) = xjobs (outside w)
    \<and> xshards (outside w1) = map (put_rows act) (xshards (outside w))"
  using assms
proof (induction ss arbitrary: w act)
  case Nil
  then show ?case by (simp add: put_rows_def row_of_def)
next
  case (Cons s ss)
  from Cons.prems(1) obtain s1 w' act' where one: "sync_shard s w = (Inr s1, w')"
    and rest: "sync_all ss w' = (Inr act', w1)" and act: "act = s1 # act'"
    by (auto split: prod.split_asm sum.split_asm)
  note ok = sync_shard_ok [OF one]
  let ?F = "\<lambda>r. if sh_id r = sh_id s then s1 else r"
  have s_row: "s \<in> set (xshards (outside w))" using Cons.prems(3) by simp
  have rows: "xshards (outside w') = map ?F (xshards (outside w))"
  proof -
    have "map (\<lambda>r. if sh_id r = sh_id s then s else r) (xshards (outside w)) = xshards (outside w)"
      using row_by_id [OF Cons.prems(4) s_row] by (intro map_idI) auto
    note self = this
    from ok consider "w' = w" "s1 = s" | "w' = modify_shard (sh_id s) (\<lambda>_. s1) w" by blast
    then show ?thesis
    proof cases
      case 1
      show ?thesis unfolding 1 by (rule self [symmetric])
    qed simp
  qed
  have same: "jobs w' = jobs w" "sent w' = sent w" "xjobs (outside w') = xjobs (outside w)"
    using ok by (elim conjE disjE; simp)+
  have "map sh_id (xshards (outside w')) = map sh_id (xshards (outside w))"
    unfolding rows using ok by (auto simp: comp_def)
  then have dist: "distinct (map sh_id (xshards (outside w')))" using Cons.prems(4) by simp
  have sub: "set ss \<subseteq> set (xshards (outside w'))"
  proof
    fix q assume "q \<in> set ss"
    then have "q \<in> set (xshards (outside w))" "?F q = q" using Cons.prems(2,3) by (auto simp: image_iff)
    then show "q \<in> set (xshards (outside w'))" unfolding rows set_map
      by (intro image_eqI [where x = q]) simp_all
  qed
  have ds: "distinct (map sh_id ss)" using Cons.prems(2) by simp
  from Cons.IH [OF rest ds sub dist] have
    ih: "list_all2 (followed w') ss act'" "jobs w1 = jobs w'" "sent w1 = sent w'" "xjobs (outside w1) = xjobs (outside w')"
      "xshards (outside w1) = map (put_rows act') (xshards (outside w'))" by simp_all
  have fol: "followed w' = followed w"
    using get_job_cong [OF same(1)] by (simp add: followed_def fun_eq_iff)
  have "sh_id s \<notin> sh_id ` set act'"
  proof
    assume "sh_id s \<in> sh_id ` set act'"
    then obtain i where "i < length act'" "sh_id (act' ! i) = sh_id s" by (auto simp: in_set_conv_nth)
    then have "sh_id (ss ! i) = sh_id s" "i < length ss"
      using ih(1) list_all2_nthD2 [OF ih(1)] by (auto simp: followed_def list_all2_lengthD)
    then have "sh_id s \<in> sh_id ` set ss" by (metis nth_mem imageI)
    with Cons.prems(2) show False by simp
  qed
  then have none: "row_of sh_id act' (sh_id s) = None" by (simp add: row_of_None)
  have put: "put_rows act' (?F r) = put_rows act r" for r
    using none ok unfolding put_rows_def act by (simp add: row_of_simps)
  have "followed w s s1" using ok unfolding followed_def by blast
  moreover have "map (put_rows act) (xshards (outside w)) = map (put_rows act') (xshards (outside w'))"
    unfolding rows by (simp add: put)
  ultimately show ?case using ih same unfolding fol by (simp add: act)
qed

lemma insort_key_map: "(\<And>x. f (g x) = f x) \<Longrightarrow> insort_key f (g x) (map g xs) = map g (insort_key f x xs)"
  by (induction xs) simp_all

lemma sort_key_map: "(\<And>x. f (g x) = f x) \<Longrightarrow> sort_key f (map g xs) = map g (sort_key f xs)"
  by (induction xs) (simp_all add: insort_key_map)

lemma list_all2_row_of:
  assumes "list_all2 (\<lambda>s a. sh_id a = sh_id s) ss act" "distinct (map sh_id ss)"
  shows "map (put_rows act) ss = act"
  using assms
proof (induction rule: list_all2_induct)
  case (Cons s ss a act)
  have "sh_id a \<notin> sh_id ` set ss" using Cons by simp
  then have tail: "map (put_rows (a # act)) ss = map (put_rows act) ss"
    using Cons.hyps by (auto simp: put_rows_def row_of_simps image_iff)
  have "put_rows (a # act) s = a" using Cons.hyps by (simp add: put_rows_def row_of_simps)
  moreover have "map (put_rows act) ss = act" using Cons by simp
  ultimately show ?case by (simp only: list.map tail)
qed simp

lemma put_rows_same:
  assumes "list_all2 (followed w) ss act" "distinct (map sh_id rows)" "set ss \<subseteq> set rows"
    and "\<forall>s \<in> set ss. sh_status s \<noteq> SSuperseded" and "r \<in> set rows"
  shows "sh_job (put_rows act r) = sh_job r \<and> sh_index (put_rows act r) = sh_index r
    \<and> (sh_status (put_rows act r) = SSuperseded \<longleftrightarrow> sh_status r = SSuperseded)"
proof (cases "row_of sh_id act (sh_id r)")
  case None
  then show ?thesis by (simp add: put_rows_def)
next
  case (Some a)
  then have a: "a \<in> set act" "sh_id a = sh_id r" by (auto dest: row_of_Some)
  then obtain s where s: "s \<in> set ss" "followed w s a"
    using assms(1) by (metis list_all2_iff in_set_zip in_set_conv_nth fst_conv snd_conv list_all2_nthD2 list_all2_lengthD)
  then have "r = s" using row_by_id [OF assms(2)] assms(3,5) a(2) by (auto simp: followed_def)
  with Some s assms(4) show ?thesis by (simp add: put_rows_def followed_def)
qed

lemma active_after_sync:
  assumes "sync_all (active_shards w j) w = (Inr act, w1)" "distinct (map sh_id (xshards (outside w)))"
  shows "active_shards w1 j = act \<and> jobs w1 = jobs w \<and> sent w1 = sent w \<and> xjobs (outside w1) = xjobs (outside w)
    \<and> list_all2 (followed w) (active_shards w j) act \<and> map sh_id (xshards (outside w1)) = map sh_id (xshards (outside w))"
proof -
  let ?rows = "xshards (outside w)" and ?ss = "active_shards w j"
  have sub: "set ?ss \<subseteq> set ?rows" by (auto simp: active_shards_def)
  have mset: "mset (map sh_id (shards_of w j)) = mset (map sh_id (filter (\<lambda>s. sh_job s = j) ?rows))"
    by (simp add: shards_of_def)
  have "distinct (map sh_id (shards_of w j))"
    using mset_eq_imp_distinct_iff [OF mset] assms(2) by (simp add: distinct_map_filter)
  then have dist: "distinct (map sh_id ?ss)" by (simp add: active_shards_def distinct_map_filter)
  from sync_all_ok [OF assms(1) dist sub assms(2)] have
    all: "list_all2 (followed w) ?ss act" "jobs w1 = jobs w" "sent w1 = sent w" "xjobs (outside w1) = xjobs (outside w)"
      "xshards (outside w1) = map (put_rows act) ?rows" by simp_all
  have live: "\<forall>s \<in> set ?ss. sh_status s \<noteq> SSuperseded" by (simp add: active_shards_def)
  note same = put_rows_same [OF all(1) assms(2) sub live]
  have ids: "list_all2 (\<lambda>s a. sh_id a = sh_id s) ?ss act"
    using all(1) by (rule list_all2_mono) (simp add: followed_def)
  let ?g = "\<lambda>r. if r \<in> set ?rows then put_rows act r else r"
  have "shards_of w1 j = map (put_rows act) (shards_of w j)"
  proof -
    have "filter (\<lambda>s. sh_job s = j) (map (put_rows act) ?rows) = map (put_rows act) (filter (\<lambda>s. sh_job s = j) ?rows)"
      unfolding filter_map using same by (intro arg_cong [where f = "map (put_rows act)"] filter_cong) simp_all
    moreover have "map (put_rows act) (filter (\<lambda>s. sh_job s = j) ?rows) = map ?g (filter (\<lambda>s. sh_job s = j) ?rows)"
      by (intro map_cong) simp_all
    moreover have "sort_key sh_index (map ?g xs) = map ?g (sort_key sh_index xs)" for xs
      using same by (intro sort_key_map) simp
    moreover have "map ?g (shards_of w j) = map (put_rows act) (shards_of w j)" by (intro map_cong) simp_all
    ultimately show ?thesis unfolding shards_of_def all(5) by simp
  qed
  moreover have "filter (\<lambda>s. sh_status s \<noteq> SSuperseded) (map (put_rows act) (shards_of w j)) = map (put_rows act) ?ss"
    unfolding active_shards_def filter_map using same
    by (intro arg_cong [where f = "map (put_rows act)"] filter_cong) simp_all
  ultimately have "active_shards w1 j = act"
    using list_all2_row_of [OF ids dist] by (simp add: active_shards_def)
  moreover have "map sh_id (map (put_rows act) ?rows) = map sh_id ?rows"
    by (auto simp: put_rows_def dest: row_of_Some split: option.split)
  ultimately show ?thesis using all by simp
qed

text \<open>What the row of an active shard says of its offload job.\<close>

definition mirrors :: "'x eworld \<Rightarrow> shard \<Rightarrow> bool" where
  "mirrors w s \<longleftrightarrow> (\<forall>j. sh_offload s = Some j \<longrightarrow> (\<exists>r. get_job w j = Some r \<and> sh_status s = shard_status_of (status r)
     \<and> sh_out_key s = output_artifact_key r \<and> sh_out_rows s = output_rows r
     \<and> sh_out_digest s = output_payload_digest r \<and> sh_error s = error r))"

lemma fold_shards_result:
  assumes "fold_shards j w = (Inr reply, w1)" "distinct (map sh_id (xshards (outside w)))" "get_x w1 j = Some r"
  shows "x_status r = fold_status (map sh_status (active_shards w1 j)) \<and> x_shard_count r = length (active_shards w1 j)
    \<and> x_rows_total r = sum_list (map rows_or_zero (active_shards w1 j)) \<and> (\<forall>s \<in> set (active_shards w1 j). mirrors w1 s)
    \<and> jget reply ''status'' = Some (JStr (xstatus_text (x_status r)))"
proof -
  from assms(1) obtain act v where s: "sync_all (active_shards w j) w = (Inr act, v)"
    and w1: "w1 = modify_x j (\<lambda>r. r\<lparr>x_status := fold_status (map sh_status act), x_shard_count := length act,
        x_rows_total := sum_list (map rows_or_zero act)\<rparr>) v"
    and reply: "jget reply ''status'' = Some (JStr (xstatus_text (fold_status (map sh_status act))))"
    by (auto simp: fold_shards_def Let_def jget_def split: prod.split_asm sum.split_asm)
  note a = active_after_sync [OF s assms(2)]
  have act: "active_shards w1 j = act" using a by (simp add: w1 active_shards_def)
  have "mirrors w1 s" if "s \<in> set act" for s
  proof -
    from that a obtain q where "followed w q s"
      by (metis in_set_conv_nth list_all2_conv_all_nth)
    moreover have "get_job w1 = get_job w" using a by (intro get_job_cong) (simp add: w1)
    ultimately show ?thesis by (auto simp: mirrors_def followed_def follow_job_def)
  qed
  with assms(3) act reply show ?thesis by (auto simp: w1 get_x_modify_x)
qed

lemma fold_status_cases:
  "fold_status ss = XSucceeded \<longleftrightarrow> ss \<noteq> [] \<and> (\<forall>s \<in> set ss. s = SSucceeded)"
  "fold_status ss = XRunning \<longleftrightarrow> SRunning \<in> set ss \<or> SQueued \<in> set ss"
  "fold_status ss = XCanceled \<longleftrightarrow> ss \<noteq> [] \<and> (\<forall>s \<in> set ss. s = SCanceled)"
  "fold_status ss = XPartial \<longleftrightarrow> SSucceeded \<in> set ss \<and> SRunning \<notin> set ss \<and> SQueued \<notin> set ss \<and> (\<exists>s \<in> set ss. s \<noteq> SSucceeded)"
  "fold_status ss \<noteq> XQueued"
  by (cases ss; auto simp: fold_status_def subset_iff)+

lemma sync_all_ids:
  "sync_all ss w = (Inr act, w1) \<Longrightarrow> map sh_id (xshards (outside w1)) = map sh_id (xshards (outside w))"
proof (induction ss arbitrary: w act)
  case (Cons s ss)
  from Cons.prems obtain s1 w' act' where one: "sync_shard s w = (Inr s1, w')" and rest: "sync_all ss w' = (Inr act', w1)"
    by (auto split: prod.split_asm sum.split_asm)
  have "map sh_id (xshards (outside w')) = map sh_id (xshards (outside w))"
    using sync_shard_ok [OF one] by (elim conjE disjE) (auto simp: comp_def)
  with Cons.IH [OF rest] show ?case by simp
qed simp

text \<open>C5. A reconciliation that returns has written the fold of the offload jobs: the row of the job carries
  the status, the number and the total rows of its active shards, and each active shard with an
  offload job carries what that job says; so the job is succeeded exactly when it has active shards and all
  of their offload jobs succeeded, and running exactly when one of them is queued or running.\<close>

theorem reconcile_mirrors:
  assumes "reconcile_extraction env j w = (Inr reply, w1)" and "get_x w j = Some r0" and "x_status r0 \<noteq> XCanceled"
    and "get_x w1 j = Some r" and "distinct (map sh_id (xshards (outside w1)))"
  defines "active \<equiv> active_shards w1 j"
  shows "x_shard_count r = length active \<and> x_rows_total r = sum_list (map rows_or_zero active)
    \<and> (\<forall>s \<in> set active. mirrors w1 s)
    \<and> (x_status r = XSucceeded \<longleftrightarrow> active \<noteq> [] \<and> (\<forall>s \<in> set active. sh_status s = SSucceeded))
    \<and> (x_status r = XRunning \<longleftrightarrow> (\<exists>s \<in> set active. sh_status s \<in> {SQueued, SRunning}))
    \<and> (x_status r = XCanceled \<longleftrightarrow> active \<noteq> [] \<and> (\<forall>s \<in> set active. sh_status s = SCanceled))
    \<and> x_status r \<noteq> XQueued \<and> jget reply ''status'' = Some (JStr (xstatus_text (x_status r)))"
proof -
  from assms(1-3) obtain w2 where f: "fold_shards j w2 = (Inr reply, w1)"
    by (auto simp: reconcile_extraction_def split: prod.split_asm sum.split_asm)
  then have "map sh_id (xshards (outside w1)) = map sh_id (xshards (outside w2))"
    by (auto simp: fold_shards_def Let_def dest: sync_all_ids split: prod.split_asm sum.split_asm)
  with assms(5) have "distinct (map sh_id (xshards (outside w2)))" by simp
  from fold_shards_result [OF f this assms(4)] have
    st: "x_status r = fold_status (map sh_status active)" and rest: "x_shard_count r = length active"
      "x_rows_total r = sum_list (map rows_or_zero active)" "\<forall>s \<in> set active. mirrors w1 s"
      "jget reply ''status'' = Some (JStr (xstatus_text (x_status r)))" unfolding active_def by blast+
  have "SRunning \<in> set (map sh_status active) \<or> SQueued \<in> set (map sh_status active)
      \<longleftrightarrow> (\<exists>s \<in> set active. sh_status s \<in> {SQueued, SRunning})" by (simp add: image_iff) metis
  then show ?thesis
    using rest by (simp only: st fold_status_cases) simp
qed

subsection \<open>Replanning\<close>

interpretation by_half: chunking halve "\<lambda>_. True"
proof
  fix tbl ts
  assume "halve tbl = Inr ts"
  then have n: "2 \<le> length (tbl_rows tbl)" and ts: "ts = [slice tbl 0 (length (tbl_rows tbl) div 2),
      slice tbl (length (tbl_rows tbl) div 2) (length (tbl_rows tbl) - length (tbl_rows tbl) div 2)]"
    by (simp_all add: halve_def Let_def split: if_split_asm)
  define k where "k = length (tbl_rows tbl) div 2"
  have k: "0 < k" "k < length (tbl_rows tbl)" using n by (simp_all add: k_def)
  then have parts: "take k (tbl_rows tbl) \<noteq> []" "take (length (tbl_rows tbl) - k) (drop k (tbl_rows tbl)) \<noteq> []" by auto
  have "take k (tbl_rows tbl) @ take (length (tbl_rows tbl) - k) (drop k (tbl_rows tbl)) = tbl_rows tbl" by simp
  with parts show "concat (map tbl_rows ts) = tbl_rows tbl
      \<and> (\<forall>p \<in> set ts. tbl_schema p = tbl_schema tbl \<and> tbl_rows p \<noteq> [] \<and> True)"
    unfolding ts k_def [symmetric] by simp
qed

lemma halve_two: "halve tbl = Inr ts \<Longrightarrow> \<exists>a b. ts = [a, b]"
  by (auto simp: halve_def Let_def split: if_split_asm)

definition ledger_view :: "'x extraction_env \<Rightarrow> ('x eworld \<Rightarrow> string \<Rightarrow> bytes option) \<Rightarrow> bool" where
  "ledger_view env obj \<longleftrightarrow> bucket_view (xe_plan env) obj
     \<and> (\<forall>v w. beyond (outside v) = beyond (outside w) \<longrightarrow> obj v = obj w)"

lemma read_table_rows: "read_table st c il t key d sc (Some n) w = Inr tbl \<Longrightarrow> int (length (tbl_rows tbl)) = n"
  by (auto simp: read_table_def result_simps Let_def split: if_split_asm)

lemma write_from_two:
  assumes view: "bucket_view env obj" and "write_from env st t j u n [a, b] [] w = (None, ps, w1)"
  shows "ps = [plan_for (pl_ipc env) t j u n a, plan_for (pl_ipc env) t j u (Suc n) b]
    \<and> obj w1 (input_key t j u n) = Some (ipc_encode (pl_ipc env) a)
    \<and> obj w1 (input_key t j u (Suc n)) = Some (ipc_encode (pl_ipc env) b)"
proof -
  from assms(2) obtain p q v where p: "write_plan env st t j u n a w = (Inr p, v)"
    and q: "write_plan env st t j u (Suc n) b v = (Inr q, w1)" and ps: "ps = [p, q]"
    by (auto split: prod.split_asm sum.split_asm)
  note wp = write_plan_ok [OF view p] and wq = write_plan_ok [OF view q]
  have "obj w1 (input_key t j u n) = obj v (input_key t j u n)"
    using wq by (intro same_but_get) (auto simp: input_key_inj)
  with wp wq show ?thesis by (simp add: ps)
qed

text \<open>The library calls of a planning leave a view of the world as it is.\<close>

definition calls_keep :: "'x plan_env \<Rightarrow> ('x \<Rightarrow> 'b) \<Rightarrow> bool" where
  "calls_keep env f \<longleftrightarrow> (\<forall>k p m w. f (snd (put_object (pl_s3 env) k p m w)) = f w)
     \<and> (\<forall>k w. f (snd (delete_object (pl_s3 env) k w)) = f w) \<and> (\<forall>q w. f (snd (pl_http env q w)) = f w)"

lemma write_plan_keeps: "calls_keep env f \<Longrightarrow> write_plan env st t j u i tbl w = (r, v) \<Longrightarrow> f v = f w"
  unfolding write_plan_def write_table_def storage_call_def calls_keep_def
  by (auto simp: Let_def split: sum.split_asm prod.split_asm option.split_asm if_split_asm) (metis snd_conv)+

lemma write_from_keeps: "calls_keep env f \<Longrightarrow> write_from env st t j u i tbls ps w = (r, qs, v) \<Longrightarrow> f v = f w"
proof (induction tbls arbitrary: i ps w)
  case (Cons tbl tbls)
  then show ?case by (auto split: prod.split_asm sum.split_asm dest: write_plan_keeps)
qed simp

lemma fold_max_bound: "x \<in> set xs \<Longrightarrow> x \<le> fold max xs (m :: nat)"
proof (induction xs arbitrary: m)
  case (Cons y ys)
  have "k \<le> fold max zs k" for zs :: "nat list" and k
  proof (induction zs arbitrary: k)
    case (Cons z zs)
    have "k \<le> max z k" by simp
    also have "\<dots> \<le> fold max zs (max z k)" by (rule Cons.IH)
    finally show ?case by simp
  qed simp
  then have "y \<le> fold max ys (max y m)" using max.cobounded1 order_trans by blast
  with Cons show ?case by auto
qed simp

lemma next_index_above: "s \<in> set (shards_of w j) \<Longrightarrow> sh_index s < next_index w j"
  unfolding next_index_def by (simp add: less_Suc_eq_le fold_max_bound del: set_shards_of)

lemma replan_shard_adopted:
  assumes "replan_shard env st s w = (Inr new, w1)" "new \<noteq> []"
  obtains r tbl a b ps v where "get_x w (sh_job s) = Some r" "x_id r = sh_job s"
    "read_table st (pl_s3 (xe_plan env)) (pl_ipc (xe_plan env)) (x_tenant r) (sh_key s) (sh_digest s) (sh_schema s)
       (Some (int (sh_rows s))) w = Inr tbl"
    "halve tbl = Inr [a, b]"
    "write_from (xe_plan env) st (x_tenant r) (x_id r) (xe_uuid env w) (next_index w (x_id r)) [a, b] [] w = (None, ps, v)"
    "adopt_replacements s ps v = (new, w1)" "get_shard w (sh_id s) \<noteq> None"
proof -
  from assms(1) obtain r where r: "get_x w (sh_job s) = Some r"
    by (auto simp: replan_shard_def split: option.split_asm)
  from assms(1) r obtain halves where h: "rbind (map_err PlanArtifact (read_table st (pl_s3 (xe_plan env)) (pl_ipc (xe_plan env))
      (x_tenant r) (sh_key s) (sh_digest s) (sh_schema s) (Some (int (sh_rows s))) w)) halve = Inr halves"
    by (auto simp: replan_shard_def split: sum.split_asm)
  then obtain tbl where t: "read_table st (pl_s3 (xe_plan env)) (pl_ipc (xe_plan env)) (x_tenant r) (sh_key s)
      (sh_digest s) (sh_schema s) (Some (int (sh_rows s))) w = Inr tbl" "halve tbl = Inr halves"
    by (auto simp: result_simps)
  with halve_two obtain a b where tbl: "read_table st (pl_s3 (xe_plan env)) (pl_ipc (xe_plan env)) (x_tenant r) (sh_key s)
      (sh_digest s) (sh_schema s) (Some (int (sh_rows s))) w = Inr tbl" "halve tbl = Inr [a, b]" "halves = [a, b]" by blast
  from assms r h tbl(3) obtain ps v where
    "write_from (xe_plan env) st (x_tenant r) (x_id r) (xe_uuid env w) (next_index w (x_id r)) [a, b] [] w = (None, ps, v)"
    "adopt_replacements s ps v = (new, w1)" "get_shard w (sh_id s) \<noteq> None"
    by (auto simp: replan_shard_def simp del: write_from.simps split: option.split_asm if_split_asm prod.split_asm)
  with that r tbl get_x_id [OF r] show thesis by blast
qed

lemma next_pk_above: "s \<in> set ss \<Longrightarrow> sh_id s < next_pk ss"
  unfolding next_pk_def by (simp add: less_Suc_eq_le fold_max_bound)

text \<open>C6. A refused shard is replaced by a partition of its rows: the two replacements describe two
  non-empty tables that concatenate to the table the shard was planned with, are numbered above
  every shard of the job, name objects that hold the tables, are queued and in the table of shards;
  and the original is superseded.\<close>

theorem replan_partition:
  assumes "ledger_view env obj" and "calls_keep (xe_plan env) (\<lambda>w. xshards (outside w))"
    and "replan_shard env st s w = (Inr new, w1)" and "new \<noteq> []"
  shows "\<exists>r tbl a b n. get_x w (sh_job s) = Some r
    \<and> read_table st (pl_s3 (xe_plan env)) (pl_ipc (xe_plan env)) (x_tenant r) (sh_key s) (sh_digest s) (sh_schema s)
        (Some (int (sh_rows s))) w = Inr tbl
    \<and> tbl_rows a @ tbl_rows b = tbl_rows tbl \<and> tbl_rows a \<noteq> [] \<and> tbl_rows b \<noteq> []
    \<and> (\<forall>q \<in> set (xshards (outside w)). sh_job q = sh_job s \<longrightarrow> sh_index q < n)
    \<and> map sh_index new = [n, Suc n] \<and> map sh_rows new = [length (tbl_rows a), length (tbl_rows b)]
    \<and> sum_list (map sh_rows new) = sh_rows s
    \<and> map sh_digest new = map (\<lambda>p. sha256_digest (ipc_encode (pl_ipc (xe_plan env)) p)) [a, b]
    \<and> map (\<lambda>q. obj w1 (sh_key q)) new = map (\<lambda>p. Some (ipc_encode (pl_ipc (xe_plan env)) p)) [a, b]
    \<and> (\<forall>q \<in> set new. sh_job q = sh_job s \<and> sh_status q = SQueued \<and> sh_offload q = None \<and> q \<in> set (xshards (outside w1)))
    \<and> (\<forall>q \<in> set (xshards (outside w1)). sh_id q = sh_id s \<longrightarrow> sh_status q = SSuperseded)"
proof -
  from assms(3,4) obtain r tbl a b ps v where r: "get_x w (sh_job s) = Some r" "x_id r = sh_job s"
    and tbl: "read_table st (pl_s3 (xe_plan env)) (pl_ipc (xe_plan env)) (x_tenant r) (sh_key s) (sh_digest s) (sh_schema s)
       (Some (int (sh_rows s))) w = Inr tbl"
    and h: "halve tbl = Inr [a, b]"
    and wr: "write_from (xe_plan env) st (x_tenant r) (x_id r) (xe_uuid env w) (next_index w (x_id r)) [a, b] [] w = (None, ps, v)"
    and ad: "adopt_replacements s ps v = (new, w1)" and lk: "get_shard w (sh_id s) \<noteq> None" by (rule replan_shard_adopted)
  have view: "bucket_view (xe_plan env) obj" using assms(1) by (simp add: ledger_view_def)
  note two = write_from_two [OF view wr]
  let ?pk = "next_pk (xshards (outside v))"
  let ?plan = "\<lambda>i p. plan_for (pl_ipc (xe_plan env)) (x_tenant r) (x_id r) (xe_uuid env w) i p"
  let ?n = "next_index w (x_id r)"
  have new: "new = [new_shard (sh_job s) ?pk (?plan ?n a), new_shard (sh_job s) (Suc ?pk) (?plan (Suc ?n) b)]"
    using ad two by (auto simp: adopt_replacements_def Let_def)
  have w1: "w1 = modify_shard (sh_id s) (\<lambda>q. q\<lparr>sh_status := SSuperseded\<rparr>) (on_ledger (\<lambda>l. l\<lparr>xshards := xshards l @ new\<rparr>) v)"
    using ad by (auto simp: adopt_replacements_def Let_def)
  have cut: "tbl_rows a @ tbl_rows b = tbl_rows tbl" "tbl_rows a \<noteq> []" "tbl_rows b \<noteq> []"
    using by_half.pieces [OF h] by auto
  have total: "length (tbl_rows a) + length (tbl_rows b) = sh_rows s"
    using arg_cong [OF cut(1), of length] read_table_rows [OF tbl] by simp
  have above: "\<forall>q \<in> set (xshards (outside w)). sh_job q = sh_job s \<longrightarrow> sh_index q < ?n"
    using next_index_above [of _ w "x_id r"] r(2) by simp
  have same: "xshards (outside v) = xshards (outside w)"
    using write_from_keeps [OF assms(2) wr] .
  obtain locked where "row_of sh_id (xshards (outside w)) (sh_id s) = Some locked"
    using lk by (auto simp: get_shard_def)
  then have "sh_id s \<in> sh_id ` set (xshards (outside v))" unfolding same by (metis row_of_None option.distinct(1))
  then have "sh_id s < ?pk" by (auto intro: next_pk_above)
  have sup: "\<forall>q \<in> set (xshards (outside w1)). sh_id q = sh_id s \<longrightarrow> sh_status q = SSuperseded"
    unfolding w1 by (auto simp: on_ledger_def)
  have here: "\<forall>q \<in> set new. sh_job q = sh_job s \<and> sh_status q = SQueued \<and> sh_offload q = None \<and> q \<in> set (xshards (outside w1))"
    using \<open>sh_id s < ?pk\<close> unfolding w1 by (auto simp: on_ledger_def new new_shard_def image_iff)
  have objs: "map (\<lambda>q. obj w1 (sh_key q)) new = map (\<lambda>p. Some (ipc_encode (pl_ipc (xe_plan env)) p)) [a, b]"
  proof -
    have "beyond (outside w1) = beyond (outside v)" by (simp add: w1 modify_shard_def on_ledger_def)
    then have "obj w1 = obj v" using assms(1) unfolding ledger_view_def by blast
    with two show ?thesis by (simp add: new new_shard_def plan_for_def)
  qed
  have idx: "map sh_index new = [?n, Suc ?n]" and rws: "map sh_rows new = [length (tbl_rows a), length (tbl_rows b)]"
    and dig: "map sh_digest new = map (\<lambda>p. sha256_digest (ipc_encode (pl_ipc (xe_plan env)) p)) [a, b]"
    by (simp_all add: new new_shard_def plan_for_def)
  have sum: "sum_list (map sh_rows new) = sh_rows s" unfolding rws using total by simp
  show ?thesis
    by (intro exI [of _ r] exI [of _ tbl] exI [of _ a] exI [of _ b] exI [of _ ?n] conjI;
        (rule r tbl cut above idx rws sum dig objs here sup))
qed

text \<open>The submission endpoint is idempotent on its canonical payload: once a submission was accepted, any
  further one with the same key and body names the same job and changes nothing, whatever ids it
  would draw; a refused one leaves no trace.\<close>

theorem extraction_submission_idempotent:
  shows "(submit_endpoint (draw env u) c authorization body w = (Inr a, w1) \<longrightarrow>
      (\<exists>b. submit_endpoint (draw env v) c authorization body w1 = (Inr b, w1) \<and> xr_job b = xr_job a)
      \<and> foldl (\<lambda>x d. snd (submit_endpoint (draw env d) c authorization body x)) w1 ds = w1)
    \<and> (submit_endpoint (draw env u) c authorization body w = (Inl e, w1) \<longrightarrow> w1 = w)"
  using extraction_submit.replay [of env u c "(authorization, body)" w a w1 v]
    extraction_submit.replays [of env u c "(authorization, body)" w a w1 ds]
    extraction_submit.clean [of env u c "(authorization, body)" w e w1] by simp

end
