(* ===== verification/Fan_Out.thy ===== *)
theory Fan_Out
  imports Ledger_Cycle
begin

section \<open>From a submission to its result\<close>

text \<open>
  The extraction ledger, the planner and the offload component together: a submission task that
  returns has one queued offload job and one dispatch message per planned shard; and once the
  offload jobs of a job have succeeded, the next sweep marks it succeeded.
\<close>

subsection \<open>The view of the planning\<close>

type_synonym tables = "job list \<times> task_msg list \<times> extraction_job list \<times> shard list"

definition tables_of :: "'x eworld \<Rightarrow> tables" where
  "tables_of w = (jobs w, sent w, xjobs (outside w), xshards (outside w))"

lemma fetch_page_keeps: "calls_keep env f \<Longrightarrow> fetch_page env t kind limit cursor n w = (r, m, v) \<Longrightarrow> f v = f w"
proof (induction env t kind limit cursor n w rule: fetch_page.induct)
  case (1 env t kind limit cursor n w)
  obtain chunks failed v0 where h: "pl_http env (passage_query_of t kind cursor n) w = (PageReply chunks failed, v0)"
    by (metis page_reply.exhaust surj_pair)
  have v0: "f v0 = f w" using 1(2) h unfolding calls_keep_def by (metis snd_conv)
  show ?case
  proof (cases "read_chunks limit [] chunks failed = Inl TooLarge \<and> 1 < n")
    case True
    then have big: "\<not> n \<le> 1" by simp
    have "fetch_page env t kind limit cursor (max 1 (n div 2)) v0 = (r, m, v)"
      using 1(3) True h by (subst (asm) fetch_page.simps) simp
    from 1(1) [OF h [symmetric] refl True [THEN conjunct1] refl big 1(2) this] v0 show ?thesis by simp
  next
    case False
    with 1(3) h have "v = v0"
      by (subst (asm) fetch_page.simps) (simp split: sum.split_asm page_error.split_asm option.split_asm if_split_asm)
    with v0 show ?thesis by simp
  qed
qed

lemma write_all_keeps: "calls_keep env f \<Longrightarrow> write_all env st t j u tbls ps w = (r, qs, v) \<Longrightarrow> f v = f w"
proof (induction tbls arbitrary: ps w)
  case (Cons tbl tbls)
  then show ?case by (auto split: prod.split_asm sum.split_asm dest: write_plan_keeps)
qed simp

lemma plan_page_keeps: "calls_keep env f \<Longrightarrow> plan_page env st t j u limit tbl ps w = (r, qs, v) \<Longrightarrow> f v = f w"
  by (auto simp: plan_page_def split: sum.split_asm dest: write_all_keeps)

lemma remote_round_keeps:
  assumes k: "calls_keep env f" and rnd: "remote_round env st t j u kind limit (c, seen, n, ps, w) = (r, (c1, seen1, n1, ps1, v))"
  shows "f v = f w"
proof -
  obtain q m v1 where fp: "fetch_page env t kind (max_response_bytes limit) c n w = (q, m, v1)" by (metis surj_pair)
  have v1: "f v1 = f w" using fetch_page_keeps [OF k fp] .
  show ?thesis
  proof (cases "\<exists>payload tbl. q = Inr payload \<and> page_table t payload = Inr tbl")
    case False
    with rnd fp have "v = v1" by (auto simp: remote_round_def split: sum.split_asm)
    with v1 show ?thesis by simp
  next
    case True
    then obtain payload tbl where q: "q = Inr payload" "page_table t payload = Inr tbl" by blast
    obtain x ps2 v2 where p: "plan_page env st t j u limit tbl ps v1 = (x, ps2, v2)" by (metis surj_pair)
    with rnd fp q have "v = v2"
      by (auto simp: remote_round_def split: option.split_asm sum.split_asm)
    with plan_page_keeps [OF k p] v1 show ?thesis by simp
  qed
qed

lemma discard_loop_keeps: "calls_keep env f \<Longrightarrow> discard_loop (pl_s3 env) t ps b w = (r, v) \<Longrightarrow> f v = f w"
proof (induction ps arbitrary: b w)
  case (Cons p ps)
  obtain x v1 where d: "delete_artifact (pl_s3 env) t (plan_key p) w = (x, v1)" by fastforce
  have "f v1 = f w"
    using d Cons.prems(1) by (auto simp: delete_artifact_def storage_call_def calls_keep_def split: sum.split_asm prod.split_asm option.split_asm)
      (metis snd_conv)+
  with Cons d show ?case by (auto split: sum.split_asm if_split_asm)
qed simp

lemma plan_source_shape:
  assumes src: "plan_source env st t j u kind ref limit w = Some (r, ps, v)"
  shows "v = w \<or> (\<exists>tbl. plan_page env st t j u limit tbl [] w = (r, ps, v))
    \<or> (\<exists>c s n. while_true (remote_round env st t j u kind limit)
          (None, [], first_page_size (max_response_bytes limit), [], w) = Some (r, (c, s, n, ps, v)))"
proof (cases "if truthy ref then ref else JObj []")
  case (JObj kvs)
  with src have "(if kind = ''artifact'' then Some (case artifact_source env st t (JObj kvs) w of
              Inl e \<Rightarrow> (Some e, [], w) | Inr tbl \<Rightarrow> plan_page env st t j u limit tbl [] w)
          else if kind \<in> set [''web_corpus'', ''life_email''] then
            if passages_key env = [] then Some (Some (Planning ''THEOREM_MACHINE_KEY_PASSAGES is required''), [], w)
            else (case while_true (remote_round env st t j u kind limit)
                    (None, [], first_page_size (max_response_bytes limit), [], w) of
                    None \<Rightarrow> None | Some (r, uu, uua, uub, ps, w1) \<Rightarrow> Some (r, ps, w1))
          else Some (Some (Planning (''unsupported extraction source: '' @ kind)), [], w)) = Some (r, ps, v)"
    unfolding plan_source_def by (simp only: json.case)
  then show ?thesis by (auto split: if_split_asm sum.split_asm option.split_asm)
qed (use src in \<open>simp_all add: plan_source_def split del: if_split\<close>)

lemma plan_source_keeps:
  assumes k: "calls_keep env f" and src: "plan_source env st t j u kind ref limit w = Some (r, ps, v)"
  shows "f v = f w"
  using plan_source_shape [OF src]
proof (elim disjE exE)
  fix c s n
  assume "while_true (remote_round env st t j u kind limit)
      (None, [], first_page_size (max_response_bytes limit), [], w) = Some (r, (c, s, n, ps, v))"
  then have "case (c, s, n, ps, v) of (c, s, n, ps, v') \<Rightarrow> f v' = f w"
    by (rule while_true_inv [where I = "\<lambda>(c, s, n, qs, v'). f v' = f w"])
      (auto dest: remote_round_keeps [OF k])
  then show ?thesis by simp
qed (auto dest: plan_page_keeps [OF k])

lemma plan_shards_keeps:
  assumes k: "calls_keep env f" and ok: "plan_shards env t j u kind ref limit w = Some (Inr ps, v)"
  shows "f v = f w"
proof -
  from ok obtain st where st: "from_settings (pl_cfg env) = Inr st" by (auto simp: plan_shards_def split: sum.split_asm)
  with ok obtain r ps1 v1 where src: "plan_source env st t j u kind ref limit w = Some (r, ps1, v1)"
    by (auto simp: plan_shards_def split: option.split_asm)
  have v1: "f v1 = f w" using plan_source_keeps [OF k src] .
  from ok st src have "v = v1 \<or> (\<exists>i tbl q. write_plan env st t j u i tbl v1 = (q, v))"
    by (auto simp: plan_shards_def split: option.split_asm if_split_asm prod.split_asm sum.split_asm)
  with v1 show ?thesis using write_plan_keeps [OF k] by fastforce
qed

subsection \<open>Offload jobs of new shards\<close>

text \<open>A fresh id is not the id of a row, as long as the table has fewer than \<open>2 ^ 64\<close> rows.\<close>

definition fresh_ids :: "'x extraction_env \<Rightarrow> bool" where
  "fresh_ids env \<longleftrightarrow> (\<forall>w. length (jobs w) < 2 ^ 64 \<longrightarrow> xe_uuid env w \<notin> job_id ` set (jobs w))"

definition offload_row :: "extraction_job \<Rightarrow> shard \<Rightarrow> json \<Rightarrow> job \<Rightarrow> bool" where
  "offload_row r s contract q \<longleftrightarrow> (\<exists>params created. operation_params contract r s = Inr params
     \<and> q = shard_offload_job r s params (job_id q) created \<and> sh_offload s = Some (job_id q))"

lemma operation_params_offload: "operation_params contract r (s\<lparr>sh_offload := x\<rparr>) = operation_params contract r s"
  by (simp add: operation_params_def)

lemma shard_offload_job_offload: "shard_offload_job r (s\<lparr>sh_offload := x\<rparr>) params j c = shard_offload_job r s params j c"
  by (simp add: shard_offload_job_def)

lemma modify_shard_at_end:
  assumes "xshards (outside w) = pre @ s # post" "distinct (map sh_id (pre @ s # post))"
  shows "xshards (outside (modify_shard (sh_id s) f w)) = pre @ f s # post"
proof -
  have out: "sh_id s \<notin> sh_id ` set pre" "sh_id s \<notin> sh_id ` set post" using assms(2) by simp_all
  have ne: "sh_id q \<noteq> sh_id s" if "q \<in> set pre \<or> q \<in> set post" for q
    using that out by (metis imageI)
  have "map (\<lambda>q. if sh_id q = sh_id s then f q else q) pre = pre" "map (\<lambda>q. if sh_id q = sh_id s then f q else q) post = post"
    using ne by (simp_all add: map_idI)
  then show ?thesis using assms(1) by simp
qed

lemma create_one:
  assumes "create_orchestration_job env s w = (Inr s1, w1)" "get_x w (sh_job s) = Some r"
    "xshards (outside w) = pre @ s # post" "distinct (map sh_id (pre @ s # post))"
  shows "\<exists>q. jobs w1 = jobs w @ [q] \<and> job_id q = xe_uuid env w \<and> offload_row r s1 (xe_contract env) q
    \<and> s1 = s\<lparr>sh_offload := Some (job_id q)\<rparr> \<and> sent w1 = sent w \<and> xjobs (outside w1) = xjobs (outside w)
    \<and> xshards (outside w1) = pre @ s1 # post"
proof -
  from assms(1,2) obtain params where p: "operation_params (xe_contract env) r s = Inr params"
    by (auto simp: create_orchestration_job_def split: sum.split_asm)
  let ?q = "shard_offload_job r s params (xe_uuid env w) (now (xe_off env) w)"
  have s1: "s1 = s\<lparr>sh_offload := Some (xe_uuid env w)\<rparr>"
    and w1: "w1 = modify_shard (sh_id s) (\<lambda>q. q\<lparr>sh_offload := Some (xe_uuid env w)\<rparr>) (w\<lparr>jobs := jobs w @ [?q]\<rparr>)"
    using assms(1,2) p by (auto simp: create_orchestration_job_def Let_def split: if_split_asm)
  have id: "job_id ?q = xe_uuid env w" by (simp add: shard_offload_job_def)
  have row: "offload_row r s1 (xe_contract env) ?q"
    unfolding offload_row_def s1 using p id
    by (intro exI [of _ params] exI [of _ "now (xe_off env) w"]) (simp add: operation_params_offload shard_offload_job_offload)
  have "xshards (outside (w\<lparr>jobs := jobs w @ [?q]\<rparr>)) = pre @ s # post" using assms(3) by simp
  from modify_shard_at_end [OF this assms(4)] have "xshards (outside w1) = pre @ s1 # post" unfolding w1 s1 .
  with row id show ?thesis by (intro exI [of _ ?q]) (simp add: w1 s1)
qed

lemma create_all_ok:
  assumes "create_all env ss w = (Inr ss1, w1)" "fresh_ids env" "\<forall>s \<in> set ss. get_x w (sh_job s) = Some r"
    "xshards (outside w) = pre @ ss" "distinct (map sh_id (pre @ ss))" "length (jobs w) + length ss \<le> 2 ^ 64"
  shows "\<exists>qs. jobs w1 = jobs w @ qs \<and> list_all2 (\<lambda>s q. offload_row r s (xe_contract env) q) ss1 qs
    \<and> list_all2 (\<lambda>s s1. \<exists>j. s1 = s\<lparr>sh_offload := Some j\<rparr>) ss ss1
    \<and> distinct (map job_id qs) \<and> job_id ` set qs \<inter> job_id ` set (jobs w) = {} \<and> sent w1 = sent w
    \<and> xjobs (outside w1) = xjobs (outside w) \<and> xshards (outside w1) = pre @ ss1"
  using assms
proof (induction ss arbitrary: w ss1 pre)
  case Nil
  then show ?case by simp
next
  case (Cons s ss)
  from Cons.prems(1) obtain s1 v ss2 where one: "create_orchestration_job env s w = (Inr s1, v)"
    and rest: "create_all env ss v = (Inr ss2, w1)" and ss1: "ss1 = s1 # ss2"
    by (auto split: prod.split_asm sum.split_asm)
  have gx: "get_x w (sh_job s) = Some r" using Cons.prems(3) by simp
  from create_one [OF one gx Cons.prems(4,5)] obtain q where
    q: "jobs v = jobs w @ [q]" "job_id q = xe_uuid env w" "offload_row r s1 (xe_contract env) q"
      "s1 = s\<lparr>sh_offload := Some (job_id q)\<rparr>" "sent v = sent w" "xjobs (outside v) = xjobs (outside w)"
      "xshards (outside v) = (pre @ [s1]) @ ss" by auto
  have gx': "\<forall>s \<in> set ss. get_x v (sh_job s) = Some r" using Cons.prems(3) q(6) by (simp add: get_x_def)
  have dist: "distinct (map sh_id ((pre @ [s1]) @ ss))" using Cons.prems(5) by (simp add: q(4))
  have size: "length (jobs v) + length ss \<le> 2 ^ 64" using Cons.prems(6) q(1) by simp
  from Cons.IH [OF rest Cons.prems(2) gx' q(7) dist size] obtain qs where
    qs: "jobs w1 = jobs v @ qs" "list_all2 (\<lambda>s q. offload_row r s (xe_contract env) q) ss2 qs"
      "list_all2 (\<lambda>s s1. \<exists>j. s1 = s\<lparr>sh_offload := Some j\<rparr>) ss ss2" "distinct (map job_id qs)"
      "job_id ` set qs \<inter> job_id ` set (jobs v) = {}" "sent w1 = sent v" "xjobs (outside w1) = xjobs (outside v)"
      "xshards (outside w1) = (pre @ [s1]) @ ss2" by blast
  have "job_id q \<notin> job_id ` set (jobs w)" using Cons.prems(2,6) q(2) by (simp add: fresh_ids_def)
  moreover have "job_id q \<notin> job_id ` set qs" using qs(5) q(1) by auto
  ultimately show ?case
    using q qs unfolding ss1 by (intro exI [of _ "q # qs"]) (auto simp: ss1)
qed

lemma dispatch_all_ok:
  assumes "list_all2 (\<lambda>s q. sh_offload s = Some (job_id q)) ss qs"
  shows "\<exists>g w1. dispatch_all env ss w = (Inr (), w1) \<and> sent w1 = sent w @ map (\<lambda>q. DispatchOffload (job_id q)) qs
    \<and> outside w1 = outside w \<and> jobs w1 = map (\<lambda>q. q\<lparr>celery_task_id := g q\<rparr>) (jobs w)"
  using assms
proof (induction ss arbitrary: qs w)
  case Nil
  have "jobs w = map (\<lambda>q. q\<lparr>celery_task_id := celery_task_id q\<rparr>) (jobs w)" by simp
  with Nil show ?case by (intro exI [of _ celery_task_id] exI [of _ w]) simp
next
  case (Cons s ss)
  then obtain q qs' where qs: "qs = q # qs'" "sh_offload s = Some (job_id q)"
    "list_all2 (\<lambda>s q. sh_offload s = Some (job_id q)) ss qs'" by (auto simp: list_all2_Cons1)
  obtain v f where v: "dispatch_shard env s w = (Inr (), v)" "sent v = sent w @ [DispatchOffload (job_id q)]"
    "outside v = outside w" "jobs v = map (\<lambda>r. r\<lparr>celery_task_id := f r\<rparr>) (jobs w)"
  proof (cases "new_task_id (xe_off env) w = []")
    case True
    then show thesis using qs(2)
      by (intro that [of "w\<lparr>sent := sent w @ [DispatchOffload (job_id q)]\<rparr>" celery_task_id])
        (simp_all add: dispatch_shard_def send_def)
  next
    case False
    then show thesis using qs(2)
      by (intro that [of "modify_job (job_id q) (\<lambda>r. r\<lparr>celery_task_id := new_task_id (xe_off env) w\<rparr>)
            (w\<lparr>sent := sent w @ [DispatchOffload (job_id q)]\<rparr>)"
          "\<lambda>r. if job_id r = job_id q then new_task_id (xe_off env) w else celery_task_id r"])
        (auto simp: dispatch_shard_def send_def modify_job_def)
  qed
  from Cons.IH [OF qs(3), of v] obtain g w1 where ih: "dispatch_all env ss v = (Inr (), w1)"
    "sent w1 = sent v @ map (\<lambda>q. DispatchOffload (job_id q)) qs'" "outside w1 = outside v"
    "jobs w1 = map (\<lambda>q. q\<lparr>celery_task_id := g q\<rparr>) (jobs v)" by blast
  then show ?case using v unfolding qs(1)
    by (intro exI [of _ "\<lambda>r. g (r\<lparr>celery_task_id := f r\<rparr>)"] exI [of _ w1]) (simp add: comp_def)
qed

subsection \<open>A reconciliation without refused shards\<close>

definition calm :: "'x eworld \<Rightarrow> shard \<Rightarrow> bool" where
  "calm w s \<longleftrightarrow> (\<exists>j q. sh_offload s = Some j \<and> get_job w j = Some q \<and> \<not> oversized (follow_job q s))"

lemma sync_calm:
  assumes "calm w s"
  shows "\<exists>j q w1. sh_offload s = Some j \<and> get_job w j = Some q \<and> sync_shard s w = (Inr (follow_job q s), w1)
    \<and> \<not> oversized (follow_job q s) \<and> jobs w1 = jobs w"
  using assms by (auto simp: calm_def sync_shard_def)

lemma calm_cong: "jobs w = jobs v \<Longrightarrow> calm w = calm v"
  using get_job_cong [of w v] by (simp add: calm_def fun_eq_iff)

lemma reconcile_loop_calm:
  assumes "\<forall>s \<in> set ss. sh_status s \<noteq> SSuperseded \<longrightarrow> calm w s"
  shows "\<exists>act w1. sync_all (filter (\<lambda>s. sh_status s \<noteq> SSuperseded) ss) w = (Inr act, w1) \<and> reconcile_loop env ss acc w = (Inr acc, w1)"
  using assms
proof (induction ss arbitrary: w)
  case Nil
  then show ?case by simp
next
  case (Cons s ss)
  show ?case
  proof (cases "sh_status s = SSuperseded")
    case True
    with Cons show ?thesis by simp
  next
    case False
    with Cons.prems have "calm w s" by simp
    from sync_calm [OF this] obtain q v where v: "sync_shard s w = (Inr (follow_job q s), v)"
      "\<not> oversized (follow_job q s)" "jobs v = jobs w" by blast
    have "\<forall>s \<in> set ss. sh_status s \<noteq> SSuperseded \<longrightarrow> calm v s"
      using Cons.prems calm_cong [OF v(3)] by simp
    from Cons.IH [OF this] obtain act w1 where "sync_all (filter (\<lambda>s. sh_status s \<noteq> SSuperseded) ss) v = (Inr act, w1)"
      "reconcile_loop env ss acc v = (Inr acc, w1)" by blast
    with False v show ?thesis by simp
  qed
qed

lemma follow_job_again [simp]: "follow_job q (follow_job q s) = follow_job q s"
  by (simp add: follow_job_def)

lemma sync_all_again:
  assumes "\<forall>a \<in> set act. \<exists>j q. sh_offload a = Some j \<and> get_job w j = Some q \<and> follow_job q a = a"
  shows "sync_all act w = (Inr act, w)"
  using assms by (induction act) (auto simp: sync_shard_def)

text \<open>What such a reconciliation does: the active shards follow their offload jobs, and the row of the job
  carries the fold.\<close>

lemma reconcile_calm:
  assumes "get_x w j = Some r" "x_status r \<noteq> XCanceled" "\<forall>s \<in> set (active_shards w j). calm w s"
    "distinct (map sh_id (xshards (outside w)))"
  shows "\<exists>act w2 reply. reconcile_extraction env j w = (Inr reply, w2) \<and> active_shards w2 j = act
    \<and> list_all2 (followed w) (active_shards w j) act \<and> jobs w2 = jobs w \<and> sent w2 = sent w
    \<and> xshards (outside w2) = map (put_rows act) (xshards (outside w))
    \<and> map sh_id (xshards (outside w2)) = map sh_id (xshards (outside w))
    \<and> get_x w2 j = Some (r\<lparr>x_status := fold_status (map sh_status act), x_shard_count := length act,
         x_rows_total := sum_list (map rows_or_zero act)\<rparr>)
    \<and> (\<forall>k. k \<noteq> j \<longrightarrow> get_x w2 k = get_x w k)"
proof -
  have "\<forall>s \<in> set (shards_of w j). sh_status s \<noteq> SSuperseded \<longrightarrow> calm w s"
    using assms(3) by (auto simp: active_shards_def)
  from reconcile_loop_calm [OF this, of env "[]"] obtain act w1 where
    sync: "sync_all (active_shards w j) w = (Inr act, w1)" and loop: "reconcile_loop env (shards_of w j) [] w = (Inr [], w1)"
    unfolding active_shards_def by blast
  note a = active_after_sync [OF sync assms(4)]
  have "\<exists>k q. sh_offload b = Some k \<and> get_job w1 k = Some q \<and> follow_job q b = b" if "b \<in> set act" for b
  proof -
    from that a obtain s where s: "s \<in> set (active_shards w j)" "followed w s b"
      by (metis in_set_conv_nth list_all2_conv_all_nth)
    with assms(3) obtain k q where "sh_offload s = Some k" "get_job w k = Some q" by (auto simp: calm_def)
    with s(2) a get_job_cong [of w1 w] show ?thesis by (auto simp: followed_def)
  qed
  then have again: "sync_all (active_shards w1 j) w1 = (Inr act, w1)" using a sync_all_again by blast
  define w2 where "w2 = modify_x j (\<lambda>r. r\<lparr>x_status := fold_status (map sh_status act), x_shard_count := length act,
      x_rows_total := sum_list (map rows_or_zero act)\<rparr>) w1"
  have rec: "\<exists>reply. reconcile_extraction env j w = (Inr reply, w2)"
    using assms(1,2) loop again by (simp add: reconcile_extraction_def fold_shards_def Let_def w2_def)
  have gx: "get_x w1 = get_x w" using a by (simp add: get_x_def fun_eq_iff)
  have sub: "set (active_shards w j) \<subseteq> set (xshards (outside w))" by (auto simp: active_shards_def)
  have mset: "mset (map sh_id (shards_of w j)) = mset (map sh_id (filter (\<lambda>s. sh_job s = j) (xshards (outside w))))"
    by (simp add: shards_of_def)
  have "distinct (map sh_id (shards_of w j))"
    using mset_eq_imp_distinct_iff [OF mset] assms(4) by (simp add: distinct_map_filter)
  then have dist: "distinct (map sh_id (active_shards w j))" by (simp add: active_shards_def distinct_map_filter)
  have "xshards (outside w2) = map (put_rows act) (xshards (outside w))"
    using sync_all_ok [OF sync dist sub assms(4)] by (simp add: w2_def)
  moreover have "active_shards w2 j = act" using a by (simp add: w2_def active_shards_def)
  ultimately show ?thesis
    using rec a assms(1) by (auto simp: w2_def get_x_modify_x gx)
qed

subsection \<open>Fan-out\<close>

lemma new_shards_ids: "map sh_id (new_shards j pk ps) = [pk..<pk + length ps]"
proof (induction ps arbitrary: pk)
  case (Cons p ps)
  have "[pk..<pk + length (p # ps)] = pk # [Suc pk..<Suc pk + length ps]" by (subst upt_conv_Cons) simp_all
  with Cons show ?case by (simp add: new_shard_def del: upt_Suc)
qed simp

lemma new_shards_all: "list_all2 (\<lambda>p s. s = new_shard j (sh_id s) p) ps (new_shards j pk ps)"
  by (induction ps arbitrary: pk) (simp_all add: new_shard_def)

lemma new_shard_fields [simp]: "sh_job (new_shard j pk p) = j" "sh_id (new_shard j pk p) = pk"
  "sh_index (new_shard j pk p) = plan_index p" "sh_status (new_shard j pk p) = SQueued"
  by (simp_all add: new_shard_def)

lemma new_shards_job: "s \<in> set (new_shards j pk ps) \<Longrightarrow> sh_job s = j"
  by (induction ps arbitrary: pk) auto

lemma put_rows_id:
  assumes "set act \<subseteq> set rows" "distinct (map sh_id rows)"
  shows "map (put_rows act) rows = rows"
proof (rule map_idI)
  fix s assume s: "s \<in> set rows"
  show "put_rows act s = s"
  proof (cases "row_of sh_id act (sh_id s)")
    case (Some a)
    then have "a \<in> set rows" "sh_id a = sh_id s" using assms(1) by (auto dest: row_of_Some)
    with row_by_id [OF assms(2) s] Some show ?thesis by (simp add: put_rows_def)
  qed (simp add: put_rows_def)
qed

lemma adopt_plans_ok:
  assumes "adopt_plans env j ps v = (Inr (Inr new), w1)" "fresh_ids env" "get_x v j = Some r"
    "distinct (map sh_id (xshards (outside v)))" "distinct (map job_id (jobs v))"
    "length (jobs v) + length ps \<le> 2 ^ 64"
  defines "r1 \<equiv> r\<lparr>x_shard_count := length ps, x_status := XRunning, x_error := []\<rparr>"
  shows "\<exists>qs. jobs w1 = jobs v @ qs \<and> list_all2 (\<lambda>s q. offload_row r s (xe_contract env) q) new qs
    \<and> list_all2 (\<lambda>p s. \<exists>o_id. s = (new_shard j (sh_id s) p)\<lparr>sh_offload := Some o_id\<rparr>) ps new
    \<and> distinct (map job_id (jobs w1)) \<and> sent w1 = sent v \<and> xshards (outside w1) = xshards (outside v) @ new
    \<and> distinct (map sh_id (xshards (outside w1))) \<and> get_x w1 j = Some r1 \<and> x_status r \<noteq> XCanceled \<and> shards_of v j = []"
proof -
  let ?pk = "next_pk (xshards (outside v))"
  let ?new = "new_shards j ?pk ps"
  have len: "length ?new = length ps" using new_shards_all list_all2_lengthD by metis
  let ?w = "modify_x j (\<lambda>r. r\<lparr>x_shard_count := length ?new, x_status := XRunning, x_error := []\<rparr>)
      (on_ledger (\<lambda>l. l\<lparr>xshards := xshards l @ ?new\<rparr>) v)"
  from assms(1,3) have guards: "x_status r \<noteq> XCanceled" "shards_of v j = []"
    and run: "create_all env ?new ?w = (Inr new, w1)"
    by (auto simp: adopt_plans_def Let_def split: if_split_asm prod.split_asm sum.split_asm)
  have rows: "xshards (outside ?w) = xshards (outside v) @ ?new" by (simp add: on_ledger_def)
  have gx: "get_x ?w j = Some r1"
    using assms(3) len by (simp add: get_x_modify_x r1_def) (simp add: get_x_def on_ledger_def)
  have js: "\<forall>s \<in> set ?new. get_x ?w (sh_job s) = Some r1"
  proof
    fix s assume "s \<in> set ?new"
    then have "sh_job s = j" by (rule new_shards_job)
    with gx show "get_x ?w (sh_job s) = Some r1" by simp
  qed
  have ids: "distinct (map sh_id (xshards (outside v) @ ?new))"
    using assms(4) by (auto simp: new_shards_ids dest: next_pk_above)
  have size: "length (jobs ?w) + length ?new \<le> 2 ^ 64" using assms(6) len by (simp add: on_ledger_def)
  from create_all_ok [OF run assms(2) js rows ids size] obtain qs where
    qs: "jobs w1 = jobs ?w @ qs" "list_all2 (\<lambda>s q. offload_row r1 s (xe_contract env) q) new qs"
      "list_all2 (\<lambda>s s1. \<exists>j. s1 = s\<lparr>sh_offload := Some j\<rparr>) ?new new" "distinct (map job_id qs)"
      "job_id ` set qs \<inter> job_id ` set (jobs ?w) = {}" "sent w1 = sent ?w" "xjobs (outside w1) = xjobs (outside ?w)"
      "xshards (outside w1) = xshards (outside v) @ new" by blast
  have same: "jobs ?w = jobs v" "sent ?w = sent v" by (simp_all add: on_ledger_def)
  have "list_all2 (\<lambda>p s. \<exists>o_id. s = (new_shard j (sh_id s) p)\<lparr>sh_offload := Some o_id\<rparr>) ps new"
  proof (rule list_all2_trans [OF _ new_shards_all qs(3)])
    fix p b c assume "b = new_shard j (sh_id b) p" "\<exists>o_id. c = b\<lparr>sh_offload := Some o_id\<rparr>"
    then obtain o_id where c: "c = b\<lparr>sh_offload := Some o_id\<rparr>" by blast
    then have "c = (new_shard j (sh_id c) p)\<lparr>sh_offload := Some o_id\<rparr>"
      using \<open>b = new_shard j (sh_id b) p\<close> by simp
    then show "\<exists>o_id. c = (new_shard j (sh_id c) p)\<lparr>sh_offload := Some o_id\<rparr>" ..
  qed
  moreover have "offload_row r1 = offload_row r"
    by (simp add: offload_row_def operation_params_def shard_offload_job_def r1_def fun_eq_iff Let_def)
  moreover have "map sh_id new = map sh_id ?new"
    using qs(3) by (induction rule: list_all2_induct) auto
  moreover have "job_id ` set (jobs v) \<inter> job_id ` set qs = {}" using qs(5) same by (simp add: Int_commute)
  ultimately show ?thesis
    using qs guards ids gx assms(5) same by (intro exI [of _ qs]) (simp add: get_x_def)
qed

lemma row_of_celery:
  "distinct (map job_id rows) \<Longrightarrow> q \<in> set rows \<Longrightarrow>
    row_of job_id (map (\<lambda>q. q\<lparr>celery_task_id := g q\<rparr>) rows) (job_id q) = Some (q\<lparr>celery_task_id := g q\<rparr>)"
  by (induction rows) (auto simp: row_of_simps image_iff)

lemma offload_row_follow:
  assumes "offload_row r s contract q" "s = (new_shard j k p)\<lparr>sh_offload := x\<rparr>"
  shows "follow_job (q\<lparr>celery_task_id := z\<rparr>) s = s"
proof -
  from assms(1) obtain params created where "q = shard_offload_job r s params (job_id q) created"
    by (auto simp: offload_row_def)
  then have "status q = QUEUED" "output_artifact_key q = []" "output_rows q = JNull" "output_payload_digest q = []" "error q = []"
    by (metis shard_offload_job_def job.select_convs)+
  then show ?thesis unfolding assms(2) by (simp add: follow_job_def new_shard_def)
qed


subsection \<open>Completion\<close>

text \<open>The extraction job is not canceled, has active shards, and their offload jobs have succeeded.\<close>

definition finished :: "'x eworld \<Rightarrow> uuid \<Rightarrow> bool" where
  "finished w j \<longleftrightarrow> (\<exists>r. get_x w j = Some r \<and> x_status r \<noteq> XCanceled) \<and> active_shards w j \<noteq> []
     \<and> (\<forall>s \<in> set (active_shards w j). \<exists>o_id q. sh_offload s = Some o_id \<and> get_job w o_id = Some q \<and> status q = SUCCEEDED)"

lemma put_rows_other:
  assumes "list_all2 (followed w) ss act" "set ss \<subseteq> set rows" "distinct (map sh_id rows)" "\<forall>s \<in> set ss. sh_job s = j"
    "r \<in> set rows" "sh_job r \<noteq> j"
  shows "put_rows act r = r"
proof (cases "row_of sh_id act (sh_id r)")
  case (Some a)
  then have "a \<in> set act" "sh_id a = sh_id r" by (auto dest: row_of_Some)
  then obtain s where "s \<in> set ss" "followed w s a"
    using assms(1) by (metis in_set_conv_nth list_all2_conv_all_nth)
  then have "r = s" using row_by_id [OF assms(3)] assms(2,5) \<open>sh_id a = sh_id r\<close> by (auto simp: followed_def)
  with \<open>s \<in> set ss\<close> assms(4,6) show ?thesis by simp
qed (simp add: put_rows_def)

lemma reconcile_finished:
  assumes fin: "finished w j" and ids: "distinct (map sh_id (xshards (outside w)))"
  shows "\<exists>reply w2 r. reconcile_extraction env j w = (Inr reply, w2) \<and> get_x w2 j = Some r \<and> x_status r = XSucceeded
    \<and> (\<forall>k. k \<noteq> j \<longrightarrow> get_x w2 k = get_x w k) \<and> (\<forall>k. finished w k \<longrightarrow> finished w2 k)
    \<and> distinct (map sh_id (xshards (outside w2)))"
proof -
  from fin obtain r where r: "get_x w j = Some r" "x_status r \<noteq> XCanceled" by (auto simp: finished_def)
  have "\<forall>s \<in> set (active_shards w j). calm w s"
    using fin by (fastforce simp: finished_def calm_def oversized_def follow_job_def)
  from reconcile_calm [OF r this ids, of env] obtain act w2 reply where
    rec: "reconcile_extraction env j w = (Inr reply, w2)" and act: "active_shards w2 j = act"
    and fol: "list_all2 (followed w) (active_shards w j) act" and js: "jobs w2 = jobs w"
    and rows: "xshards (outside w2) = map (put_rows act) (xshards (outside w))"
    and ids2: "map sh_id (xshards (outside w2)) = map sh_id (xshards (outside w))"
    and gx: "get_x w2 j = Some (r\<lparr>x_status := fold_status (map sh_status act), x_shard_count := length act,
         x_rows_total := sum_list (map rows_or_zero act)\<rparr>)" "\<forall>k. k \<noteq> j \<longrightarrow> get_x w2 k = get_x w k" by blast
  have gj: "get_job w2 = get_job w" by (rule get_job_cong [OF js])
  have done_: "sh_status a = SSucceeded \<and> (\<exists>o_id q. sh_offload a = Some o_id \<and> get_job w2 o_id = Some q \<and> status q = SUCCEEDED)"
    if "a \<in> set act" for a
  proof -
    from that fol obtain s where "s \<in> set (active_shards w j)" "followed w s a"
      by (metis in_set_conv_nth list_all2_conv_all_nth)
    with fin gj show ?thesis by (fastforce simp: finished_def followed_def follow_job_def)
  qed
  have "act \<noteq> []" using fin fol by (auto simp: finished_def)
  then have st: "fold_status (map sh_status act) = XSucceeded" using done_ by (simp add: fold_status_cases(1))
  have sub: "set (active_shards w j) \<subseteq> set (xshards (outside w))" "\<forall>s \<in> set (active_shards w j). sh_job s = j"
    "\<forall>s \<in> set (active_shards w j). sh_status s \<noteq> SSuperseded" by (auto simp: active_shards_def)
  have other: "active_shards w2 k = active_shards w k" if k: "k \<noteq> j" for k
  proof -
    have "filter (\<lambda>s. sh_job s = k) (map (put_rows act) (xshards (outside w)))
        = map (put_rows act) (filter (\<lambda>s. sh_job s = k) (xshards (outside w)))"
      unfolding filter_map using put_rows_same [OF fol ids sub(1,3)]
      by (intro arg_cong [where f = "map (put_rows act)"] filter_cong) simp_all
    also have "\<dots> = filter (\<lambda>s. sh_job s = k) (xshards (outside w))"
      using put_rows_other [OF fol sub(1) ids sub(2)] k by (intro map_idI) simp
    finally show ?thesis by (simp add: active_shards_def shards_of_def rows)
  qed
  have "finished w2 k" if "finished w k" for k
  proof (cases "k = j")
    case True
    then show ?thesis using gx(1) act \<open>act \<noteq> []\<close> done_ st by (simp add: finished_def)
  next
    case False
    with that other gx(2) gj show ?thesis by (simp add: finished_def)
  qed
  with rec gx st ids2 ids show ?thesis by auto
qed

lemma sweep_loop_finished:
  assumes "\<forall>j \<in> set js. finished w j" "distinct (map sh_id (xshards (outside w)))"
  shows "\<exists>m w2. sweep_loop env js n w = (Inr (JObj [(''reconciled'', JInt (int m))]), w2) \<and> m = n + length js
    \<and> (\<forall>j \<in> set js. \<exists>r. get_x w2 j = Some r \<and> x_status r = XSucceeded)
    \<and> (\<forall>k. k \<notin> set js \<longrightarrow> get_x w2 k = get_x w k)"
  using assms
proof (induction js arbitrary: n w)
  case Nil
  then show ?case by simp
next
  case (Cons j js)
  have "finished w j" using Cons.prems(1) by simp
  from reconcile_finished [OF this Cons.prems(2), of env] obtain reply w1 r where
    one: "reconcile_extraction env j w = (Inr reply, w1)" "get_x w1 j = Some r" "x_status r = XSucceeded"
      "\<forall>k. k \<noteq> j \<longrightarrow> get_x w1 k = get_x w k" "\<forall>k. finished w k \<longrightarrow> finished w1 k"
      "distinct (map sh_id (xshards (outside w1)))" by blast
  have "\<forall>k \<in> set js. finished w1 k" using Cons.prems(1) one(5) by simp
  from Cons.IH [OF this one(6), of "Suc n"] obtain m w2 where
    rest: "sweep_loop env js (Suc n) w1 = (Inr (JObj [(''reconciled'', JInt (int m))]), w2)" "m = Suc n + length js"
      "\<forall>k \<in> set js. \<exists>r. get_x w2 k = Some r \<and> x_status r = XSucceeded" "\<forall>k. k \<notin> set js \<longrightarrow> get_x w2 k = get_x w1 k" by blast
  have "\<exists>r. get_x w2 j = Some r \<and> x_status r = XSucceeded"
    using rest(3,4) one(2,3) by (cases "j \<in> set js") simp_all
  with one rest show ?case by (intro exI [of _ m] exI [of _ w2]) simp
qed

text \<open>C7. Finished work is completed by the next sweep: when the offload jobs of every queued or running
  extraction job have succeeded, the sweep returns after reconciling each of these jobs and leaves
  them succeeded, and it leaves the rows of all other jobs as they were.\<close>

theorem sweep_completes:
  assumes "\<forall>r \<in> set (xjobs (outside w)). x_status r \<in> {XQueued, XRunning} \<longrightarrow> finished w (x_id r)"
    and "distinct (map sh_id (xshards (outside w)))"
  shows "\<exists>w2. sweep_extraction_jobs env w
      = (Inr (JObj [(''reconciled'', JInt (int (length (filter (\<lambda>r. x_status r \<in> {XQueued, XRunning}) (xjobs (outside w))))))]), w2)
    \<and> (\<forall>r \<in> set (xjobs (outside w)). x_status r \<in> {XQueued, XRunning} \<longrightarrow>
         (\<exists>r2. get_x w2 (x_id r) = Some r2 \<and> x_status r2 = XSucceeded))
    \<and> (\<forall>k. (\<forall>r \<in> set (xjobs (outside w)). x_status r \<in> {XQueued, XRunning} \<longrightarrow> x_id r \<noteq> k) \<longrightarrow> get_x w2 k = get_x w k)"
proof -
  let ?live = "filter (\<lambda>r. x_status r \<in> set [XQueued, XRunning]) (xjobs (outside w))"
  have "\<forall>j \<in> set (map x_id ?live). finished w j" using assms(1) by auto
  from sweep_loop_finished [OF this assms(2), of env 0] obtain w2 where
    "sweep_extraction_jobs env w = (Inr (JObj [(''reconciled'', JInt (int (length ?live)))]), w2)"
    "\<forall>j \<in> set (map x_id ?live). \<exists>r. get_x w2 j = Some r \<and> x_status r = XSucceeded"
    "\<forall>k. k \<notin> set (map x_id ?live) \<longrightarrow> get_x w2 k = get_x w k"
    by (auto simp: sweep_extraction_jobs_def)
  note w2 = this
  show ?thesis
  proof (intro exI [of _ w2] conjI allI impI)
    fix k assume "\<forall>r \<in> set (xjobs (outside w)). x_status r \<in> {XQueued, XRunning} \<longrightarrow> x_id r \<noteq> k"
    then have "k \<notin> set (map x_id ?live)" by auto
    with w2(3) show "get_x w2 k = get_x w k" by blast
  qed (use w2(1,2) in auto)
qed

text \<open>A submitted job is failed before it is planned: a job that is queued and has no shards yet, as every
  job is until its submission task runs, is marked failed by a reconciliation, with no shards and no error
  text; and the sweep reconciles every queued job.\<close>

theorem unplanned_job_failed:
  assumes "get_x w j = Some r" and "x_status r = XQueued" and "shards_of w j = []"
    and "distinct (map sh_id (xshards (outside w)))"
  shows "j \<in> set (map x_id (filter (\<lambda>r. x_status r \<in> set [XQueued, XRunning]) (xjobs (outside w))))
    \<and> (\<exists>reply w2. reconcile_extraction env j w = (Inr reply, w2)
        \<and> get_x w2 j = Some (r\<lparr>x_status := XFailed, x_shard_count := 0, x_rows_total := 0\<rparr>))"
proof -
  have none: "active_shards w j = []" using assms(3) by (simp add: active_shards_def)
  have "j \<in> set (map x_id (filter (\<lambda>r. x_status r \<in> set [XQueued, XRunning]) (xjobs (outside w))))"
    using get_x_id [OF assms(1)] assms(2) by force
  moreover have "x_status r \<noteq> XCanceled" "\<forall>s \<in> set (active_shards w j). calm w s" using assms(2) none by simp_all
  from reconcile_calm [OF assms(1) this assms(4), of env] none obtain w2 reply where
    "reconcile_extraction env j w = (Inr reply, w2)"
    "get_x w2 j = Some (r\<lparr>x_status := fold_status [], x_shard_count := 0, x_rows_total := 0\<rparr>)" by auto
  moreover have "fold_status [] = XFailed" by (simp add: fold_status_def)
  ultimately show ?thesis by auto
qed

end
