(* ===== verification/Reviews.thy ===== *)
theory Reviews
  imports Extraction_Api "HOL-Library.Product_Lexorder"
begin

section \<open>Review decisions\<close>

text \<open>
  The identity of a candidate (\<open>apps/extraction/reviews.py\<close>), the review batch and feed of \<open>api.py\<close>
  and the newest decisions per candidate of \<open>models.py\<close>. \<open>json.loads\<close>, the parser of the \<open>since\<close>
  argument and the ISO format are arguments.
\<close>

subsection \<open>Candidate digests\<close>

definition LEGACY_CANDIDATE_DIGEST_VERSION :: int where "LEGACY_CANDIDATE_DIGEST_VERSION = 1"
definition CANDIDATE_DIGEST_VERSION :: int where "CANDIDATE_DIGEST_VERSION = 2"

definition digest_versions :: "int list" where
  "digest_versions = [LEGACY_CANDIDATE_DIGEST_VERSION, CANDIDATE_DIGEST_VERSION]"

text \<open>The record of a typed candidate: a text that parses is read as JSON, and an object or list is written
  canonically.\<close>

definition record_identity :: "(string \<Rightarrow> json option) \<Rightarrow> json \<Rightarrow> json" where
  "record_identity loads v =
     (let r = (case v of JStr s \<Rightarrow> (case loads s of None \<Rightarrow> v | Some x \<Rightarrow> x) | _ \<Rightarrow> v)
      in (case r of JObj _ \<Rightarrow> JStr (dumps compact r) | JList _ \<Rightarrow> JStr (dumps compact r) | _ \<Rightarrow> r))"

definition candidate_identity :: "(string \<Rightarrow> json option) \<Rightarrow> string \<Rightarrow> json \<Rightarrow> int \<Rightarrow> json list" where
  "candidate_identity loads tenant candidate version =
     [JStr tenant, or_null (jget candidate ''stage''), or_null (jget candidate ''passage_id''),
      or_null (jget candidate ''subject''), or_null (jget candidate ''predicate''), or_null (jget candidate ''object'')]
     @ (if CANDIDATE_DIGEST_VERSION \<le> version \<and> jget candidate ''stage'' = Some (JStr ''typed'')
        then [record_identity loads (or_null (jget candidate ''record_json''))] else [])"

definition candidate_digest_for_version ::
  "(string \<Rightarrow> json option) \<Rightarrow> string \<Rightarrow> json \<Rightarrow> int \<Rightarrow> (string, string) result" where
  "candidate_digest_for_version loads tenant candidate version =
     (if version \<notin> set digest_versions
      then Inl (''unsupported candidate digest version: '' @ dec_int version)
      else Inr (sha256_hex (utf8 (dumps compact (JList (candidate_identity loads tenant candidate version))))))"

definition is_candidate_digest :: "json \<Rightarrow> bool" where
  "is_candidate_digest v = (case v of JStr s \<Rightarrow> is_hex64 (removeprefix SHA256_PREFIX s) | _ \<Rightarrow> False)"

subsection \<open>A review batch\<close>

record review_item =
  ri_digest :: string
  ri_version :: int
  ri_claim :: "string option"
  ri_decision :: string
  ri_target :: "string option"
  ri_reason :: string
  ri_job :: "uuid option"

definition MERGE_INTO :: string where "MERGE_INTO = ''merge_into''"

definition decisions :: "string list" where
  "decisions = [''accept'', ''reject'', MERGE_INTO]"

text \<open>\<open>full_clean\<close>: the length limits of the fields a client chooses, then \<open>clean\<close>.\<close>

definition too_long :: "string option \<Rightarrow> string list" where
  "too_long v = (case v of
     Some s \<Rightarrow> if 512 < length s
               then [''Ensure this value has at most 512 characters (it has '' @ dec_nat (length s) @ '').''] else []
   | None \<Rightarrow> [])"

definition named :: "string option \<Rightarrow> bool" where
  "named v = (case v of None \<Rightarrow> False | Some s \<Rightarrow> s \<noteq> [])"

definition clean_target :: "string \<Rightarrow> string option \<Rightarrow> string list" where
  "clean_target decision target =
     (if decision = MERGE_INTO \<and> \<not> named target then [''merge_into requires a target claim id'']
      else if decision \<noteq> MERGE_INTO \<and> named target then [''only merge_into may carry a target claim id'']
      else [])"

definition full_clean :: "review \<Rightarrow> string list" where
  "full_clean r = too_long (rv_claim r) @ too_long (rv_target r) @ clean_target (rv_decision r) (rv_target r)"

definition review_of :: "review_item \<Rightarrow> uuid \<Rightarrow> uuid \<Rightarrow> uuid option \<Rightarrow> uuid \<Rightarrow> time \<Rightarrow> review" where
  "review_of item t key j fresh_id created =
     \<lparr>rv_id = fresh_id, rv_tenant = t, rv_job = j, rv_digest = removeprefix SHA256_PREFIX (ri_digest item),
      rv_version = ri_version item, rv_claim = ri_claim item, rv_decision = ri_decision item,
      rv_target = ri_target item, rv_reason = ri_reason item, rv_reviewer = ''machine_key:'' @ uuid_str key,
      rv_created = created\<rparr>"

definition review_one ::
  "'x extraction_env \<Rightarrow> uuid \<Rightarrow> uuid \<Rightarrow> review_item \<Rightarrow> 'x eworld \<Rightarrow> (api_exc, review) result" where
  "review_one env t key item w =
     (if \<not> is_candidate_digest (JStr (ri_digest item)) then Inl (Http (HttpError 400 ''candidate_digest must be sha256''))
      else if ri_version item \<notin> set digest_versions
      then Inl (Http (HttpError 400 ''unsupported candidate_digest_version''))
      else if ri_decision item \<notin> set decisions
      then Inl (Http (HttpError 400 (''unsupported review decision: '' @ ri_decision item)))
      else rbind (case ri_job item of None \<Rightarrow> Inr None
                  | Some j \<Rightarrow> rbind (tenant_extraction w t j) (\<lambda>r. Inr (Some (x_id r)))) (\<lambda>j.
        let r = review_of item t key j (xe_uuid env w) (now (xe_off env) w)
        in if full_clean r \<noteq> [] then Inl (Http (HttpError 400 (join ''; '' (full_clean r))))
           else if list_ex (\<lambda>q. rv_tenant q = t \<and> rv_digest q = rv_digest r \<and> rv_created q = rv_created r) (xreviews (outside w))
           then Inl (Crash ''IntegrityError'')
           else Inr r))"

text \<open>The loop of the transaction: an error rolls back what it created.\<close>

fun review_loop ::
  "'x extraction_env \<Rightarrow> uuid \<Rightarrow> uuid \<Rightarrow> review_item list \<Rightarrow> 'x eworld \<Rightarrow> (api_exc, uuid list) result \<times> 'x eworld" where
  "review_loop env t key [] w = (Inr [], w)"
| "review_loop env t key (item # items) w =
     (case review_one env t key item w of
        Inl e \<Rightarrow> (Inl e, w)
      | Inr r \<Rightarrow>
          (case review_loop env t key items (on_ledger (\<lambda>l. l\<lparr>xreviews := xreviews l @ [r]\<rparr>) w) of
             (Inl e, _) \<Rightarrow> (Inl e, w)
           | (Inr ids, w1) \<Rightarrow> (Inr (rv_id r # ids), w1)))"

definition review_endpoint ::
  "'x extraction_env \<Rightarrow> api_ctx \<Rightarrow> string \<Rightarrow> review_item list \<Rightarrow> 'x eworld \<Rightarrow> (api_exc, uuid list) result \<times> 'x eworld" where
  "review_endpoint env c authorization body w =
     (case require_machine_key (c_verify c) (c_time c) (c_tenants c) (c_keys c) authorization EXTRACTION_REVIEW_SCOPE of
        Inl e \<Rightarrow> (Inl (Http e), w)
      | Inr p \<Rightarrow>
          if 500 < length body then (Inl (Http (HttpError 400 ''review batch is limited to 500 items'')), w)
          else review_loop env (tenant_id (p_tenant p)) (key_id (p_key p)) body w)"

subsection \<open>Reading decisions\<close>

definition reviews_of :: "review list \<Rightarrow> uuid \<Rightarrow> time \<Rightarrow> review list" where
  "reviews_of rows t since = filter (\<lambda>r. rv_tenant r = t \<and> since \<le> rv_created r) rows"

definition opt_str :: "string option \<Rightarrow> json" where
  "opt_str v = (case v of None \<Rightarrow> JNull | Some s \<Rightarrow> JStr s)"

definition review_json :: "(time \<Rightarrow> string) \<Rightarrow> review \<Rightarrow> json" where
  "review_json fmt r =
     JObj [(''id'', JStr (uuid_str (rv_id r))), (''candidate_digest'', JStr (rv_digest r)),
       (''candidate_digest_version'', JInt (rv_version r)), (''claim_id'', opt_str (rv_claim r)),
       (''decision'', JStr (rv_decision r)), (''merge_target_claim_id'', opt_str (rv_target r)),
       (''reason'', JStr (rv_reason r)), (''reviewer'', JStr (rv_reviewer r)), (''created_at'', JStr (fmt (rv_created r)))]"

definition reviews_since ::
  "(string \<Rightarrow> time option) \<Rightarrow> (time \<Rightarrow> string) \<Rightarrow> api_ctx \<Rightarrow> string \<Rightarrow> string \<Rightarrow> 'x eworld \<Rightarrow> (http_error, json list) result" where
  "reviews_since parse fmt c authorization since w =
     rbind (admit c authorization EXTRACTION_READ_SCOPE) (\<lambda>t.
       case parse since of
         None \<Rightarrow> Inl (HttpError 400 ''since must be an ISO-8601 timestamp'')
       | Some from \<Rightarrow> Inr (map (review_json fmt)
           (sort_key (\<lambda>r. (rv_created r, uint (rv_id r))) (reviews_of (xreviews (outside w)) t from))))"

text \<open>\<open>order_by("candidate_digest", "-created_at", "-id")\<close>, \<open>setdefault\<close> per digest, and the final order.\<close>

fun first_per :: "('r \<Rightarrow> 'k) \<Rightarrow> 'k list \<Rightarrow> 'r list \<Rightarrow> 'r list" where
  "first_per key taken [] = []"
| "first_per key taken (r # rs) =
     (if key r \<in> set taken then first_per key taken rs else r # first_per key (key r # taken) rs)"

definition latest_reviews_since :: "review list \<Rightarrow> uuid \<Rightarrow> time \<Rightarrow> review list" where
  "latest_reviews_since rows t since =
     sort_key rv_created (first_per rv_digest []
       (sort_key (\<lambda>r. (rv_digest r, - rv_created r, - uint (rv_id r))) (reviews_of rows t since)))"

subsection \<open>The newest decision of each candidate\<close>

lemma first_per_set: "r \<in> set (first_per key taken rs) \<Longrightarrow> r \<in> set rs \<and> key r \<notin> set taken"
proof (induction rs arbitrary: taken)
  case (Cons x rs)
  from Cons.prems Cons.IH [of taken] Cons.IH [of "key x # taken"] show ?case by (auto split: if_split_asm)
qed simp

lemma first_per_keys: "key ` set (first_per key taken rs) = key ` set rs - set taken"
  by (induction rs arbitrary: taken) auto

lemma first_per_distinct: "distinct (map key (first_per key taken rs))"
proof (induction rs arbitrary: taken)
  case (Cons r rs)
  have "key r \<notin> key ` set (first_per key (key r # taken) rs)" by (auto simp: first_per_keys)
  with Cons show ?case by simp
qed simp

lemma first_per_least:
  assumes "sorted (map f rs)" "r \<in> set (first_per key taken rs)" "q \<in> set rs" "key q = key r"
  shows "f r \<le> f q"
  using assms
proof (induction rs arbitrary: taken)
  case (Cons x rs)
  show ?case
  proof (cases "key x \<in> set taken")
    case True
    then have r: "r \<in> set (first_per key taken rs)" using Cons.prems(2) by simp
    have "q \<noteq> x" using first_per_set [OF r] True Cons.prems(4) by auto
    with Cons.prems r show ?thesis using Cons.IH [of taken] by simp
  next
    case False
    show ?thesis
    proof (cases "r = x")
      case True
      then show ?thesis using Cons.prems(1,3) by auto
    next
      case False
      then have r: "r \<in> set (first_per key (key x # taken) rs)" using Cons.prems(2) \<open>key x \<notin> set taken\<close> by simp
      have "q \<noteq> x" using first_per_set [OF r] Cons.prems(4) by auto
      with Cons.prems r show ?thesis using Cons.IH [of "key x # taken"] by simp
    qed
  qed
qed simp


end
