(* ===== verification/Ledger_Examples.thy ===== *)
theory Ledger_Examples
  imports Fan_Out Reviews
begin

section \<open>The extraction ledger on concrete tables\<close>

text \<open>
  The witnesses of the properties of \<open>Reviews\<close>, \<open>Ledger_Cycle\<close> and \<open>Fan_Out\<close>: a bucket kept beyond the
  ledger, an encoder of one byte per row, a listing without passages, and small tables.
\<close>

definition world_s3 :: "(string \<times> bytes) list eworld s3_client" where
  "world_s3 = \<lparr>put_object = \<lambda>k p m w. (None, on_ledger (\<lambda>l. l\<lparr>beyond := (k, p) # beyond l\<rparr>) w),
     get_object = \<lambda>k w. (case map_of (beyond (outside w)) k of None \<Rightarrow> Inl (ClientError ''NoSuchKey'' (Some 404))
                          | Some p \<Rightarrow> Inr (Some (int (length p)), p)),
     delete_object = \<lambda>k w. (None, on_ledger (\<lambda>l. l\<lparr>beyond := filter (\<lambda>(k', _). k' \<noteq> k) (beyond l)\<rparr>) w),
     presigned_url = \<lambda>m k ct e. Inr (''https://'' @ k)\<rparr>"

definition counted_ipc :: arrow_ipc where
  "counted_ipc = \<lparr>ipc_encode = \<lambda>t. replicate (length (tbl_rows t)) 0,
     ipc_decode = \<lambda>b. Some \<lparr>tbl_schema = passage_schema, tbl_rows = replicate (length b) [JStr ''a'', JStr ''x'', JNull]\<rparr>\<rparr>"

definition demo_cfg :: s3_settings where
  "demo_cfg = \<lparr>s3_endpoint_url = ''u'', s3_access_key_id = ''a'', s3_secret_access_key = ''s'',
     s3_region = ''r'', s3_bucket = ''b'', s3_presign_seconds = 900, s3_max_bytes = 1000\<rparr>"

definition first_free :: "job list \<Rightarrow> uuid" where
  "first_free rows = (case find (\<lambda>u. u \<notin> job_id ` set rows) (map of_nat [0..<Suc (length rows)]) of None \<Rightarrow> 0 | Some u \<Rightarrow> u)"

definition xenv :: "(string \<times> bytes) list extraction_env" where
  "xenv = \<lparr>xe_off = \<lparr>s3_cfg = demo_cfg, s3 = world_s3,
       http = \<lparr>request = \<lambda>_ _ _ w. (JsonBody JNull, w), monotonic = \<lambda>_. Fin 0, sleep_for = \<lambda>_ w. w\<rparr>,
       ipc = counted_ipc,
       r_lib = \<lparr>runtime_identity = Inr ''R'', renv_lockfile_hash = Inr ''lock'', weighted_mean = \<lambda>_ _. Fin 1,
                r_runner_source = []\<rparr>,
       now = \<lambda>_. 7, millis = \<lambda>t. 1000 * t, new_task_id = \<lambda>_. ''task'', offload_mode = ''runpod'', r_mode = ''stub'',
       renv_env_hash = [], runpod_key = ''key'', runpod_base = ''https://api'', serverless_endpoint = ''ep'',
       extraction_endpoint = ''ex'', worker_image = ''img'', extraction_image = ''img2'', job_timeout = 900,
       poll_seconds = Fin 5, machine_key = []\<rparr>,
     xe_plan = \<lparr>pl_cfg = demo_cfg, pl_s3 = world_s3, pl_ipc = counted_ipc, pl_cast = Inr,
       pl_http = (\<lambda>q w. (PageReply [[1]] False, w)), pl_loads = (\<lambda>_. Some (JObj [(''passages'', JList [])])),
       passages_key = ''k''\<rparr>,
     xe_contract = JObj [(''contract'', JStr ''theorem.extraction.v1'')],
     xe_uuid = (\<lambda>w. first_free (jobs w)), xe_max_input = 26, xe_jsonb = (\<lambda>v. v)\<rparr>"

lemma xenv_fields [simp]: "pl_s3 (xe_plan xenv) = world_s3" "pl_ipc (xe_plan xenv) = counted_ipc"
  "pl_http (xe_plan xenv) q w = (PageReply [[1]] False, w)" "passages_key (xe_plan xenv) = ''k''"
  "pl_loads (xe_plan xenv) b = Some (JObj [(''passages'', JList [])])" "xe_uuid xenv w = first_free (jobs w)"
  "xe_max_input xenv = 26" "now (xe_off xenv) w = 7" "new_task_id (xe_off xenv) w = ''task''"
  by (simp_all add: xenv_def)

lemma demo_xstore: "from_settings (pl_cfg (xe_plan xenv)) = Inr \<lparr>bucket = ''b'', presign_seconds = 900, max_bytes = 1000\<rparr>"
  by (simp add: xenv_def demo_cfg_def from_settings_def blank_iff py_isspace_def)

lemma first_free_fresh:
  assumes "length rows < 2 ^ 64"
  shows "first_free rows \<notin> job_id ` set rows"
proof -
  let ?cands = "map of_nat [0..<Suc (length rows)] :: uuid list"
  have inj: "inj_on (of_nat :: nat \<Rightarrow> uuid) {..length rows}"
  proof (rule inj_onI)
    fix a b :: nat assume ab: "a \<in> {..length rows}" "b \<in> {..length rows}" "(of_nat a :: uuid) = of_nat b"
    then have "a < 2 ^ 128" "b < 2 ^ 128" using assms by simp_all
    then have "unat (of_nat a :: uuid) = a" "unat (of_nat b :: uuid) = b" by (simp_all add: unsigned_of_nat take_bit_nat_eq_self)
    with ab(3) show "a = b" by metis
  qed
  have "\<not> set ?cands \<subseteq> job_id ` set rows"
  proof
    assume sub: "set ?cands \<subseteq> job_id ` set rows"
    have "set ?cands = of_nat ` {..length rows}" by (simp only: set_map set_upt lessThan_Suc_atMost atLeast0LessThan)
    then have "card (set ?cands) = Suc (length rows)" using card_image [OF inj] by simp
    moreover have "card (set ?cands) \<le> card (job_id ` set rows)" using sub by (intro card_mono) simp_all
    moreover have "card (job_id ` set rows) \<le> length rows" by (metis card_length length_map set_map)
    ultimately show False by simp
  qed
  then obtain u where u: "find (\<lambda>u. u \<notin> job_id ` set rows) ?cands = Some u"
    by (cases "find (\<lambda>u. u \<notin> job_id ` set rows) ?cands") (auto simp: find_None_iff subset_iff)
  then have "first_free rows = u" by (simp only: first_free_def option.case)
  moreover have "u \<notin> job_id ` set rows" using u unfolding find_Some_iff by (elim exE conjE, hypsubst)
  ultimately show ?thesis by simp
qed

lemma xenv_fresh: "fresh_ids xenv"
  using first_free_fresh by (simp add: fresh_ids_def)

lemma xenv_keeps: "calls_keep (xe_plan xenv) tables_of" "calls_keep (xe_plan xenv) (\<lambda>w. xshards (outside w))"
  by (simp_all add: calls_keep_def world_s3_def on_ledger_def tables_of_def)

lemma xenv_view: "ledger_view xenv (\<lambda>w. map_of (beyond (outside w)))"
proof -
  have "map_of (filter (\<lambda>(k', _). k' \<noteq> k) s) l = (if l = k then None else map_of s l)" for k l and s :: "(string \<times> bytes) list"
    by (induction s) auto
  then show ?thesis by (simp add: ledger_view_def bucket_view_def world_s3_def same_but_def on_ledger_def)
qed

subsection \<open>Rows\<close>

definition x_row :: "xstatus \<Rightarrow> extraction_job" where
  "x_row st = \<lparr>x_id = 5, x_tenant = 1, x_operation = ATLAS, x_source_kind = WEB_CORPUS, x_source_ref = JObj [],
     x_params = JObj [], x_params_hash = ''h'', x_status = st, x_shard_count = 0, x_rows_total = 0, x_error = [], x_created = 0\<rparr>"

definition sh_row :: "shard_status \<Rightarrow> shard" where
  "sh_row st = \<lparr>sh_id = 1, sh_job = 5, sh_index = 0, sh_offload = Some 8,
     sh_key = input_key 1 5 3 0, sh_digest = sha256_digest [0, 0], sh_schema = [], sh_rows = 2, sh_out_key = [],
     sh_out_rows = JNull, sh_out_digest = [], sh_status = st, sh_error = []\<rparr>"

definition off_row :: "job_status \<Rightarrow> job" where
  "off_row st = \<lparr>job_id = 8, job_tenant = Some 1, operation = ''data_science.extraction.atlas'', operation_id = ''o'',
     status = st, celery_task_id = [], input_payload_digest = [], output_schema_json = JStr [], output_artifact_key = ''k'',
     output_payload_digest = ''d'', output_rows = JInt 3, logs = [], error = [], kwargs_json = [], started_at = None,
     ended_at = None, created_at = 0\<rparr>"

definition xworld :: "job list \<Rightarrow> extraction_job list \<Rightarrow> shard list \<Rightarrow> (string \<times> bytes) list eworld" where
  "xworld js xs ss = \<lparr>jobs = js, sent = [], derivations = [],
     outside = \<lparr>xjobs = xs, xshards = ss, xreviews = [], xqueue = [], beyond = [(input_key 1 5 3 0, [0, 0])]\<rparr>\<rparr>"

lemma xworld_fields [simp]: "jobs (xworld js xs ss) = js" "xjobs (outside (xworld js xs ss)) = xs"
  "xshards (outside (xworld js xs ss)) = ss" "sent (xworld js xs ss) = []"
  "beyond (outside (xworld js xs ss)) = [(input_key 1 5 3 0, [0, 0])]"
  by (simp_all add: xworld_def)

lemma row_fields [simp]: "x_id (x_row st) = 5" "x_status (x_row st) = st" "x_tenant (x_row st) = 1"
  "sh_id (sh_row ss) = Suc 0" "sh_job (sh_row ss) = 5" "sh_status (sh_row ss) = ss" "sh_offload (sh_row ss) = Some 8"
  "job_id (off_row os) = 8" "status (off_row os) = os" "sh_index (sh_row ss) = 0"
  by (simp_all add: x_row_def sh_row_def off_row_def)

lemma demo_gets: "get_x (xworld js [x_row st] ss) 5 = Some (x_row st)"
  "get_job (xworld [off_row os] xs ss) 8 = Some (off_row os)"
  "get_shard (xworld js xs [sh_row sst]) (Suc 0) = Some (sh_row sst)"
  by (simp_all add: get_x_def get_job_def get_shard_def row_of_simps)

abbreviation done_world :: "(string \<times> bytes) list eworld" where
  "done_world \<equiv> xworld [off_row SUCCEEDED] [x_row XRunning] [sh_row SRunning]"

lemma done_world_active: "active_shards done_world 5 = [sh_row SRunning]"
  by (simp add: active_shards_def shards_of_def)

lemma done_world_finished: "finished done_world 5"
  using demo_gets by (simp add: finished_def done_world_active)

subsection \<open>Witnesses\<close>

theorem sweep_completes_witness:
  "\<exists>w2 r2. sweep_extraction_jobs xenv done_world = (Inr (JObj [(''reconciled'', JInt 1)]), w2)
    \<and> get_x w2 5 = Some r2 \<and> x_status r2 = XSucceeded"
  using sweep_completes [of done_world xenv] done_world_finished by auto

theorem unplanned_job_failed_witness:
  "\<exists>reply w2. reconcile_extraction xenv 5 (xworld [] [x_row XQueued] []) = (Inr reply, w2)
    \<and> map_option x_status (get_x w2 5) = Some XFailed"
proof -
  have "shards_of (xworld [] [x_row XQueued] []) 5 = []" by (simp add: shards_of_def)
  from unplanned_job_failed [OF demo_gets(1) _ this, of xenv] show ?thesis by auto
qed

theorem reconcile_mirrors_witness:
  "\<exists>reply w2 r2. reconcile_extraction xenv 5 done_world = (Inr reply, w2) \<and> get_x w2 5 = Some r2
    \<and> x_shard_count r2 = length (active_shards w2 5) \<and> (\<forall>s \<in> set (active_shards w2 5). mirrors w2 s)"
proof -
  from reconcile_finished [OF done_world_finished, of xenv] obtain reply w2 r2 where
    rec: "reconcile_extraction xenv 5 done_world = (Inr reply, w2)" "get_x w2 5 = Some r2"
      "distinct (map sh_id (xshards (outside w2)))" by auto
  from reconcile_mirrors [OF rec(1) demo_gets(1) _ rec(2,3)] rec show ?thesis by auto
qed

text \<open>A shard of two rows is read back, halved and replaced.\<close>

lemma counted_read: "read_table \<lparr>bucket = ''b'', presign_seconds = 900, max_bytes = 1000\<rparr> world_s3 counted_ipc 1
    (input_key 1 5 3 0) (sha256_digest [0, 0]) [] (Some 2) (xworld js xs ss)
  = Inr \<lparr>tbl_schema = passage_schema, tbl_rows = replicate 2 [JStr ''a'', JStr ''x'', JNull]\<rparr>"
  by (simp add: read_table_def get_bytes_def demo_keys world_s3_def decode_arrow_ipc_def counted_ipc_def Let_def rbind_def
      numeral_2_eq_2)

lemma counted_halve: "halve \<lparr>tbl_schema = passage_schema, tbl_rows = replicate 2 r\<rparr>
  = Inr [\<lparr>tbl_schema = passage_schema, tbl_rows = [r]\<rparr>, \<lparr>tbl_schema = passage_schema, tbl_rows = [r]\<rparr>]"
  by (simp add: halve_def Let_def slice_def numeral_2_eq_2)

lemma key_two: "validate_key t (input_key t j u 2) = Inr (input_key t j u 2)"
proof -
  have "length (dec_nat 2) = 1" by code_simp
  then show ?thesis by (intro input_key_admitted) simp
qed

lemma write_one:
  "\<exists>p v. write_plan (xe_plan xenv) \<lparr>bucket = ''b'', presign_seconds = 900, max_bytes = 1000\<rparr> 1 5 u i
      \<lparr>tbl_schema = passage_schema, tbl_rows = [r]\<rparr> w = (Inr p, v)" if "validate_key 1 (input_key 1 5 u i) = Inr (input_key 1 5 u i)"
  using that by (simp add: write_plan_def write_table_def storage_call_def Let_def world_s3_def counted_ipc_def)

lemma demo_replan: "\<exists>new v. replan_shard xenv \<lparr>bucket = ''b'', presign_seconds = 900, max_bytes = 1000\<rparr> (sh_row SFailed)
    (xworld [off_row FAILED] [x_row XRunning] [sh_row SFailed]) = (Inr new, v) \<and> new \<noteq> []"
proof -
  let ?st = "\<lparr>bucket = ''b'', presign_seconds = 900, max_bytes = 1000\<rparr>"
  let ?w = "xworld [off_row FAILED] [x_row XRunning] [sh_row SFailed]"
  let ?t = "\<lparr>tbl_schema = passage_schema, tbl_rows = [[JStr ''a'', JStr ''x'', JNull]]\<rparr>"
  have idx: "next_index ?w 5 = Suc 0" by (simp add: next_index_def shards_of_def)
  obtain p v1 where p: "write_plan (xe_plan xenv) ?st 1 5 (first_free [off_row FAILED]) (Suc 0) ?t ?w = (Inr p, v1)"
    using write_one [OF demo_keys(2)] by blast
  have k2: "validate_key 1 (input_key 1 5 (first_free [off_row FAILED]) (Suc (Suc 0))) = Inr (input_key 1 5 (first_free [off_row FAILED]) (Suc (Suc 0)))"
    using key_two by (simp add: numeral_2_eq_2)
  obtain q v2 where q: "write_plan (xe_plan xenv) ?st 1 5 (first_free [off_row FAILED]) (Suc (Suc 0)) ?t v1 = (Inr q, v2)"
    using write_one [OF k2] by blast
  have two: "sh_key (sh_row SFailed) = input_key 1 5 3 0" "sh_digest (sh_row SFailed) = sha256_digest [0, 0]"
    "sh_schema (sh_row SFailed) = []" "int (sh_rows (sh_row SFailed)) = 2" by (simp_all add: sh_row_def)
  have "\<exists>v. replan_shard xenv ?st (sh_row SFailed) ?w = (Inr (new_shards 5 (next_pk (xshards (outside v2))) [p, q]), v)"
    by (simp add: replan_shard_def demo_gets two counted_read counted_halve rbind_def idx p q adopt_replacements_def Let_def)
  then show ?thesis by auto
qed

theorem replan_partition_witness:
  "\<exists>new v. replan_shard xenv \<lparr>bucket = ''b'', presign_seconds = 900, max_bytes = 1000\<rparr> (sh_row SFailed)
    (xworld [off_row FAILED] [x_row XRunning] [sh_row SFailed]) = (Inr new, v) \<and> sum_list (map sh_rows new) = 2"
proof -
  from demo_replan obtain new v where new: "replan_shard xenv \<lparr>bucket = ''b'', presign_seconds = 900, max_bytes = 1000\<rparr> (sh_row SFailed)
    (xworld [off_row FAILED] [x_row XRunning] [sh_row SFailed]) = (Inr new, v)" "new \<noteq> []" by blast
  have "sh_rows (sh_row SFailed) = 2" by (simp add: sh_row_def)
  with replan_partition [OF xenv_view xenv_keeps(2) new] have "sum_list (map sh_rows new) = 2" by (elim exE conjE) simp
  with new show ?thesis by blast
qed

text \<open>A job over a listing without passages: one shard with the empty table.\<close>

definition empty_plan :: shard_plan where
  "empty_plan = plan_for counted_ipc 1 5 0 0 \<lparr>tbl_schema = passage_schema, tbl_rows = []\<rparr>"

abbreviation submitted_world :: "(string \<times> bytes) list eworld" where
  "submitted_world \<equiv> xworld [] [x_row XQueued] []"

lemma first_free_none [simp]: "first_free [] = 0"
  by (simp add: first_free_def)

lemma demo_xplan: "\<exists>v. plan_shards (xe_plan xenv) 1 5 0 ''web_corpus'' (JObj []) 26 w = Some (Inr [empty_plan], v)"
proof -
  let ?st = "\<lparr>bucket = ''b'', presign_seconds = 900, max_bytes = 1000\<rparr>"
  let ?page = "JObj [(''passages'', JList [])]"
  have f: "fetch_page (xe_plan xenv) 1 ''web_corpus'' 65536 None 64 w = (Inr ?page, 64, w)"
    by (simp add: fetch_page.simps [of _ _ _ _ _ 64])
  have t: "page_table 1 ?page = Inr \<lparr>tbl_schema = passage_schema, tbl_rows = []\<rparr>"
    by (simp add: page_table_def jget_def or_null_def rbind_def)
  have n: "next_cursor ?page [] = Inr None" by (simp add: next_cursor_def jget_def or_null_def)
  have s: "split_table counted_ipc \<lparr>tbl_schema = passage_schema, tbl_rows = []\<rparr> 26 = Inr []"
    by (simp add: split_table_def split_from.simps)
  have r: "remote_round (xe_plan xenv) ?st 1 5 0 ''web_corpus'' 26 (None, [], 64, [], w) = (Some None, (None, [], 64, [], w))"
    by (simp add: remote_round_def demo_sizes f t n plan_page_def s)
  show ?thesis
    by (simp add: plan_shards_def demo_xstore plan_source_def truthy_def demo_sizes while_true.simps r write_plan_def write_table_def
        demo_keys storage_call_def Let_def world_s3_def empty_plan_def plan_for_def counted_ipc_def)
qed

lemma demo_submitted:
  "\<exists>v reply w1. plan_shards (xe_plan xenv) 1 5 0 ''web_corpus'' (JObj []) 26 submitted_world = Some (Inr [empty_plan], v)
    \<and> submit_extraction xenv 5 submitted_world = Some (Inr reply, w1)"
proof -
  obtain v where v: "plan_shards (xe_plan xenv) 1 5 0 ''web_corpus'' (JObj []) 26 submitted_world = Some (Inr [empty_plan], v)"
    using demo_xplan by blast
  have tabs: "jobs v = []" "xjobs (outside v) = [x_row XQueued]" "xshards (outside v) = []"
    using plan_shards_keeps [OF xenv_keeps(1) v] by (simp_all add: tables_of_def)
  have gv: "get_x v 5 = Some (x_row XQueued)" "shards_of v 5 = []"
    by (simp_all add: get_x_def shards_of_def tabs row_of_simps)
  let ?s = "(new_shard 5 1 empty_plan)\<lparr>sh_offload := Some 0\<rparr>"
  have ad: "\<exists>w2. adopt_plans xenv 5 [empty_plan] v = (Inr (Inr [?s]), w2)"
    by (simp add: adopt_plans_def gv Let_def create_orchestration_job_def get_x_def on_ledger_def modify_x_def tabs row_of_simps
        operation_params_def existing_job_def next_pk_def) (simp add: x_row_def)
  then obtain w2 where w2: "adopt_plans xenv 5 [empty_plan] v = (Inr (Inr [?s]), w2)" by blast
  have "distinct (map sh_id (xshards (outside v)))" "distinct (map job_id (jobs v))" "length (jobs v) + length [empty_plan] \<le> 2 ^ 64"
    by (simp_all add: tabs)
  from adopt_plans_ok [OF w2 xenv_fresh gv(1) this] obtain qs where
    qs: "jobs w2 = qs" "list_all2 (\<lambda>s q. offload_row (x_row XQueued) s (xe_contract xenv) q) [?s] qs"
      "xshards (outside w2) = [?s]" and gx2: "\<exists>r. get_x w2 5 = Some r \<and> x_status r = XRunning"
    using tabs by auto
  then obtain q where q: "qs = [q]" "offload_row (x_row XQueued) ?s (xe_contract xenv) q" by (auto simp: list_all2_Cons1)
  then have "job_id q = 0" by (auto simp: offload_row_def)
  have "list_all2 (\<lambda>s q. sh_offload s = Some (job_id q)) [?s] [q]" using \<open>job_id q = 0\<close> by simp
  from dispatch_all_ok [OF this, of xenv w2] obtain g w3 where
    d: "dispatch_all xenv [?s] w2 = (Inr (), w3)" "outside w3 = outside w2" "jobs w3 = map (\<lambda>q. q\<lparr>celery_task_id := g q\<rparr>) (jobs w2)"
    by blast
  have gj: "get_job w3 0 = Some (q\<lparr>celery_task_id := g q\<rparr>)"
    using d(3) qs(1) q(1) \<open>job_id q = 0\<close> by (simp add: get_job_def row_of_simps)
  have fol: "follow_job (q\<lparr>celery_task_id := g q\<rparr>) ?s = ?s" by (rule offload_row_follow [OF q(2) refl])
  have act: "active_shards w3 5 = [?s]" by (simp add: active_shards_def shards_of_def d(2) qs(3))
  have calm: "\<forall>s \<in> set (active_shards w3 5). calm w3 s" using gj fol by (simp add: act calm_def oversized_def)
  from gx2 d(2) obtain r where r: "get_x w3 5 = Some r" "x_status r \<noteq> XCanceled" by (auto simp: get_x_def)
  have "distinct (map sh_id (xshards (outside w3)))" by (simp add: d(2) qs(3))
  from reconcile_calm [OF r calm this, of xenv] obtain reply w1 where "reconcile_extraction xenv 5 w3 = (Inr reply, w1)" by blast
  then have "submit_extraction xenv 5 submitted_world = Some (Inr reply, w1)"
    using v w2 d(1) by (simp add: submit_extraction_def demo_gets shards_of_def) (simp add: x_row_def)
  with v show ?thesis by blast
qed


subsection \<open>Witnesses of the endpoints\<close>

definition x_ctx :: api_ctx where
  "x_ctx = \<lparr>c_verify = (\<lambda>p h. p = h), c_time = 5,
     c_tenants = [\<lparr>tenant_id = 1, tenant_slug = ''t'', tenant_display_name = ''T'', tenant_is_active = True,
       workos_organization_id = []\<rparr>],
     c_keys = [\<lparr>key_id = 9, key_tenant = 1, key_hash = ''thk_a'', key_prefix = ''thk_a'', key_label = [],
       key_scopes = JList [JStr ''extraction:*''], revoked_at = None, expires_at = None, key_created_at = 0\<rparr>],
     c_billing = \<lparr>plans = [], subscriptions = [], usage_rows = []\<rparr>\<rparr>"

lemma x_ctx_admits: "admit x_ctx ''Bearer thk_a'' EXTRACTION_SUBMIT_SCOPE = Inr 1"
  by code_simp

definition x_body :: x_request where
  "x_body = \<lparr>xq_operation = ''atlas'', xq_source_kind = ''web_corpus'', xq_source_ref = JObj [], xq_params = JObj []\<rparr>"

theorem extraction_submission_idempotent_witness:
  "\<exists>a b w1. submit_endpoint (draw xenv 5) x_ctx ''Bearer thk_a'' x_body (xworld [] [] []) = (Inr a, w1)
    \<and> submit_endpoint (draw xenv 6) x_ctx ''Bearer thk_a'' x_body w1 = (Inr b, w1) \<and> xr_job b = 5"
proof -
  have "\<exists>x. submit_admits (xe_contract xenv) x_ctx ''Bearer thk_a'' x_body = Inr x"
    by (simp add: submit_admits_def x_ctx_admits x_body_def parse_op_def parse_source_def rbind_def Let_def)
  then obtain a w1 where a: "submit_endpoint (draw xenv 5) x_ctx ''Bearer thk_a'' x_body (xworld [] [] []) = (Inr a, w1)" "xr_job a = 5"
    by (auto simp: submit_endpoint_def existing_extraction_def Let_def)
  from extraction_submission_idempotent [of xenv 5 x_ctx "''Bearer thk_a''" x_body "xworld [] [] []" a w1 6 "[]"] a show ?thesis
    by auto
qed

definition demo_review :: "uuid \<Rightarrow> string \<Rightarrow> time \<Rightarrow> review" where
  "demo_review u d t = \<lparr>rv_id = u, rv_tenant = 1, rv_job = None, rv_digest = d, rv_version = 2, rv_claim = None,
     rv_decision = ''accept'', rv_target = None, rv_reason = [], rv_reviewer = ''machine_key:x'', rv_created = t\<rparr>"


end
