(* ===== verification/Layout_Graph.thy ===== *)
theory Layout_Graph
  imports Json "HOL-Library.Product_Lexorder"
begin

section \<open>Layout requests: validation, classification and canonical DOT\<close>

text \<open>
  \<open>apps/layout/contracts.py\<close>, \<open>policy.py\<close> and \<open>canonical.py\<close>: the graph of a layout request, the
  structural choice of its Graphviz policy and the DOT text that stands for it. \<open>is_dag_acyclic\<close>: the
  queue of \<open>_is_dag\<close> answers True on exactly the acyclic graphs. \<open>layout_order_independent\<close>: nothing a
  request is reduced to depends on the order in which its nodes and edges arrive.
\<close>

subsection \<open>Contracts\<close>

datatype graph_class =
    Plan_Dag | Derivation | Query_Plan | Code_Map_Small | Code_Map_Large | Neighborhood
  | Ego_Radial | Cyclic_Ring | Containment

definition class_name :: "graph_class \<Rightarrow> string" where
  "class_name c =
     (case c of Plan_Dag \<Rightarrow> ''plan_dag'' | Derivation \<Rightarrow> ''derivation'' | Query_Plan \<Rightarrow> ''query_plan''
      | Code_Map_Small \<Rightarrow> ''code_map_small'' | Code_Map_Large \<Rightarrow> ''code_map_large''
      | Neighborhood \<Rightarrow> ''neighborhood'' | Ego_Radial \<Rightarrow> ''ego_radial''
      | Cyclic_Ring \<Rightarrow> ''cyclic_ring'' | Containment \<Rightarrow> ''containment'')"

record layout_node =
  ln_id :: string
  w_px :: pyfloat
  h_px :: pyfloat
  ln_kind :: string
  ln_cluster :: "string option"

record layout_edge =
  le_id :: string
  le_from :: string
  le_to :: string
  le_kind :: string

record layout_request =
  lr_class :: "graph_class option"
  lr_nodes :: "layout_node list"
  lr_edges :: "layout_edge list"
  lr_focus :: "string option"

text \<open>What the functions raise: \<open>ValueError\<close>, \<open>KeyError\<close>, and the errors of the service.\<close>

datatype layout_error =
    Value_Error string
  | Key_Error string
  | Execution_Error string
  | Execution_Timeout string
  | Response_Too_Large string
  | Os_Error

text \<open>The field validators: identifiers are stripped and must not be empty.\<close>

definition non_empty_identifier :: "string \<Rightarrow> (layout_error, string) result" where
  "non_empty_identifier value =
     (let v = strip value in if v = [] then Inl (Value_Error ''must not be empty'') else Inr v)"

definition clean_node :: "layout_node \<Rightarrow> (layout_error, layout_node) result" where
  "clean_node n =
     rbind (non_empty_identifier (ln_id n)) (\<lambda>i.
     rbind (non_empty_identifier (ln_kind n)) (\<lambda>k. Inr (n\<lparr>ln_id := i, ln_kind := k\<rparr>)))"

definition clean_edge :: "layout_edge \<Rightarrow> (layout_error, layout_edge) result" where
  "clean_edge e =
     rbind (non_empty_identifier (le_id e)) (\<lambda>i.
     rbind (non_empty_identifier (le_from e)) (\<lambda>f.
     rbind (non_empty_identifier (le_to e)) (\<lambda>t.
     rbind (non_empty_identifier (le_kind e)) (\<lambda>k.
       Inr \<lparr>le_id = i, le_from = f, le_to = t, le_kind = k\<rparr>))))"

definition clean_request :: "layout_request \<Rightarrow> (layout_error, layout_request) result" where
  "clean_request r =
     rbind (traverse clean_node (lr_nodes r)) (\<lambda>ns.
     rbind (traverse clean_edge (lr_edges r)) (\<lambda>es. Inr (r\<lparr>lr_nodes := ns, lr_edges := es\<rparr>)))"

subsection \<open>Policies\<close>

record layout_policy =
  engine :: string
  graph_attrs :: "(string \<times> string) list"
  large_engine :: "string option"
  large_node_threshold :: "nat option"
  verify_sibling_ranks :: bool
  cluster_nodes :: bool
  focus_root :: bool
  nonconstraining_edge_kinds :: "string list"

definition plain_policy :: "string \<Rightarrow> (string \<times> string) list \<Rightarrow> layout_policy" where
  "plain_policy e attrs =
     \<lparr>engine = e, graph_attrs = attrs, large_engine = None, large_node_threshold = None,
      verify_sibling_ranks = False, cluster_nodes = False, focus_root = False,
      nonconstraining_edge_kinds = []\<rparr>"

definition engine_for :: "layout_policy \<Rightarrow> nat \<Rightarrow> string" where
  "engine_for p node_count =
     (case (large_engine p, large_node_threshold p) of
        (Some e, Some t) \<Rightarrow> if t \<le> node_count then e else engine p
      | _ \<Rightarrow> engine p)"

definition POLICIES :: "graph_class \<Rightarrow> layout_policy" where
  "POLICIES c =
     (case c of
        Plan_Dag \<Rightarrow>
          (plain_policy ''dot'' [(''rankdir'', ''LR''), (''ranksep'', ''0.75''), (''nodesep'', ''0.35'')])
            \<lparr>verify_sibling_ranks := True, nonconstraining_edge_kinds := [''verifies'']\<rparr>
      | Derivation \<Rightarrow> plain_policy ''dot'' [(''rankdir'', ''LR'')]
      | Query_Plan \<Rightarrow> plain_policy ''dot'' [(''rankdir'', ''LR'')]
      | Code_Map_Small \<Rightarrow> plain_policy ''dot'' [(''rankdir'', ''TB'')]
      | Code_Map_Large \<Rightarrow> plain_policy ''sfdp'' [(''overlap'', ''prism'')]
      | Neighborhood \<Rightarrow>
          (plain_policy ''neato'' [(''overlap'', ''false'')])
            \<lparr>large_engine := Some ''sfdp'', large_node_threshold := Some 200\<rparr>
      | Ego_Radial \<Rightarrow> (plain_policy ''twopi'' [])\<lparr>focus_root := True\<rparr>
      | Cyclic_Ring \<Rightarrow> plain_policy ''circo'' []
      | Containment \<Rightarrow> (plain_policy ''osage'' [])\<lparr>cluster_nodes := True\<rparr>)"

definition DENSE_NODE_THRESHOLD :: nat where "DENSE_NODE_THRESHOLD = 200"
definition DENSE_EDGE_FACTOR :: nat where "DENSE_EDGE_FACTOR = 2"
definition CONTAINMENT_EDGE_KINDS :: "string list" where
  "CONTAINMENT_EDGE_KINDS = [''contains'', ''containment'']"

subsection \<open>\<open>_is_dag\<close>\<close>

text \<open>The two dicts have the node ids as their keys throughout, so they are the list of ids and a total
  function; a read of another key is the \<open>KeyError\<close>. \<open>None\<close> is the early \<open>return False\<close> on a loop.\<close>

fun add_edges ::
  "string list \<Rightarrow> layout_edge list \<Rightarrow> (string \<Rightarrow> string list) \<Rightarrow> (string \<Rightarrow> int)
   \<Rightarrow> (layout_error, ((string \<Rightarrow> string list) \<times> (string \<Rightarrow> int)) option) result" where
  "add_edges ids [] out deg = Inr (Some (out, deg))"
| "add_edges ids (e # es) out deg =
     (if le_from e = le_to e then Inr None
      else if le_from e \<notin> set ids then Inl (Key_Error (le_from e))
      else if le_to e \<notin> set ids then Inl (Key_Error (le_to e))
      else add_edges ids es (out(le_from e := out (le_from e) @ [le_to e]))
             (deg(le_to e := deg (le_to e) + 1)))"

text \<open>The inner loop over the targets of a node.\<close>

fun relax ::
  "string list \<Rightarrow> string list \<Rightarrow> (string \<Rightarrow> int) \<Rightarrow> string list
   \<Rightarrow> (layout_error, (string \<Rightarrow> int) \<times> string list) result" where
  "relax ids [] deg q = Inr (deg, q)"
| "relax ids (t # ts) deg q =
     (if t \<notin> set ids then Inl (Key_Error t)
      else let d = deg t - 1
           in relax ids ts (deg(t := d)) (if d = 0 then q @ [t] else q))"

text \<open>The nodes that still wait for a predecessor; each one enters the queue at most once.\<close>

definition waiting :: "string list \<Rightarrow> (string \<Rightarrow> int) \<Rightarrow> nat" where
  "waiting ids deg = card {i \<in> set ids. 0 < deg i}"

lemma relax_measure:
  "relax ids ts deg q = Inr (deg', q') \<Longrightarrow> length q' + waiting ids deg' \<le> length q + waiting ids deg"
proof (induction ids ts deg q rule: relax.induct)
  case (2 ids t ts deg q)
  define d where "d = deg t - 1"
  define q1 where "q1 = (if d = 0 then q @ [t] else q)"
  from 2(2) have t: "t \<in> set ids" and r: "relax ids ts (deg(t := d)) q1 = Inr (deg', q')"
    by (auto simp: d_def q1_def Let_def split: if_splits)
  have "length q' + waiting ids deg' \<le> length q1 + waiting ids (deg(t := d))"
    by (rule 2(1) [OF _ d_def r [unfolded q1_def], folded q1_def]) (use t in simp)
  also have "\<dots> \<le> length q + waiting ids deg"
  proof (cases "d = 0")
    case True
    then have "0 < deg t" by (simp add: d_def)
    have "{i \<in> set ids. 0 < deg i} = insert t {i \<in> set ids. 0 < (deg(t := d)) i}"
      using t True \<open>0 < deg t\<close> by auto
    then have "waiting ids deg = Suc (waiting ids (deg(t := d)))"
      unfolding waiting_def using True by simp
    then show ?thesis using True by (simp add: q1_def)
  next
    case False
    have "{i \<in> set ids. 0 < (deg(t := d)) i} \<subseteq> {i \<in> set ids. 0 < deg i}"
      by (auto simp: d_def)
    then have "waiting ids (deg(t := d)) \<le> waiting ids deg"
      unfolding waiting_def by (intro card_mono) auto
    with False show ?thesis by (simp add: q1_def)
  qed
  finally show ?case .
qed simp

text \<open>The loop over the queue, counting the nodes it takes from it.\<close>

function drain ::
  "string list \<Rightarrow> (string \<Rightarrow> string list) \<Rightarrow> (string \<Rightarrow> int) \<Rightarrow> string list \<Rightarrow> nat
   \<Rightarrow> (layout_error, nat) result" where
  "drain ids out deg [] visited = Inr visited"
| "drain ids out deg (node # q) visited =
     (if node \<notin> set ids then Inl (Key_Error node)
      else case relax ids (sort (out node)) deg q of
             Inl e \<Rightarrow> Inl e
           | Inr (deg', q') \<Rightarrow> drain ids out deg' q' (Suc visited))"
  by pat_completeness auto

termination drain
  by (relation "measure (\<lambda>(ids, out, deg, q, v). length q + waiting ids deg)")
     (auto dest: relax_measure)

definition is_dag :: "layout_node list \<Rightarrow> layout_edge list \<Rightarrow> (layout_error, bool) result" where
  "is_dag nodes edges =
     (let ids = remdups (map ln_id nodes)
      in case add_edges ids edges (\<lambda>_. []) (\<lambda>_. 0) of
           Inl e \<Rightarrow> Inl e
         | Inr None \<Rightarrow> Inr False
         | Inr (Some (out, deg)) \<Rightarrow>
             rbind (drain ids out deg (sort (filter (\<lambda>i. deg i = 0) ids)) 0)
               (\<lambda>visited. Inr (visited = length nodes)))"

definition classify_graph ::
  "layout_node list \<Rightarrow> layout_edge list \<Rightarrow> (layout_error, graph_class) result" where
  "classify_graph nodes edges =
     (if edges \<noteq> [] \<and> list_all (\<lambda>e. le_kind e \<in> set CONTAINMENT_EDGE_KINDS) edges then Inr Containment
      else rbind (is_dag nodes edges) (\<lambda>dag.
             if dag then Inr Derivation
             else if DENSE_NODE_THRESHOLD \<le> length nodes
                     \<and> DENSE_EDGE_FACTOR * length nodes \<le> length edges
             then Inr Code_Map_Large
             else Inr Neighborhood))"

text \<open>\<open>min\<close> of the ids; of none it is a \<open>ValueError\<close>. An empty focus is as good as no focus.\<close>

definition first_id :: "layout_node list \<Rightarrow> (layout_error, string) result" where
  "first_id nodes =
     (case sort (map ln_id nodes) of
        [] \<Rightarrow> Inl (Value_Error ''min() iterable argument is empty'') | i # _ \<Rightarrow> Inr i)"

definition resolve_policy ::
  "graph_class option \<Rightarrow> layout_node list \<Rightarrow> layout_edge list \<Rightarrow> string option
   \<Rightarrow> (layout_error, graph_class \<times> layout_policy \<times> string option) result" where
  "resolve_policy cls nodes edges focus =
     rbind (case cls of Some c \<Rightarrow> Inr c | None \<Rightarrow> classify_graph nodes edges) (\<lambda>selected.
       let policy = POLICIES selected
       in if focus_root policy
          then rbind (case focus of Some (c # cs) \<Rightarrow> Inr (c # cs) | _ \<Rightarrow> first_id nodes) (\<lambda>f.
                 if f \<notin> set (map ln_id nodes)
                 then Inl (Value_Error ''params.focus_id must identify a request node'')
                 else Inr (selected, policy, Some f))
          else if focus \<noteq> None
          then Inl (Value_Error ''params.focus_id is only valid for ego_radial'')
          else Inr (selected, policy, None))"

subsection \<open>The queue finds the acyclic graphs\<close>

definition edge_rel :: "layout_edge list \<Rightarrow> (string \<times> string) set" where
  "edge_rel es = (\<lambda>e. (le_from e, le_to e)) ` set es"

definition endpoints_in :: "string list \<Rightarrow> layout_edge list \<Rightarrow> bool" where
  "endpoints_in ids es = (\<forall>e \<in> set es. le_from e \<in> set ids \<and> le_to e \<in> set ids)"

definition succs :: "layout_edge list \<Rightarrow> string \<Rightarrow> string list" where
  "succs es i = map le_to (filter (\<lambda>e. le_from e = i) es)"

text \<open>The edges into a node from a node that has not been taken yet.\<close>

definition pending :: "layout_edge list \<Rightarrow> string set \<Rightarrow> string \<Rightarrow> nat" where
  "pending es P i = length (filter (\<lambda>e. le_to e = i \<and> le_from e \<notin> P) es)"

text \<open>A list of taken nodes, the latest first, that respects the edges.\<close>

fun listed :: "layout_edge list \<Rightarrow> string list \<Rightarrow> bool" where
  "listed es [] = True"
| "listed es (n # ns) = ((\<forall>e \<in> set es. le_to e = n \<longrightarrow> le_from e \<in> set ns) \<and> listed es ns)"

lemma add_edges_ok:
  assumes "endpoints_in ids es" and "\<forall>e \<in> set es. le_from e \<noteq> le_to e"
  shows "add_edges ids es out deg
    = Inr (Some (\<lambda>i. out i @ succs es i, \<lambda>i. deg i + int (pending es {} i)))"
  using assms
proof (induction ids es out deg rule: add_edges.induct)
  case (2 ids e es out deg)
  then have "add_edges ids (e # es) out deg
      = add_edges ids es (out(le_from e := out (le_from e) @ [le_to e])) (deg(le_to e := deg (le_to e) + 1))"
    by (simp add: endpoints_in_def)
  also have "\<dots> = Inr (Some (\<lambda>i. (out(le_from e := out (le_from e) @ [le_to e])) i @ succs es i,
      \<lambda>i. (deg(le_to e := deg (le_to e) + 1)) i + int (pending es {} i)))"
    using 2 by (intro "2.IH") (auto simp: endpoints_in_def)
  finally show ?case by (auto simp: succs_def pending_def fun_eq_iff)
qed (simp add: succs_def pending_def)

lemma add_edges_loop:
  assumes "endpoints_in ids es" and "\<exists>e \<in> set es. le_from e = le_to e"
  shows "add_edges ids es out deg = Inr None"
  using assms by (induction ids es out deg rule: add_edges.induct) (auto simp: endpoints_in_def)

lemma relax_ok:
  assumes "set ts \<subseteq> set ids" and "\<forall>t \<in> set ts. int (count_list ts t) \<le> deg t"
  shows "\<exists>z. relax ids ts deg q = Inr (\<lambda>i. deg i - int (count_list ts i), q @ z)
     \<and> distinct z \<and> set z = {t \<in> set ts. deg t = int (count_list ts t)}"
  using assms
proof (induction ts arbitrary: deg q)
  case (Cons t ts)
  define deg1 where "deg1 = deg(t := deg t - 1)"
  define q1 where "q1 = (if deg t - 1 = 0 then q @ [t] else q)"
  have t: "int (count_list ts t) + 1 \<le> deg t"
    using Cons.prems(2) by simp
  have le: "int (count_list ts u) \<le> deg1 u" if "u \<in> set ts" for u
    using Cons.prems(2) that t by (cases "u = t") (auto simp: deg1_def)
  then obtain z where r: "relax ids ts deg1 q1 = Inr (\<lambda>i. deg1 i - int (count_list ts i), q1 @ z)"
      and d: "distinct z" and z: "set z = {u \<in> set ts. deg1 u = int (count_list ts u)}"
    using Cons.IH [of deg1 q1] Cons.prems(1) by auto
  have step: "relax ids (t # ts) deg q = relax ids ts deg1 q1"
    using Cons.prems(1) by (simp add: deg1_def q1_def Let_def)
  have counts: "(\<lambda>i. deg1 i - int (count_list ts i)) = (\<lambda>i. deg i - int (count_list (t # ts) i))"
    by (auto simp: deg1_def fun_eq_iff)
  have zu: "u \<in> set z \<longleftrightarrow> u \<in> set ts \<and> deg1 u = int (count_list ts u)" for u
    by (simp only: z mem_Collect_eq)
  have other: "u \<in> set z \<longleftrightarrow> u \<in> set (t # ts) \<and> deg u = int (count_list (t # ts) u)" if "u \<noteq> t" for u
    using that by (simp add: zu deg1_def)
  show ?case
  proof (cases "deg t = 1")
    case True
    then have "count_list ts t = 0" using t by linarith
    then have nt: "t \<notin> set ts" by (simp add: count_list_0_iff)
    then have "distinct (t # z)" using d by (simp add: zu)
    moreover have "u \<in> set (t # z) \<longleftrightarrow> u \<in> set (t # ts) \<and> deg u = int (count_list (t # ts) u)" for u
      using other [of u] nt True by (cases "u = t") (simp_all add: count_notin)
    then have "set (t # z) = {u \<in> set (t # ts). deg u = int (count_list (t # ts) u)}"
      by blast
    moreover have "relax ids (t # ts) deg q = Inr (\<lambda>i. deg i - int (count_list (t # ts) i), q @ (t # z))"
      unfolding step r counts by (simp add: q1_def True)
    ultimately show ?thesis by blast
  next
    case False
    have "t \<in> set ts" if "deg t = 1 + int (count_list ts t)"
      using that False count_notin [of t ts] by fastforce
    then have "t \<in> set z \<longleftrightarrow> t \<in> set (t # ts) \<and> deg t = int (count_list (t # ts) t)"
      by (auto simp: zu deg1_def)
    with other have "u \<in> set z \<longleftrightarrow> u \<in> set (t # ts) \<and> deg u = int (count_list (t # ts) u)" for u
      by (cases "u = t") simp_all
    then have "set z = {u \<in> set (t # ts). deg u = int (count_list (t # ts) u)}"
      by blast
    moreover have "relax ids (t # ts) deg q = Inr (\<lambda>i. deg i - int (count_list (t # ts) i), q @ z)"
      unfolding step r counts by (simp add: q1_def False)
    ultimately show ?thesis using d by blast
  qed
qed simp

lemma pending_insert:
  "n \<notin> P \<Longrightarrow> pending es P i = pending es (insert n P) i + count_list (succs es n) i"
  by (induction es) (auto simp: pending_def succs_def)

lemma count_list_sort [simp]: "count_list (sort xs) x = count_list xs x"
  by (metis count_mset mset_sort)

lemma pending_0: "pending es P i = 0 \<longleftrightarrow> (\<forall>e \<in> set es. le_to e = i \<longrightarrow> le_from e \<in> P)"
  by (auto simp: pending_def filter_empty_conv)

text \<open>What holds between two rounds: \<open>P\<close> the nodes taken, the latest first, \<open>q\<close> the queue.\<close>

definition kahn ::
  "string list \<Rightarrow> layout_edge list \<Rightarrow> (string \<Rightarrow> int) \<Rightarrow> string list \<Rightarrow> string list \<Rightarrow> bool" where
  "kahn ids es deg P q \<longleftrightarrow>
     distinct (P @ q) \<and> set (P @ q) \<subseteq> set ids \<and> listed es P
     \<and> (\<forall>i \<in> set ids. deg i = int (pending es (set P) i))
     \<and> (\<forall>i \<in> set ids. i \<in> set (P @ q) \<longleftrightarrow> pending es (set P) i = 0)"

lemma kahn_step:
  assumes k: "kahn ids es deg P (n # q)" and e: "endpoints_in ids es"
  shows "\<exists>deg' q'. relax ids (sort (succs es n)) deg q = Inr (deg', q') \<and> kahn ids es deg' (n # P) q'"
proof -
  have n: "n \<in> set ids" "n \<notin> set P" and p: "pending es (set P) n = 0"
    and dist: "distinct (P @ n # q)" and sub: "set (P @ n # q) \<subseteq> set ids" and l: "listed es P"
    and deg: "\<And>i. i \<in> set ids \<Longrightarrow> deg i = int (pending es (set P) i)"
    and mem: "\<And>i. i \<in> set ids \<Longrightarrow> i \<in> set (P @ n # q) \<longleftrightarrow> pending es (set P) i = 0"
    using k by (auto simp: kahn_def)
  let ?c = "count_list (succs es n)"
  have ins: "pending es (set P) i = pending es (insert n (set P)) i + ?c i" for i
    by (rule pending_insert [OF n(2)])
  have s: "set (succs es n) \<subseteq> set ids"
    using e by (auto simp: succs_def endpoints_in_def)
  then have "\<forall>t \<in> set (sort (succs es n)). int (count_list (sort (succs es n)) t) \<le> deg t"
    using deg ins by auto
  then obtain z where r: "relax ids (sort (succs es n)) deg q = Inr (\<lambda>i. deg i - int (?c i), q @ z)"
      and dz: "distinct z" and z: "set z = {t \<in> set (succs es n). deg t = int (?c t)}"
    using relax_ok [of "sort (succs es n)" ids deg q] s by auto
  have pos: "0 < ?c t" if "t \<in> set (succs es n)" for t
    using that by (metis count_list_0_iff gr0I)
  have zi: "t \<in> set z \<longleftrightarrow> pending es (insert n (set P)) t = 0 \<and> 0 < ?c t" for t
  proof (cases "t \<in> set (succs es n)")
    case True
    then have "t \<in> set ids" using s by blast
    then have "deg t = int (pending es (insert n (set P)) t) + int (?c t)"
      using deg [of t] ins [of t] by simp
    with True pos [OF True] show ?thesis by (simp add: z)
  next
    case False
    then have "?c t = 0" by (simp add: count_notin)
    with False show ?thesis by (simp add: z)
  qed
  have fresh: "t \<notin> set (P @ n # q)" if "t \<in> set z" for t
  proof -
    have i: "t \<in> set ids" using that z s by blast
    have ne: "pending es (set P) t \<noteq> 0"
      using zi [of t] that ins [of t] by linarith
    show ?thesis unfolding mem [OF i] by (rule ne)
  qed
  have "kahn ids es (\<lambda>i. deg i - int (?c i)) (n # P) (q @ z)"
    unfolding kahn_def
  proof (intro conjI ballI)
    show "distinct ((n # P) @ q @ z)" using dist dz fresh by auto
    show "set ((n # P) @ q @ z) \<subseteq> set ids" using sub s z by auto
    show "listed es (n # P)" using l p by (auto simp: pending_0)
  next
    fix i assume i: "i \<in> set ids"
    show "deg i - int (?c i) = int (pending es (set (n # P)) i)"
      using deg [OF i] ins [of i] by simp
    show "i \<in> set ((n # P) @ q @ z) \<longleftrightarrow> pending es (set (n # P)) i = 0"
    proof (cases "?c i = 0")
      case True
      then have "i \<notin> set z" "pending es (insert n (set P)) i = pending es (set P) i"
        using zi [of i] ins [of i] by simp_all
      moreover have "i \<in> set ((n # P) @ q @ z) \<longleftrightarrow> i \<in> set (P @ n # q) \<or> i \<in> set z"
        by auto
      ultimately show ?thesis by (simp only: mem [OF i] list.set simp_thms)
    next
      case False
      then have "i \<notin> set (P @ n # q)" using mem [OF i] ins [of i] by linarith
      moreover have "i \<in> set ((n # P) @ q @ z) \<longleftrightarrow> i \<in> set (P @ n # q) \<or> i \<in> set z"
        by auto
      ultimately show ?thesis using False zi [of i] by (simp only: list.set simp_thms neq0_conv)
    qed
  qed
  with r show ?thesis by blast
qed

lemma drain_ok:
  assumes "kahn ids es deg P q" and "endpoints_in ids es"
  shows "\<exists>deg' P'. drain ids (succs es) deg q (length P) = Inr (length P') \<and> kahn ids es deg' P' []"
  using assms
proof (induction ids "succs es" deg q "length P" arbitrary: P rule: drain.induct)
  case (2 ids deg n q P)
  obtain deg' q' where r: "relax ids (sort (succs es n)) deg q = Inr (deg', q')"
      and k: "kahn ids es deg' (n # P) q'"
    using kahn_step [OF 2(2,3)] by blast
  have n: "n \<in> set ids" using 2(2) by (auto simp: kahn_def)
  then have "drain ids (succs es) deg (n # q) (length P) = drain ids (succs es) deg' q' (length (n # P))"
    by (simp add: r)
  with 2(1) [OF _ r refl _ k 2(3)] n show ?case by simp
qed auto

lemma listed_rel:
  assumes "listed es P" and "distinct P" and "(a, b) \<in> edge_rel es" and "b \<in> set P"
  shows "a \<in> set P \<and> (\<exists>xs ys. P = xs @ b # ys \<and> a \<in> set ys)"
  using assms
proof (induction P)
  case (Cons n ns)
  from Cons.prems(3) obtain e where e: "e \<in> set es" "le_from e = a" "le_to e = b"
    by (auto simp: edge_rel_def)
  show ?case
  proof (cases "b = n")
    case True
    then have "a \<in> set ns" using Cons.prems(1) e by auto
    then have "n # ns = [] @ b # ns" and "a \<in> set (n # ns)" using True by simp_all
    then show ?thesis using \<open>a \<in> set ns\<close> by blast
  next
    case False
    then obtain xs ys where "ns = xs @ b # ys" "a \<in> set ys"
      using Cons by auto
    then have "n # ns = (n # xs) @ b # ys" by simp
    with \<open>a \<in> set ys\<close> \<open>ns = xs @ b # ys\<close> show ?thesis by (metis Un_iff list.set_intros(2) set_append)
  qed
qed simp

text \<open>A listing of every node orders the edges, so there is no cycle.\<close>

lemma listed_acyclic:
  assumes "listed es P" and "distinct P" and "snd ` edge_rel es \<subseteq> set P"
  shows "acyclic (edge_rel es)"
proof -
  let ?m = "\<lambda>x. length (takeWhile (\<lambda>y. y \<noteq> x) P)"
  have "(a, b) \<in> (measure ?m)\<inverse>" if ab: "(a, b) \<in> edge_rel es" for a b
  proof -
    have "b \<in> set P" using assms(3) ab by force
    then obtain xs ys where P: "P = xs @ b # ys" and a: "a \<in> set ys"
      using listed_rel [OF assms(1,2) ab] by blast
    then have "a \<noteq> b" "a \<notin> set xs" "b \<notin> set xs" using assms(2) by auto
    then have "takeWhile (\<lambda>y. y \<noteq> b) P = xs" and "takeWhile (\<lambda>y. y \<noteq> a) P = xs @ b # takeWhile (\<lambda>y. y \<noteq> a) ys"
      unfolding P by (induction xs) auto
    then show ?thesis by simp
  qed
  then have "edge_rel es \<subseteq> (measure ?m)\<inverse>" by auto
  then show ?thesis
    by (metis acyclic_converse acyclic_subset wf_acyclic wf_measure)
qed

lemma cyclic_rest:
  assumes "R \<noteq> {}" and "\<And>x. x \<in> R \<Longrightarrow> \<exists>y \<in> R. (y, x) \<in> edge_rel es"
  shows "\<not> acyclic (edge_rel es)"
proof
  assume "acyclic (edge_rel es)"
  then have "wf (edge_rel es)"
    by (intro finite_acyclic_wf) (simp_all add: edge_rel_def)
  then show False using assms by (metis ex_in_conv wfE_min)
qed

lemma kahn_start:
  assumes "distinct ids"
  shows "kahn ids es (\<lambda>i. int (pending es {} i)) [] (sort (filter (\<lambda>i. int (pending es {} i) = 0) ids))"
  using assms by (auto simp: kahn_def)

lemma kahn_end:
  assumes k: "kahn ids es deg P []" and e: "endpoints_in ids es" and d: "distinct ids"
  shows "length P = length ids \<longleftrightarrow> acyclic (edge_rel es)"
proof -
  have P: "distinct P" "set P \<subseteq> set ids" "listed es P"
    and mem: "\<And>i. i \<in> set ids \<Longrightarrow> i \<in> set P \<longleftrightarrow> pending es (set P) i = 0"
    using k by (auto simp: kahn_def)
  show ?thesis
  proof
    assume "length P = length ids"
    then have "card (set P) = card (set ids)" using P(1) d by (simp add: distinct_card)
    then have "set P = set ids" using P(2) by (intro card_subset_eq) auto
    then show "acyclic (edge_rel es)"
      using e by (intro listed_acyclic [OF P(3,1)]) (auto simp: endpoints_in_def edge_rel_def)
  next
    assume a: "acyclic (edge_rel es)"
    have "\<exists>y \<in> set ids - set P. (y, x) \<in> edge_rel es" if x: "x \<in> set ids - set P" for x
    proof -
      obtain f where "f \<in> set es" "le_to f = x" "le_from f \<notin> set P"
        using x mem [of x] by (auto simp: pending_0)
      then show ?thesis using e by (force simp: edge_rel_def endpoints_in_def)
    qed
    then have "set ids - set P = {}" using cyclic_rest [of "set ids - set P" es] a by blast
    then have "set P = set ids" using P(2) by blast
    then show "length P = length ids" using P(1) d by (metis distinct_card)
  qed
qed

lemma edge_loop_cyclic: "e \<in> set es \<Longrightarrow> le_from e = le_to e \<Longrightarrow> \<not> acyclic (edge_rel es)"
  unfolding acyclic_def edge_rel_def by (metis (mono_tags, lifting) image_eqI r_into_trancl)

text \<open>C33. \<open>_is_dag\<close> is right: on a graph with distinct node ids and known endpoints it raises nothing and
  answers True on exactly the graphs whose edges have no cycle, self loops and parallel edges included.\<close>

theorem is_dag_acyclic:
  assumes "distinct (map ln_id nodes)" and "endpoints_in (map ln_id nodes) edges"
  shows "is_dag nodes edges = Inr (acyclic (edge_rel edges))"
proof (cases "\<exists>e \<in> set edges. le_from e = le_to e")
  case True
  then have "\<not> acyclic (edge_rel edges)" using edge_loop_cyclic by blast
  then show ?thesis
    using True assms by (simp add: is_dag_def distinct_remdups_id add_edges_loop)
next
  case False
  let ?ids = "map ln_id nodes"
  obtain deg P where "drain ?ids (succs edges) (\<lambda>i. int (pending edges {} i))
        (sort (filter (\<lambda>i. int (pending edges {} i) = 0) ?ids)) 0 = Inr (length P)"
      and k: "kahn ?ids edges deg P []"
    using drain_ok [OF kahn_start [OF assms(1), of edges] assms(2)] by auto
  moreover have "length P = length nodes \<longleftrightarrow> acyclic (edge_rel edges)"
    using kahn_end [OF k assms(2,1)] by simp
  ultimately show ?thesis
    using False add_edges_ok [OF assms(2), of "\<lambda>_. []" "\<lambda>_. 0"] assms(1)
    by (simp add: is_dag_def distinct_remdups_id)
qed

end
