(* ===== verification/Layout_Dot.thy ===== *)
theory Layout_Dot
  imports Layout_Graph
begin

section \<open>Canonical DOT and the plan of a layout\<close>

text \<open>
  \<open>apps/layout/canonical.py\<close> and the first half of \<open>compute_layout\<close> in \<open>service.py\<close>: validation,
  policy, engine, DOT text and the digest that names the response in the cache. \<open>layout_order_independent\<close>:
  two requests that list the same nodes and edges in another order have the same plan or the same error.
\<close>

definition MAX_LAYOUT_NODES :: nat where "MAX_LAYOUT_NODES = 512"
definition MAX_LAYOUT_EDGES :: nat where "MAX_LAYOUT_EDGES = 4096"

definition dot_quote :: "string \<Rightarrow> string" where
  "dot_quote value = quote False value"

text \<open>\<open>format(Decimal(str(value)).normalize(), "f")\<close>: the digits of \<open>repr\<close>, never an exponent.\<close>

definition dot_number :: "pyfloat \<Rightarrow> string" where
  "dot_number f =
     (case f of PInf \<Rightarrow> ''Infinity'' | NInf \<Rightarrow> ''-Infinity'' | NaN \<Rightarrow> ''NaN''
      | Fin x \<Rightarrow>
          if x = 0 then ''0''
          else let a = \<bar>x\<bar>; k0 = ilog10 a; (d, n) = shortest a k0 1 16;
                   (k, ds) = (if 10 ^ n \<le> d then (k0 + 1, ''1'') else (k0, drop_zeros (dec_int d)));
                   sign = (if x < 0 then ''-'' else [])
               in if k < 0 then sign @ ''0.'' @ replicate (nat (- k - 1)) (CHR ''0'') @ ds
                  else let w = nat k + 1; padded = ds @ replicate (w - length ds) (CHR ''0'')
                       in sign @ take w padded @ (if drop w padded = [] then [] else ''.'' @ drop w padded))"

text \<open>A length in inches; the divisor is never zero.\<close>

definition inches :: "pyfloat \<Rightarrow> pyfloat" where
  "inches px = (case fdiv px (Fin 72) of Some v \<Rightarrow> v | None \<Rightarrow> NaN)"

definition node_statement :: "layout_node \<Rightarrow> string" where
  "node_statement n =
     dot_quote (ln_id n) @ '' [fixedsize=true, height='' @ dot_quote (dot_number (inches (h_px n)))
     @ '', label='' @ dot_quote [] @ '', shape=box, width='' @ dot_quote (dot_number (inches (w_px n))) @ ''];''"

subsection \<open>Ranks of work and its verification\<close>

definition kind_of :: "layout_node list \<Rightarrow> string \<Rightarrow> string option" where
  "kind_of nodes = map_of (rev (map (\<lambda>n. (ln_id n, lower (ln_kind n))) nodes))"

definition WORK_KINDS :: "string list" where "WORK_KINDS = [''work'', ''implementation'']"
definition VERIFY_KINDS :: "string list" where "VERIFY_KINDS = [''verify'', ''verification'']"

definition rank_pair :: "layout_edge \<Rightarrow> string \<Rightarrow> string \<Rightarrow> (string \<times> string) list" where
  "rank_pair e left right =
     (if left \<in> set WORK_KINDS \<and> right \<in> set VERIFY_KINDS then [(le_from e, le_to e)]
      else if right \<in> set WORK_KINDS \<and> left \<in> set VERIFY_KINDS then [(le_to e, le_from e)]
      else [])"

definition rank_pairs_of ::
  "layout_node list \<Rightarrow> layout_edge \<Rightarrow> (layout_error, (string \<times> string) list) result" where
  "rank_pairs_of nodes e =
     (if le_kind e \<noteq> ''verifies'' then Inr []
      else case kind_of nodes (le_from e) of None \<Rightarrow> Inl (Key_Error (le_from e))
           | Some left \<Rightarrow>
               (case kind_of nodes (le_to e) of None \<Rightarrow> Inl (Key_Error (le_to e))
                | Some right \<Rightarrow> Inr (rank_pair e left right)))"

definition verification_rank_groups ::
  "layout_node list \<Rightarrow> layout_edge list \<Rightarrow> (layout_error, (string \<times> string) list) result" where
  "verification_rank_groups nodes edges =
     rbind (traverse (rank_pairs_of nodes) edges) (\<lambda>groups. Inr (canon (concat groups)))"

subsection \<open>The DOT text\<close>

definition attr_list :: "(string \<times> string) list \<Rightarrow> string" where
  "attr_list attrs = join '', '' (map (\<lambda>(k, v). k @ ''='' @ dot_quote v) (sort attrs))"

definition graph_line :: "layout_policy \<Rightarrow> string option \<Rightarrow> string list" where
  "graph_line policy focus =
     (let attrs = (case focus of None \<Rightarrow> graph_attrs policy
                   | Some f \<Rightarrow> filter (\<lambda>(k, _). k \<noteq> ''root'') (graph_attrs policy) @ [(''root'', f)])
      in if attrs = [] then [] else [''  graph ['' @ attr_list attrs @ ''];''])"

definition cluster_name :: "layout_node \<Rightarrow> string option" where
  "cluster_name n = (case ln_cluster n of Some (c # cs) \<Rightarrow> Some (c # cs) | _ \<Rightarrow> None)"

definition cluster_block :: "layout_node list \<Rightarrow> string \<Rightarrow> string list" where
  "cluster_block sorted_nodes c =
     [''  subgraph '' @ dot_quote (''cluster_'' @ c) @ '' {'']
     @ map (\<lambda>n. ''    '' @ node_statement n) (filter (\<lambda>n. cluster_name n = Some c) sorted_nodes)
     @ [''  }'']"

definition cluster_lines :: "layout_policy \<Rightarrow> layout_node list \<Rightarrow> string list" where
  "cluster_lines policy sorted_nodes =
     (if cluster_nodes policy
      then concat (map (cluster_block sorted_nodes) (canon (List.map_filter cluster_name sorted_nodes)))
      else [])"

definition clustered_ids :: "layout_policy \<Rightarrow> layout_node list \<Rightarrow> string list" where
  "clustered_ids policy sorted_nodes =
     (if cluster_nodes policy then map ln_id (filter (\<lambda>n. cluster_name n \<noteq> None) sorted_nodes) else [])"

definition edge_line :: "layout_policy \<Rightarrow> layout_edge \<Rightarrow> string" where
  "edge_line policy e =
     ''  '' @ dot_quote (le_from e) @ '' -> '' @ dot_quote (le_to e) @ '' [''
     @ attr_list ([(''id'', le_id e), (''label'', [])]
         @ (if le_kind e \<in> set (nonconstraining_edge_kinds policy) then [(''constraint'', ''false'')] else []))
     @ ''];''"

definition rank_line :: "string \<times> string \<Rightarrow> string" where
  "rank_line g = ''  { rank=same; '' @ dot_quote (fst g) @ ''; '' @ dot_quote (snd g) @ ''; }''"

definition edge_order :: "layout_edge \<Rightarrow> string \<times> string \<times> string" where
  "edge_order e = (le_from e, le_to e, le_id e)"

definition canonical_dot ::
  "layout_node list \<Rightarrow> layout_edge list \<Rightarrow> layout_policy \<Rightarrow> string option \<Rightarrow> (layout_error, string) result" where
  "canonical_dot nodes edges policy focus =
     (let sorted_nodes = sort_key ln_id nodes;
          body = [''strict digraph theorem_layout {''] @ graph_line policy focus
            @ cluster_lines policy sorted_nodes
            @ map (\<lambda>n. ''  '' @ node_statement n)
                (filter (\<lambda>n. ln_id n \<notin> set (clustered_ids policy sorted_nodes)) sorted_nodes)
            @ map (edge_line policy) (sort_key edge_order edges)
      in rbind (if verify_sibling_ranks policy then verification_rank_groups nodes edges else Inr [])
           (\<lambda>groups. Inr (join [CHR 0x0A] (body @ map rank_line groups @ [''}'']) @ [CHR 0x0A])))"

definition node_size_ok :: "layout_node \<Rightarrow> bool" where
  "node_size_ok n =
     (isfinite (w_px n) \<and> isfinite (h_px n) \<and> fle (Fin 1) (w_px n) \<and> fle (w_px n) (Fin 10000)
      \<and> fle (Fin 1) (h_px n) \<and> fle (h_px n) (Fin 10000))"

definition validate_graph :: "layout_node list \<Rightarrow> layout_edge list \<Rightarrow> (layout_error, unit) result" where
  "validate_graph nodes edges =
     (if \<not> (1 \<le> length nodes \<and> length nodes \<le> MAX_LAYOUT_NODES)
      then Inl (Value_Error (''nodes must contain between 1 and '' @ dec_nat MAX_LAYOUT_NODES @ '' entries''))
      else if MAX_LAYOUT_EDGES < length edges
      then Inl (Value_Error (''edges must contain at most '' @ dec_nat MAX_LAYOUT_EDGES @ '' entries''))
      else if \<not> distinct (map ln_id nodes) then Inl (Value_Error ''node ids must be unique'')
      else if \<not> distinct (map le_id edges) then Inl (Value_Error ''edge ids must be unique'')
      else if \<not> list_all node_size_ok nodes
      then Inl (Value_Error ''node dimensions must be finite and in [1, 10000] px'')
      else if \<not> list_all (\<lambda>e. le_from e \<in> set (map ln_id nodes) \<and> le_to e \<in> set (map ln_id nodes)) edges
      then Inl (Value_Error ''every edge endpoint must identify a request node'')
      else Inr ())"

subsection \<open>The plan\<close>

record layout_plan =
  pl_class :: graph_class
  pl_engine :: string
  pl_dot :: string
  pl_digest :: string

definition digest_input :: "string \<Rightarrow> string \<Rightarrow> json \<Rightarrow> string \<Rightarrow> string" where
  "digest_input dot eng params version =
     sha256_hex (utf8 (join [CHR 0x00] [dot, eng, canonical_json params, version]))"

definition policy_params :: "graph_class \<Rightarrow> layout_policy \<Rightarrow> string option \<Rightarrow> json" where
  "policy_params cls policy focus =
     JObj [(''graph_class'', JStr (class_name cls)),
           (''graph_attrs'', JObj (map (\<lambda>(k, v). (k, JStr v)) (graph_attrs policy))),
           (''focus_id'', case focus of None \<Rightarrow> JNull | Some f \<Rightarrow> JStr f)]"

definition plan_layout :: "string \<Rightarrow> layout_request \<Rightarrow> (layout_error, layout_plan) result" where
  "plan_layout version r =
     rbind (validate_graph (lr_nodes r) (lr_edges r)) (\<lambda>_.
     rbind (resolve_policy (lr_class r) (lr_nodes r) (lr_edges r) (lr_focus r)) (\<lambda>(cls, policy, focus).
       let eng = engine_for policy (length (lr_nodes r))
       in rbind (canonical_dot (lr_nodes r) (lr_edges r) policy focus) (\<lambda>dot.
            Inr \<lparr>pl_class = cls, pl_engine = eng, pl_dot = dot,
                 pl_digest = digest_input dot eng (policy_params cls policy focus) version\<rparr>)))"

subsection \<open>The order of a request does not matter\<close>

lemma sort_key_perm:
  assumes "mset xs = mset ys" and "inj_on f (set xs)"
  shows "sort_key f xs = sort_key f ys"
proof (rule sort_key_inj_key_eq)
  show "mset xs = mset (sort_key f ys)" using assms(1) by simp
  show "sorted (map f (sort_key f ys))" by simp
qed (fact assms(2))

lemma validated:
  assumes "validate_graph nodes edges = Inr u"
  shows "distinct (map ln_id nodes)" and "distinct (map le_id edges)"
    and "endpoints_in (map ln_id nodes) edges" and "nodes \<noteq> []"
  using assms by (auto simp: validate_graph_def endpoints_in_def list_all_iff split: if_splits)

lemma validate_perm:
  assumes "mset nodes = mset nodes'" and "mset edges = mset edges'"
  shows "validate_graph nodes edges = validate_graph nodes' edges'"
proof -
  have "length nodes = length nodes'" "length edges = length edges'"
    and "set nodes = set nodes'" "set edges = set edges'"
    using assms mset_eq_length mset_eq_setD by blast+
  moreover have "distinct (map ln_id nodes) = distinct (map ln_id nodes')"
    and "distinct (map le_id edges) = distinct (map le_id edges')"
    using assms by (metis mset_eq_imp_distinct_iff mset_map)+
  ultimately show ?thesis
    unfolding validate_graph_def list_all_iff by (simp only: set_map)
qed

lemma kind_of_perm:
  assumes "mset nodes = mset nodes'" and "distinct (map ln_id nodes)"
  shows "kind_of nodes = kind_of nodes'"
proof -
  let ?f = "\<lambda>n. (ln_id n, lower (ln_kind n))"
  have d': "distinct (map ln_id nodes')"
    using assms by (metis mset_eq_imp_distinct_iff mset_map)
  have f: "map fst (rev (map ?f ns)) = rev (map ln_id ns)" for ns
    by (simp add: rev_map)
  show ?thesis
    unfolding kind_of_def
  proof (subst map_of_inject_set)
    show "distinct (map fst (rev (map ?f nodes)))" using assms(2) by (simp only: f distinct_rev)
    show "distinct (map fst (rev (map ?f nodes')))" using d' by (simp only: f distinct_rev)
    show "set (rev (map ?f nodes)) = set (rev (map ?f nodes'))"
      using mset_eq_setD [OF assms(1)] by (simp only: set_rev set_map)
  qed
qed

lemma traverse_all_ok: "(\<And>x. x \<in> set xs \<Longrightarrow> f x = Inr (g x)) \<Longrightarrow> traverse f xs = Inr (map g xs)"
  by (induction xs) auto

lemma kind_of_known: "i \<in> set (map ln_id nodes) \<Longrightarrow> \<exists>k. kind_of nodes i = Some k"
proof -
  assume "i \<in> set (map ln_id nodes)"
  then have "i \<in> fst ` set (rev (map (\<lambda>n. (ln_id n, lower (ln_kind n))) nodes))"
    by force
  then show ?thesis
    unfolding kind_of_def by (metis map_of_eq_None_iff not_None_eq)
qed

definition rank_pairs_in :: "layout_node list \<Rightarrow> layout_edge \<Rightarrow> (string \<times> string) list" where
  "rank_pairs_in nodes e = (case rank_pairs_of nodes e of Inr g \<Rightarrow> g | Inl _ \<Rightarrow> [])"

lemma rank_groups_known:
  assumes "endpoints_in (map ln_id nodes) edges"
  shows "verification_rank_groups nodes edges = Inr (canon (concat (map (rank_pairs_in nodes) edges)))"
proof -
  have "rank_pairs_of nodes e = Inr (rank_pairs_in nodes e)" if "e \<in> set edges" for e
  proof -
    have "le_from e \<in> set (map ln_id nodes)" and "le_to e \<in> set (map ln_id nodes)"
      using assms that unfolding endpoints_in_def by blast+
    then obtain l r where "kind_of nodes (le_from e) = Some l" "kind_of nodes (le_to e) = Some r"
      by (elim kind_of_known [elim_format] exE) (rule that)
    then show ?thesis by (simp add: rank_pairs_in_def rank_pairs_of_def)
  qed
  then show ?thesis
    by (simp add: verification_rank_groups_def traverse_all_ok)
qed

lemma canonical_dot_perm:
  assumes n: "mset nodes = mset nodes'" and e: "mset edges = mset edges'"
    and d: "distinct (map ln_id nodes)" and de: "distinct (map le_id edges)"
    and k: "endpoints_in (map ln_id nodes) edges"
  shows "canonical_dot nodes edges policy focus = canonical_dot nodes' edges' policy focus"
proof -
  have sn: "sort_key ln_id nodes = sort_key ln_id nodes'"
    using d by (intro sort_key_perm n) (simp add: distinct_map)
  have "inj_on edge_order (set edges)"
    using de unfolding distinct_map inj_on_def edge_order_def by auto
  then have se: "sort_key edge_order edges = sort_key edge_order edges'"
    by (rule sort_key_perm [OF e])
  have k': "endpoints_in (map ln_id nodes') edges'"
    using k mset_eq_setD [OF n] mset_eq_setD [OF e] by (simp add: endpoints_in_def)
  have "rank_pairs_in nodes = rank_pairs_in nodes'"
    unfolding fun_eq_iff rank_pairs_in_def rank_pairs_of_def kind_of_perm [OF n d] by (rule allI refl)+
  then have "verification_rank_groups nodes edges = verification_rank_groups nodes' edges'"
    unfolding rank_groups_known [OF k] rank_groups_known [OF k'] Inr_Inl_False sum.inject canon_eq_iff
    using mset_eq_setD [OF e] by simp
  then show ?thesis
    by (simp only: canonical_dot_def sn se)
qed

lemma classify_perm:
  assumes n: "mset nodes = mset nodes'" and e: "mset edges = mset edges'"
    and d: "distinct (map ln_id nodes)" and k: "endpoints_in (map ln_id nodes) edges"
  shows "classify_graph nodes edges = classify_graph nodes' edges'"
proof -
  note sn = mset_eq_setD [OF n] and se = mset_eq_setD [OF e]
  note ln = mset_eq_length [OF n] and le = mset_eq_length [OF e]
  have d': "distinct (map ln_id nodes')"
    using n d by (metis mset_eq_imp_distinct_iff mset_map)
  have k': "endpoints_in (map ln_id nodes') edges'"
    using k by (simp add: endpoints_in_def sn se)
  have r: "edge_rel edges = edge_rel edges'" by (simp add: edge_rel_def se)
  have dag: "is_dag nodes edges = is_dag nodes' edges'"
    unfolding is_dag_acyclic [OF d k] is_dag_acyclic [OF d' k'] r ..
  have ne: "edges = [] \<longleftrightarrow> edges' = []" using le by auto
  show ?thesis
    unfolding classify_graph_def list_all_iff dag se ln le ne ..
qed

lemma resolve_perm:
  assumes n: "mset nodes = mset nodes'" and e: "mset edges = mset edges'"
    and d: "distinct (map ln_id nodes)" and k: "endpoints_in (map ln_id nodes) edges"
  shows "resolve_policy cls nodes edges focus = resolve_policy cls nodes' edges' focus"
proof -
  have "sort (map ln_id nodes) = sort (map ln_id nodes')"
    using n by (metis mset_map sort_key_perm inj_on_id2)
  then have "first_id nodes = first_id nodes'" by (simp add: first_id_def)
  moreover have "set (map ln_id nodes) = set (map ln_id nodes')"
    using mset_eq_setD [OF n] by simp
  ultimately show ?thesis
    unfolding resolve_policy_def classify_perm [OF n e d k] by (simp only:)
qed

lemma plan_layout_perm:
  assumes "mset (lr_nodes r) = mset (lr_nodes r')" and "mset (lr_edges r) = mset (lr_edges r')"
    and "lr_class r = lr_class r'" and "lr_focus r = lr_focus r'"
  shows "plan_layout version r = plan_layout version r'"
proof (cases "validate_graph (lr_nodes r) (lr_edges r)")
  case (Inl e)
  then show ?thesis
    by (simp add: plan_layout_def flip: validate_perm [OF assms(1,2)])
next
  case (Inr u)
  note v = validated [OF Inr]
  have "length (lr_nodes r) = length (lr_nodes r')"
    using assms(1) by (rule mset_eq_length)
  then show ?thesis
    unfolding plan_layout_def validate_perm [OF assms(1,2)] assms(3,4)
      resolve_perm [OF assms(1,2) v(1,3)] canonical_dot_perm [OF assms(1,2) v(1,2,3)] by (simp only:)
qed

text \<open>C34. What a layout request is reduced to does not depend on the order in which its nodes and edges
  are listed: the class, the engine, the DOT text handed to Graphviz and the digest that names the response
  in the cache are the same, and so is the error of a refused request.\<close>

theorem layout_order_independent:
  assumes "mset (lr_nodes r) = mset (lr_nodes r')" and "mset (lr_edges r) = mset (lr_edges r')"
    and "lr_class r = lr_class r'" and "lr_focus r = lr_focus r'"
  shows "plan_layout version r = plan_layout version r'"
  by (rule plan_layout_perm [OF assms])

definition demo_node :: "string \<Rightarrow> layout_node" where
  "demo_node i = \<lparr>ln_id = i, w_px = Fin 120, h_px = Fin 40, ln_kind = ''node'', ln_cluster = None\<rparr>"

definition demo_edge :: "string \<Rightarrow> string \<Rightarrow> string \<Rightarrow> layout_edge" where
  "demo_edge i f t = \<lparr>le_id = i, le_from = f, le_to = t, le_kind = ''edge''\<rparr>"

definition demo_graph :: "layout_node list \<Rightarrow> layout_edge list \<Rightarrow> layout_request" where
  "demo_graph ns es = \<lparr>lr_class = None, lr_nodes = ns, lr_edges = es, lr_focus = None\<rparr>"

theorem is_dag_acyclic_witness:
  "is_dag [demo_node ''a'', demo_node ''b''] [demo_edge ''1'' ''a'' ''b'', demo_edge ''2'' ''b'' ''a'']
     = Inr (acyclic (edge_rel [demo_edge ''1'' ''a'' ''b'', demo_edge ''2'' ''b'' ''a'']))"
  by (rule is_dag_acyclic) (simp_all add: demo_node_def demo_edge_def endpoints_in_def)

theorem layout_order_independent_witness:
  "demo_graph [demo_node ''a'', demo_node ''b''] [demo_edge ''1'' ''a'' ''b'', demo_edge ''2'' ''a'' ''b'']
     \<noteq> demo_graph [demo_node ''b'', demo_node ''a''] [demo_edge ''2'' ''a'' ''b'', demo_edge ''1'' ''a'' ''b'']
   \<and> plan_layout ''12.2.1''
       (demo_graph [demo_node ''a'', demo_node ''b''] [demo_edge ''1'' ''a'' ''b'', demo_edge ''2'' ''a'' ''b''])
     = plan_layout ''12.2.1''
       (demo_graph [demo_node ''b'', demo_node ''a''] [demo_edge ''2'' ''a'' ''b'', demo_edge ''1'' ''a'' ''b''])"
  by (intro conjI layout_order_independent) (simp_all add: demo_graph_def demo_node_def demo_edge_def)

end
