(* ===== verification/Layout_Cache.thy ===== *)
theory Layout_Cache
  imports Layout_Dot
begin

section \<open>The layout response cache\<close>

text \<open>
  \<open>apps/layout/cache.py\<close> and \<open>budget.py\<close>: responses by tenant and digest, in Valkey when it is configured
  and answers, in the ordered dict of the process otherwise. The clock, the lock and the Valkey client are
  the environment, over an arbitrary outside world; the ordered dict is \<open>memory\<close>, oldest entry first. A
  request is one thread: what other threads store meanwhile is not in the model. The locale
  \<open>response_cache\<close> is what the layout service relies on: a response that is read was stored under the
  same key, and a store adds nothing else.
\<close>

subsection \<open>Budgets\<close>

definition MAX_LAYOUT_REQUEST_BYTES :: nat where "MAX_LAYOUT_REQUEST_BYTES = 2 * 1024 * 1024"
definition MAX_LAYOUT_RESPONSE_BYTES :: nat where "MAX_LAYOUT_RESPONSE_BYTES = 2 * 1024 * 1024"
definition LAYOUT_REQUEST_TIMEOUT_SECONDS :: pyfloat where "LAYOUT_REQUEST_TIMEOUT_SECONDS = Fin 10"
definition LAYOUT_GRAPHVIZ_MAX_SECONDS :: pyfloat where "LAYOUT_GRAPHVIZ_MAX_SECONDS = Fin 8"
definition LAYOUT_CACHE_SOCKET_TIMEOUT_SECONDS :: pyfloat where
  "LAYOUT_CACHE_SOCKET_TIMEOUT_SECONDS = fl (25 / 100)"
definition LAYOUT_CACHE_MIN_WRITE_BUDGET_SECONDS :: pyfloat where
  "LAYOUT_CACHE_MIN_WRITE_BUDGET_SECONDS = fl (5 / 100)"
definition LAYOUT_COMPUTE_PATH :: string where "LAYOUT_COMPUTE_PATH = ''/internal/layout/compute''"

subsection \<open>The environment\<close>

text \<open>How a worker process ends: killed at its deadline, or with a return code and its two files.\<close>

datatype worker_end = Timed_Out | Exited int bytes bytes

record 'w layout_env =
  clock_now :: "'w \<Rightarrow> pyfloat \<times> 'w"
  take_lock :: "pyfloat option \<Rightarrow> 'w \<Rightarrow> bool \<times> 'w"
  valkey_connect :: "pyfloat \<Rightarrow> 'w \<Rightarrow> bool \<times> 'w"
  valkey_get :: "string \<Rightarrow> 'w \<Rightarrow> (unit, bytes option) result \<times> 'w"
  valkey_set :: "string \<Rightarrow> bytes \<Rightarrow> int \<Rightarrow> 'w \<Rightarrow> bool \<times> 'w"
  spawn_worker :: "'w \<Rightarrow> bool \<times> 'w"
  kill_worker :: "'w \<Rightarrow> 'w"
  communicate :: "bytes \<Rightarrow> pyfloat \<Rightarrow> 'w \<Rightarrow> worker_end \<times> 'w"
  read_positions :: "bytes \<Rightarrow> (string \<times> pyfloat \<times> pyfloat) list option"
  decode_text :: "bytes \<Rightarrow> string"
  gv_version :: string

record layout_settings =
  valkey_url :: string
  cache_ttl :: int
  memory_max :: int
  subprocess_timeout :: pyfloat
  output_bytes :: int

type_synonym entries = "(string \<times> pyfloat \<times> bytes) list"

record 'w layout_world =
  outside :: 'w
  memory :: entries

definition now_of :: "'w layout_env \<Rightarrow> 'w layout_world \<Rightarrow> pyfloat \<times> 'w layout_world" where
  "now_of env w = (case clock_now env (outside w) of (t, v) \<Rightarrow> (t, w\<lparr>outside := v\<rparr>))"

text \<open>Python's \<open>min\<close> of two floats.\<close>

definition fmin :: "pyfloat \<Rightarrow> pyfloat \<Rightarrow> pyfloat" where
  "fmin a b = (if flt b a then b else a)"

definition cache_key :: "string \<Rightarrow> string \<Rightarrow> string" where
  "cache_key tenant digest = ''t:'' @ tenant @ '':layout:'' @ digest"

definition remaining_seconds ::
  "'w layout_env \<Rightarrow> pyfloat option \<Rightarrow> 'w layout_world \<Rightarrow> pyfloat option \<times> 'w layout_world" where
  "remaining_seconds env deadline w =
     (case deadline of None \<Rightarrow> (None, w)
      | Some d \<Rightarrow> (case now_of env w of (t, w') \<Rightarrow> (Some (fsub d t), w')))"

subsection \<open>Valkey\<close>

text \<open>Is there a client that answers a ping within the time that is left?\<close>

definition redis_client ::
  "'w layout_env \<Rightarrow> layout_settings \<Rightarrow> pyfloat option \<Rightarrow> 'w layout_world \<Rightarrow> bool \<times> 'w layout_world" where
  "redis_client env cfg deadline w =
     (if valkey_url cfg = [] then (False, w)
      else case remaining_seconds env deadline w of (remaining, w1) \<Rightarrow>
        let timeout = (case remaining of None \<Rightarrow> LAYOUT_CACHE_SOCKET_TIMEOUT_SECONDS
                       | Some r \<Rightarrow> fmin LAYOUT_CACHE_SOCKET_TIMEOUT_SECONDS r)
        in if (case remaining of None \<Rightarrow> False | Some r \<Rightarrow> fle r (Fin 0)) \<or> fle timeout (Fin 0) then (False, w1)
           else case valkey_connect env timeout (outside w1) of (up, v) \<Rightarrow> (up, w1\<lparr>outside := v\<rparr>))"

definition acquire_memory_lock ::
  "'w layout_env \<Rightarrow> pyfloat option \<Rightarrow> 'w layout_world \<Rightarrow> bool \<times> 'w layout_world" where
  "acquire_memory_lock env deadline w =
     (case remaining_seconds env deadline w of
        (None, w1) \<Rightarrow> (case take_lock env None (outside w1) of (_, v) \<Rightarrow> (True, w1\<lparr>outside := v\<rparr>))
      | (Some r, w1) \<Rightarrow>
          if fle r (Fin 0) then (False, w1)
          else case take_lock env (Some r) (outside w1) of (got, v) \<Rightarrow> (got, w1\<lparr>outside := v\<rparr>))"

subsection \<open>The ordered dict\<close>

definition od_pop :: "string \<Rightarrow> entries \<Rightarrow> entries" where
  "od_pop key m = filter (\<lambda>e. fst e \<noteq> key) m"

text \<open>A read under the lock: an expired entry is dropped, a live one becomes the newest.\<close>

definition memory_read :: "pyfloat \<Rightarrow> string \<Rightarrow> entries \<Rightarrow> bytes option \<times> entries" where
  "memory_read now key m =
     (case map_of m key of
        None \<Rightarrow> (None, m)
      | Some (expires, value) \<Rightarrow>
          if fle expires now then (None, od_pop key m)
          else (Some value, od_pop key m @ [(key, expires, value)]))"

text \<open>\<open>popitem(last=False)\<close> while the dict is too long.\<close>

fun evict :: "nat \<Rightarrow> entries \<Rightarrow> entries" where
  "evict n [] = []"
| "evict n (e # m) = (if n < length (e # m) then evict n m else e # m)"

definition max_entries :: "layout_settings \<Rightarrow> nat" where
  "max_entries cfg = nat (max 1 (memory_max cfg))"

definition memory_write :: "nat \<Rightarrow> pyfloat \<Rightarrow> string \<Rightarrow> bytes \<Rightarrow> entries \<Rightarrow> entries" where
  "memory_write limit expires key value m = evict limit (od_pop key m @ [(key, expires, value)])"

subsection \<open>Reading and storing a response\<close>

definition memory_response ::
  "'w layout_env \<Rightarrow> pyfloat option \<Rightarrow> string \<Rightarrow> 'w layout_world \<Rightarrow> bytes option \<times> 'w layout_world" where
  "memory_response env deadline key w =
     (case now_of env w of (now, w1) \<Rightarrow>
      case acquire_memory_lock env deadline w1 of (locked, w2) \<Rightarrow>
        if \<not> locked then (None, w2)
        else case memory_read now key (memory w2) of (v, m) \<Rightarrow> (v, w2\<lparr>memory := m\<rparr>))"

definition cached_response ::
  "'w layout_env \<Rightarrow> layout_settings \<Rightarrow> pyfloat option \<Rightarrow> string \<Rightarrow> 'w layout_world
   \<Rightarrow> bytes option \<times> 'w layout_world" where
  "cached_response env cfg deadline key w =
     (case redis_client env cfg deadline w of (up, w1) \<Rightarrow>
        if up
        then case valkey_get env key (outside w1) of
               (Inr v, o1) \<Rightarrow> (v, w1\<lparr>outside := o1\<rparr>)
             | (Inl _, o1) \<Rightarrow> memory_response env deadline key (w1\<lparr>outside := o1\<rparr>)
        else memory_response env deadline key w1)"

definition get_cached_response ::
  "'w layout_env \<Rightarrow> layout_settings \<Rightarrow> string \<Rightarrow> string \<Rightarrow> pyfloat option \<Rightarrow> 'w layout_world
   \<Rightarrow> bytes option \<times> 'w layout_world" where
  "get_cached_response env cfg tenant digest deadline w =
     cached_response env cfg deadline (cache_key tenant digest) w"

definition memory_store ::
  "'w layout_env \<Rightarrow> layout_settings \<Rightarrow> pyfloat option \<Rightarrow> string \<Rightarrow> bytes \<Rightarrow> 'w layout_world
   \<Rightarrow> 'w layout_world" where
  "memory_store env cfg deadline key value w =
     (case acquire_memory_lock env deadline w of (locked, w1) \<Rightarrow>
        if \<not> locked then w1
        else case now_of env w1 of (now, w2) \<Rightarrow>
          w2\<lparr>memory := memory_write (max_entries cfg) (fadd now (fl (of_int (cache_ttl cfg)))) key value (memory w2)\<rparr>)"

definition store_response ::
  "'w layout_env \<Rightarrow> layout_settings \<Rightarrow> pyfloat option \<Rightarrow> string \<Rightarrow> bytes \<Rightarrow> 'w layout_world
   \<Rightarrow> 'w layout_world" where
  "store_response env cfg deadline key value w =
     (case remaining_seconds env deadline w of (remaining, w0) \<Rightarrow>
        if (case remaining of None \<Rightarrow> False | Some r \<Rightarrow> flt r LAYOUT_CACHE_MIN_WRITE_BUDGET_SECONDS) then w0
        else case redis_client env cfg deadline w0 of (up, w1) \<Rightarrow>
          if up
          then case valkey_set env key value (cache_ttl cfg) (outside w1) of (stored, o1) \<Rightarrow>
                 if stored then w1\<lparr>outside := o1\<rparr>
                 else memory_store env cfg deadline key value (w1\<lparr>outside := o1\<rparr>)
          else memory_store env cfg deadline key value w1)"

definition set_cached_response ::
  "'w layout_env \<Rightarrow> layout_settings \<Rightarrow> string \<Rightarrow> string \<Rightarrow> bytes \<Rightarrow> pyfloat option \<Rightarrow> 'w layout_world
   \<Rightarrow> 'w layout_world" where
  "set_cached_response env cfg tenant digest value deadline w =
     store_response env cfg deadline (cache_key tenant digest) value w"

definition clear_memory_cache :: "'w layout_world \<Rightarrow> 'w layout_world" where
  "clear_memory_cache w = w\<lparr>memory := []\<rparr>"

subsection \<open>What the service relies on\<close>

locale response_cache =
  fixes get :: "string \<Rightarrow> 's \<Rightarrow> bytes option \<times> 's"
    and put :: "string \<Rightarrow> bytes \<Rightarrow> 's \<Rightarrow> 's"
    and held :: "'s \<Rightarrow> (string \<times> bytes) set"
  assumes get_held: "get k s = (Some v, s') \<Longrightarrow> (k, v) \<in> held s"
    and get_keeps: "get k s = (r, s') \<Longrightarrow> held s' \<subseteq> held s"
    and put_adds: "held (put k v s) \<subseteq> insert (k, v) (held s)"
begin

definition all_held :: "(string \<Rightarrow> bytes \<Rightarrow> bool) \<Rightarrow> 's \<Rightarrow> bool" where
  "all_held P s = (\<forall>(k, v) \<in> held s. P k v)"

lemma all_held_got:
  assumes "all_held P s" and "get k s = (Some v, s')"
  shows "P k v"
  using assms get_held by (fastforce simp: all_held_def)

lemma all_held_get:
  assumes "all_held P s" and "get k s = (r, s')"
  shows "all_held P s'"
  using assms get_keeps unfolding all_held_def by blast

lemma all_held_put:
  assumes "all_held P s" and "P k v"
  shows "all_held P (put k v s)"
proof -
  have "\<forall>(k', v') \<in> insert (k, v) (held s). P k' v'"
    using assms by (simp add: all_held_def)
  then show ?thesis using put_adds unfolding all_held_def by blast
qed

end

definition stored_in :: "entries \<Rightarrow> (string \<times> bytes) set" where
  "stored_in m = (\<lambda>(k, _, v). (k, v)) ` set m"

lemma stored_in_iff: "(k, v) \<in> stored_in m \<longleftrightarrow> (\<exists>e. (k, e, v) \<in> set m)"
  by (force simp: stored_in_def)

lemma evict_drop: "evict n m = drop (length m - n) m"
  by (induction m) (auto simp: Suc_diff_le)

lemma stored_in_read: "memory_read now k m = (r, m') \<Longrightarrow> stored_in m' \<subseteq> stored_in m"
  by (rule subrelI, auto simp: memory_read_def stored_in_iff od_pop_def split: option.splits if_splits)
    (blast dest: map_of_SomeD)+

lemma stored_in_hit: "memory_read now k m = (Some v, m') \<Longrightarrow> (k, v) \<in> stored_in m"
  by (auto simp: memory_read_def stored_in_iff split: option.splits if_splits)
    (blast dest: map_of_SomeD)

lemma stored_in_write: "stored_in (memory_write limit expires k v m) \<subseteq> insert (k, v) (stored_in m)"
  by (rule subrelI)
    (auto simp: memory_write_def evict_drop od_pop_def stored_in_iff dest!: in_set_dropD)

text \<open>The ordered dict is such a cache, whatever the time, the expiry and the limit.\<close>

interpretation process_memory: response_cache "memory_read now" "memory_write limit expires" stored_in
  for now limit expires
  by unfold_locales (erule stored_in_hit stored_in_read | rule stored_in_write)+

subsection \<open>The whole cache\<close>

text \<open>What a Valkey server is relied on for: \<open>contents\<close>, what it holds, is only added to by a store, and a
  read answers with something it holds. No other call of the environment adds to it.\<close>

definition valkey_law :: "'w layout_env \<Rightarrow> ('w \<Rightarrow> (string \<times> bytes) set) \<Rightarrow> bool" where
  "valkey_law env contents \<longleftrightarrow>
     (\<forall>v. contents (snd (clock_now env v)) \<subseteq> contents v)
     \<and> (\<forall>t v. contents (snd (take_lock env t v)) \<subseteq> contents v)
     \<and> (\<forall>t v. contents (snd (valkey_connect env t v)) \<subseteq> contents v)
     \<and> (\<forall>k v. contents (snd (valkey_get env k v)) \<subseteq> contents v)
     \<and> (\<forall>k v b. fst (valkey_get env k v) = Inr (Some b) \<longrightarrow> (k, b) \<in> contents v)
     \<and> (\<forall>k b ttl v. contents (snd (valkey_set env k b ttl v)) \<subseteq> insert (k, b) (contents v))
     \<and> (\<forall>v. contents (snd (spawn_worker env v)) \<subseteq> contents v)
     \<and> (\<forall>v. contents (kill_worker env v) \<subseteq> contents v)
     \<and> (\<forall>p t v. contents (snd (communicate env p t v)) \<subseteq> contents v)"

definition cached :: "('w \<Rightarrow> (string \<times> bytes) set) \<Rightarrow> 'w layout_world \<Rightarrow> (string \<times> bytes) set" where
  "cached contents w = contents (outside w) \<union> stored_in (memory w)"

text \<open>A step that leaves the memory alone and adds nothing outside.\<close>

definition quiet :: "('w \<Rightarrow> (string \<times> bytes) set) \<Rightarrow> 'w layout_world \<Rightarrow> 'w layout_world \<Rightarrow> bool" where
  "quiet contents w w' \<longleftrightarrow> memory w' = memory w \<and> contents (outside w') \<subseteq> contents (outside w)"

lemma quiet_refl [simp]: "quiet contents w w"
  by (simp add: quiet_def)

lemma quiet_trans: "quiet contents w w1 \<Longrightarrow> quiet contents w1 w2 \<Longrightarrow> quiet contents w w2"
  unfolding quiet_def by (metis order_trans)

lemma quiet_outside: "contents v \<subseteq> contents (outside w) \<Longrightarrow> quiet contents w (w\<lparr>outside := v\<rparr>)"
  by (simp add: quiet_def)

lemma quiet_cached: "quiet contents w w' \<Longrightarrow> cached contents w' \<subseteq> cached contents w"
  by (auto simp: quiet_def cached_def)

lemma valkey_lawD:
  assumes "valkey_law env contents"
  shows "clock_now env v = (t, v1) \<Longrightarrow> contents v1 \<subseteq> contents v"
    and "take_lock env tmo v = (got, v1) \<Longrightarrow> contents v1 \<subseteq> contents v"
    and "valkey_connect env tm v = (up, v1) \<Longrightarrow> contents v1 \<subseteq> contents v"
    and "valkey_get env k v = (answer, v1) \<Longrightarrow> contents v1 \<subseteq> contents v"
    and "valkey_get env k v = (Inr (Some b), v1) \<Longrightarrow> (k, b) \<in> contents v"
    and "valkey_set env k b ttl v = (ok, v1) \<Longrightarrow> contents v1 \<subseteq> insert (k, b) (contents v)"
    and "spawn_worker env v = (sp, v1) \<Longrightarrow> contents v1 \<subseteq> contents v"
    and "contents (kill_worker env v) \<subseteq> contents v"
    and "communicate env p tm v = (e, v1) \<Longrightarrow> contents v1 \<subseteq> contents v"
  using assms unfolding valkey_law_def by (metis fst_conv snd_conv)+

lemma now_quiet: "valkey_law env contents \<Longrightarrow> now_of env w = (t, w') \<Longrightarrow> quiet contents w w'"
  by (auto simp: now_of_def split: prod.splits intro!: quiet_outside dest: valkey_lawD(1))

lemma remaining_quiet:
  "valkey_law env contents \<Longrightarrow> remaining_seconds env deadline w = (r, w') \<Longrightarrow> quiet contents w w'"
  by (auto simp: remaining_seconds_def split: option.splits prod.splits dest: now_quiet)

lemma redis_quiet:
  assumes law: "valkey_law env contents" and r: "redis_client env cfg deadline w = (up, w')"
  shows "quiet contents w w'"
proof (cases "valkey_url cfg = []")
  case True
  with r show ?thesis by (simp add: redis_client_def)
next
  case False
  obtain rem w1 where w1: "remaining_seconds env deadline w = (rem, w1)" by fastforce
  have q: "quiet contents w w1" by (rule remaining_quiet [OF law w1])
  have "quiet contents w1 w'"
    using r False
    by (auto simp: redis_client_def w1 Let_def split: if_splits prod.splits
        intro!: quiet_outside dest: valkey_lawD(3) [OF law])
  with q show ?thesis by (rule quiet_trans)
qed

lemma acquire_quiet:
  assumes law: "valkey_law env contents" and r: "acquire_memory_lock env deadline w = (got, w')"
  shows "quiet contents w w'"
proof -
  obtain rem w1 where w1: "remaining_seconds env deadline w = (rem, w1)" by fastforce
  have "quiet contents w1 w'"
    using r
    by (auto simp: acquire_memory_lock_def w1 split: option.splits if_splits prod.splits
        intro!: quiet_outside dest: valkey_lawD(2) [OF law])
  with remaining_quiet [OF law w1] show ?thesis by (rule quiet_trans)
qed

lemma memory_response_effect:
  assumes law: "valkey_law env contents" and m: "memory_response env deadline key w = (r, w')"
  shows "contents (outside w') \<subseteq> contents (outside w)"
    and "r = None \<and> memory w' = memory w \<or> (\<exists>now. memory_read now key (memory w) = (r, memory w'))"
proof -
  obtain now w1 where w1: "now_of env w = (now, w1)" by fastforce
  obtain locked w2 where w2: "acquire_memory_lock env deadline w1 = (locked, w2)" by fastforce
  have q: "quiet contents w w2"
    using now_quiet [OF law w1] acquire_quiet [OF law w2] by (rule quiet_trans)
  obtain v m' where v: "memory_read now key (memory w2) = (v, m')" by fastforce
  have "w' = (if locked then w2\<lparr>memory := m'\<rparr> else w2) \<and> r = (if locked then v else None)"
    using m by (simp add: memory_response_def w1 w2 v split: if_splits)
  then show "contents (outside w') \<subseteq> contents (outside w)"
    and "r = None \<and> memory w' = memory w \<or> (\<exists>now. memory_read now key (memory w) = (r, memory w'))"
    using q v by (auto simp: quiet_def)
qed

lemma cached_response_effect:
  assumes law: "valkey_law env contents" and c: "cached_response env cfg deadline key w = (r, w')"
  shows "contents (outside w') \<subseteq> contents (outside w)"
    and "memory w' = memory w \<and> (\<forall>v. r = Some v \<longrightarrow> (key, v) \<in> contents (outside w))
      \<or> (\<exists>now. memory_read now key (memory w) = (r, memory w'))"
proof -
  obtain up w1 where w1: "redis_client env cfg deadline w = (up, w1)" by fastforce
  have q1: "quiet contents w w1" by (rule redis_quiet [OF law w1])
  obtain answer o1 where g: "valkey_get env key (outside w1) = (answer, o1)" by fastforce
  have q2: "quiet contents w1 (w1\<lparr>outside := o1\<rparr>)"
    by (rule quiet_outside) (rule valkey_lawD(4) [OF law g])
  have "contents (outside w') \<subseteq> contents (outside w)
    \<and> (memory w' = memory w \<and> (\<forall>v. r = Some v \<longrightarrow> (key, v) \<in> contents (outside w))
      \<or> (\<exists>now. memory_read now key (memory w) = (r, memory w')))"
  proof (cases "up \<and> (\<exists>v. answer = Inr v)")
    case True
    then obtain v where v: "answer = Inr v" by blast
    have hit: "(key, b) \<in> contents (outside w)" if "v = Some b" for b
      using valkey_lawD(5) [OF law, of key "outside w1" b o1] g v that q1 by (auto simp: quiet_def)
    have "r = v" "w' = w1\<lparr>outside := o1\<rparr>"
      using c True by (simp_all add: cached_response_def w1 g v)
    then show ?thesis
      using quiet_trans [OF q1 q2] hit by (simp add: quiet_def)
  next
    case False
    define w2 where "w2 = (if up then w1\<lparr>outside := o1\<rparr> else w1)"
    have m: "memory_response env deadline key w2 = (r, w')"
      using c False by (cases up; cases answer) (simp_all add: cached_response_def w1 g w2_def)
    have q: "quiet contents w w2"
      using q1 q2 by (auto simp: w2_def intro: quiet_trans)
    show ?thesis
      using memory_response_effect [OF law m] q unfolding quiet_def by auto
  qed
  then show "contents (outside w') \<subseteq> contents (outside w)"
    and "memory w' = memory w \<and> (\<forall>v. r = Some v \<longrightarrow> (key, v) \<in> contents (outside w))
      \<or> (\<exists>now. memory_read now key (memory w) = (r, memory w'))"
    by (rule conjunct1, rule conjunct2)
qed

lemma memory_store_effect:
  assumes law: "valkey_law env contents"
  shows "contents (outside (memory_store env cfg deadline key value w)) \<subseteq> contents (outside w)"
    and "memory (memory_store env cfg deadline key value w) = memory w
      \<or> (\<exists>t. memory (memory_store env cfg deadline key value w)
               = memory_write (max_entries cfg) t key value (memory w))"
proof -
  obtain locked w1 where w1: "acquire_memory_lock env deadline w = (locked, w1)" by fastforce
  obtain now w2 where w2: "now_of env w1 = (now, w2)" by fastforce
  have q1: "quiet contents w w1" and q2: "quiet contents w1 w2"
    by (rule acquire_quiet [OF law w1], rule now_quiet [OF law w2])
  show "contents (outside (memory_store env cfg deadline key value w)) \<subseteq> contents (outside w)"
    and "memory (memory_store env cfg deadline key value w) = memory w
      \<or> (\<exists>t. memory (memory_store env cfg deadline key value w)
               = memory_write (max_entries cfg) t key value (memory w))"
    using q1 quiet_trans [OF q1 q2] by (auto simp: memory_store_def w1 w2 quiet_def)
qed

lemma store_response_effect:
  assumes law: "valkey_law env contents"
  shows "contents (outside (store_response env cfg deadline key value w)) \<subseteq> insert (key, value) (contents (outside w))"
    and "memory (store_response env cfg deadline key value w) = memory w
      \<or> (\<exists>t. memory (store_response env cfg deadline key value w)
               = memory_write (max_entries cfg) t key value (memory w))"
proof -
  let ?w' = "store_response env cfg deadline key value w"
  obtain rem w0 where w0: "remaining_seconds env deadline w = (rem, w0)" by fastforce
  obtain up w1 where w1: "redis_client env cfg deadline w0 = (up, w1)" by fastforce
  obtain stored o1 where s: "valkey_set env key value (cache_ttl cfg) (outside w1) = (stored, o1)" by fastforce
  have q0: "quiet contents w w0" by (rule remaining_quiet [OF law w0])
  have q1: "quiet contents w w1" by (rule quiet_trans [OF q0 redis_quiet [OF law w1]])
  have o1: "contents o1 \<subseteq> insert (key, value) (contents (outside w))"
    using valkey_lawD(6) [OF law s] q1 by (auto simp: quiet_def)
  define v where "v = (if up then w1\<lparr>outside := o1\<rparr> else w1)"
  have v: "memory v = memory w" "contents (outside v) \<subseteq> insert (key, value) (contents (outside w))"
    using q1 o1 by (auto simp: v_def quiet_def)
  have "?w' = w0 \<or> ?w' = w1\<lparr>outside := o1\<rparr> \<or> ?w' = memory_store env cfg deadline key value v"
    by (auto simp: store_response_def w0 w1 s v_def)
  then have "contents (outside ?w') \<subseteq> insert (key, value) (contents (outside w))
    \<and> (memory ?w' = memory w \<or> (\<exists>t. memory ?w' = memory_write (max_entries cfg) t key value (memory w)))"
  proof (elim disjE)
    assume "?w' = w0"
    then show ?thesis using q0 by (auto simp: quiet_def)
  next
    assume "?w' = w1\<lparr>outside := o1\<rparr>"
    then show ?thesis using q1 o1 by (simp add: quiet_def)
  next
    assume w': "?w' = memory_store env cfg deadline key value v"
    show ?thesis unfolding w'
      using memory_store_effect [OF law, of cfg deadline key _ v] v by (metis order_trans)
  qed
  then show "contents (outside ?w') \<subseteq> insert (key, value) (contents (outside w))"
    and "memory ?w' = memory w \<or> (\<exists>t. memory ?w' = memory_write (max_entries cfg) t key value (memory w))"
    by (rule conjunct1, rule conjunct2)
qed

text \<open>The two-level cache keeps the contract, over a Valkey that keeps its law.\<close>

lemma whole_cache:
  assumes law: "valkey_law env contents"
  shows "response_cache (cached_response env cfg deadline) (store_response env cfg deadline) (cached contents)"
proof
  fix k s v s' assume "cached_response env cfg deadline k s = (Some v, s')"
  then have "(k, v) \<in> contents (outside s) \<or> (\<exists>now. memory_read now k (memory s) = (Some v, memory s'))"
    using cached_response_effect(2) [OF law] by blast
  then show "(k, v) \<in> cached contents s"
    by (auto simp: cached_def dest: stored_in_hit)
next
  fix k s r s' assume c: "cached_response env cfg deadline k s = (r, s')"
  from cached_response_effect [OF law c] show "cached contents s' \<subseteq> cached contents s"
    by (auto simp: cached_def dest: subsetD [OF stored_in_read])
next
  fix k v s
  from store_response_effect [OF law, of cfg deadline k v s]
  show "cached contents (store_response env cfg deadline k v s) \<subseteq> insert (k, v) (cached contents s)"
    by (auto simp: cached_def dest: subsetD [OF stored_in_write])
qed

text \<open>The ordered dict stays a dict, and within its limit.\<close>

definition memory_ok :: "layout_settings \<Rightarrow> entries \<Rightarrow> bool" where
  "memory_ok cfg m \<longleftrightarrow> distinct (map fst m) \<and> length m \<le> max_entries cfg"

lemma distinct_od_pop: "distinct (map fst m) \<Longrightarrow> distinct (map fst (od_pop k m))"
  unfolding od_pop_def by (rule distinct_map_filter)

lemma not_in_od_pop: "k \<notin> fst ` set (od_pop k m)"
  by (auto simp: od_pop_def)

lemma memory_ok_read:
  assumes ok: "memory_ok cfg m" and r: "memory_read now k m = (x, m')"
  shows "memory_ok cfg m'"
proof (cases "map_of m k")
  case None
  then show ?thesis using assms by (simp add: memory_read_def)
next
  case (Some e)
  then have "k \<in> fst ` set m" by (metis domI dom_map_of_conv_image_fst)
  then have "length (od_pop k m) < length m"
    unfolding od_pop_def by (auto intro: length_filter_less)
  then show ?thesis
    using ok r Some distinct_od_pop [of m k] not_in_od_pop [of k m]
    by (cases e) (auto simp: memory_read_def memory_ok_def split: if_splits)
qed

lemma memory_ok_write:
  assumes "memory_ok cfg m"
  shows "memory_ok cfg (memory_write (max_entries cfg) t k v m)"
proof -
  have "distinct (map fst (od_pop k m @ [(k, t, v)]))"
    using assms distinct_od_pop [of m k] not_in_od_pop [of k m] by (auto simp: memory_ok_def)
  then have "distinct (map fst (drop n (od_pop k m @ [(k, t, v)])))" for n
    by (metis distinct_drop drop_map)
  moreover have "length (drop (length m' - n) m') \<le> n" for n and m' :: entries
    by simp
  ultimately show ?thesis
    unfolding memory_ok_def memory_write_def evict_drop by blast
qed

end
