(* ===== verification/Layout_Service.thy ===== *)
theory Layout_Service
  imports Layout_Cache Admission
begin

section \<open>The layout service\<close>

text \<open>
  \<open>apps/layout/service.py\<close>, \<open>middleware.py\<close> and \<open>api.py\<close>: the bounded Graphviz worker, \<open>compute_layout\<close>
  around the cache, the wire budget of the route and the endpoint. Graphviz runs in another process
  (\<open>communicate\<close>); \<open>read_positions\<close> is \<open>json.loads\<close> of the object of coordinates that \<open>worker.py\<close> prints,
  \<open>decode_text\<close> the lenient decoding of its stderr.
\<close>

subsection \<open>State and exceptions\<close>

type_synonym ('s, 'e, 'a) step = "'s \<Rightarrow> ('e, 'a) result \<times> 's"

definition sbind :: "('s, 'e, 'a) step \<Rightarrow> ('a \<Rightarrow> ('s, 'e, 'b) step) \<Rightarrow> ('s, 'e, 'b) step" where
  "sbind m f w = (case m w of (Inl e, w') \<Rightarrow> (Inl e, w') | (Inr x, w') \<Rightarrow> f x w')"

definition lift :: "('e, 'a) result \<Rightarrow> ('s, 'e, 'a) step" where
  "lift r w = (r, w)"

subsection \<open>The worker\<close>

definition DEADLINE_TEXT :: string where
  "DEADLINE_TEXT = ''layout request exceeded its whole-request deadline''"

definition OUTPUT_TEXT :: string where
  "OUTPUT_TEXT = ''Graphviz layout output exceeded its size cap''"

definition worker_payload :: "string \<Rightarrow> string \<Rightarrow> string list \<Rightarrow> bytes" where
  "worker_payload dot eng ids =
     utf8 (dumps \<lparr>ensure_ascii = True, item_sep = '','', key_sep = '':''\<rparr>
       (JObj [(''dot'', JStr dot), (''engine'', JStr eng), (''node_ids'', JList (map JStr ids))]))"

text \<open>What the files of a finished worker are read as; 25 is \<open>SIGXFSZ\<close>.\<close>

definition worker_result ::
  "'w layout_env \<Rightarrow> layout_settings \<Rightarrow> string list \<Rightarrow> int \<Rightarrow> bytes \<Rightarrow> bytes
   \<Rightarrow> (layout_error, (string \<times> pyfloat \<times> pyfloat) list) result" where
  "worker_result env cfg ids returncode out err =
     (let limit = output_bytes cfg; out_size = int (length out); err_size = int (length err)
      in if returncode = - 25 \<or> limit < out_size
            \<or> returncode \<noteq> 0 \<and> (limit \<le> out_size \<or> limit \<le> err_size)
         then Inl (Execution_Error OUTPUT_TEXT)
         else if returncode \<noteq> 0
         then Inl (Execution_Error (''Graphviz layout failed: '' @ take 1000 (decode_text env (take 1001 err))))
         else case read_positions env out of
                None \<Rightarrow> Inl (Execution_Error ''Graphviz worker returned invalid JSON'')
              | Some raw \<Rightarrow>
                  if sort (map fst raw) \<noteq> sort ids
                  then Inl (Execution_Error ''Graphviz worker returned an incomplete position set'')
                  else Inr raw)"

definition execute_worker ::
  "'w layout_env \<Rightarrow> layout_settings \<Rightarrow> string \<Rightarrow> string \<Rightarrow> string list \<Rightarrow> pyfloat option
   \<Rightarrow> ('w layout_world, layout_error, (string \<times> pyfloat \<times> pyfloat) list) step" where
  "execute_worker env cfg dot eng ids timeout w =
     (case spawn_worker env (outside w) of (started, v) \<Rightarrow>
        if \<not> started then (Inl Os_Error, w\<lparr>outside := v\<rparr>)
        else let configured = fmin (subprocess_timeout cfg) LAYOUT_GRAPHVIZ_MAX_SECONDS;
                 limit = (case timeout of None \<Rightarrow> configured | Some t \<Rightarrow> fmin configured t)
             in if fle limit (Fin 0)
                then (Inl (Execution_Timeout DEADLINE_TEXT), w\<lparr>outside := kill_worker env v\<rparr>)
                else case communicate env (worker_payload dot eng ids) limit v of
                       (Timed_Out, v') \<Rightarrow>
                         (Inl (Execution_Timeout ''Graphviz layout exceeded its deadline''),
                          w\<lparr>outside := kill_worker env v'\<rparr>)
                     | (Exited returncode out err, v') \<Rightarrow>
                         (worker_result env cfg ids returncode out err, w\<lparr>outside := v'\<rparr>))"

subsection \<open>\<open>compute_layout\<close>\<close>

definition remaining_budget ::
  "'w layout_env \<Rightarrow> pyfloat \<Rightarrow> ('w layout_world, layout_error, pyfloat) step" where
  "remaining_budget env deadline w =
     (case now_of env w of (t, w') \<Rightarrow>
        let remaining = fsub deadline t
        in (if fle remaining (Fin 0) then Inl (Execution_Timeout DEADLINE_TEXT) else Inr remaining, w'))"

definition enforce_response_budget :: "bytes \<Rightarrow> (layout_error, bytes) result" where
  "enforce_response_budget encoded =
     (if MAX_LAYOUT_RESPONSE_BYTES < length encoded
      then Inl (Response_Too_Large (''layout response exceeds '' @ dec_nat MAX_LAYOUT_RESPONSE_BYTES @ '' bytes''))
      else Inr encoded)"

definition position_json :: "string \<times> pyfloat \<times> pyfloat \<Rightarrow> json" where
  "position_json p =
     (case p of (i, x, y) \<Rightarrow> JObj [(''id'', JStr i), (''x_px'', JFloat x), (''y_px'', JFloat y)])"

definition encode_response :: "string \<Rightarrow> layout_plan \<Rightarrow> (string \<times> pyfloat \<times> pyfloat) list \<Rightarrow> bytes" where
  "encode_response version p raw =
     utf8 (canonical_json (JObj
       [(''contract'', JStr ''theorem.layout.v1''),
        (''positions'', JList (map position_json (sort_key fst raw))),
        (''engine'', JStr (pl_engine p)), (''graphviz_version'', JStr version),
        (''policy_id'', JStr (class_name (pl_class p))),
        (''input_digest'', JStr (SHA256_PREFIX @ pl_digest p))]))"

definition run_layout ::
  "'w layout_env \<Rightarrow> layout_settings \<Rightarrow> string \<Rightarrow> string list \<Rightarrow> pyfloat \<Rightarrow> layout_plan
   \<Rightarrow> ('w layout_world, layout_error, bytes) step" where
  "run_layout env cfg tenant ids deadline p =
     sbind (remaining_budget env deadline) (\<lambda>remaining.
     sbind (execute_worker env cfg (pl_dot p) (pl_engine p) (sort ids)
              (Some (fmin LAYOUT_GRAPHVIZ_MAX_SECONDS remaining))) (\<lambda>raw.
     sbind (remaining_budget env deadline) (\<lambda>_.
     sbind (lift (enforce_response_budget (encode_response (gv_version env) p raw))) (\<lambda>encoded.
     sbind (remaining_budget env deadline) (\<lambda>_ w.
       sbind (remaining_budget env deadline) (\<lambda>_. lift (Inr encoded))
         (set_cached_response env cfg tenant (pl_digest p) encoded (Some deadline) w))))))"

definition serve_plan ::
  "'w layout_env \<Rightarrow> layout_settings \<Rightarrow> string \<Rightarrow> string list \<Rightarrow> pyfloat \<Rightarrow> layout_plan
   \<Rightarrow> ('w layout_world, layout_error, bytes) step" where
  "serve_plan env cfg tenant ids deadline p =
     sbind (remaining_budget env deadline) (\<lambda>_ w.
       case get_cached_response env cfg tenant (pl_digest p) (Some deadline) w of (found, w1) \<Rightarrow>
         sbind (remaining_budget env deadline) (\<lambda>_.
           case found of Some b \<Rightarrow> lift (enforce_response_budget b)
                       | None \<Rightarrow> run_layout env cfg tenant ids deadline p) w1)"

definition start_deadline ::
  "'w layout_env \<Rightarrow> pyfloat option \<Rightarrow> ('w layout_world, layout_error, pyfloat) step" where
  "start_deadline env deadline w =
     (case deadline of Some d \<Rightarrow> (Inr d, w)
      | None \<Rightarrow> (case now_of env w of (t, w') \<Rightarrow> (Inr (fadd t LAYOUT_REQUEST_TIMEOUT_SECONDS), w')))"

definition compute_layout ::
  "'w layout_env \<Rightarrow> layout_settings \<Rightarrow> layout_request \<Rightarrow> string \<Rightarrow> pyfloat option
   \<Rightarrow> ('w layout_world, layout_error, bytes) step" where
  "compute_layout env cfg r tenant deadline =
     sbind (start_deadline env deadline) (\<lambda>d.
     sbind (remaining_budget env d) (\<lambda>_.
     sbind (lift (plan_layout (gv_version env) r)) (\<lambda>p.
       serve_plan env cfg tenant (map ln_id (lr_nodes r)) d p)))"

subsection \<open>The endpoint\<close>

definition LAYOUT_COMPUTE_SCOPE :: string where "LAYOUT_COMPUTE_SCOPE = ''layout:compute''"

text \<open>The \<open>except\<close> clauses; a \<open>KeyError\<close> has none and is the server error of the framework.\<close>

definition layout_http :: "layout_error \<Rightarrow> http_error" where
  "layout_http e =
     (case e of
        Value_Error m \<Rightarrow> HttpError 422 m
      | Execution_Timeout m \<Rightarrow> HttpError 504 m
      | Response_Too_Large m \<Rightarrow> HttpError 503 m
      | Execution_Error _ \<Rightarrow> HttpError 503 ''layout engine unavailable''
      | Os_Error \<Rightarrow> HttpError 503 ''layout engine unavailable''
      | Key_Error m \<Rightarrow> HttpError 500 m)"

definition layout_compute ::
  "(string \<Rightarrow> string \<Rightarrow> bool) \<Rightarrow> time \<Rightarrow> tenant list \<Rightarrow> api_key list \<Rightarrow> string
   \<Rightarrow> 'w layout_env \<Rightarrow> layout_settings \<Rightarrow> layout_request \<Rightarrow> pyfloat option
   \<Rightarrow> ('w layout_world, http_error, bytes) step" where
  "layout_compute verify now tenants keys authorization env cfg r deadline w =
     (case require_machine_key verify now tenants keys authorization LAYOUT_COMPUTE_SCOPE of
        Inl e \<Rightarrow> (Inl e, w)
      | Inr p \<Rightarrow>
          (case compute_layout env cfg r (tenant_slug (p_tenant p)) deadline w of
             (res, w') \<Rightarrow> (map_err layout_http res, w')))"

subsection \<open>The wire budget\<close>

record wire_request =
  wr_method :: string
  wr_path :: string
  wr_content_length :: "string option"

datatype 'r wire_reply = Detail nat string | Reply nat 'r

definition reply_status :: "'r wire_reply \<Rightarrow> nat" where
  "reply_status r = (case r of Detail n _ \<Rightarrow> n | Reply n _ \<Rightarrow> n)"

definition request_too_large :: "'r wire_reply" where
  "request_too_large =
     Detail 413 (''layout request exceeds '' @ dec_nat MAX_LAYOUT_REQUEST_BYTES @ '' bytes'')"

definition request_timed_out :: "'r wire_reply" where
  "request_timed_out = Detail 504 DEADLINE_TEXT"

text \<open>The declared length: absent, refused, or a number within the budget.\<close>

definition declared_length :: "string option \<Rightarrow> int option option" where
  "declared_length v =
     (case v of None \<Rightarrow> Some None
      | Some s \<Rightarrow>
          if s = [] then Some None
          else case py_int s of None \<Rightarrow> None
               | Some n \<Rightarrow> if n < 0 \<or> int MAX_LAYOUT_REQUEST_BYTES < n then None else Some (Some n))"

text \<open>\<open>inner\<close> is the rest of the application; it gets the deadline and the body that were read, or the
  request as it came. \<open>read_body\<close> reads at most that many bytes of the stream.\<close>

definition layout_middleware ::
  "('w \<Rightarrow> pyfloat \<times> 'w) \<Rightarrow> (nat \<Rightarrow> 'w \<Rightarrow> (unit, bytes) result \<times> 'w)
   \<Rightarrow> ((pyfloat \<times> bytes) option \<Rightarrow> 'w \<Rightarrow> 'r wire_reply \<times> 'w) \<Rightarrow> wire_request \<Rightarrow> 'w
   \<Rightarrow> 'r wire_reply \<times> 'w" where
  "layout_middleware monotonic read_body inner q w =
     (if wr_method q \<noteq> ''POST'' \<or> wr_path q \<noteq> LAYOUT_COMPUTE_PATH then inner None w
      else case monotonic w of (t0, w0) \<Rightarrow>
        let deadline = fadd t0 LAYOUT_REQUEST_TIMEOUT_SECONDS
        in case declared_length (wr_content_length q) of
             None \<Rightarrow> (request_too_large, w0)
           | Some declared \<Rightarrow>
               (case read_body (MAX_LAYOUT_REQUEST_BYTES + 1) w0 of
                  (Inl _, w1) \<Rightarrow> (Detail 400 ''layout request body could not be read'', w1)
                | (Inr body, w1) \<Rightarrow>
                    (case monotonic w1 of (t1, w2) \<Rightarrow>
                       if fle deadline t1 then (request_timed_out, w2)
                       else if MAX_LAYOUT_REQUEST_BYTES < length body then (request_too_large, w2)
                       else if (case declared of None \<Rightarrow> False | Some n \<Rightarrow> n \<noteq> int (length body))
                       then (Detail 400 ''layout request Content-Length does not match its body'', w2)
                       else (case inner (Some (deadline, body)) w2 of (response, w3) \<Rightarrow>
                               case monotonic w3 of (t3, w4) \<Rightarrow>
                                 if fle deadline t3 \<and> reply_status response \<noteq> 504
                                 then (request_timed_out, w4) else (response, w4)))))"

end
