(* ===== verification/Layout_Cycle.thy ===== *)
theory Layout_Cycle
  imports Layout_Service
begin

section \<open>Layout responses over time\<close>

text \<open>
  What the layout service guarantees over a sequence of requests. \<open>keeps\<close> is a small logic for the steps of
  \<open>compute_layout\<close>: an invariant of the world and a fact about the answer. \<open>layout_answers_own\<close> rests on
  the contract of the cache: an answer is a response computed for a request of the same tenant.
  \<open>layout_replay\<close>: while the clock is within its bounds, a repeated request gets the same bytes without
  Graphviz. \<open>wire_budget\<close>: what the middleware lets through.
\<close>

subsection \<open>Steps that keep an invariant\<close>

definition keeps :: "('s \<Rightarrow> bool) \<Rightarrow> ('s, 'e, 'a) step \<Rightarrow> ('a \<Rightarrow> bool) \<Rightarrow> bool" where
  "keeps I m A \<longleftrightarrow> (\<forall>w. I w \<longrightarrow> I (snd (m w)) \<and> (\<forall>x. fst (m w) = Inr x \<longrightarrow> A x))"

lemma keepsI:
  "(\<And>w r w'. I w \<Longrightarrow> m w = (r, w') \<Longrightarrow> I w' \<and> (\<forall>x. r = Inr x \<longrightarrow> A x)) \<Longrightarrow> keeps I m A"
  unfolding keeps_def by (metis prod.collapse)

lemma keepsD: "keeps I m A \<Longrightarrow> I w \<Longrightarrow> m w = (r, w') \<Longrightarrow> I w' \<and> (\<forall>x. r = Inr x \<longrightarrow> A x)"
  unfolding keeps_def by (metis fst_conv snd_conv)

lemma keeps_lift: "(\<And>x. r = Inr x \<Longrightarrow> A x) \<Longrightarrow> keeps I (lift r) A"
  by (simp add: keeps_def lift_def)

lemma keeps_bind:
  assumes m: "keeps I m A" and f: "\<And>x. A x \<Longrightarrow> keeps I (f x) B"
  shows "keeps I (sbind m f) B"
proof (rule keepsI)
  fix w r w' assume w: "I w" and b: "sbind m f w = (r, w')"
  obtain r1 w1 where m1: "m w = (r1, w1)" by fastforce
  have i1: "I w1" "\<And>x. r1 = Inr x \<Longrightarrow> A x" using keepsD [OF m w m1] by auto
  show "I w' \<and> (\<forall>x. r = Inr x \<longrightarrow> B x)"
  proof (cases r1)
    case (Inl e)
    with b m1 i1 show ?thesis by (auto simp: sbind_def)
  next
    case (Inr x)
    with b m1 have "f x w1 = (r, w')" by (simp add: sbind_def)
    then show ?thesis using keepsD [OF f [OF i1(2) [OF Inr]] i1(1)] by blast
  qed
qed

lemma keeps_read:
  assumes "\<And>w x w1. I w \<Longrightarrow> g w = (x, w1) \<Longrightarrow> I w1 \<and> C x" and "\<And>x. C x \<Longrightarrow> keeps I (h x) B"
  shows "keeps I (\<lambda>w. case g w of (x, w1) \<Rightarrow> h x w1) B"
proof (rule keepsI)
  fix w r w' assume w: "I w" and b: "(case g w of (x, w1) \<Rightarrow> h x w1) = (r, w')"
  obtain x w1 where g: "g w = (x, w1)" by fastforce
  have "I w1 \<and> C x" by (rule assms(1) [OF w g])
  moreover have "h x w1 = (r, w')" using b g by simp
  ultimately show "I w' \<and> (\<forall>x. r = Inr x \<longrightarrow> B x)" using keepsD [OF assms(2)] by blast
qed

lemma keeps_then:
  assumes "\<And>w. I w \<Longrightarrow> I (g w)" and "keeps I m B"
  shows "keeps I (\<lambda>w. m (g w)) B"
  using assms unfolding keeps_def by blast

subsection \<open>What the caches hold\<close>

text \<open>A cached response was encoded for a request of the history, under the key of its tenant and digest,
  from positions of exactly its nodes, and fits the response budget.\<close>

definition stored_for ::
  "string \<Rightarrow> (string \<times> layout_request) set \<Rightarrow> string \<Rightarrow> bytes \<Rightarrow> bool" where
  "stored_for version H key b \<longleftrightarrow>
     (\<exists>t r p raw. (t, r) \<in> H \<and> plan_layout version r = Inr p \<and> key = cache_key t (pl_digest p)
        \<and> b = encode_response version p raw
        \<and> sort (map fst raw) = sort (map ln_id (lr_nodes r)) \<and> length b \<le> MAX_LAYOUT_RESPONSE_BYTES)"

lemma stored_for_mono: "stored_for version H k b \<Longrightarrow> H \<subseteq> H' \<Longrightarrow> stored_for version H' k b"
  unfolding stored_for_def by blast

definition cache_ok ::
  "layout_settings \<Rightarrow> ('w \<Rightarrow> (string \<times> bytes) set) \<Rightarrow> (string \<Rightarrow> bytes \<Rightarrow> bool) \<Rightarrow> 'w layout_world \<Rightarrow> bool" where
  "cache_ok cfg contents Q w \<longleftrightarrow> (\<forall>(k, b) \<in> cached contents w. Q k b) \<and> memory_ok cfg (memory w)"

lemma cache_ok_quiet:
  assumes "cache_ok cfg contents Q w" and q: "quiet contents w w'"
  shows "cache_ok cfg contents Q w'"
proof -
  have "memory w' = memory w" using q by (simp add: quiet_def)
  then show ?thesis using assms(1) quiet_cached [OF q] unfolding cache_ok_def by auto
qed

lemma cache_ok_get:
  assumes law: "valkey_law env contents" and ok: "cache_ok cfg contents Q w"
    and g: "get_cached_response env cfg tenant digest deadline w = (r, w')"
  shows "cache_ok cfg contents Q w' \<and> (\<forall>v. r = Some v \<longrightarrow> Q (cache_key tenant digest) v)"
proof -
  note c = response_cache.all_held_def [OF whole_cache [OF law, of cfg deadline]]
  have g': "cached_response env cfg deadline (cache_key tenant digest) w = (r, w')"
    using g by (simp add: get_cached_response_def)
  have held: "response_cache.all_held (cached contents) Q w"
    using ok by (simp add: c cache_ok_def)
  have "response_cache.all_held (cached contents) Q w'"
    by (rule response_cache.all_held_get [OF whole_cache [OF law] held g'])
  moreover have "Q (cache_key tenant digest) v" if "r = Some v" for v
    using response_cache.all_held_got [OF whole_cache [OF law] held g' [unfolded that]] .
  moreover have "memory_ok cfg (memory w')"
    using cached_response_effect(2) [OF law g'] ok memory_ok_read unfolding cache_ok_def by metis
  ultimately show ?thesis by (simp add: c cache_ok_def)
qed

lemma cache_ok_set:
  assumes law: "valkey_law env contents" and ok: "cache_ok cfg contents Q w"
    and q: "Q (cache_key tenant digest) b"
  shows "cache_ok cfg contents Q (set_cached_response env cfg tenant digest b deadline w)"
proof -
  let ?w' = "store_response env cfg deadline (cache_key tenant digest) b w"
  note c = response_cache.all_held_def [OF whole_cache [OF law, of cfg deadline]]
  have held: "response_cache.all_held (cached contents) Q w"
    using ok by (simp add: c cache_ok_def)
  have "response_cache.all_held (cached contents) Q ?w'"
    by (rule response_cache.all_held_put [OF whole_cache [OF law] held q])
  moreover have "memory_ok cfg (memory ?w')"
    using store_response_effect(2) [OF law, of cfg deadline "cache_key tenant digest" b w] ok memory_ok_write
    unfolding cache_ok_def by metis
  ultimately show ?thesis by (simp add: c cache_ok_def set_cached_response_def)
qed

lemma budget_keeps:
  assumes law: "valkey_law env contents"
  shows "keeps (cache_ok cfg contents Q) (remaining_budget env d) (\<lambda>_. True)"
proof (rule keepsI)
  fix w r w' assume ok: "cache_ok cfg contents Q w" and b: "remaining_budget env d w = (r, w')"
  then obtain t where "now_of env w = (t, w')"
    by (auto simp: remaining_budget_def Let_def split: prod.splits)
  then show "cache_ok cfg contents Q w' \<and> (\<forall>x. r = Inr x \<longrightarrow> True)"
    using cache_ok_quiet [OF ok now_quiet [OF law]] by blast
qed

lemma worker_result_ids: "worker_result env cfg ids rc out err = Inr raw \<Longrightarrow> sort (map fst raw) = sort ids"
  by (auto simp: worker_result_def Let_def split: if_splits option.splits)

lemma worker_keeps:
  assumes law: "valkey_law env contents"
  shows "keeps (cache_ok cfg contents Q) (execute_worker env cfg dot eng ids timeout)
    (\<lambda>raw. sort (map fst raw) = sort ids)"
proof (rule keepsI)
  fix w r w' assume ok: "cache_ok cfg contents Q w" and x: "execute_worker env cfg dot eng ids timeout w = (r, w')"
  obtain started v where s: "spawn_worker env (outside w) = (started, v)" by fastforce
  have v: "contents v \<subseteq> contents (outside w)" by (rule valkey_lawD(7) [OF law s])
  have k: "contents (kill_worker env u) \<subseteq> contents u" for u by (rule valkey_lawD(8) [OF law])
  have c: "contents u \<subseteq> contents v" if "communicate env p t v = (e, u)" for p t e u
    by (rule valkey_lawD(9) [OF law that])
  have "contents (outside w') \<subseteq> contents (outside w) \<and> memory w' = memory w
    \<and> (\<forall>raw. r = Inr raw \<longrightarrow> (\<exists>rc out err. worker_result env cfg ids rc out err = Inr raw))"
    using x v c k by (auto simp: execute_worker_def s Let_def split: if_splits prod.splits worker_end.splits)
      (meson subset_iff)+
  then show "cache_ok cfg contents Q w' \<and> (\<forall>raw. r = Inr raw \<longrightarrow> sort (map fst raw) = sort ids)"
    using cache_ok_quiet [OF ok, of w'] worker_result_ids unfolding quiet_def by blast
qed

lemma run_layout_keeps:
  assumes law: "valkey_law env contents" and h: "(t, r) \<in> H" and p: "plan_layout (gv_version env) r = Inr p"
  shows "keeps (cache_ok cfg contents (stored_for (gv_version env) H))
    (run_layout env cfg t (map ln_id (lr_nodes r)) d p)
    (stored_for (gv_version env) H (cache_key t (pl_digest p)))"
  unfolding run_layout_def
proof (rule keeps_bind [OF budget_keeps [OF law]], rule keeps_bind [OF worker_keeps [OF law]],
    rule keeps_bind [OF budget_keeps [OF law]])
  fix raw :: "(string \<times> pyfloat \<times> pyfloat) list"
  let ?v = "gv_version env" and ?k = "cache_key t (pl_digest p)"
  assume raw: "sort (map fst raw) = sort (sort (map ln_id (lr_nodes r)))"
  show "keeps (cache_ok cfg contents (stored_for ?v H))
     (sbind (lift (enforce_response_budget (encode_response ?v p raw))) (\<lambda>encoded.
        sbind (remaining_budget env d) (\<lambda>_ w.
          sbind (remaining_budget env d) (\<lambda>_. lift (Inr encoded))
            (set_cached_response env cfg t (pl_digest p) encoded (Some d) w))))
     (stored_for ?v H ?k)"
  proof (rule keeps_bind [OF keeps_lift])
    fix b assume "enforce_response_budget (encode_response ?v p raw) = Inr b"
    then show "stored_for ?v H ?k b"
      using h p raw unfolding stored_for_def
      by (intro exI [of _ t] exI [of _ r] exI [of _ p] exI [of _ raw])
         (simp add: enforce_response_budget_def sorted_sort_id split: if_splits)
  next
    fix b assume b: "stored_for ?v H ?k b"
    show "keeps (cache_ok cfg contents (stored_for ?v H))
      (sbind (remaining_budget env d) (\<lambda>_ w. sbind (remaining_budget env d) (\<lambda>_. lift (Inr b))
         (set_cached_response env cfg t (pl_digest p) b (Some d) w))) (stored_for ?v H ?k)"
    proof (rule keeps_bind [OF budget_keeps [OF law]], rule keeps_then)
      show "cache_ok cfg contents (stored_for ?v H) (set_cached_response env cfg t (pl_digest p) b (Some d) w)"
        if "cache_ok cfg contents (stored_for ?v H) w" for w
        by (rule cache_ok_set [OF law that b])
      show "keeps (cache_ok cfg contents (stored_for ?v H)) (sbind (remaining_budget env d) (\<lambda>_. lift (Inr b)))
        (stored_for ?v H ?k)"
        by (rule keeps_bind [OF budget_keeps [OF law] keeps_lift]) (simp add: b)
    qed
  qed
qed

lemma compute_layout_keeps:
  assumes law: "valkey_law env contents" and h: "(t, r) \<in> H"
  shows "keeps (cache_ok cfg contents (stored_for (gv_version env) H)) (compute_layout env cfg r t deadline)
    (\<lambda>b. \<exists>p. plan_layout (gv_version env) r = Inr p \<and> stored_for (gv_version env) H (cache_key t (pl_digest p)) b)"
  unfolding compute_layout_def
proof (rule keeps_bind)
  let ?v = "gv_version env"
  let ?I = "cache_ok cfg contents (stored_for ?v H)"
  show "keeps ?I (start_deadline env deadline) (\<lambda>_. True)"
    by (rule keepsI) (auto simp: start_deadline_def split: option.splits prod.splits
        intro: cache_ok_quiet dest: now_quiet [OF law])
  fix d
  show "keeps ?I (sbind (remaining_budget env d) (\<lambda>_. sbind (lift (plan_layout ?v r)) (\<lambda>p.
      serve_plan env cfg t (map ln_id (lr_nodes r)) d p)))
    (\<lambda>b. \<exists>p. plan_layout ?v r = Inr p \<and> stored_for ?v H (cache_key t (pl_digest p)) b)"
  proof (rule keeps_bind [OF budget_keeps [OF law]],
      rule keeps_bind [OF keeps_lift [where A = "\<lambda>p. plan_layout ?v r = Inr p"]], assumption)
    fix p assume p: "plan_layout ?v r = Inr p"
    let ?S = "stored_for ?v H (cache_key t (pl_digest p))"
    have "keeps ?I (serve_plan env cfg t (map ln_id (lr_nodes r)) d p) ?S"
      unfolding serve_plan_def
    proof (rule keeps_bind [OF budget_keeps [OF law]],
        rule keeps_read [where C = "\<lambda>found. \<forall>b. found = Some b \<longrightarrow> ?S b"])
      show "?I w1 \<and> (\<forall>b. found = Some b \<longrightarrow> ?S b)"
        if "?I w" "get_cached_response env cfg t (pl_digest p) (Some d) w = (found, w1)" for w found w1
        by (rule cache_ok_get [OF law that])
      fix found assume f: "\<forall>b. found = Some b \<longrightarrow> ?S b"
      show "keeps ?I (sbind (remaining_budget env d) (\<lambda>_. case found of Some b \<Rightarrow> lift (enforce_response_budget b)
          | None \<Rightarrow> run_layout env cfg t (map ln_id (lr_nodes r)) d p)) ?S"
      proof (rule keeps_bind [OF budget_keeps [OF law]], cases found)
        case None
        then show "keeps ?I (case found of Some b \<Rightarrow> lift (enforce_response_budget b)
          | None \<Rightarrow> run_layout env cfg t (map ln_id (lr_nodes r)) d p) ?S"
          using run_layout_keeps [OF law h p] by simp
      next
        case (Some b)
        have "keeps ?I (lift (enforce_response_budget b)) ?S"
          by (rule keeps_lift) (use f Some in \<open>simp add: enforce_response_budget_def split: if_splits\<close>)
        then show "keeps ?I (case found of Some b \<Rightarrow> lift (enforce_response_budget b)
          | None \<Rightarrow> run_layout env cfg t (map ln_id (lr_nodes r)) d p) ?S"
          using Some by simp
      qed
    qed
    then show "keeps ?I (serve_plan env cfg t (map ln_id (lr_nodes r)) d p)
      (\<lambda>b. \<exists>p. plan_layout ?v r = Inr p \<and> stored_for ?v H (cache_key t (pl_digest p)) b)"
      unfolding keeps_def using p by blast
  qed
qed

subsection \<open>A sequence of requests\<close>

type_synonym layout_call = "string \<times> layout_request \<times> pyfloat option"

fun serve_all ::
  "'w layout_env \<Rightarrow> layout_settings \<Rightarrow> layout_call list \<Rightarrow> 'w layout_world
   \<Rightarrow> (layout_error, bytes) result list \<times> 'w layout_world" where
  "serve_all env cfg [] w = ([], w)"
| "serve_all env cfg ((t, r, d) # calls) w =
     (case compute_layout env cfg r t d w of (res, w1) \<Rightarrow>
      case serve_all env cfg calls w1 of (rs, w2) \<Rightarrow> (res # rs, w2))"

definition asked :: "layout_call list \<Rightarrow> (string \<times> layout_request) set" where
  "asked calls = (\<lambda>(t, r, _). (t, r)) ` set calls"

lemma cache_ok_mono:
  "cache_ok cfg contents Q w \<Longrightarrow> (\<And>k b. Q k b \<Longrightarrow> Q' k b) \<Longrightarrow> cache_ok cfg contents Q' w"
  unfolding cache_ok_def by auto

lemma serve_all_answers:
  assumes law: "valkey_law env contents"
    and "cache_ok cfg contents (stored_for (gv_version env) H) w"
    and "serve_all env cfg calls w = (results, w')"
  shows "length results = length calls \<and> memory_ok cfg (memory w')
    \<and> (\<forall>i t r d b. i < length calls \<longrightarrow> calls ! i = (t, r, d) \<longrightarrow> results ! i = Inr b \<longrightarrow>
        (\<exists>p. plan_layout (gv_version env) r = Inr p \<and>
             stored_for (gv_version env) (H \<union> asked (take (Suc i) calls)) (cache_key t (pl_digest p)) b))"
  using assms(2,3)
proof (induction calls arbitrary: H w results w')
  case Nil
  then show ?case by (simp add: cache_ok_def)
next
  case (Cons call calls)
  obtain t r d where call: "call = (t, r, d)" by (cases call)
  obtain res w1 where c: "compute_layout env cfg r t d w = (res, w1)" by fastforce
  obtain rs w2 where rest: "serve_all env cfg calls w1 = (rs, w2)" by fastforce
  have out: "results = res # rs" "w' = w2"
    using Cons.prems(2) by (simp_all add: call c rest)
  let ?v = "gv_version env" and ?H = "insert (t, r) H"
  have ok: "cache_ok cfg contents (stored_for ?v ?H) w"
    by (rule cache_ok_mono [OF Cons.prems(1)]) (erule stored_for_mono, blast)
  have one: "cache_ok cfg contents (stored_for ?v ?H) w1"
    and ans: "\<And>b. res = Inr b \<Longrightarrow> \<exists>p. plan_layout ?v r = Inr p \<and> stored_for ?v ?H (cache_key t (pl_digest p)) b"
    using keepsD [OF compute_layout_keeps [OF law, of t r ?H] ok c] by simp_all
  note IH = Cons.IH [OF one rest]
  have tail: "?H \<union> asked (take (Suc i) calls) = H \<union> asked (take (Suc (Suc i)) (call # calls))" for i
    by (auto simp: asked_def call)
  have head: "?H = H \<union> asked (take (Suc 0) (call # calls))"
    by (auto simp: asked_def call)
  have "\<exists>p. plan_layout ?v r' = Inr p \<and>
      stored_for ?v (H \<union> asked (take (Suc i) (call # calls))) (cache_key t' (pl_digest p)) b"
    if i: "i < length (call # calls)" "(call # calls) ! i = (t', r', d')" "results ! i = Inr b" for i t' r' d' b
  proof (cases i)
    case 0
    with i have "t' = t" "r' = r" "res = Inr b" by (simp_all add: call out)
    then show ?thesis using ans [of b] unfolding head 0 by simp
  next
    case (Suc j)
    with i have "j < length calls" "calls ! j = (t', r', d')" "rs ! j = Inr b" by (simp_all add: out)
    then show ?thesis using IH unfolding Suc tail [symmetric] by blast
  qed
  with IH show ?case by (simp add: out)
qed

lemma cache_key_inj:
  assumes "cache_key t a = cache_key u b" and "length a = length b"
  shows "t = u \<and> a = b"
proof -
  have "t @ '':layout:'' @ a = u @ '':layout:'' @ b"
    using assms(1) by (simp add: cache_key_def)
  then have "(t @ '':layout:'') @ a = (u @ '':layout:'') @ b" by simp
  then have "t @ '':layout:'' = u @ '':layout:'' \<and> a = b"
    using append_eq_append_conv [of "t @ '':layout:''" "u @ '':layout:''" a b] assms(2) by blast
  then show ?thesis by simp
qed

lemma plan_digest_length: "plan_layout version r = Inr p \<Longrightarrow> length (pl_digest p) = 64"
  by (auto simp: plan_layout_def digest_input_def result_simps Let_def split: prod.splits)

text \<open>C35. Responses are never served across tenants: started on empty caches, whatever the clock, the
  locks, the worker and Valkey do, every answer is the encoding of positions of exactly the nodes of a request
  that the same tenant made, now or before, with the same input digest; it is within the response budget, and
  the memory of the process is a dict within its limit.\<close>

theorem layout_answers_own:
  assumes law: "valkey_law env contents" and cold: "memory w = []" "contents (outside w) = {}"
    and run: "serve_all env cfg calls w = (results, w')"
  shows "memory_ok cfg (memory w') \<and>
    (\<forall>i t r d b. i < length calls \<longrightarrow> calls ! i = (t, r, d) \<longrightarrow> results ! i = Inr b \<longrightarrow>
      length b \<le> MAX_LAYOUT_RESPONSE_BYTES \<and>
      (\<exists>p r' p' raw. plan_layout (gv_version env) r = Inr p
         \<and> (t, r') \<in> asked (take (Suc i) calls) \<and> plan_layout (gv_version env) r' = Inr p'
         \<and> pl_digest p' = pl_digest p \<and> sort (map fst raw) = sort (map ln_id (lr_nodes r'))
         \<and> b = encode_response (gv_version env) p' raw))"
proof -
  let ?v = "gv_version env"
  have "cache_ok cfg contents (stored_for ?v {}) w"
    using cold by (simp add: cache_ok_def cached_def stored_in_def memory_ok_def)
  note all = serve_all_answers [OF law this run, unfolded Un_empty_left]
  have "length b \<le> MAX_LAYOUT_RESPONSE_BYTES \<and>
      (\<exists>p r' p' raw. plan_layout ?v r = Inr p
         \<and> (t, r') \<in> asked (take (Suc i) calls) \<and> plan_layout ?v r' = Inr p'
         \<and> pl_digest p' = pl_digest p \<and> sort (map fst raw) = sort (map ln_id (lr_nodes r'))
         \<and> b = encode_response ?v p' raw)"
    if i: "i < length calls" "calls ! i = (t, r, d)" "results ! i = Inr b" for i t r d b
  proof -
    obtain p t' r' p' raw where p: "plan_layout ?v r = Inr p" and h: "(t', r') \<in> asked (take (Suc i) calls)"
        and p': "plan_layout ?v r' = Inr p'" and k: "cache_key t (pl_digest p) = cache_key t' (pl_digest p')"
        and b: "b = encode_response ?v p' raw" "sort (map fst raw) = sort (map ln_id (lr_nodes r'))"
          "length b \<le> MAX_LAYOUT_RESPONSE_BYTES"
      using all i unfolding stored_for_def by blast
    have "t = t' \<and> pl_digest p = pl_digest p'"
      by (rule cache_key_inj [OF k]) (simp only: plan_digest_length [OF p] plan_digest_length [OF p'])
    then have "(t, r') \<in> asked (take (Suc i) calls)" and "pl_digest p' = pl_digest p"
      using h by simp_all
    then show ?thesis
      by (intro conjI exI) (rule b p p' | assumption)+
  qed
  moreover have "memory_ok cfg (memory w')"
    using all by blast
  ultimately show ?thesis by blast
qed

subsection \<open>A repeated request\<close>

text \<open>No Valkey, a lock that is free, and a clock whose readings are in \<open>T\<close>, early enough to store.\<close>

definition calm_layout :: "'w layout_env \<Rightarrow> layout_settings \<Rightarrow> pyfloat set \<Rightarrow> pyfloat \<Rightarrow> bool" where
  "calm_layout env cfg T d \<longleftrightarrow>
     valkey_url cfg = [] \<and> (\<forall>v. fst (clock_now env v) \<in> T) \<and> (\<forall>t v. fst (take_lock env t v))
     \<and> (\<forall>t \<in> T. \<not> fle (fsub d t) (Fin 0) \<and> \<not> flt (fsub d t) LAYOUT_CACHE_MIN_WRITE_BUDGET_SECONDS)"

lemma sbind_InrE:
  assumes "sbind m f w = (Inr y, w')"
  obtains x w1 where "m w = (Inr x, w1)" "f x w1 = (Inr y, w')"
  using assms by (auto simp: sbind_def split: prod.splits sum.splits)

lemma calm_now:
  assumes "calm_layout env cfg T d"
  obtains t w' where "now_of env w = (t, w')" "t \<in> T" "memory w' = memory w"
proof -
  obtain t v where "clock_now env (outside w) = (t, v)" by fastforce
  moreover from this have "t \<in> T" using assms unfolding calm_layout_def by (metis fst_conv)
  ultimately show thesis using that by (simp add: now_of_def)
qed

lemma calm_budget:
  assumes "calm_layout env cfg T d"
  obtains x w' where "remaining_budget env d w = (Inr x, w')" "memory w' = memory w"
proof -
  obtain t w' where "now_of env w = (t, w')" "t \<in> T" "memory w' = memory w"
    using calm_now [OF assms] .
  moreover have "\<not> fle (fsub d t) (Fin 0)"
    using assms \<open>t \<in> T\<close> unfolding calm_layout_def by blast
  ultimately show thesis using that by (simp add: remaining_budget_def)
qed

lemma budget_memory: "remaining_budget env d w = (r, w') \<Longrightarrow> memory w' = memory w"
  by (auto simp: remaining_budget_def now_of_def Let_def split: prod.splits)

lemma worker_memory: "execute_worker env cfg dot eng ids timeout w = (r, w') \<Longrightarrow> memory w' = memory w"
  by (auto simp: execute_worker_def Let_def split: prod.splits if_splits worker_end.splits)

lemma calm_lock:
  assumes c: "calm_layout env cfg T d"
  obtains w' where "acquire_memory_lock env (Some d) w = (True, w')" "memory w' = memory w"
proof -
  obtain t w1 where w1: "now_of env w = (t, w1)" "t \<in> T" "memory w1 = memory w"
    using calm_now [OF c] .
  have "\<not> fle (fsub d t) (Fin 0)"
    using c \<open>t \<in> T\<close> unfolding calm_layout_def by blast
  moreover obtain v where v: "take_lock env (Some (fsub d t)) (outside w1) = (True, v)"
    using c unfolding calm_layout_def by (metis prod.collapse)
  ultimately show thesis
    using that w1 by (simp add: acquire_memory_lock_def remaining_seconds_def)
qed

lemma calm_get:
  assumes c: "calm_layout env cfg T d"
  obtains now w' where "now \<in> T"
    "get_cached_response env cfg tenant dg (Some d) w
       = (fst (memory_read now (cache_key tenant dg) (memory w)), w')"
    "memory w' = snd (memory_read now (cache_key tenant dg) (memory w))"
proof -
  have url: "valkey_url cfg = []" using c by (simp add: calm_layout_def)
  obtain now w1 where w1: "now_of env w = (now, w1)" "now \<in> T" "memory w1 = memory w"
    using calm_now [OF c] .
  obtain w2 where w2: "acquire_memory_lock env (Some d) w1 = (True, w2)" "memory w2 = memory w1"
    using calm_lock [OF c] .
  obtain v m where m: "memory_read now (cache_key tenant dg) (memory w) = (v, m)" by fastforce
  have "get_cached_response env cfg tenant dg (Some d) w = (v, w2\<lparr>memory := m\<rparr>)"
    using w1(3) w2 m
    by (simp add: get_cached_response_def cached_response_def redis_client_def url memory_response_def w1(1))
  then show thesis using that [OF w1(2)] m by simp
qed

lemma calm_set:
  assumes c: "calm_layout env cfg T d"
  obtains now where "now \<in> T"
    "memory (set_cached_response env cfg tenant dg b (Some d) w)
       = memory_write (max_entries cfg) (fadd now (fl (of_int (cache_ttl cfg)))) (cache_key tenant dg) b (memory w)"
proof -
  have url: "valkey_url cfg = []" using c by (simp add: calm_layout_def)
  obtain t0 w0 where w0: "now_of env w = (t0, w0)" "t0 \<in> T" "memory w0 = memory w"
    using calm_now [OF c] .
  have late: "\<not> flt (fsub d t0) LAYOUT_CACHE_MIN_WRITE_BUDGET_SECONDS"
    using c w0(2) unfolding calm_layout_def by blast
  obtain w1 where w1: "acquire_memory_lock env (Some d) w0 = (True, w1)" "memory w1 = memory w0"
    using calm_lock [OF c] .
  obtain now w2 where w2: "now_of env w1 = (now, w2)" "now \<in> T" "memory w2 = memory w1"
    using calm_now [OF c] .
  show thesis
    using that [OF w2(2)] w1 w2 w0 late
    by (simp add: set_cached_response_def store_response_def redis_client_def url memory_store_def
        remaining_seconds_def)
qed

text \<open>A live entry of the key, in the memory.\<close>

definition live :: "pyfloat set \<Rightarrow> string \<Rightarrow> bytes \<Rightarrow> entries \<Rightarrow> bool" where
  "live T key b m \<longleftrightarrow> (\<exists>e. map_of m key = Some (e, b) \<and> (\<forall>t \<in> T. \<not> fle e t))"

lemma map_of_od_pop: "map_of (od_pop k m) k = None"
  by (simp add: map_of_eq_None_iff not_in_od_pop)

lemma map_of_last: "map_of (od_pop k m @ [(k, e, b)]) k = Some (e, b)"
  by (simp add: map_of_append map_of_od_pop map_add_def)

lemma live_read:
  assumes "\<forall>(k, e, v) \<in> set m. \<forall>t \<in> T. \<not> fle e t" and "now \<in> T"
    and "fst (memory_read now key m) = Some b"
  shows "live T key b (snd (memory_read now key m))"
proof -
  obtain e where e: "map_of m key = Some (e, b)" and "\<not> fle e now"
    using assms(3) by (auto simp: memory_read_def split: option.splits if_splits)
  then have "snd (memory_read now key m) = od_pop key m @ [(key, e, b)]"
    by (simp add: memory_read_def)
  moreover have "\<forall>t \<in> T. \<not> fle e t"
    using assms(1) map_of_SomeD [OF e] by blast
  ultimately show ?thesis
    unfolding live_def by (simp only: map_of_last) blast
qed

lemma live_write:
  assumes "\<forall>t \<in> T. \<not> fle e t" and "0 < n"
  shows "live T key b (memory_write n e key b m)"
proof -
  let ?k = "length (od_pop key m @ [(key, e, b)]) - n"
  have "memory_write n e key b m = drop ?k (od_pop key m) @ [(key, e, b)]"
    using assms(2) by (simp add: memory_write_def evict_drop)
  moreover have "map_of (drop ?k (od_pop key m)) key = None"
    unfolding map_of_eq_None_iff using not_in_od_pop [of key m] by (auto dest: in_set_dropD)
  ultimately have "map_of (memory_write n e key b m) key = Some (e, b)"
    by (simp add: map_of_append map_add_def)
  with assms(1) show ?thesis by (auto simp: live_def)
qed

lemma max_entries_pos: "0 < max_entries cfg"
  by (simp add: max_entries_def)

lemma run_layout_live:
  assumes c: "calm_layout env cfg T d"
    and ttl: "\<forall>t \<in> T. \<forall>t' \<in> T. \<not> fle (fadd t (fl (of_int (cache_ttl cfg)))) t'"
    and run: "run_layout env cfg tenant ids d p w = (Inr b, w')"
  shows "live T (cache_key tenant (pl_digest p)) b (memory w') \<and> length b \<le> MAX_LAYOUT_RESPONSE_BYTES"
proof -
  obtain raw encoded w2 x w4 and w1 w1' :: "'a layout_world" where
      l: "lift (enforce_response_budget (encode_response (gv_version env) p raw)) w1 = (Inr encoded, w1')"
    and fin: "remaining_budget env d (set_cached_response env cfg tenant (pl_digest p) encoded (Some d) w2) = (Inr x, w4)"
      "lift (Inr encoded) w4 = ((Inr b, w') :: (layout_error, bytes) result \<times> 'a layout_world)"
    using run unfolding run_layout_def by (elim sbind_InrE) (rule that)
  have e: "enforce_response_budget (encode_response (gv_version env) p raw) = Inr encoded"
    using l by (simp add: lift_def)
  have out: "b = encoded" "memory w' = memory (set_cached_response env cfg tenant (pl_digest p) encoded (Some d) w2)"
    using fin budget_memory [OF fin(1)] by (simp_all add: lift_def)
  obtain now where now: "now \<in> T"
    "memory (set_cached_response env cfg tenant (pl_digest p) encoded (Some d) w2)
       = memory_write (max_entries cfg) (fadd now (fl (of_int (cache_ttl cfg)))) (cache_key tenant (pl_digest p)) encoded (memory w2)"
    using calm_set [OF c] .
  have "\<forall>t' \<in> T. \<not> fle (fadd now (fl (of_int (cache_ttl cfg)))) t'"
    using ttl now(1) by blast
  then have "live T (cache_key tenant (pl_digest p)) encoded (memory w')"
    unfolding out now(2) by (rule live_write [OF _ max_entries_pos])
  moreover have "length encoded \<le> MAX_LAYOUT_RESPONSE_BYTES"
    using e by (auto simp: enforce_response_budget_def split: if_splits)
  ultimately show ?thesis by (simp add: out)
qed

lemma compute_layout_live:
  assumes c: "calm_layout env cfg T d"
    and ttl: "\<forall>t \<in> T. \<forall>t' \<in> T. \<not> fle (fadd t (fl (of_int (cache_ttl cfg)))) t'"
    and fresh: "\<forall>(k, e, v) \<in> set (memory w). \<forall>t \<in> T. \<not> fle e t"
    and run: "compute_layout env cfg r tenant (Some d) w = (Inr b, w')"
  shows "\<exists>p. plan_layout (gv_version env) r = Inr p
    \<and> live T (cache_key tenant (pl_digest p)) b (memory w') \<and> length b \<le> MAX_LAYOUT_RESPONSE_BYTES"
proof -
  from run obtain p x w1 where p: "plan_layout (gv_version env) r = Inr p"
    and w1: "remaining_budget env d w = (Inr x, w1)"
    and s: "serve_plan env cfg tenant (map ln_id (lr_nodes r)) d p w1 = (Inr b, w')"
    unfolding compute_layout_def
    by (elim sbind_InrE) (auto simp: start_deadline_def lift_def)
  let ?k = "cache_key tenant (pl_digest p)"
  obtain y w2 where w2: "remaining_budget env d w1 = (Inr y, w2)" and s2:
    "(case get_cached_response env cfg tenant (pl_digest p) (Some d) w2 of (found, w3) \<Rightarrow>
         sbind (remaining_budget env d) (\<lambda>_.
           case found of Some b \<Rightarrow> lift (enforce_response_budget b)
                       | None \<Rightarrow> run_layout env cfg tenant (map ln_id (lr_nodes r)) d p) w3) = (Inr b, w')"
    using s unfolding serve_plan_def by (elim sbind_InrE) blast
  have m2: "memory w2 = memory w" using budget_memory [OF w1] budget_memory [OF w2] by simp
  obtain now w3 where now: "now \<in> T"
    and g: "get_cached_response env cfg tenant (pl_digest p) (Some d) w2 = (fst (memory_read now ?k (memory w)), w3)"
    and m3: "memory w3 = snd (memory_read now ?k (memory w))"
    using calm_get [OF c, of tenant "pl_digest p" w2] unfolding m2 by blast
  obtain z w4 where w4: "remaining_budget env d w3 = (Inr z, w4)" and s4:
    "(case fst (memory_read now ?k (memory w)) of Some b \<Rightarrow> lift (enforce_response_budget b)
      | None \<Rightarrow> run_layout env cfg tenant (map ln_id (lr_nodes r)) d p) w4 = (Inr b, w')"
    using s2 unfolding g prod.case by (elim sbind_InrE) blast
  have "live T ?k b (memory w') \<and> length b \<le> MAX_LAYOUT_RESPONSE_BYTES"
  proof (cases "fst (memory_read now ?k (memory w))")
    case None
    then show ?thesis using s4 run_layout_live [OF c ttl] by simp
  next
    case (Some v)
    with s4 have v: "v = b" "w' = w4" "length b \<le> MAX_LAYOUT_RESPONSE_BYTES"
      by (auto simp: lift_def enforce_response_budget_def split: if_splits)
    have "live T ?k b (snd (memory_read now ?k (memory w)))"
      by (rule live_read [OF fresh now]) (simp add: Some v)
    then show ?thesis using v budget_memory [OF w4] m3 by simp
  qed
  with p show ?thesis by blast
qed

lemma live_hit:
  assumes c: "calm_layout env cfg T d" and p: "plan_layout (gv_version env) r = Inr p"
    and l: "live T (cache_key tenant (pl_digest p)) b (memory w)" and n: "length b \<le> MAX_LAYOUT_RESPONSE_BYTES"
  shows "\<exists>w'. compute_layout env cfg r tenant (Some d) w = (Inr b, w')"
proof -
  let ?k = "cache_key tenant (pl_digest p)"
  obtain x w1 where w1: "remaining_budget env d w = (Inr x, w1)" "memory w1 = memory w"
    using calm_budget [OF c] .
  obtain y w2 where w2: "remaining_budget env d w1 = (Inr y, w2)" "memory w2 = memory w1"
    using calm_budget [OF c] .
  obtain now w3 where now: "now \<in> T"
    and g: "get_cached_response env cfg tenant (pl_digest p) (Some d) w2 = (fst (memory_read now ?k (memory w)), w3)"
    using calm_get [OF c, of tenant "pl_digest p" w2] unfolding w1(2) w2(2) by blast
  have hit: "fst (memory_read now ?k (memory w)) = Some b"
    using l now by (auto simp: live_def memory_read_def)
  obtain z w4 where w4: "remaining_budget env d w3 = (Inr z, w4)"
    using calm_budget [OF c] .
  have "compute_layout env cfg r tenant (Some d) w = (Inr b, w4)"
    using n by (simp add: compute_layout_def serve_plan_def start_deadline_def sbind_def lift_def p w1(1) w2(1)
        g hit w4 enforce_response_budget_def)
  then show ?thesis by blast
qed


subsection \<open>The wire budget\<close>

text \<open>On the compute route the rest of the application only ever sees a body within the budget, of the
  declared length when one is declared: what it would do with another body makes no difference.\<close>

lemma wire_budget:
  assumes route: "wr_method q = ''POST''" "wr_path q = LAYOUT_COMPUTE_PATH"
    and agree: "\<And>d b v. length b \<le> MAX_LAYOUT_REQUEST_BYTES \<Longrightarrow>
      (\<forall>n. declared_length (wr_content_length q) = Some (Some n) \<longrightarrow> n = int (length b)) \<Longrightarrow>
      inner (Some (d, b)) v = inner' (Some (d, b)) v"
  shows "layout_middleware monotonic read_body inner q w = layout_middleware monotonic read_body inner' q w"
proof -
  obtain t0 w0 where 0: "monotonic w = (t0, w0)" by fastforce
  obtain got w1 where 1: "read_body (MAX_LAYOUT_REQUEST_BYTES + 1) w0 = (got, w1)" by fastforce
  obtain t1 w2 where 2: "monotonic w1 = (t1, w2)" by fastforce
  show ?thesis
  proof (cases "declared_length (wr_content_length q)")
    case None
    then show ?thesis by (simp add: layout_middleware_def route 0)
  next
    case (Some declared)
    show ?thesis
    proof (cases got)
      case (Inl e)
      then show ?thesis using 1 by (simp add: layout_middleware_def route 0 Some)
    next
      case (Inr body)
      consider "fle (fadd t0 LAYOUT_REQUEST_TIMEOUT_SECONDS) t1 \<or> MAX_LAYOUT_REQUEST_BYTES < length body
            \<or> (case declared of None \<Rightarrow> False | Some n \<Rightarrow> n \<noteq> int (length body))"
        | "length body \<le> MAX_LAYOUT_REQUEST_BYTES" "\<forall>n. declared = Some n \<longrightarrow> n = int (length body)"
        by (cases declared; cases "MAX_LAYOUT_REQUEST_BYTES < length body") (auto simp: not_less)
      then show ?thesis
      proof cases
        case 1
        then show ?thesis
          using \<open>read_body _ w0 = _\<close> Inr by (auto simp: layout_middleware_def route 0 Some 2 Let_def)
      next
        case 2
        then have "inner (Some (d, body)) v = inner' (Some (d, body)) v" for d v
          using Some by (intro agree) auto
        then show ?thesis
          using 1 Inr by (simp add: layout_middleware_def route 0 Some \<open>monotonic w1 = _\<close> Let_def)
      qed
    qed
  qed
qed

subsection \<open>A concrete service\<close>

definition demo_layout_env :: "bool \<Rightarrow> unit layout_env" where
  "demo_layout_env up =
     \<lparr>clock_now = \<lambda>v. (Fin 0, v), take_lock = \<lambda>_ v. (True, v), valkey_connect = \<lambda>_ v. (False, v),
      valkey_get = \<lambda>_ v. (Inl (), v), valkey_set = \<lambda>_ _ _ v. (False, v), spawn_worker = \<lambda>v. (up, v),
      kill_worker = \<lambda>v. v, communicate = \<lambda>_ _ v. (Exited 0 [] [], v),
      read_positions = \<lambda>_. Some [(''a'', Fin 0, Fin 0)], decode_text = \<lambda>_. [], gv_version = ''12.2.1''\<rparr>"

definition demo_layout_cfg :: layout_settings where
  "demo_layout_cfg =
     \<lparr>valkey_url = [], cache_ttl = 86400, memory_max = 1024, subprocess_timeout = Fin 8, output_bytes = 4194304\<rparr>"

definition demo_ring :: layout_request where
  "demo_ring = \<lparr>lr_class = Some Cyclic_Ring, lr_nodes = [demo_node ''a''], lr_edges = [], lr_focus = None\<rparr>"

definition empty_cache :: "unit layout_world" where
  "empty_cache = \<lparr>outside = (), memory = []\<rparr>"

lemma length_utf8: "length (utf8 s) \<le> 2 * length s"
  by (induction s) (auto simp: utf8_def utf8_char_def Let_def)

lemma length_escape: "length (escape_char False c) \<le> 6"
  by (simp add: escape_char_def Let_def)

lemma length_quote: "length (quote False s) \<le> 6 * length s + 2"
proof -
  have "length (concat (map (escape_char False) s)) \<le> 6 * length s"
    by (induction s) (auto intro: add_mono length_escape)
  then show ?thesis by (simp add: quote_def)
qed

lemma length_join: "length (join sep xs) \<le> sum_list (map length xs) + length sep * length xs"
  by (induction sep xs rule: join.induct) auto

lemma compact_fields: "ensure_ascii compact = False" "item_sep compact = '',''" "key_sep compact = '':''"
  by (simp_all add: compact_def)

lemma length_dumps_obj:
  "length (dumps compact (JObj kvs)) \<le> 2 + sum_list (map (\<lambda>(k, v). 6 * length k + 4 + length (dumps compact v)) kvs)"
proof -
  let ?g = "\<lambda>(k, t). quote False k @ '':'' @ t" and ?ts = "map (\<lambda>(k, v). (k, dumps compact v)) kvs"
  have sum: "sum_list (map (length \<circ> ?g) (sort_key fst ?ts)) = sum_list (map (length \<circ> ?g) ?ts)"
    by (simp only: sum_mset_sum_list [symmetric] mset_map mset_sort)
  have one: "length '','' = Suc 0" by simp
  have "length (join '','' (map ?g (sort_key fst ?ts))) \<le> sum_list (map (length \<circ> ?g) ?ts) + length kvs"
    using length_join [of "'',''" "map ?g (sort_key fst ?ts)"]
    by (simp only: map_map [of length] sum one length_map length_sort mult_Suc mult_0 add_0_right)
  also have "\<dots> \<le> sum_list (map (\<lambda>(k, v). 6 * length k + 4 + length (dumps compact v)) kvs)"
  proof (induction kvs)
    case (Cons kv kvs)
    obtain k v where "kv = (k, v)" by fastforce
    with Cons length_quote [of k] show ?case by simp
  qed simp
  finally have "length (join '','' (map ?g (sort_key fst ?ts)))
    \<le> sum_list (map (\<lambda>(k, v). 6 * length k + 4 + length (dumps compact v)) kvs)" .
  moreover have "dumps compact (JObj kvs) = ''{'' @ join '','' (map ?g (sort_key fst ?ts)) @ ''}''"
    by (simp only: dumps.simps compact_fields)
  ultimately show ?thesis by simp
qed

lemma fl_int: "\<bar>n\<bar> \<le> 2 ^ 53 \<Longrightarrow> fl (of_int n) = Fin (of_int n)"
  by (intro fl_double is_double_of_int)

lemma demo_times:
  "fsub (Fin 10) (Fin 0) = Fin 10" "fadd (Fin 0) (Fin 86400) = Fin 86400" "fl 86400 = Fin 86400"
  "\<not> flt (Fin 10) LAYOUT_CACHE_MIN_WRITE_BUDGET_SECONDS"
proof -
  show "fsub (Fin 10) (Fin 0) = Fin 10" using fl_int [of 10] by (simp add: fsub_def)
  show f: "fl 86400 = Fin 86400" using fl_int [of 86400] by simp
  show "fadd (Fin 0) (Fin 86400) = Fin 86400" using f by simp
  have "fl (5 / 100) = Fin y \<Longrightarrow> y \<le> 1" and "fl (5 / 100) \<noteq> PInf" for y
    using fl_le [OF is_double_1, of "5 / 100"] by simp_all
  then show "\<not> flt (Fin 10) LAYOUT_CACHE_MIN_WRITE_BUDGET_SECONDS"
    unfolding LAYOUT_CACHE_MIN_WRITE_BUDGET_SECONDS_def
    by (cases "fl (5 / 100)") force+
qed

lemma demo_ring_plan:
  obtains p where "plan_layout v demo_ring = Inr p" "pl_engine p = ''circo''" "pl_class p = Cyclic_Ring"
proof -
  have "validate_graph (lr_nodes demo_ring) (lr_edges demo_ring) = Inr ()"
    by (simp add: validate_graph_def demo_ring_def demo_node_def MAX_LAYOUT_NODES_def MAX_LAYOUT_EDGES_def
        node_size_ok_def isfinite_def)
  moreover have "resolve_policy (lr_class demo_ring) (lr_nodes demo_ring) (lr_edges demo_ring) (lr_focus demo_ring)
      = Inr (Cyclic_Ring, POLICIES Cyclic_Ring, None)"
    by (simp add: resolve_policy_def demo_ring_def POLICIES_def plain_policy_def)
  moreover have "engine_for (POLICIES Cyclic_Ring) n = ''circo''" for n
    by (simp add: engine_for_def POLICIES_def plain_policy_def)
  moreover obtain dot where "canonical_dot (lr_nodes demo_ring) (lr_edges demo_ring) (POLICIES Cyclic_Ring) None = Inr dot"
    by (simp add: canonical_dot_def Let_def POLICIES_def plain_policy_def)
  ultimately have "plan_layout v demo_ring = Inr \<lparr>pl_class = Cyclic_Ring, pl_engine = ''circo'', pl_dot = dot,
      pl_digest = digest_input dot ''circo'' (policy_params Cyclic_Ring (POLICIES Cyclic_Ring) None) v\<rparr>"
    by (simp add: plan_layout_def Let_def)
  then show thesis by (rule that) simp_all
qed

definition demo_positions :: "(string \<times> pyfloat \<times> pyfloat) list" where
  "demo_positions = [(''a'', Fin 0, Fin 0)]"

lemma demo_encode_small:
  assumes "plan_layout v demo_ring = Inr p" and "pl_engine p = ''circo''" and "pl_class p = Cyclic_Ring"
  shows "length (encode_response ''12.2.1'' p demo_positions) \<le> MAX_LAYOUT_RESPONSE_BYTES"
proof -
  let ?o = "JObj [(''contract'', JStr ''theorem.layout.v1''), (''positions'', JList (map position_json demo_positions)),
      (''engine'', JStr ''circo''), (''graphviz_version'', JStr ''12.2.1''),
      (''policy_id'', JStr ''cyclic_ring''), (''input_digest'', JStr (SHA256_PREFIX @ pl_digest p))]"
  have q: "length (dumps compact (JStr x)) \<le> 6 * length x + 2" for x
    by (simp only: dumps.simps compact_fields length_quote)
  have "length (dumps compact (JObj [(''id'', JStr ''a''), (''x_px'', JFloat (Fin 0)), (''y_px'', JFloat (Fin 0))])) \<le> 1000"
    using length_dumps_obj [of "[(''id'', JStr ''a''), (''x_px'', JFloat (Fin 0)), (''y_px'', JFloat (Fin 0))]"] q [of "''a''"]
    by (simp add: float_repr_def del: dumps.simps(5,7))
  then have "length (dumps compact (JList (map position_json demo_positions))) \<le> 1002"
    by (simp add: demo_positions_def position_json_def compact_fields del: dumps.simps(5,7))
  moreover have "length (pl_digest p) = 64" by (rule plan_digest_length [OF assms(1)])
  ultimately have "length (dumps compact ?o) \<le> 10000"
    using length_dumps_obj [of "[(''contract'', JStr ''theorem.layout.v1''), (''positions'', JList (map position_json demo_positions)),
      (''engine'', JStr ''circo''), (''graphviz_version'', JStr ''12.2.1''),
      (''policy_id'', JStr ''cyclic_ring''), (''input_digest'', JStr (SHA256_PREFIX @ pl_digest p))]"]
      q [of "''theorem.layout.v1''"] q [of "''circo''"] q [of "''12.2.1''"] q [of "''cyclic_ring''"]
      q [of "SHA256_PREFIX @ pl_digest p"]
    by (simp add: SHA256_PREFIX_def del: dumps.simps)
  moreover have "encode_response ''12.2.1'' p demo_positions = utf8 (dumps compact ?o)"
    by (simp only: encode_response_def canonical_json_def assms(2,3) class_name_def graph_class.case
        demo_positions_def sort_key_simps list.map insort_key.simps)
  ultimately show ?thesis
    using length_utf8 [of "dumps compact ?o"] by (simp add: MAX_LAYOUT_RESPONSE_BYTES_def del: dumps.simps)
qed

lemma demo_layout_fields [simp]:
  "clock_now (demo_layout_env up) v = (Fin 0, v)" "take_lock (demo_layout_env up) t v = (True, v)"
  "spawn_worker (demo_layout_env up) v = (up, v)" "communicate (demo_layout_env up) pl tm v = (Exited 0 [] [], v)"
  "read_positions (demo_layout_env up) b = Some demo_positions" "gv_version (demo_layout_env up) = ''12.2.1''"
  "valkey_url demo_layout_cfg = []" "cache_ttl demo_layout_cfg = 86400" "output_bytes demo_layout_cfg = 4194304"
  "subprocess_timeout demo_layout_cfg = Fin 8"
  by (simp_all add: demo_layout_env_def demo_layout_cfg_def demo_positions_def)

lemma demo_law: "valkey_law (demo_layout_env up) (\<lambda>_. {})"
  by (simp add: valkey_law_def demo_layout_env_def)

lemma demo_now: "now_of (demo_layout_env up) w = (Fin 0, w)"
  by (simp add: now_of_def)

lemma demo_budget: "remaining_budget (demo_layout_env up) (Fin 10) w = (Inr (Fin 10), w)"
  by (simp add: remaining_budget_def demo_now demo_times)

lemma demo_calm: "calm_layout (demo_layout_env up) demo_layout_cfg {Fin 0} (Fin 10)"
  by (simp add: calm_layout_def demo_times)

lemma demo_worker: "execute_worker (demo_layout_env True) demo_layout_cfg dot eng [''a''] (Some (Fin 8)) w = (Inr demo_positions, w)"
  by (simp add: execute_worker_def Let_def fmin_def LAYOUT_GRAPHVIZ_MAX_SECONDS_def worker_result_def)
     (simp add: demo_positions_def)

lemma demo_miss: "get_cached_response (demo_layout_env up) demo_layout_cfg t dg (Some (Fin 10)) empty_cache = (None, empty_cache)"
  by (simp add: get_cached_response_def cached_response_def redis_client_def memory_response_def demo_now
      acquire_memory_lock_def remaining_seconds_def demo_times memory_read_def empty_cache_def)

lemma demo_layout_answer:
  obtains b w' where "compute_layout (demo_layout_env True) demo_layout_cfg demo_ring t (Some (Fin 10)) empty_cache = (Inr b, w')"
proof -
  obtain p where p: "plan_layout ''12.2.1'' demo_ring = Inr p" "pl_engine p = ''circo''" "pl_class p = Cyclic_Ring"
    using demo_ring_plan .
  have ids: "sort (map ln_id (lr_nodes demo_ring)) = [''a'']"
    by (simp add: demo_ring_def demo_node_def)
  have small: "\<not> MAX_LAYOUT_RESPONSE_BYTES < length (encode_response ''12.2.1'' p demo_positions)"
    using demo_encode_small [OF p] by simp
  have eight: "fmin LAYOUT_GRAPHVIZ_MAX_SECONDS (Fin 10) = Fin 8"
    by (simp add: fmin_def LAYOUT_GRAPHVIZ_MAX_SECONDS_def)
  show thesis
    by (rule that) (simp add: compute_layout_def start_deadline_def serve_plan_def run_layout_def sbind_def lift_def
        p(1) demo_budget demo_miss ids demo_worker eight enforce_response_budget_def small)
qed

theorem layout_answers_own_witness:
  "\<exists>b w'. serve_all (demo_layout_env True) demo_layout_cfg [(''acme'', demo_ring, Some (Fin 10))] empty_cache = ([Inr b], w')
     \<and> memory_ok demo_layout_cfg (memory w')
     \<and> (\<exists>p raw. plan_layout ''12.2.1'' demo_ring = Inr p \<and> map fst raw = [''a'']
          \<and> b = encode_response ''12.2.1'' p raw)"
proof -
  obtain b w' where run: "serve_all (demo_layout_env True) demo_layout_cfg [(''acme'', demo_ring, Some (Fin 10))] empty_cache = ([Inr b], w')"
    using demo_layout_answer [of "''acme''"] by fastforce
  note own = layout_answers_own [OF demo_law _ _ run, unfolded demo_layout_fields]
  have ok: "memory_ok demo_layout_cfg (memory w')"
    using own by (simp add: empty_cache_def)
  obtain p r' p' raw where "(''acme'', r') \<in> asked (take (Suc 0) [(''acme'', demo_ring, Some (Fin 10))])"
      and p': "plan_layout ''12.2.1'' r' = Inr p'" and s: "sort (map fst raw) = sort (map ln_id (lr_nodes r'))"
      and b: "b = encode_response ''12.2.1'' p' raw"
    using own by (force simp: empty_cache_def)
  then have r': "r' = demo_ring" by (simp add: asked_def)
  have one: "map fst raw = [''a'']"
    using s unfolding r' by (cases raw; cases "tl raw") (auto simp: demo_ring_def demo_node_def dest: arg_cong [of _ _ length])
  show ?thesis
    by (intro exI conjI) (rule run ok one b p' [unfolded r'])+
qed


end
