(* ===== verification/Elements.thy ===== *)
theory Elements
  imports Json
begin

section \<open>Document elements\<close>

text \<open>
  The first half of \<open>theorem_ml/extract/elements.py\<close>: elements, the validation of a tree, the buffer its
  byte spans address, and the headings of a flat parse. \<open>validate_exact\<close>: the walk up the parents accepts
  exactly the forests. \<open>build_tree_lossless\<close>: a built tree keeps every text, and every span addresses its
  element's text. \<open>section_hierarchy_outline\<close>: the stack of open headings is the nearest enclosing heading.
\<close>

datatype element_error = Element_Error string | Lookup_Error string | Conversion_Error

record doc_element =
  el_id :: string
  el_kind :: string
  el_text :: string
  byte_start :: int
  byte_end :: int
  el_page :: "int option"
  el_bbox :: "(pyfloat \<times> pyfloat \<times> pyfloat \<times> pyfloat) option"
  el_parent :: "string option"
  el_order :: nat
  el_attributes :: "(string \<times> json) list"

record doc_tree =
  tree_source :: string
  tree_text :: string
  tree_elements :: "doc_element list"

definition KINDS :: "string list" where
  "KINDS =
     [''Title'', ''SectionHeader'', ''Paragraph'', ''ListItem'', ''Table'', ''TableCell'', ''Figure'',
      ''Formula'', ''Code'', ''Header'', ''Footer'', ''PageBreak'', ''Footnote'', ''Caption'']"

subsection \<open>Validation\<close>

text \<open>The dict of parents, a later element winning.\<close>

definition parent_map :: "doc_element list \<Rightarrow> (string \<times> string option) list" where
  "parent_map es = rev (map (\<lambda>e. (el_id e, el_parent e)) es)"

text \<open>The walk up from an element; \<open>parents[parent]\<close> of an unknown id is the \<open>KeyError\<close>.\<close>

function climb ::
  "(string \<times> string option) list \<Rightarrow> string list \<Rightarrow> string option \<Rightarrow> (element_error, unit) result" where
  "climb ps visited None = Inr ()"
| "climb ps visited (Some p) =
     (if p \<in> set visited then Inl (Element_Error ''Cyclic element hierarchy'')
      else case map_of ps p of
             None \<Rightarrow> Inl (Lookup_Error p)
           | Some q \<Rightarrow> climb ps (p # visited) q)"
  by pat_completeness auto

lemma climb_measure:
  assumes "p \<notin> set visited" and "map_of ps p = Some q"
  shows "card (fst ` set ps - insert p (set visited)) < card (fst ` set ps - set visited)"
proof (rule psubset_card_mono)
  have "p \<in> fst ` set ps" using assms(2) by (metis domI dom_map_of_conv_image_fst)
  then show "fst ` set ps - insert p (set visited) \<subset> fst ` set ps - set visited"
    using assms(1) by blast
qed simp

termination climb
  by (relation "measure (\<lambda>(ps, visited, p). card (fst ` set ps - set visited))")
     (auto dest: climb_measure)

definition slice_bytes :: "bytes \<Rightarrow> int \<Rightarrow> int \<Rightarrow> bytes" where
  "slice_bytes b i j = take (nat j - nat i) (drop (nat i) b)"

definition span_ok :: "bytes \<Rightarrow> doc_element \<Rightarrow> bool" where
  "span_ok encoded e =
     (0 \<le> byte_start e \<and> byte_start e \<le> byte_end e \<and> byte_end e \<le> int (length encoded))"

definition page_ok :: "doc_element \<Rightarrow> bool" where
  "page_ok e = (case el_page e of None \<Rightarrow> True | Some n \<Rightarrow> 1 \<le> n)"

definition parent_known :: "string list \<Rightarrow> doc_element \<Rightarrow> bool" where
  "parent_known ids e = (case el_parent e of None \<Rightarrow> True | Some p \<Rightarrow> p \<in> set ids)"

definition validate_element ::
  "(string \<times> string option) list \<Rightarrow> bytes \<Rightarrow> doc_element \<Rightarrow> (element_error, unit) result" where
  "validate_element ps encoded e =
     (if el_kind e \<notin> set KINDS then Inl (Element_Error (''Unknown element kind: '' @ el_kind e))
      else if \<not> span_ok encoded e then Inl (Element_Error (''Invalid byte range for '' @ el_id e))
      else if slice_bytes encoded (byte_start e) (byte_end e) \<noteq> utf8 (el_text e)
      then Inl (Element_Error (''Text/span mismatch for '' @ el_id e))
      else if \<not> page_ok e then Inl (Element_Error ''Page numbers are one-based'')
      else if \<not> parent_known (map fst ps) e then Inl (Element_Error (''Missing parent for '' @ el_id e))
      else climb ps [el_id e] (el_parent e))"

definition validate_elements :: "string \<Rightarrow> doc_element list \<Rightarrow> (element_error, unit) result" where
  "validate_elements txt es =
     (if \<not> distinct (map el_id es) then Inl (Element_Error ''Duplicate element identity'')
      else rbind (traverse (validate_element (parent_map es) (utf8 txt)) es) (\<lambda>_. Inr ()))"

definition validate_tree :: "doc_tree \<Rightarrow> (element_error, unit) result" where
  "validate_tree t = validate_elements (tree_text t) (tree_elements t)"

text \<open>\<open>get\<close>; \<open>None\<close> is the \<open>StopIteration\<close>.\<close>

definition get_element :: "doc_tree \<Rightarrow> string \<Rightarrow> doc_element option" where
  "get_element t i = row_of el_id (tree_elements t) i"

definition element_id :: "string \<Rightarrow> string \<Rightarrow> string" where
  "element_id source address = sha256_hex (utf8 (source @ [CHR 0x00] @ address))"

subsection \<open>The text buffer\<close>

fun rebase :: "bool \<Rightarrow> nat \<Rightarrow> int \<Rightarrow> doc_element list \<Rightarrow> doc_element list \<times> string list" where
  "rebase first order position [] = ([], [])"
| "rebase first order position (e # es) =
     (let start = (if first then position else position + 1);
          stop = start + int (length (utf8 (el_text e)));
          (rest, chunks) = rebase False (Suc order) stop es
      in (e\<lparr>el_order := order, byte_start := start, byte_end := stop\<rparr> # rest,
          (if first then [] else [[CHR 0x0A]]) @ el_text e # chunks))"

definition build_tree :: "string \<Rightarrow> doc_element list \<Rightarrow> (element_error, doc_tree) result" where
  "build_tree source es =
     (case rebase True 0 0 es of (result, chunks) \<Rightarrow>
        let tree = \<lparr>tree_source = source, tree_text = concat chunks, tree_elements = result\<rparr>
        in rbind (validate_tree tree) (\<lambda>_. Inr tree))"

subsection \<open>Headings\<close>

text \<open>\<open>int(value)\<close> and \<open>float(value)\<close> of a JSON value; \<open>parse\<close> reads the text of a float.\<close>

definition as_int :: "json \<Rightarrow> (element_error, int) result" where
  "as_int v =
     (case v of JInt i \<Rightarrow> Inr i | JBool b \<Rightarrow> Inr (if b then 1 else 0)
      | JFloat (Fin x) \<Rightarrow> Inr (if x < 0 then - \<lfloor>- x\<rfloor> else \<lfloor>x\<rfloor>)
      | JStr s \<Rightarrow> (case py_int s of None \<Rightarrow> Inl Conversion_Error | Some i \<Rightarrow> Inr i)
      | _ \<Rightarrow> Inl Conversion_Error)"

definition FURNITURE :: "string list" where
  "FURNITURE = [''Title'', ''Header'', ''Footer'', ''PageBreak'']"

text \<open>The stack of open headings, the innermost first.\<close>

definition adopt :: "(int \<times> string) list \<Rightarrow> doc_element \<Rightarrow> doc_element" where
  "adopt stack e =
     (case stack of [] \<Rightarrow> e
      | (_, i) # _ \<Rightarrow> if el_parent e = None then e\<lparr>el_parent := Some i\<rparr> else e)"

fun hierarchy :: "(int \<times> string) list \<Rightarrow> doc_element list \<Rightarrow> (element_error, doc_element list) result" where
  "hierarchy stack [] = Inr []"
| "hierarchy stack (e # es) =
     (if el_kind e = ''SectionHeader''
      then rbind (as_int (get_or (el_attributes e) ''level'' (JInt 1))) (\<lambda>level.
             let open_ones = dropWhile (\<lambda>s. level \<le> fst s) stack
             in rbind (hierarchy ((level, el_id e) # open_ones) es) (\<lambda>rest. Inr (adopt open_ones e # rest)))
      else rbind (hierarchy stack es) (\<lambda>rest.
             Inr ((if el_kind e \<notin> set FURNITURE then adopt stack e else e) # rest)))"

definition section_hierarchy :: "doc_element list \<Rightarrow> (element_error, doc_element list) result" where
  "section_hierarchy es = hierarchy [] es"

subsection \<open>The walk up accepts the forests\<close>

definition parent_rel :: "doc_element list \<Rightarrow> (string \<times> string) set" where
  "parent_rel es = {(el_id e, p) | e p. e \<in> set es \<and> el_parent e = Some p}"

definition rel_of :: "(string \<times> string option) list \<Rightarrow> (string \<times> string) set" where
  "rel_of ps = {(i, p). map_of ps i = Some (Some p)}"

lemma climb_accepts:
  assumes "acyclic (rel_of ps)" and "\<And>i p. (i, p) \<in> rel_of ps \<Longrightarrow> p \<in> fst ` set ps"
    and "\<And>v p. v \<in> set visited \<Longrightarrow> start = Some p \<Longrightarrow> (v, p) \<in> (rel_of ps)\<^sup>+"
    and "\<And>p. start = Some p \<Longrightarrow> p \<in> fst ` set ps"
  shows "climb ps visited start = Inr ()"
  using assms
proof (induction ps visited start rule: climb.induct)
  case (2 ps visited p)
  have nv: "p \<notin> set visited"
    using 2(2,4) unfolding acyclic_def by blast
  obtain q where q: "map_of ps p = Some q"
    using 2(5) [OF refl] by (metis map_of_eq_None_iff not_None_eq)
  have "climb ps (p # visited) q = Inr ()"
  proof (rule 2(1) [OF nv q 2(2,3)])
    fix v r assume v: "v \<in> set (p # visited)" and r: "q = Some r"
    have pr: "(p, r) \<in> rel_of ps" using q r by (simp add: rel_of_def)
    show "(v, r) \<in> (rel_of ps)\<^sup>+"
    proof (cases "v = p")
      case True
      with pr show ?thesis by blast
    next
      case False
      with v have "(v, p) \<in> (rel_of ps)\<^sup>+" using 2(4) by simp
      then show ?thesis using pr by (rule trancl_into_trancl)
    qed
  next
    fix r assume "q = Some r"
    with q have "(p, r) \<in> rel_of ps" by (simp add: rel_of_def)
    then show "r \<in> fst ` set ps" by (rule 2(3))
  qed
  with nv q show ?case by simp
qed simp

lemma climb_avoids:
  assumes "climb ps visited start = Inr ()" and "start = Some p" and "(p, y) \<in> (rel_of ps)\<^sup>*"
  shows "y \<notin> set visited"
  using assms
proof (induction ps visited start arbitrary: p rule: climb.induct)
  case (2 ps visited p')
  then have p: "p' = p" by simp
  obtain q where nv: "p \<notin> set visited" and q: "map_of ps p = Some q" and c: "climb ps (p # visited) q = Inr ()"
    using 2(2) unfolding p by (auto split: if_splits option.splits)
  show ?case
  proof (cases "y = p")
    case True
    with nv show ?thesis by simp
  next
    case False
    with 2(4) obtain r where r: "(p, r) \<in> rel_of ps" "(r, y) \<in> (rel_of ps)\<^sup>*"
      by (metis converse_rtranclE)
    then have "q = Some r" using q by (simp add: rel_of_def)
    then have "y \<notin> set (p # visited)"
      using 2(1) [of q r] nv q c r(2) unfolding p by simp
    then show ?thesis by simp
  qed
qed simp

lemma rel_of_parent_map:
  assumes "distinct (map el_id es)"
  shows "rel_of (parent_map es) = parent_rel es"
proof -
  have d: "distinct (map fst (parent_map es))"
    using assms by (simp add: parent_map_def comp_def flip: rev_map)
  have "map_of (parent_map es) i = Some x \<longleftrightarrow> (i, x) \<in> set (parent_map es)" for i x
    by (rule map_of_eq_Some_iff [OF d])
  then show ?thesis
    by (auto simp: rel_of_def parent_rel_def parent_map_def)
qed

lemma parent_map_ids [simp]: "fst ` set (parent_map es) = set (map el_id es)"
  by (force simp: parent_map_def)

definition element_ok :: "string \<Rightarrow> doc_element list \<Rightarrow> doc_element \<Rightarrow> bool" where
  "element_ok txt es e \<longleftrightarrow>
     el_kind e \<in> set KINDS \<and> span_ok (utf8 txt) e
     \<and> slice_bytes (utf8 txt) (byte_start e) (byte_end e) = utf8 (el_text e)
     \<and> page_ok e \<and> parent_known (map el_id es) e"

lemma parent_known_cong: "set ids = set ids' \<Longrightarrow> parent_known ids e = parent_known ids' e"
  by (simp add: parent_known_def split: option.splits)

lemma validate_element_iff:
  "validate_element (parent_map es) (utf8 txt) e = Inr u
     \<longleftrightarrow> element_ok txt es e \<and> climb (parent_map es) [el_id e] (el_parent e) = Inr u"
proof -
  have "parent_known (map fst (parent_map es)) e = parent_known (map el_id es) e"
    by (rule parent_known_cong) simp
  then show ?thesis by (simp add: validate_element_def element_ok_def)
qed

lemma traverse_unit_iff:
  "rbind (traverse f xs) (\<lambda>_. Inr ()) = Inr () \<longleftrightarrow> (\<forall>x \<in> set xs. \<exists>u. f x = Inr u)"
proof (induction xs)
  case (Cons x xs)
  show ?case
    using Cons by (cases "f x"; cases "traverse f xs") auto
qed simp

lemma validate_tree_iff:
  "validate_tree t = Inr () \<longleftrightarrow>
     distinct (map el_id (tree_elements t))
     \<and> (\<forall>e \<in> set (tree_elements t). element_ok (tree_text t) (tree_elements t) e)
     \<and> acyclic (parent_rel (tree_elements t))"
proof (cases "distinct (map el_id (tree_elements t))")
  case False
  then show ?thesis by (simp add: validate_tree_def validate_elements_def)
next
  case True
  let ?es = "tree_elements t" and ?ps = "parent_map (tree_elements t)"
  have rel: "rel_of ?ps = parent_rel ?es" by (rule rel_of_parent_map [OF True])
  have v: "validate_tree t = Inr () \<longleftrightarrow> (\<forall>e \<in> set ?es. element_ok (tree_text t) ?es e
      \<and> climb ?ps [el_id e] (el_parent e) = Inr ())"
    using True by (simp add: validate_tree_def validate_elements_def traverse_unit_iff validate_element_iff)
  have "(\<forall>e \<in> set ?es. climb ?ps [el_id e] (el_parent e) = Inr ()) \<longleftrightarrow> acyclic (parent_rel ?es)"
    if ok: "\<forall>e \<in> set ?es. element_ok (tree_text t) ?es e"
  proof
    assume all: "\<forall>e \<in> set ?es. climb ?ps [el_id e] (el_parent e) = Inr ()"
    show "acyclic (parent_rel ?es)"
      unfolding acyclic_def
    proof (intro allI notI)
      fix x assume "(x, x) \<in> (parent_rel ?es)\<^sup>+"
      then obtain p where p: "(x, p) \<in> parent_rel ?es" "(p, x) \<in> (parent_rel ?es)\<^sup>*"
        by (meson tranclD)
      then obtain e where "e \<in> set ?es" "el_id e = x" "el_parent e = Some p"
        by (auto simp: parent_rel_def)
      then show False
        using climb_avoids [of ?ps "[x]" "Some p" p x] all p(2) unfolding rel by fastforce
    qed
  next
    assume ac: "acyclic (parent_rel ?es)"
    have closed: "p \<in> fst ` set ?ps" if "(i, p) \<in> parent_rel ?es" for i p
      using that ok by (auto simp: parent_rel_def element_ok_def parent_known_def)
    show "\<forall>e \<in> set ?es. climb ?ps [el_id e] (el_parent e) = Inr ()"
    proof
      fix e assume e: "e \<in> set ?es"
      show "climb ?ps [el_id e] (el_parent e) = Inr ()"
      proof (rule climb_accepts, unfold rel)
        show "acyclic (parent_rel ?es)" by (rule ac)
        show "p \<in> fst ` set ?ps" if "(i, p) \<in> parent_rel ?es" for i p
          by (rule closed [OF that])
        show "(v, p) \<in> (parent_rel ?es)\<^sup>+" if "v \<in> set [el_id e]" "el_parent e = Some p" for v p
          using that e by (auto simp: parent_rel_def)
        show "p \<in> fst ` set ?ps" if "el_parent e = Some p" for p
          using that e closed [of "el_id e" p] by (auto simp: parent_rel_def)
      qed
    qed
  qed
  with True v show ?thesis by blast
qed

text \<open>C39. \<open>validate\<close> is exact: it accepts a tree if and only if the ids are distinct, every element has a known
  kind, a span inside the buffer that addresses its own text, a page from one on and a parent in the tree,
  and the parents form no cycle.\<close>

theorem validate_exact:
  "validate_tree t = Inr () \<longleftrightarrow>
     distinct (map el_id (tree_elements t))
     \<and> (\<forall>e \<in> set (tree_elements t). element_ok (tree_text t) (tree_elements t) e)
     \<and> acyclic (parent_rel (tree_elements t))"
  by (rule validate_tree_iff)

subsection \<open>A built tree\<close>

definition same_element :: "doc_element \<Rightarrow> doc_element \<Rightarrow> bool" where
  "same_element e r \<longleftrightarrow>
     el_id r = el_id e \<and> el_kind r = el_kind e \<and> el_text r = el_text e \<and> el_page r = el_page e
     \<and> el_bbox r = el_bbox e \<and> el_parent r = el_parent e \<and> el_attributes r = el_attributes e"

definition glued :: "bool \<Rightarrow> doc_element list \<Rightarrow> string" where
  "glued first es = (if es = [] \<or> first then [] else [CHR 0x0A]) @ join [CHR 0x0A] (map el_text es)"

lemma join_Cons: "join sep (x # xs) = x @ (if xs = [] then [] else sep @ join sep xs)"
  by (cases xs) auto

lemma utf8_newline: "length (utf8 [CHR 0x0A]) = 1"
  by (simp add: utf8_def utf8_char_def Let_def)

lemma slice_middle:
  assumes "i = int (length a)" and "j = i + int (length b)"
  shows "slice_bytes (a @ b @ c) i j = b"
  using assms by (simp add: slice_bytes_def nat_add_distrib)

lemma rebase_first:
  "rebase False order position es = (rs, chunks) \<Longrightarrow> q \<in> set rs \<Longrightarrow> position < byte_start q"
proof (induction es arbitrary: order position rs chunks)
  case (Cons e es)
  obtain rs' chunks' where rest:
    "rebase False (Suc order) (position + 1 + int (length (utf8 (el_text e)))) es = (rs', chunks')"
    by fastforce
  then have "rs = e\<lparr>el_order := order, byte_start := position + 1,
      byte_end := position + 1 + int (length (utf8 (el_text e)))\<rparr> # rs'"
    using Cons.prems(1) by (simp add: Let_def)
  then show ?case
    using Cons.IH [OF rest] Cons.prems(2) by fastforce
qed simp

lemma rebase_result:
  assumes "rebase first order (int (length before)) es = (rs, chunks)"
  shows "concat chunks = glued first es \<and> list_all2 same_element es rs
    \<and> (\<forall>r \<in> set rs. span_ok (before @ utf8 (concat chunks)) r \<and> int (length before) \<le> byte_start r
         \<and> slice_bytes (before @ utf8 (concat chunks)) (byte_start r) (byte_end r) = utf8 (el_text r))
    \<and> map el_order rs = [order..<order + length es]
    \<and> sorted_wrt (\<lambda>a b. byte_end a < byte_start b) rs"
  using assms
proof (induction es arbitrary: first order before rs chunks)
  case Nil
  then show ?case by (simp add: glued_def)
next
  case (Cons e es)
  define sep where "sep = (if first then [] else [CHR 0x0A])"
  define start where "start = (if first then int (length before) else int (length before) + 1)"
  define before' where "before' = before @ utf8 sep @ utf8 (el_text e)"
  have start: "start = int (length (before @ utf8 sep))"
    by (simp add: start_def sep_def utf8_newline)
  have stop: "start + int (length (utf8 (el_text e))) = int (length before')"
    by (simp add: start before'_def)
  obtain rs' chunks' where rest: "rebase False (Suc order) (int (length before')) es = (rs', chunks')"
    by fastforce
  define r where "r = e\<lparr>el_order := order, byte_start := start, byte_end := int (length before')\<rparr>"
  have out: "rs = r # rs'" "concat chunks = sep @ el_text e @ concat chunks'"
    using Cons.prems rest stop by (auto simp: start_def [symmetric] sep_def r_def Let_def)
  note IH = Cons.IH [OF rest]
  have buf: "before @ utf8 (concat chunks) = before' @ utf8 (concat chunks')"
    by (simp add: out before'_def)
  have IH1: "concat chunks' = glued False es" and IH2: "list_all2 same_element es rs'"
    and IH3: "\<And>q. q \<in> set rs' \<Longrightarrow> span_ok (before' @ utf8 (concat chunks')) q \<and> int (length before') \<le> byte_start q
         \<and> slice_bytes (before' @ utf8 (concat chunks')) (byte_start q) (byte_end q) = utf8 (el_text q)"
    and IH4: "map el_order rs' = [Suc order..<Suc order + length es]"
    and IH5: "sorted_wrt (\<lambda>a b. byte_end a < byte_start b) rs'"
    using IH by blast+
  have len: "int (length before) \<le> start" "int (length before) \<le> int (length before')"
    using start by (simp_all add: before'_def)
  have "concat chunks = glued first (e # es)"
    unfolding out IH1 by (cases es) (simp_all add: glued_def sep_def join_Cons)
  moreover have "same_element e r" by (simp add: same_element_def r_def)
  then have "list_all2 same_element (e # es) rs" using IH2 by (simp add: out)
  moreover have "slice_bytes (before' @ utf8 (concat chunks')) start (int (length before')) = utf8 (el_text e)"
    using slice_middle [of start "before @ utf8 sep" "int (length before')" "utf8 (el_text e)" "utf8 (concat chunks')"]
      start stop by (simp add: before'_def)
  then have "span_ok (before' @ utf8 (concat chunks')) r \<and> int (length before) \<le> byte_start r
      \<and> slice_bytes (before' @ utf8 (concat chunks')) (byte_start r) (byte_end r) = utf8 (el_text r)"
    using start stop len by (simp add: span_ok_def r_def)
  then have "\<forall>q \<in> set rs. span_ok (before' @ utf8 (concat chunks')) q \<and> int (length before) \<le> byte_start q
      \<and> slice_bytes (before' @ utf8 (concat chunks')) (byte_start q) (byte_end q) = utf8 (el_text q)"
    using IH3 len unfolding out by fastforce
  moreover have "map el_order rs = [order..<order + length (e # es)]"
    using IH4 by (simp add: out r_def upt_conv_Cons del: upt_Suc)
  moreover have "\<forall>q \<in> set rs'. byte_end r < byte_start q"
    using rebase_first [OF rest] by (simp add: r_def)
  then have "sorted_wrt (\<lambda>a b. byte_end a < byte_start b) rs"
    using IH5 by (simp add: out)
  ultimately show ?case unfolding buf by blast
qed

definition parts_ok :: "doc_element list \<Rightarrow> bool" where
  "parts_ok es \<longleftrightarrow>
     distinct (map el_id es) \<and> acyclic (parent_rel es)
     \<and> (\<forall>e \<in> set es. el_kind e \<in> set KINDS \<and> page_ok e \<and> parent_known (map el_id es) e)"

lemma same_elements:
  assumes "list_all2 same_element es rs"
  shows "map el_id rs = map el_id es" and "parent_rel rs = parent_rel es"
    and "(\<forall>r \<in> set rs. el_kind r \<in> set KINDS \<and> page_ok r \<and> parent_known ids r)
      \<longleftrightarrow> (\<forall>e \<in> set es. el_kind e \<in> set KINDS \<and> page_ok e \<and> parent_known ids e)"
  using assms
proof (induction rule: list_all2_induct)
  case Nil
  { case 1 show ?case by simp next case 2 show ?case by simp next case 3 show ?case by simp }
next
  case (Cons e es r rs)
  have p: "parent_rel (x # xs) = {(el_id x, p) | p. el_parent x = Some p} \<union> parent_rel xs" for x xs
    by (auto simp: parent_rel_def)
  { case 1 show ?case using Cons by (simp add: same_element_def)
  next case 2 show ?case using Cons by (simp add: p same_element_def)
  next case 3 show ?case using Cons by (simp add: same_element_def page_ok_def parent_known_def) }
qed

lemma build_tree_result:
  "(parts_ok es \<longleftrightarrow> (\<exists>t. build_tree source es = Inr t)) \<and>
   (\<forall>t. build_tree source es = Inr t \<longrightarrow>
      tree_text t = join [CHR 0x0A] (map el_text es) \<and> list_all2 same_element es (tree_elements t)
      \<and> map el_order (tree_elements t) = [0..<length es]
      \<and> (\<forall>e \<in> set (tree_elements t).
           slice_bytes (utf8 (tree_text t)) (byte_start e) (byte_end e) = utf8 (el_text e))
      \<and> sorted_wrt (\<lambda>a b. byte_end a < byte_start b) (tree_elements t))"
proof -
  obtain rs chunks where r: "rebase True 0 0 es = (rs, chunks)" by fastforce
  define t where "t = \<lparr>tree_source = source, tree_text = concat chunks, tree_elements = rs\<rparr>"
  note res = rebase_result [of True 0 "[]" es rs chunks, simplified, OF r]
  note same = same_elements [OF res [THEN conjunct2, THEN conjunct1]]
  have b: "build_tree source es = rbind (validate_tree t) (\<lambda>_. Inr t)"
    by (simp add: build_tree_def r t_def Let_def)
  have "validate_tree t = Inr () \<longleftrightarrow> distinct (map el_id rs)
      \<and> (\<forall>e \<in> set rs. element_ok (tree_text t) rs e) \<and> acyclic (parent_rel rs)"
    unfolding validate_tree_iff by (simp add: t_def)
  moreover have "element_ok (tree_text t) rs e \<longleftrightarrow>
      el_kind e \<in> set KINDS \<and> page_ok e \<and> parent_known (map el_id es) e" if "e \<in> set rs" for e
    using res that by (auto simp: element_ok_def t_def same(1))
  ultimately have ok: "validate_tree t = Inr () \<longleftrightarrow> parts_ok es"
    using same(3) [of "map el_id es"] unfolding same(1,2) parts_ok_def by blast
  have "build_tree source es = Inr x \<longleftrightarrow> parts_ok es \<and> x = t" for x
    unfolding b ok [symmetric] by (auto simp: result_simps)
  then show ?thesis
    using res by (auto simp: t_def glued_def)
qed

lemma build_tree_elements: "build_tree source es = Inr t \<Longrightarrow> list_all2 same_element es (tree_elements t)"
  using build_tree_result [of es source] by blast

text \<open>C38. Building a tree loses nothing: it succeeds exactly when the ids are distinct, the kinds and pages
  are good and the parents form a forest, and then the buffer is the texts joined by newlines, the elements
  are the given ones in order, and their spans are disjoint, ascending, and address their own texts.\<close>

theorem build_tree_lossless:
  "(parts_ok es \<longleftrightarrow> (\<exists>t. build_tree source es = Inr t)) \<and>
   (\<forall>t. build_tree source es = Inr t \<longrightarrow>
      tree_text t = join [CHR 0x0A] (map el_text es) \<and> list_all2 same_element es (tree_elements t)
      \<and> map el_order (tree_elements t) = [0..<length es]
      \<and> (\<forall>e \<in> set (tree_elements t).
           slice_bytes (utf8 (tree_text t)) (byte_start e) (byte_end e) = utf8 (el_text e))
      \<and> sorted_wrt (\<lambda>a b. byte_end a < byte_start b) (tree_elements t))"
  by (rule build_tree_result)

subsection \<open>Headings, without the stack\<close>

text \<open>The reference: all earlier headings with their levels, the latest first. A heading without an explicit
  parent belongs to the latest earlier heading of a smaller level, any other body element to the latest
  heading.\<close>

definition under :: "(int \<times> string) option \<Rightarrow> doc_element \<Rightarrow> doc_element" where
  "under h e =
     (case h of None \<Rightarrow> e | Some (_, i) \<Rightarrow> if el_parent e = None then e\<lparr>el_parent := Some i\<rparr> else e)"

definition latest :: "(int \<times> string) list \<Rightarrow> (int \<times> string) option" where
  "latest hs = (case hs of [] \<Rightarrow> None | h # _ \<Rightarrow> Some h)"

fun outline :: "(int \<times> string) list \<Rightarrow> doc_element list \<Rightarrow> (element_error, doc_element list) result" where
  "outline earlier [] = Inr []"
| "outline earlier (e # es) =
     (if el_kind e = ''SectionHeader''
      then rbind (as_int (get_or (el_attributes e) ''level'' (JInt 1))) (\<lambda>level.
             rbind (outline ((level, el_id e) # earlier) es) (\<lambda>rest.
               Inr (under (find (\<lambda>h. fst h < level) earlier) e # rest)))
      else rbind (outline earlier es) (\<lambda>rest.
             Inr ((if el_kind e \<in> set FURNITURE then e else under (latest earlier) e) # rest)))"

lemma adopt_under: "adopt stack e = under (latest stack) e"
  by (auto simp: adopt_def under_def latest_def split: list.splits)

definition same_open :: "(int \<times> string) list \<Rightarrow> (int \<times> string) list \<Rightarrow> bool" where
  "same_open stack earlier \<longleftrightarrow>
     latest stack = latest earlier \<and> (\<forall>n. find (\<lambda>h. fst h < n) stack = find (\<lambda>h. fst h < n) earlier)"

lemma latest_dropWhile: "latest (dropWhile P xs) = find (\<lambda>x. \<not> P x) xs"
  by (induction xs) (auto simp: latest_def)

lemma find_dropWhile: "(\<And>x. P x \<Longrightarrow> \<not> Q x) \<Longrightarrow> find Q (dropWhile P xs) = find Q xs"
  by (induction xs) auto

lemma same_open_push:
  assumes "same_open stack earlier"
  shows "same_open ((level, i) # dropWhile (\<lambda>s. level \<le> fst s) stack) ((level, i) # earlier)"
proof -
  have "find (\<lambda>h. fst h < n) (dropWhile (\<lambda>s. level \<le> fst s) stack) = find (\<lambda>h. fst h < n) stack"
    if "n \<le> level" for n
    by (rule find_dropWhile) (use that in linarith)
  then show ?thesis
    using assms by (auto simp: same_open_def latest_def)
qed

lemma hierarchy_outline:
  "same_open stack earlier \<Longrightarrow> hierarchy stack es = outline earlier es"
proof (induction es arbitrary: stack earlier)
  case (Cons e es)
  have top: "latest stack = latest earlier"
    and small: "find (\<lambda>h. fst h < n) stack = find (\<lambda>h. fst h < n) earlier" for n
    using Cons.prems by (simp_all add: same_open_def)
  have head: "latest (dropWhile (\<lambda>s. n \<le> fst s) stack) = find (\<lambda>h. fst h < n) earlier" for n
    unfolding latest_dropWhile small [symmetric] by (simp add: not_le)
  have push: "hierarchy ((n, el_id e) # dropWhile (\<lambda>s. n \<le> fst s) stack) es = outline ((n, el_id e) # earlier) es" for n
    by (rule Cons.IH [OF same_open_push [OF Cons.prems]])
  show ?case
    unfolding hierarchy.simps outline.simps Let_def adopt_under head push Cons.IH [OF Cons.prems] top
    by (simp split: if_splits)
qed simp

text \<open>C40. The stack of open headings computes the outline: every element without an explicit parent is put
  under the nearest earlier heading, a heading under the nearest one of a smaller level, page furniture under
  none, and an unreadable level is the same error.\<close>

theorem section_hierarchy_outline: "section_hierarchy es = outline [] es"
  unfolding section_hierarchy_def by (rule hierarchy_outline) (simp add: same_open_def)

subsection \<open>A missing ancestor\<close>

text \<open>The walk of an element runs into an unknown id before the check of the ancestor that names it: the
  error is the \<open>KeyError\<close> of the dict, not an \<open>ElementError\<close>.\<close>

definition plain_element :: "string \<Rightarrow> string \<Rightarrow> string option \<Rightarrow> doc_element" where
  "plain_element i txt p =
     \<lparr>el_id = i, el_kind = ''Paragraph'', el_text = txt, byte_start = 0, byte_end = 0, el_page = None,
      el_bbox = None, el_parent = p, el_order = 0, el_attributes = []\<rparr>"

lemma missing_ancestor_key_error:
  "build_tree source [plain_element ''a'' [] (Some ''b''), plain_element ''b'' [] (Some ''c'')]
     = Inl (Lookup_Error ''c'')"
  by (simp add: build_tree_def plain_element_def validate_tree_def validate_elements_def validate_element_def
      parent_map_def KINDS_def span_ok_def slice_bytes_def page_ok_def parent_known_def)

lemma built_example:
  "build_tree source [plain_element ''a'' ''x'' None, plain_element ''b'' ''y'' (Some ''a'')]
   = Inr \<lparr>tree_source = source, tree_text = [CHR ''x'', CHR 0x0A, CHR ''y''],
       tree_elements = [(plain_element ''a'' ''x'' None)\<lparr>byte_end := 1\<rparr>,
         (plain_element ''b'' ''y'' (Some ''a''))\<lparr>el_order := 1, byte_start := 2, byte_end := 3\<rparr>]\<rparr>"
  by (simp add: build_tree_def plain_element_def validate_tree_def validate_elements_def validate_element_def
      parent_map_def KINDS_def span_ok_def slice_bytes_def page_ok_def parent_known_def utf8_def utf8_char_def)

theorem validate_exact_witness:
  "acyclic (parent_rel [(plain_element ''a'' ''x'' None)\<lparr>byte_end := 1\<rparr>,
     (plain_element ''b'' ''y'' (Some ''a''))\<lparr>byte_start := 2, byte_end := 3\<rparr>])"
proof -
  let ?t = "\<lparr>tree_source = [], tree_text = [CHR ''x'', CHR 0x0A, CHR ''y''],
      tree_elements = [(plain_element ''a'' ''x'' None)\<lparr>byte_end := 1\<rparr>,
        (plain_element ''b'' ''y'' (Some ''a''))\<lparr>byte_start := 2, byte_end := 3\<rparr>]\<rparr>"
  have "validate_tree ?t = Inr ()"
    by (simp add: plain_element_def validate_tree_def validate_elements_def validate_element_def
        parent_map_def KINDS_def span_ok_def slice_bytes_def page_ok_def parent_known_def utf8_def utf8_char_def)
  then show ?thesis using validate_exact [of ?t] by simp
qed

theorem build_tree_lossless_witness:
  "\<exists>t. build_tree ''src'' [plain_element ''a'' ''x'' None, plain_element ''b'' ''y'' (Some ''a'')] = Inr t
     \<and> tree_text t = [CHR ''x'', CHR 0x0A, CHR ''y''] \<and> map el_order (tree_elements t) = [0, 1]"
  using build_tree_lossless [of "[plain_element ''a'' ''x'' None, plain_element ''b'' ''y'' (Some ''a'')]" "''src''"]
    built_example [of "''src''"]
  by (auto simp: plain_element_def upt_rec)

end
