(* ===== verification/Parsers.thy ===== *)
theory Parsers
  imports Elements
begin

section \<open>Documents from parsers\<close>

text \<open>
  The second half of \<open>theorem_ml/extract/elements.py\<close>: table cells, and the trees made of the exported JSON
  of Docling and of Paddle. The text of a float and the HTML parser are arguments. A document's references
  are strings and its page numbers integers, as both formats have them; anything else is a conversion error
  here, and a label that is no string is an unknown label. \<open>cells_disjoint\<close>: the cells of an accepted table cover disjoint parts of its grid.
  \<open>docling_complete\<close>: no labelled item of a Docling document is lost.
\<close>

subsection \<open>Reading JSON\<close>

definition as_float :: "(string \<Rightarrow> pyfloat option) \<Rightarrow> json \<Rightarrow> (element_error, pyfloat) result" where
  "as_float parse v =
     (case v of JFloat f \<Rightarrow> Inr f
      | JInt i \<Rightarrow> (case fl (of_int i) of Fin x \<Rightarrow> Inr (Fin x) | _ \<Rightarrow> Inl Conversion_Error)
      | JBool b \<Rightarrow> Inr (Fin (if b then 1 else 0))
      | JStr s \<Rightarrow> (case parse s of None \<Rightarrow> Inl Conversion_Error | Some f \<Rightarrow> Inr f)
      | _ \<Rightarrow> Inl Conversion_Error)"

definition as_dict :: "json \<Rightarrow> (element_error, (string \<times> json) list) result" where
  "as_dict v = (case v of JObj kvs \<Rightarrow> Inr kvs | _ \<Rightarrow> Inl Conversion_Error)"

definition as_list :: "json \<Rightarrow> (element_error, json list) result" where
  "as_list v = (case v of JList vs \<Rightarrow> Inr vs | _ \<Rightarrow> Inl Conversion_Error)"

definition as_text :: "json \<Rightarrow> (element_error, string) result" where
  "as_text v = (case v of JStr s \<Rightarrow> Inr s | _ \<Rightarrow> Inl Conversion_Error)"

definition field :: "(string \<times> json) list \<Rightarrow> string \<Rightarrow> (element_error, json) result" where
  "field d k = (case map_of d k of None \<Rightarrow> Inl (Lookup_Error k) | Some v \<Rightarrow> Inr v)"

type_synonym item = "(string \<times> json) list"
type_synonym bbox = "pyfloat \<times> pyfloat \<times> pyfloat \<times> pyfloat"

definition four_coordinates :: "pyfloat list \<Rightarrow> (element_error, bbox option) result" where
  "four_coordinates fs =
     (case fs of [a, b, c, d] \<Rightarrow> Inr (Some (a, b, c, d))
      | _ \<Rightarrow> Inl (Element_Error ''Expected four bounding-box coordinates''))"

definition bbox_items ::
  "(string \<Rightarrow> pyfloat option) \<Rightarrow> json list \<Rightarrow> (element_error, bbox option) result" where
  "bbox_items parse vs =
     (if length vs \<noteq> 4 then Inl (Element_Error ''Expected four bounding-box coordinates'')
      else rbind (traverse (as_float parse) vs) four_coordinates)"

definition bbox_of :: "(string \<Rightarrow> pyfloat option) \<Rightarrow> json \<Rightarrow> (element_error, bbox option) result" where
  "bbox_of parse v =
     (case v of JNull \<Rightarrow> Inr None
      | JObj kvs \<Rightarrow>
          rbind (traverse (\<lambda>k. rbind (field kvs k) (as_float parse)) [''l'', ''t'', ''r'', ''b'']) four_coordinates
      | JList vs \<Rightarrow> bbox_items parse vs
      | JStr s \<Rightarrow> bbox_items parse (map (\<lambda>c. JStr [c]) s)
      | _ \<Rightarrow> Inl Conversion_Error)"

subsection \<open>Table cells\<close>

text \<open>The grid positions of an extent, and a grid of empty texts.\<close>

definition extent :: "int \<Rightarrow> int \<Rightarrow> int \<Rightarrow> int \<Rightarrow> (int \<times> int) list" where
  "extent r c rs cs = List.product [r..r + rs - 1] [c..c + cs - 1]"

definition empty_grid :: "int \<Rightarrow> int \<Rightarrow> string list list" where
  "empty_grid nrows ncols = replicate (nat nrows) (replicate (nat ncols) [])"

definition put_text :: "string list list \<Rightarrow> int \<Rightarrow> int \<Rightarrow> string \<Rightarrow> string list list" where
  "put_text grid r c txt = grid[nat r := (grid ! nat r)[nat c := txt]]"

record table_state =
  ts_rows :: "string list list"
  ts_merged :: "json list"
  ts_result :: "doc_element list"
  ts_occupied :: "(int \<times> int) list"

definition put_cell ::
  "(string \<Rightarrow> pyfloat option) \<Rightarrow> string \<Rightarrow> doc_element \<Rightarrow> nat \<Rightarrow> item \<Rightarrow> int \<Rightarrow> int \<Rightarrow> int \<Rightarrow> int \<Rightarrow> table_state
   \<Rightarrow> (element_error, table_state) result" where
  "put_cell parse source parent index kvs r c rs cs st =
     (let txt = py_str (get_or kvs ''text'' (JStr []))
      in rbind (bbox_of parse (get_or kvs ''bbox'' JNull)) (\<lambda>box.
           Inr \<lparr>ts_rows = put_text (ts_rows st) r c txt,
                ts_merged = ts_merged st @ (if 1 < rs \<or> 1 < cs
                  then [JObj [(''row'', JInt r), (''column'', JInt c), (''row_span'', JInt rs),
                              (''col_span'', JInt cs)]] else []),
                ts_result = ts_result st @ [\<lparr>
                  el_id = element_id source (el_id parent @ ''/cell/'' @ dec_nat index),
                  el_kind = ''TableCell'', el_text = txt, byte_start = 0, byte_end = 0,
                  el_page = el_page parent, el_bbox = box, el_parent = Some (el_id parent),
                  el_order = index, el_attributes = kvs\<rparr>],
                ts_occupied = ts_occupied st @ extent r c rs cs\<rparr>))"

definition bad_extent :: "int \<Rightarrow> int \<Rightarrow> int \<Rightarrow> int \<Rightarrow> int \<Rightarrow> int \<Rightarrow> bool" where
  "bad_extent nrows ncols r c rs cs =
     (min rs cs < 1 \<or> r < 0 \<or> c < 0 \<or> nrows < r + rs \<or> ncols < c + cs)"

definition place_cell ::
  "(string \<Rightarrow> pyfloat option) \<Rightarrow> string \<Rightarrow> doc_element \<Rightarrow> int \<Rightarrow> int \<Rightarrow> nat \<Rightarrow> json \<Rightarrow> table_state
   \<Rightarrow> (element_error, table_state) result" where
  "place_cell parse source parent nrows ncols index cell st =
     rbind (as_dict cell) (\<lambda>kvs.
     rbind (rbind (field kvs ''start_row_offset_idx'') as_int) (\<lambda>r.
     rbind (rbind (field kvs ''start_col_offset_idx'') as_int) (\<lambda>c.
     rbind (as_int (get_or kvs ''row_span'' (JInt 1))) (\<lambda>rs.
     rbind (as_int (get_or kvs ''col_span'' (JInt 1))) (\<lambda>cs.
       if bad_extent nrows ncols r c rs cs then Inl (Element_Error ''Invalid table cell extent'')
       else if list_ex (\<lambda>p. p \<in> set (ts_occupied st)) (extent r c rs cs)
       then Inl (Element_Error ''Overlapping table cells'')
       else put_cell parse source parent index kvs r c rs cs st)))))"

fun place_cells ::
  "(string \<Rightarrow> pyfloat option) \<Rightarrow> string \<Rightarrow> doc_element \<Rightarrow> int \<Rightarrow> int \<Rightarrow> nat \<Rightarrow> json list \<Rightarrow> table_state
   \<Rightarrow> (element_error, table_state) result" where
  "place_cells parse source parent nrows ncols index [] st = Inr st"
| "place_cells parse source parent nrows ncols index (c # cs) st =
     rbind (place_cell parse source parent nrows ncols index c st)
       (place_cells parse source parent nrows ncols (Suc index) cs)"

text \<open>The cells, and the parent with its new attributes.\<close>

definition table_elements ::
  "(string \<Rightarrow> pyfloat option) \<Rightarrow> string \<Rightarrow> doc_element \<Rightarrow> json list \<Rightarrow> int \<Rightarrow> int
   \<Rightarrow> (element_error, doc_element \<times> doc_element list) result" where
  "table_elements parse source parent cells nrows ncols =
     rbind (place_cells parse source parent nrows ncols 0 cells
       \<lparr>ts_rows = empty_grid nrows ncols, ts_merged = [], ts_result = [], ts_occupied = []\<rparr>) (\<lambda>st.
       let a1 = dict_set (el_attributes parent) ''rows'' (JList (map (\<lambda>r. JList (map JStr r)) (ts_rows st)));
           a2 = dict_set a1 ''merged_cells'' (JList (ts_merged st));
           a3 = dict_set a2 ''num_rows'' (JInt nrows)
       in Inr (parent\<lparr>el_attributes := dict_set a3 ''num_cols'' (JInt ncols)\<rparr>, ts_result st))"

subsection \<open>Docling\<close>

definition DOCLING_LABELS :: "(string \<times> string) list" where
  "DOCLING_LABELS =
     [(''title'', ''Title''), (''section_header'', ''SectionHeader''), (''text'', ''Paragraph''),
      (''paragraph'', ''Paragraph''), (''list_item'', ''ListItem''), (''table'', ''Table''),
      (''picture'', ''Figure''), (''formula'', ''Formula''), (''code'', ''Code''),
      (''page_header'', ''Header''), (''page_footer'', ''Footer''), (''page_break'', ''PageBreak''),
      (''footnote'', ''Footnote''), (''caption'', ''Caption''), (''checkbox_selected'', ''Paragraph''),
      (''checkbox_unselected'', ''Paragraph''), (''reference'', ''Paragraph'')]"

type_synonym refs = "(string \<times> item) list"

text \<open>\<open>references[ref] = item\<close>: in place when the key is there.\<close>

fun set_ref :: "refs \<Rightarrow> string \<Rightarrow> item \<Rightarrow> refs" where
  "set_ref [] k v = [(k, v)]"
| "set_ref ((k', v') # d) k v = (if k' = k then (k, v) # d else (k', v') # set_ref d k v)"

fun add_items :: "json list \<Rightarrow> refs \<Rightarrow> (element_error, refs) result" where
  "add_items [] d = Inr d"
| "add_items (v # vs) d =
     rbind (as_dict v) (\<lambda>it. rbind (rbind (field it ''self_ref'') as_text) (\<lambda>r. add_items vs (set_ref d r it)))"

fun add_collections :: "item \<Rightarrow> string list \<Rightarrow> refs \<Rightarrow> (element_error, refs) result" where
  "add_collections data [] d = Inr d"
| "add_collections data (c # cs) d =
     rbind (as_list (get_or data c (JList []))) (\<lambda>vs. rbind (add_items vs d) (add_collections data cs))"

definition root_of :: "item \<Rightarrow> string \<Rightarrow> json option" where
  "root_of data name = (case map_of data name of None \<Rightarrow> None | Some v \<Rightarrow> if truthy v then Some v else None)"

fun add_roots :: "item \<Rightarrow> string list \<Rightarrow> refs \<Rightarrow> (element_error, refs) result" where
  "add_roots data [] d = Inr d"
| "add_roots data (n # ns) d =
     (case root_of data n of None \<Rightarrow> add_roots data ns d
      | Some v \<Rightarrow> rbind (add_items [v] d) (add_roots data ns))"

definition references_of :: "item \<Rightarrow> (element_error, refs) result" where
  "references_of data =
     rbind (add_collections data [''texts'', ''tables'', ''pictures'', ''groups''] [])
       (add_roots data [''body'', ''furniture''])"

definition docling_kind :: "item \<Rightarrow> string option" where
  "docling_kind it =
     (case get_or it ''label'' (JStr []) of JStr l \<Rightarrow> map_of DOCLING_LABELS l | _ \<Rightarrow> None)"

definition docling_id :: "string \<Rightarrow> string \<Rightarrow> string" where
  "docling_id source r = element_id source (''docling/'' @ r)"

text \<open>The first provenance region, or an empty dict.\<close>

definition first_prov :: "item \<Rightarrow> (element_error, item) result" where
  "first_prov it =
     (let prov = get_or it ''prov'' (JList [])
      in if \<not> truthy prov then Inr []
         else rbind (as_list prov) (\<lambda>vs. as_dict (hd vs)))"

definition page_of :: "json \<Rightarrow> (element_error, int option) result" where
  "page_of v = (case v of JNull \<Rightarrow> Inr None | JInt n \<Rightarrow> Inr (Some n) | _ \<Rightarrow> Inl Conversion_Error)"

text \<open>The text of one caption reference.\<close>

definition caption_text :: "refs \<Rightarrow> json \<Rightarrow> (element_error, string) result" where
  "caption_text refs v =
     rbind (as_dict v) (\<lambda>d. rbind (rbind (field d ''$ref'') as_text) (\<lambda>r.
       case map_of refs r of None \<Rightarrow> Inl (Lookup_Error r)
       | Some it \<Rightarrow> as_text (get_or it ''text'' (JStr []))))"

text \<open>The attributes a kind adds.\<close>

definition kind_attributes ::
  "refs \<Rightarrow> item \<Rightarrow> string \<Rightarrow> string \<Rightarrow> item \<Rightarrow> (element_error, item) result" where
  "kind_attributes refs it kind txt attrs =
     (if kind = ''SectionHeader''
      then rbind (as_int (get_or it ''level'' (JInt 1))) (\<lambda>l. Inr (dict_set attrs ''level'' (JInt l)))
      else if kind = ''Formula'' then Inr (dict_set attrs ''latex'' (JStr txt))
      else if kind = ''Code''
      then Inr (dict_set attrs ''language'' (get_or it ''code_language'' (JStr ''unknown'')))
      else if kind = ''Figure''
      then rbind (as_list (get_or it ''captions'' (JList []))) (\<lambda>vs.
             rbind (traverse (caption_text refs) vs) (\<lambda>ts.
               Inr (dict_set attrs ''caption'' (JStr (join [CHR 0x0A] ts)))))
      else Inr attrs)"

definition docling_element ::
  "(string \<Rightarrow> pyfloat option) \<Rightarrow> string \<Rightarrow> refs \<Rightarrow> string \<Rightarrow> item \<Rightarrow> string \<Rightarrow> string option \<Rightarrow> nat
   \<Rightarrow> (element_error, doc_element) result" where
  "docling_element parse source refs r it kind parent order =
     rbind (first_prov it) (\<lambda>first.
     rbind (page_of (get_or first ''page_no'' JNull)) (\<lambda>page.
     rbind (bbox_of parse (get_or first ''bbox'' JNull)) (\<lambda>box.
       let kept = filter (\<lambda>(k, _). k \<notin> {''text'', ''children'', ''parent'', ''self_ref'', ''label'', ''data''}) it;
           attrs = dict_set (dict_set kept ''source_ref'' (JStr r)) ''source_label'' (get_or it ''label'' (JStr []));
           txt = py_str (get_or it ''text'' (JStr []))
       in rbind (kind_attributes refs it kind txt attrs) (\<lambda>attrs'.
            Inr \<lparr>el_id = docling_id source r, el_kind = kind, el_text = txt, byte_start = 0, byte_end = 0,
                 el_page = page, el_bbox = box, el_parent = parent, el_order = order,
                 el_attributes = attrs'\<rparr>))))"

text \<open>The element of a labelled item, with the cells of a table behind it.\<close>

definition docling_elements ::
  "(string \<Rightarrow> pyfloat option) \<Rightarrow> string \<Rightarrow> refs \<Rightarrow> string \<Rightarrow> item \<Rightarrow> string \<Rightarrow> string option \<Rightarrow> nat
   \<Rightarrow> (element_error, doc_element list) result" where
  "docling_elements parse source refs r it kind parent order =
     rbind (docling_element parse source refs r it kind parent order) (\<lambda>e.
       if kind \<noteq> ''Table'' then Inr [e]
       else let v = get_or it ''data'' (JObj [])
            in rbind (as_dict v) (\<lambda>table.
               rbind (as_list (get_or table ''table_cells'' (JList []))) (\<lambda>cells.
               rbind (as_int (get_or table ''num_rows'' (JInt 0))) (\<lambda>nrows.
               rbind (as_int (get_or table ''num_cols'' (JInt 0))) (\<lambda>ncols.
               rbind (table_elements parse source
                        (e\<lparr>el_attributes := dict_set (el_attributes e) ''table_data'' v\<rparr>) cells nrows ncols)
                 (\<lambda>(e', cs). Inr (e' # cs)))))))"

text \<open>\<open>visit\<close> and its loop over the children; \<open>active\<close> are the references being visited. The state is the
  emitted references and the output. A child adds itself to \<open>active\<close>, so the recursion is bounded by the
  references of the document.\<close>

definition open_item ::
  "(string \<Rightarrow> pyfloat option) \<Rightarrow> string \<Rightarrow> refs \<Rightarrow> string \<Rightarrow> item \<Rightarrow> string option \<Rightarrow> doc_element list
   \<Rightarrow> (element_error, string option \<times> doc_element list) result" where
  "open_item parse source refs r it parent output =
     (case docling_kind it of
        Some kind \<Rightarrow>
          rbind (docling_elements parse source refs r it kind parent (length output)) (\<lambda>es.
            Inr (Some (docling_id source r), output @ es))
      | None \<Rightarrow>
          if \<not> truthy (get_or it ''children'' JNull) \<and> truthy (get_or it ''text'' JNull)
          then Inl (Element_Error (''Unsupported Docling text label: '' @ py_str (get_or it ''label'' (JStr []))))
          else Inr (parent, output))"

definition child_ref :: "json \<Rightarrow> (element_error, string) result" where
  "child_ref v = rbind (as_dict v) (\<lambda>d. rbind (field d ''$ref'') as_text)"

function visit and visit_all where
  "visit parse source refs active r parent st =
     (case st of (emitted, output) \<Rightarrow>
        if r \<in> set active then Inl (Element_Error ''Docling document contains a cycle'')
        else if r \<in> set emitted then Inr (emitted, output)
        else if r \<notin> fst ` set refs then Inl (Element_Error (''Dangling Docling reference: '' @ r))
        else let it = the (map_of refs r)
             in rbind (open_item parse source refs r it parent output) (\<lambda>(child_parent, output1).
                rbind (as_list (get_or it ''children'' (JList []))) (\<lambda>children.
                rbind (visit_all parse source refs (r # active) children child_parent (emitted, output1))
                  (\<lambda>(emitted2, output2). Inr (r # emitted2, output2)))))"
| "visit_all parse source refs active [] parent st = Inr st"
| "visit_all parse source refs active (c # cs) parent st =
     rbind (child_ref c) (\<lambda>r.
     rbind (visit parse source refs active r parent st) (\<lambda>st'.
       visit_all parse source refs active cs parent st'))"
  by pat_completeness auto

termination
  by (relation "measures [\<lambda>x. case x of Inl (parse, source, refs, active, r, parent, st) \<Rightarrow> card (fst ` set refs - set active)
          | Inr (parse, source, refs, active, cs, parent, st) \<Rightarrow> card (fst ` set refs - set active),
        \<lambda>x. case x of Inl _ \<Rightarrow> 0 | Inr (parse, source, refs, active, cs, parent, st) \<Rightarrow> Suc (length cs)]")
     (auto simp del: card_Diff_insert intro!: psubset_card_mono)

text \<open>The roots, the labelled items that no child reference reached, and the owners of captions.\<close>

type_synonym visit_state = "string list \<times> doc_element list"

fun visit_roots ::
  "(string \<Rightarrow> pyfloat option) \<Rightarrow> string \<Rightarrow> refs \<Rightarrow> item \<Rightarrow> string list \<Rightarrow> visit_state
   \<Rightarrow> (element_error, visit_state) result" where
  "visit_roots parse source refs data [] st = Inr st"
| "visit_roots parse source refs data (n # ns) st =
     (case root_of data n of None \<Rightarrow> visit_roots parse source refs data ns st
      | Some v \<Rightarrow>
          rbind (as_dict v) (\<lambda>it. rbind (rbind (field it ''self_ref'') as_text) (\<lambda>r.
          rbind (visit parse source refs [] r None st) (visit_roots parse source refs data ns))))"

definition orphan_parent ::
  "string \<Rightarrow> refs \<Rightarrow> string list \<Rightarrow> item \<Rightarrow> (element_error, string option) result" where
  "orphan_parent source refs emitted it =
     rbind (as_dict (get_or it ''parent'' (JObj []))) (\<lambda>d.
       Inr (case map_of d ''$ref'' of
              Some (JStr p) \<Rightarrow>
                (case map_of refs p of
                   Some owner \<Rightarrow>
                     if p \<in> set emitted \<and> docling_kind owner \<noteq> None then Some (docling_id source p) else None
                 | None \<Rightarrow> None)
            | _ \<Rightarrow> None))"

fun visit_orphans ::
  "(string \<Rightarrow> pyfloat option) \<Rightarrow> string \<Rightarrow> refs \<Rightarrow> refs \<Rightarrow> visit_state
   \<Rightarrow> (element_error, visit_state) result" where
  "visit_orphans parse source refs [] st = Inr st"
| "visit_orphans parse source refs ((r, it) # items) st =
     (if docling_kind it \<noteq> None \<and> r \<notin> set (fst st)
      then rbind (orphan_parent source refs (fst st) it) (\<lambda>p.
           rbind (visit parse source refs [] r p st) (visit_orphans parse source refs items))
      else visit_orphans parse source refs items st)"

definition own_caption ::
  "string \<Rightarrow> string list \<Rightarrow> string \<Rightarrow> string \<Rightarrow> doc_element list \<Rightarrow> doc_element list" where
  "own_caption source ids owner c es =
     (if docling_id source c \<in> set ids
      then map (\<lambda>e. if el_id e = docling_id source c then e\<lparr>el_parent := Some owner\<rparr> else e) es
      else es)"

fun own_captions ::
  "string \<Rightarrow> string list \<Rightarrow> refs \<Rightarrow> doc_element list \<Rightarrow> (element_error, doc_element list) result" where
  "own_captions source ids [] es = Inr es"
| "own_captions source ids ((r, it) # items) es =
     (if docling_id source r \<notin> set ids then own_captions source ids items es
      else rbind (as_list (get_or it ''captions'' (JList []))) (\<lambda>vs.
           rbind (traverse child_ref vs) (\<lambda>cs.
             own_captions source ids items (foldl (\<lambda>es c. own_caption source ids (docling_id source r) c es) es cs))))"

definition from_docling ::
  "(string \<Rightarrow> pyfloat option) \<Rightarrow> string \<Rightarrow> item \<Rightarrow> (element_error, doc_tree) result" where
  "from_docling parse source data =
     rbind (references_of data) (\<lambda>refs.
     rbind (visit_roots parse source refs data [''body'', ''furniture''] ([], [])) (\<lambda>st.
     rbind (visit_orphans parse source refs refs st) (\<lambda>(_, output).
     rbind (own_captions source (map el_id output) refs output) (\<lambda>es.
     rbind (section_hierarchy es) (build_tree source)))))"

subsection \<open>Nothing labelled is lost\<close>

definition shown :: "string \<Rightarrow> refs \<Rightarrow> doc_element list \<Rightarrow> string \<Rightarrow> bool" where
  "shown source refs output r \<longleftrightarrow>
     (\<forall>it kind. map_of refs r = Some it \<longrightarrow> docling_kind it = Some kind \<longrightarrow>
       (\<exists>e \<in> set output. el_id e = docling_id source r \<and> el_kind e = kind
          \<and> el_text e = py_str (get_or it ''text'' (JStr []))))"

definition all_shown :: "string \<Rightarrow> refs \<Rightarrow> visit_state \<Rightarrow> bool" where
  "all_shown source refs st \<longleftrightarrow> (\<forall>r \<in> set (fst st). shown source refs (snd st) r)"

definition grows :: "visit_state \<Rightarrow> visit_state \<Rightarrow> bool" where
  "grows st st' \<longleftrightarrow> set (fst st) \<subseteq> set (fst st') \<and> set (snd st) \<subseteq> set (snd st')"

lemma grows_refl [simp]: "grows st st"
  by (simp add: grows_def)

lemma grows_trans: "grows a b \<Longrightarrow> grows b c \<Longrightarrow> grows a c"
  unfolding grows_def by blast

lemma shown_mono: "shown source refs output r \<Longrightarrow> set output \<subseteq> set output' \<Longrightarrow> shown source refs output' r"
  unfolding shown_def by blast

lemma docling_element_fields:
  assumes "docling_element parse source refs r it kind parent order = Inr e"
  shows "el_id e = docling_id source r \<and> el_kind e = kind \<and> el_text e = py_str (get_or it ''text'' (JStr []))"
  using assms by (auto simp: docling_element_def result_simps Let_def)

lemma table_elements_parent:
  "table_elements parse source e cells nrows ncols = Inr (e', cs) \<Longrightarrow>
     el_id e' = el_id e \<and> el_kind e' = el_kind e \<and> el_text e' = el_text e"
  by (auto simp: table_elements_def result_simps Let_def)

lemma docling_elements_head:
  assumes "docling_elements parse source refs r it kind parent order = Inr es"
  shows "\<exists>e \<in> set es. el_id e = docling_id source r \<and> el_kind e = kind
    \<and> el_text e = py_str (get_or it ''text'' (JStr []))"
proof -
  obtain e where e: "docling_element parse source refs r it kind parent order = Inr e"
    using assms by (auto simp: docling_elements_def result_simps)
  note f = docling_element_fields [OF e]
  show ?thesis
  proof (cases "kind = ''Table''")
    case False
    with assms e have "es = [e]" by (simp add: docling_elements_def)
    with f show ?thesis by simp
  next
    case True
    then obtain e' cs cells n m v where "es = e' # cs"
      and "table_elements parse source (e\<lparr>el_attributes := dict_set (el_attributes e) ''table_data'' v\<rparr>) cells n m = Inr (e', cs)"
      using assms e by (auto simp: docling_elements_def result_simps Let_def)
    with table_elements_parent [of parse source "e\<lparr>el_attributes := dict_set (el_attributes e) ''table_data'' v\<rparr>" cells n m e' cs] f
    show ?thesis by simp
  qed
qed

lemma open_item_result:
  assumes "open_item parse source refs r it parent output = Inr (p, output')"
  shows "set output \<subseteq> set output'"
    and "docling_kind it = Some kind \<Longrightarrow> \<exists>e \<in> set output'. el_id e = docling_id source r \<and> el_kind e = kind
       \<and> el_text e = py_str (get_or it ''text'' (JStr []))"
  using assms docling_elements_head
  by (fastforce simp: open_item_def result_simps split: option.splits if_splits)+

lemma visit_result:
  shows "visit parse source refs active r parent st = Inr st' \<Longrightarrow> all_shown source refs st \<Longrightarrow>
      grows st st' \<and> all_shown source refs st' \<and> r \<in> set (fst st')"
    and "visit_all parse source refs active cs parent st = Inr st' \<Longrightarrow> all_shown source refs st \<Longrightarrow>
      grows st st' \<and> all_shown source refs st'"
proof (induction parse source refs active r parent st and parse source refs active cs parent st
    arbitrary: st' and st' rule: visit_visit_all.induct)
  case (1 parse source refs active r parent st)
  obtain emitted outs where st: "st = (emitted, outs)" by (cases st)
  show ?case
  proof (cases "r \<in> set emitted")
    case True
    with 1(2) have "st' = st" by (auto simp: st split: if_splits)
    with True 1(3) show ?thesis by (simp add: st)
  next
    case False
    then obtain it p output1 children emitted2 output2 where
        na: "r \<notin> set active" and k: "r \<in> fst ` set refs" and it: "it = the (map_of refs r)"
      and o: "open_item parse source refs r it parent outs = Inr (p, output1)"
      and ch: "as_list (get_or it ''children'' (JList [])) = Inr children"
      and va: "visit_all parse source refs (r # active) children p (emitted, output1) = Inr (emitted2, output2)"
      and out: "st' = (r # emitted2, output2)"
      using 1(2) by (auto simp: st result_simps Let_def split: if_splits)
    have m: "map_of refs r = Some it"
      using k it by (metis map_of_eq_None_iff option.collapse)
    have "all_shown source refs (emitted, output1)"
      using 1(3) open_item_result(1) [OF o] unfolding all_shown_def st by (auto intro: shown_mono)
    with 1(1) [OF st [symmetric] na False _ it va] k have IH:
      "grows (emitted, output1) (emitted2, output2)" "all_shown source refs (emitted2, output2)" by auto
    have "shown source refs output1 r"
      using open_item_result(2) [OF o] unfolding shown_def m by auto
    then have "shown source refs output2 r"
      using IH(1) by (auto simp: grows_def intro: shown_mono)
    then show ?thesis
      using IH open_item_result(1) [OF o] by (auto simp: out st all_shown_def grows_def)
  qed
next
  case (2 parse source refs active parent st)
  then show ?case by simp
next
  case (3 parse source refs active c cs parent st)
  then obtain r st1 where r: "child_ref c = Inr r" and v: "visit parse source refs active r parent st = Inr st1"
    and va: "visit_all parse source refs active cs parent st1 = Inr st'"
    by (auto simp: result_simps)
  have one: "grows st st1 \<and> all_shown source refs st1"
    using 3(1) [OF v 3(4)] by blast
  then have "grows st1 st' \<and> all_shown source refs st'"
    using 3(2) [OF va] by blast
  with one show ?case using grows_trans by blast
qed

lemma visit_roots_result:
  "visit_roots parse source refs data ns st = Inr st' \<Longrightarrow> all_shown source refs st \<Longrightarrow>
     grows st st' \<and> all_shown source refs st'"
proof (induction parse source refs data ns st rule: visit_roots.induct)
  case (2 parse source refs data n ns st)
  show ?case
  proof (cases "root_of data n")
    case None
    with 2(1) [OF None _ 2(4)] 2(3) show ?thesis by simp
  next
    case (Some v)
    then obtain it r st1 where v: "visit parse source refs [] r None st = Inr st1"
      and rest: "visit_roots parse source refs data ns st1 = Inr st'"
      using 2(3) by (auto simp: result_simps)
    have one: "grows st st1 \<and> all_shown source refs st1"
      using visit_result(1) [OF v 2(4)] by blast
    then have "grows st1 st' \<and> all_shown source refs st'"
      using 2(2) [OF Some rest] by blast
    with one show ?thesis using grows_trans by blast
  qed
qed simp

lemma visit_orphans_result:
  "visit_orphans parse source refs items st = Inr st' \<Longrightarrow> all_shown source refs st \<Longrightarrow>
     grows st st' \<and> all_shown source refs st'
     \<and> (\<forall>(r, it) \<in> set items. docling_kind it \<noteq> None \<longrightarrow> r \<in> set (fst st'))"
proof (induction parse source refs items st rule: visit_orphans.induct)
  case (2 parse source refs r it items st)
  show ?case
  proof (cases "docling_kind it \<noteq> None \<and> r \<notin> set (fst st)")
    case True
    then obtain p st1 where v: "visit parse source refs [] r p st = Inr st1"
      and rest: "visit_orphans parse source refs items st1 = Inr st'"
      using 2(3) by (auto simp: result_simps)
    have one: "grows st st1 \<and> all_shown source refs st1 \<and> r \<in> set (fst st1)"
      using visit_result(1) [OF v 2(4)] by blast
    then have "grows st1 st' \<and> all_shown source refs st'
      \<and> (\<forall>(r, it) \<in> set items. docling_kind it \<noteq> None \<longrightarrow> r \<in> set (fst st'))"
      using 2(1) [OF True rest] by blast
    moreover from this have "r \<in> set (fst st')"
      using one unfolding grows_def by blast
    ultimately show ?thesis using one grows_trans [of st st1 st'] by simp
  next
    case False
    then have rest: "visit_orphans parse source refs items st = Inr st'"
      using 2(3) by auto
    with 2(2) [OF False rest 2(4)] False show ?thesis
      by (auto simp: grows_def)
  qed
qed simp

text \<open>The later passes change parents and spans only.\<close>

definition same_texts :: "doc_element list \<Rightarrow> doc_element list \<Rightarrow> bool" where
  "same_texts es es' \<longleftrightarrow> list_all2 (\<lambda>e e'. el_id e' = el_id e \<and> el_kind e' = el_kind e \<and> el_text e' = el_text e) es es'"

lemma same_texts_refl: "same_texts es es"
  by (simp add: same_texts_def list_all2_same)

lemma same_texts_trans: "same_texts a b \<Longrightarrow> same_texts b c \<Longrightarrow> same_texts a c"
  unfolding same_texts_def by (erule list_all2_trans [rotated, rotated]) auto

lemma same_texts_member:
  "same_texts es es' \<Longrightarrow> e \<in> set es \<Longrightarrow>
     \<exists>e' \<in> set es'. el_id e' = el_id e \<and> el_kind e' = el_kind e \<and> el_text e' = el_text e"
  unfolding same_texts_def by (induction rule: list_all2_induct) auto

lemma own_caption_texts: "same_texts es (own_caption source ids owner c es)"
  by (auto simp: own_caption_def same_texts_def list_all2_map2 list_all2_same)

lemma own_captions_texts:
  "own_captions source ids items es = Inr es' \<Longrightarrow> same_texts es es'"
proof (induction source ids items es rule: own_captions.induct)
  case (2 source ids r it items es)
  have fold: "same_texts xs (foldl (\<lambda>es c. own_caption source ids (docling_id source r) c es) xs cs)" for xs cs
  proof (induction cs arbitrary: xs)
    case (Cons c cs)
    show ?case
      using same_texts_trans [OF own_caption_texts Cons.IH] by simp
  qed (simp add: same_texts_refl)
  show ?case
  proof (cases "docling_id source r \<in> set ids")
    case False
    with 2(1) [OF False] 2(3) show ?thesis by simp
  next
    case True
    then obtain cs where "own_captions source ids items
        (foldl (\<lambda>es c. own_caption source ids (docling_id source r) c es) es cs) = Inr es'"
      using 2(3) by (auto simp: result_simps)
    then have "same_texts (foldl (\<lambda>es c. own_caption source ids (docling_id source r) c es) es cs) es'"
      using 2(2) True by simp
    with fold show ?thesis using same_texts_trans by blast
  qed
qed (simp add: same_texts_refl)

lemma hierarchy_texts: "hierarchy stack es = Inr es' \<Longrightarrow> same_texts es es'"
proof (induction stack es arbitrary: es' rule: hierarchy.induct)
  case (2 stack e es)
  have adopted: "el_id (adopt s e) = el_id e" "el_kind (adopt s e) = el_kind e" "el_text (adopt s e) = el_text e" for s
    by (auto simp: adopt_def split: list.splits)
  show ?case
    using 2(3) 2(1) [OF _ refl] 2(2) adopted
    by (auto simp: result_simps Let_def same_texts_def split: if_splits)
qed (simp add: same_texts_refl)

lemma set_ref_keys: "distinct (map fst d) \<Longrightarrow> distinct (map fst (set_ref d k v)) \<and> fst ` set (set_ref d k v) = insert k (fst ` set d)"
  by (induction d k v rule: set_ref.induct) auto

lemma add_items_distinct: "add_items vs d = Inr d' \<Longrightarrow> distinct (map fst d) \<Longrightarrow> distinct (map fst d')"
  by (induction vs d rule: add_items.induct) (auto simp: result_simps set_ref_keys)

lemma add_collections_distinct:
  "add_collections data cs d = Inr d' \<Longrightarrow> distinct (map fst d) \<Longrightarrow> distinct (map fst d')"
  by (induction data cs d rule: add_collections.induct) (auto simp: result_simps dest: add_items_distinct)

lemma add_roots_distinct:
  "add_roots data ns d = Inr d' \<Longrightarrow> distinct (map fst d) \<Longrightarrow> distinct (map fst d')"
proof (induction data ns d rule: add_roots.induct)
  case (2 data n ns d)
  show ?case
  proof (cases "root_of data n")
    case None
    with 2 show ?thesis by simp
  next
    case (Some v)
    then obtain d1 where d1: "add_items [v] d = Inr d1" and rest: "add_roots data ns d1 = Inr d'"
      using 2(3) by (auto simp only: add_roots.simps option.case result_simps)
    show ?thesis
      using 2(2) [OF Some rest add_items_distinct [OF d1 2(4)]] .
  qed
qed simp

lemma references_distinct: "references_of data = Inr refs \<Longrightarrow> distinct (map fst refs)"
proof -
  assume "references_of data = Inr refs"
  then obtain d where d: "add_collections data [''texts'', ''tables'', ''pictures'', ''groups''] [] = Inr d"
      and r: "add_roots data [''body'', ''furniture''] d = Inr refs"
    unfolding references_of_def rbind_eq_Inr by blast
  show ?thesis
    by (rule add_roots_distinct [OF r add_collections_distinct [OF d]]) simp
qed

text \<open>C37. A Docling document that is accepted loses none of its labelled items: each one, reached from the body,
  from the furniture or from nothing at all, is an element of the tree with the kind of its label and its
  own text, under the id of its reference.\<close>

theorem docling_complete:
  assumes tree: "from_docling parse source data = Inr t" and refs: "references_of data = Inr refs"
    and it: "(r, it) \<in> set refs" and kind: "docling_kind it = Some kind"
  shows "\<exists>e \<in> set (tree_elements t). el_id e = docling_id source r \<and> el_kind e = kind
    \<and> el_text e = py_str (get_or it ''text'' (JStr []))"
proof -
  obtain st emitted outs es es' where
      roots: "visit_roots parse source refs data [''body'', ''furniture''] ([], []) = Inr st"
    and orphans: "visit_orphans parse source refs refs st = Inr (emitted, outs)"
    and caps: "own_captions source (map el_id outs) refs outs = Inr es"
    and heads: "section_hierarchy es = Inr es'" and built: "build_tree source es' = Inr t"
    using tree by (auto simp: from_docling_def refs result_simps)
  have "all_shown source refs st"
    using visit_roots_result [OF roots] by (simp add: all_shown_def)
  then have all: "all_shown source refs (emitted, outs)" and in_all: "r \<in> set emitted"
    using visit_orphans_result [OF orphans] it kind by auto
  have "map_of refs r = Some it"
    using it references_distinct [OF refs] by simp
  moreover have "shown source refs outs r"
    using all in_all by (simp add: all_shown_def)
  ultimately obtain e where e: "e \<in> set outs" "el_id e = docling_id source r" "el_kind e = kind"
      "el_text e = py_str (get_or it ''text'' (JStr []))"
    using kind unfolding shown_def by blast
  have "same_texts outs es'"
    using own_captions_texts [OF caps] heads hierarchy_texts unfolding section_hierarchy_def
    by (blast intro: same_texts_trans)
  moreover have "same_texts es' (tree_elements t)"
    using build_tree_elements [OF built]
    by (auto simp: same_texts_def same_element_def elim: list_all2_mono)
  ultimately have "same_texts outs (tree_elements t)"
    by (rule same_texts_trans)
  from same_texts_member [OF this e(1)] e(2-4) show ?thesis by simp
qed

subsection \<open>Cells of a table do not overlap\<close>

lemma distinct_extent: "distinct (extent r c rs cs)"
  by (simp add: extent_def distinct_product)

lemma place_cell_occupied:
  assumes "place_cell parse source parent nrows ncols index cell st = Inr st'" and "distinct (ts_occupied st)"
    and "set (ts_occupied st) \<subseteq> {0..<nrows} \<times> {0..<ncols}"
  shows "distinct (ts_occupied st') \<and> set (ts_occupied st') \<subseteq> {0..<nrows} \<times> {0..<ncols}
    \<and> length (ts_result st') = Suc (length (ts_result st))"
proof -
  obtain kvs r c rs cs where ok: "\<not> bad_extent nrows ncols r c rs cs"
      and free: "\<not> list_ex (\<lambda>p. p \<in> set (ts_occupied st)) (extent r c rs cs)"
      and put: "put_cell parse source parent index kvs r c rs cs st = Inr st'"
    using assms(1) unfolding place_cell_def rbind_eq_Inr
    by (elim exE conjE) (simp only: split: if_split_asm, simp_all only: sum.distinct)
  have occ: "ts_occupied st' = ts_occupied st @ extent r c rs cs"
    and len: "length (ts_result st') = Suc (length (ts_result st))"
    using put by (auto simp: put_cell_def result_simps Let_def)
  have "set (extent r c rs cs) \<inter> set (ts_occupied st) = {}"
    using free by (auto simp: list_ex_iff)
  moreover have "set (extent r c rs cs) \<subseteq> {0..<nrows} \<times> {0..<ncols}"
    using ok by (auto simp: extent_def bad_extent_def)
  ultimately show ?thesis
    using assms(2,3) distinct_extent [of r c rs cs] unfolding occ len by auto
qed

text \<open>The extents of the cells of an accepted table are disjoint and inside its grid, and every cell is an
  element.\<close>

lemma cells_disjoint:
  assumes "place_cells parse source parent nrows ncols index cells st = Inr st'" and "distinct (ts_occupied st)"
    and "set (ts_occupied st) \<subseteq> {0..<nrows} \<times> {0..<ncols}"
  shows "distinct (ts_occupied st') \<and> set (ts_occupied st') \<subseteq> {0..<nrows} \<times> {0..<ncols}
    \<and> length (ts_result st') = length (ts_result st) + length cells"
  using assms
proof (induction cells arbitrary: index st)
  case (Cons c cs)
  then obtain st1 where c: "place_cell parse source parent nrows ncols index c st = Inr st1"
    and r: "place_cells parse source parent nrows ncols (Suc index) cs st1 = Inr st'"
    by (auto simp: result_simps)
  note one = place_cell_occupied [OF c Cons.prems(2,3)]
  with Cons.IH [OF r] show ?case by simp
qed simp

subsection \<open>A concrete document\<close>

definition demo_docling :: item where
  "demo_docling =
     [(''texts'', JList [JObj [(''self_ref'', JStr ''#/texts/0''), (''label'', JStr ''text''), (''text'', JStr ''hi'')]]),
      (''body'', JObj [(''self_ref'', JStr ''#/body''), (''children'', JList [JObj [(''$ref'', JStr ''#/texts/0'')]])])]"

lemma demo_references:
  "references_of demo_docling = Inr
     [(''#/texts/0'', [(''self_ref'', JStr ''#/texts/0''), (''label'', JStr ''text''), (''text'', JStr ''hi'')]),
      (''#/body'', [(''self_ref'', JStr ''#/body''), (''children'', JList [JObj [(''$ref'', JStr ''#/texts/0'')]])])]"
  by (simp add: references_of_def demo_docling_def get_or_def as_list_def as_dict_def as_text_def field_def
      root_of_def truthy_def)

lemma single_tree:
  assumes "el_kind e \<in> set KINDS" and "el_page e = None" and "el_parent e = None"
  shows "\<exists>t. build_tree source [e] = Inr t"
proof -
  have "parts_ok [e]"
    using assms by (simp add: parts_ok_def parent_rel_def page_ok_def parent_known_def acyclic_def)
  then show ?thesis using build_tree_result [of "[e]" source] by blast
qed

lemma demo_docling_ok: "\<exists>t. from_docling parse source demo_docling = Inr t"
  by (simp add: from_docling_def demo_references)
     (simp add: demo_docling_def root_of_def truthy_def as_dict_def field_def as_text_def as_list_def get_or_def
      open_item_def docling_kind_def docling_elements_def docling_element_def first_prov_def page_of_def
      bbox_of_def kind_attributes_def child_ref_def DOCLING_LABELS_def section_hierarchy_def adopt_def FURNITURE_def
      KINDS_def single_tree)

theorem docling_complete_witness:
  "\<exists>t e. from_docling (\<lambda>_. None) ''src'' demo_docling = Inr t \<and> e \<in> set (tree_elements t)
     \<and> el_kind e = ''Paragraph'' \<and> el_text e = ''hi''"
proof -
  obtain t where t: "from_docling (\<lambda>_. None) ''src'' demo_docling = Inr t"
    using demo_docling_ok by blast
  have "\<exists>e \<in> set (tree_elements t). el_id e = docling_id ''src'' ''#/texts/0'' \<and> el_kind e = ''Paragraph''
      \<and> el_text e = py_str (get_or [(''self_ref'', JStr ''#/texts/0''), (''label'', JStr ''text''), (''text'', JStr ''hi'')] ''text'' (JStr []))"
    by (rule docling_complete [OF t demo_references]) (simp_all add: docling_kind_def get_or_def DOCLING_LABELS_def)
  with t show ?thesis by (auto simp: get_or_def)
qed

end
