(* ===== verification/Paddle.thy ===== *)
theory Paddle
  imports Parsers
begin

section \<open>Documents from Paddle\<close>

text \<open>
  The Paddle half of \<open>theorem_ml/extract/elements.py\<close>. The HTML parser is an argument: of the first table of
  a text, the direct cells of each of its own rows, or nothing. \<open>free_column_free\<close>, \<open>free_column_first\<close>: a
  cell is given the first column that is not covered by the spans of earlier cells.
\<close>

definition PADDLE_LABELS :: "(string \<times> string) list" where
  "PADDLE_LABELS =
     [(''doc_title'', ''Title''), (''paragraph_title'', ''SectionHeader''), (''text'', ''Paragraph''),
      (''list'', ''ListItem''), (''list_item'', ''ListItem''), (''table'', ''Table''), (''image'', ''Figure''),
      (''chart'', ''Figure''), (''figure'', ''Figure''), (''formula'', ''Formula''),
      (''display_formula'', ''Formula''), (''inline_formula'', ''Formula''), (''code'', ''Code''),
      (''header'', ''Header''), (''footer'', ''Footer''), (''number'', ''Footer''), (''footnote'', ''Footnote''),
      (''reference'', ''Paragraph''), (''figure_title'', ''Caption''), (''table_title'', ''Caption''),
      (''table_caption'', ''Caption''), (''figure_caption'', ''Caption''), (''caption'', ''Caption''),
      (''abstract'', ''Paragraph''), (''content'', ''Paragraph''), (''aside_text'', ''Paragraph''),
      (''vision_footnote'', ''Footnote''), (''seal'', ''Figure''), (''algorithm'', ''Code'')]"

subsection \<open>HTML tables\<close>

record html_cell =
  hc_text :: string
  hc_rowspan :: "string option"
  hc_colspan :: "string option"
  hc_header :: bool

definition html_span :: "string option \<Rightarrow> (element_error, int) result" where
  "html_span v = (case v of None \<Rightarrow> Inr 1 | Some s \<Rightarrow> as_int (JStr s))"

text \<open>\<open>while (r, c) in occupied: c += 1\<close>.\<close>

function free_column :: "(int \<times> int) list \<Rightarrow> int \<Rightarrow> int \<Rightarrow> int" where
  "free_column occupied r c = (if (r, c) \<in> set occupied then free_column occupied r (c + 1) else c)"
  by pat_completeness auto

termination
proof (relation "measure (\<lambda>(occupied, r, c). card {p \<in> set occupied. fst p = r \<and> c \<le> snd p})")
  fix occupied :: "(int \<times> int) list" and r c
  assume c: "(r, c) \<in> set occupied"
  have "{p \<in> set occupied. fst p = r \<and> c + 1 \<le> snd p} \<subset> {p \<in> set occupied. fst p = r \<and> c \<le> snd p}"
  proof
    show "{p \<in> set occupied. fst p = r \<and> c + 1 \<le> snd p} \<subseteq> {p \<in> set occupied. fst p = r \<and> c \<le> snd p}"
      by auto
    have "(r, c) \<in> {p \<in> set occupied. fst p = r \<and> c \<le> snd p}" using c by simp
    moreover have "(r, c) \<notin> {p \<in> set occupied. fst p = r \<and> c + 1 \<le> snd p}" by simp
    ultimately show "{p \<in> set occupied. fst p = r \<and> c + 1 \<le> snd p} \<noteq> {p \<in> set occupied. fst p = r \<and> c \<le> snd p}"
      by blast
  qed
  then show "((occupied, r, c + 1), occupied, r, c)
      \<in> measure (\<lambda>(occupied, r, c). card {p \<in> set occupied. fst p = r \<and> c \<le> snd p})"
    by (simp add: psubset_card_mono)
qed simp

declare free_column.simps [simp del]

type_synonym html_state = "(int \<times> int) list \<times> json list \<times> int"

fun html_row :: "int \<Rightarrow> html_cell list \<Rightarrow> int \<Rightarrow> html_state \<Rightarrow> (element_error, html_state) result" where
  "html_row r [] c st = Inr st"
| "html_row r (h # hs) c (occupied, cells, ncols) =
     (let c1 = free_column occupied r c
      in rbind (html_span (hc_rowspan h)) (\<lambda>rs.
         rbind (html_span (hc_colspan h)) (\<lambda>cs.
           html_row r hs (c1 + cs)
             (occupied @ extent r c1 rs cs,
              cells @ [JObj [(''text'', JStr (hc_text h)), (''start_row_offset_idx'', JInt r),
                (''start_col_offset_idx'', JInt c1), (''row_span'', JInt rs), (''col_span'', JInt cs),
                (''column_header'', JBool (hc_header h))]],
              max ncols (c1 + cs)))))"

fun html_rows :: "int \<Rightarrow> html_cell list list \<Rightarrow> html_state \<Rightarrow> (element_error, html_state) result" where
  "html_rows r [] st = Inr st"
| "html_rows r (row # rows) st = rbind (html_row r row 0 st) (html_rows (r + 1) rows)"

definition html_table_cells ::
  "(string \<Rightarrow> html_cell list list option) \<Rightarrow> string \<Rightarrow> (element_error, json list \<times> int \<times> int) result" where
  "html_table_cells soup html =
     (case soup html of
        None \<Rightarrow> Inl (Element_Error ''Paddle table output omitted structural HTML table'')
      | Some rows \<Rightarrow>
          rbind (html_rows 0 rows ([], [], 0)) (\<lambda>(_, cells, ncols). Inr (cells, int (length rows), ncols)))"

subsection \<open>Blocks\<close>

record paddle_state =
  pd_elements :: "doc_element list"
  pd_sections :: "(int \<times> string) list"

text \<open>The heading level of a block, and the sections that stay open at it.\<close>

definition open_sections ::
  "string \<Rightarrow> item \<Rightarrow> (int \<times> string) list \<Rightarrow> (element_error, (int \<times> (int \<times> string) list) option) result" where
  "open_sections kind block sections =
     (if kind = ''SectionHeader''
      then rbind (as_int (get_or block ''level'' (JInt 1))) (\<lambda>level.
             Inr (Some (level, dropWhile (\<lambda>s. level \<le> fst s) sections)))
      else Inr None)"

definition paddle_parent :: "string \<Rightarrow> (int \<times> string) list \<Rightarrow> string option" where
  "paddle_parent kind sections =
     (case sections of [] \<Rightarrow> None
      | (_, i) # _ \<Rightarrow> if kind \<in> {''Title'', ''Header'', ''Footer''} then None else Some i)"

definition paddle_attributes :: "string \<Rightarrow> item \<Rightarrow> string \<Rightarrow> item \<Rightarrow> item" where
  "paddle_attributes kind block txt attrs =
     (if kind = ''Formula'' then dict_set attrs ''latex'' (JStr txt)
      else if kind = ''Code'' then dict_set attrs ''language'' (get_or block ''language'' (JStr ''unknown''))
      else if kind = ''Figure'' then dict_set attrs ''caption'' (get_or block ''caption'' (JStr []))
      else if kind = ''Table'' then dict_set attrs ''source_html'' (JStr txt)
      else attrs)"

definition paddle_element ::
  "(string \<Rightarrow> pyfloat option) \<Rightarrow> (string \<Rightarrow> html_cell list list option) \<Rightarrow> string \<Rightarrow> int \<Rightarrow> nat \<Rightarrow> item \<Rightarrow> string
   \<Rightarrow> paddle_state \<Rightarrow> (element_error, paddle_state) result" where
  "paddle_element parse soup source page index block kind st =
     rbind (open_sections kind block (pd_sections st)) (\<lambda>heading.
       let sections = (case heading of None \<Rightarrow> pd_sections st | Some (_, open_ones) \<Rightarrow> open_ones);
           kept = filter (\<lambda>(k, _). k \<noteq> ''block_content'') block;
           attrs = (case heading of None \<Rightarrow> kept | Some (level, _) \<Rightarrow> dict_set kept ''level'' (JInt level));
           txt = py_str (get_or block ''block_content'' (JStr []));
           i = element_id source (''paddle/'' @ dec_int page @ ''/'' @ dec_nat index)
       in rbind (bbox_of parse (get_or block ''block_bbox'' JNull)) (\<lambda>box.
            let e = \<lparr>el_id = i, el_kind = kind, el_text = (if kind = ''Table'' then [] else txt),
                  byte_start = 0, byte_end = 0, el_page = Some page, el_bbox = box,
                  el_parent = paddle_parent kind sections, el_order = length (pd_elements st),
                  el_attributes = paddle_attributes kind block txt attrs\<rparr>;
                sections' = (case heading of None \<Rightarrow> sections | Some (level, _) \<Rightarrow> (level, i) # sections)
            in if kind \<noteq> ''Table''
               then Inr \<lparr>pd_elements = pd_elements st @ [e], pd_sections = sections'\<rparr>
               else rbind (html_table_cells soup txt) (\<lambda>(cells, nrows, ncols).
                    rbind (table_elements parse source e cells nrows ncols) (\<lambda>(e', cs).
                      Inr \<lparr>pd_elements = pd_elements st @ e' # cs, pd_sections = sections'\<rparr>))))"

definition paddle_block ::
  "(string \<Rightarrow> pyfloat option) \<Rightarrow> (string \<Rightarrow> html_cell list list option) \<Rightarrow> string \<Rightarrow> int \<Rightarrow> nat \<Rightarrow> json
   \<Rightarrow> paddle_state \<Rightarrow> (element_error, paddle_state) result" where
  "paddle_block parse soup source page index v st =
     rbind (as_dict v) (\<lambda>block.
     rbind (field block ''block_label'') (\<lambda>label.
       case (case label of JStr l \<Rightarrow> map_of PADDLE_LABELS l | _ \<Rightarrow> None) of
         None \<Rightarrow> Inl (Element_Error (''Unsupported Paddle block label: '' @ py_str label))
       | Some kind \<Rightarrow> paddle_element parse soup source page index block kind st))"

fun paddle_blocks ::
  "(string \<Rightarrow> pyfloat option) \<Rightarrow> (string \<Rightarrow> html_cell list list option) \<Rightarrow> string \<Rightarrow> int \<Rightarrow> nat \<Rightarrow> json list
   \<Rightarrow> paddle_state \<Rightarrow> (element_error, paddle_state) result" where
  "paddle_blocks parse soup source page index [] st = Inr st"
| "paddle_blocks parse soup source page index (v # vs) st =
     rbind (paddle_block parse soup source page index v st)
       (paddle_blocks parse soup source page (Suc index) vs)"

text \<open>Captions join the figure or table of their group; lists and objects are no keys of a dict. Keys
  are compared as JSON values (\<open>1\<close> and \<open>true\<close>, one key in Python, are two here).\<close>

definition hashable :: "json \<Rightarrow> bool" where
  "hashable v = (case v of JList _ \<Rightarrow> False | JObj _ \<Rightarrow> False | _ \<Rightarrow> True)"

definition owner_groups :: "doc_element list \<Rightarrow> (json \<times> string) list" where
  "owner_groups es =
     rev (List.map_filter (\<lambda>e. if el_kind e \<in> {''Figure'', ''Table''}
       then map_option (\<lambda>g. (g, el_id e)) (map_of (el_attributes e) ''group_id'') else None) es)"

definition group_of :: "doc_element \<Rightarrow> json" where
  "group_of e = get_or (el_attributes e) ''group_id'' JNull"

definition grouped :: "(json \<times> string) list \<Rightarrow> doc_element \<Rightarrow> (element_error, doc_element) result" where
  "grouped owners e =
     (if el_kind e \<noteq> ''Caption'' then Inr e
      else if \<not> hashable (group_of e) then Inl Conversion_Error
      else case map_of owners (group_of e) of
             None \<Rightarrow> Inr e
           | Some i \<Rightarrow> Inr (e\<lparr>el_parent := Some i\<rparr>))"

definition paddle_page :: "item \<Rightarrow> int option \<Rightarrow> (element_error, int) result" where
  "paddle_page data page =
     (case page of Some n \<Rightarrow> Inr n
      | None \<Rightarrow>
          (let v = get_or data ''page_index'' JNull
           in rbind (as_int (if truthy v then v else JInt 0)) (\<lambda>n. Inr (n + 1))))"

definition from_paddle ::
  "(string \<Rightarrow> pyfloat option) \<Rightarrow> (string \<Rightarrow> html_cell list list option) \<Rightarrow> string \<Rightarrow> int option \<Rightarrow> item
   \<Rightarrow> (element_error, doc_tree) result" where
  "from_paddle parse soup source page result =
     rbind (as_dict (get_or result ''res'' (JObj result))) (\<lambda>data.
     rbind (paddle_page data page) (\<lambda>n.
       case map_of data ''parsing_res_list'' of
         None \<Rightarrow> Inl (Element_Error ''Expected official Paddle page parsing_res_list'')
       | Some v \<Rightarrow>
           rbind (as_list v) (\<lambda>blocks.
           rbind (paddle_blocks parse soup source n 0 blocks \<lparr>pd_elements = [], pd_sections = []\<rparr>) (\<lambda>st.
           let owners = owner_groups (pd_elements st)
           in if \<not> list_all (\<lambda>(g, _). hashable g) owners then Inl Conversion_Error
              else rbind (traverse (grouped owners) (pd_elements st)) (build_tree source)))))"

subsection \<open>Columns\<close>

lemma free_column_free: "(r, free_column occupied r c) \<notin> set occupied \<and> c \<le> free_column occupied r c"
proof (induction occupied r c rule: free_column.induct)
  case (1 occupied r c)
  then show ?case
    by (cases "(r, c) \<in> set occupied") (simp_all add: free_column.simps [of occupied r c])
qed

lemma free_column_first:
  "c \<le> k \<Longrightarrow> k < free_column occupied r c \<Longrightarrow> (r, k) \<in> set occupied"
proof (induction occupied r c rule: free_column.induct)
  case (1 occupied r c)
  show ?case
  proof (cases "(r, c) \<in> set occupied")
    case False
    with 1(2,3) show ?thesis by (simp add: free_column.simps [of occupied r c])
  next
    case True
    with 1 show ?thesis by (cases "k = c") (simp_all add: free_column.simps [of occupied r c])
  qed
qed

end
