(* ===== verification/Rl_Traces.thy ===== *)
theory Rl_Traces
  imports Artifacts
begin

section \<open>Traces of evaluation and training runs\<close>

text \<open>
  The reading half of \<open>theorem_control/rl/ingest.py\<close>: \<open>parse_traces\<close> turns the lines of a
  \<open>traces.jsonl\<close> file into trajectory rows. \<open>json.loads\<close> of a line and \<open>float\<close> of a text are
  arguments. An error is told apart by its class, because the tasks catch some classes only:
  \<open>RlUncaught\<close> stands for the classes no task catches, with the name of the class.
  \<open>parse_traces_valid\<close>: every row has a score between 0 and 1, a digest, and no score if a tripwire fired.
\<close>

datatype rl_exc =
    RlArtifact artifact_error
  | RlPod string
  | RlValue string
  | RlRuntime string
  | RlOs string
  | RlUncaught string

fun rl_text :: "rl_exc \<Rightarrow> string" where
  "rl_text (RlArtifact e) = err_text e"
| "rl_text (RlPod m) = m"
| "rl_text (RlValue m) = m"
| "rl_text (RlRuntime m) = m"
| "rl_text (RlOs m) = m"
| "rl_text (RlUncaught m) = m"

definition config_digest :: "(string \<times> json) list \<Rightarrow> string" where
  "config_digest config = sha256_digest (utf8 (canonical_json (JObj config)))"

record trace_row =
  tr_task_key :: string
  tr_digest :: string
  tr_reward :: pyfloat
  tr_metrics :: "(string \<times> json) list"
  tr_resolved :: pyfloat
  tr_flags :: "string list"

subsection \<open>Lines\<close>

text \<open>\<open>bytes.splitlines()\<close>: a line ends at a line feed, a carriage return, or both.\<close>

fun lines_from :: "bytes \<Rightarrow> bytes \<Rightarrow> bytes list" where
  "lines_from acc [] = (if acc = [] then [] else [acc])"
| "lines_from acc (b # bs) =
     (if b = 10 then acc # lines_from [] bs
      else if b = 13 then acc # lines_from [] (if bs \<noteq> [] \<and> hd bs = 10 then tl bs else bs)
      else lines_from (acc @ [b]) bs)"

definition byte_lines :: "bytes \<Rightarrow> bytes list" where
  "byte_lines payload = lines_from [] payload"

definition blank_bytes :: "bytes \<Rightarrow> bool" where
  "blank_bytes line = list_all (\<lambda>b. b \<in> {9, 10, 11, 12, 13, 32}) line"

definition line_error :: "nat \<Rightarrow> string \<Rightarrow> string" where
  "line_error n what = ''traces.jsonl line '' @ dec_nat n @ what"

subsection \<open>Scores\<close>

definition py_float :: "(string \<Rightarrow> pyfloat option) \<Rightarrow> json \<Rightarrow> (rl_exc, pyfloat) result" where
  "py_float parse v =
     (case v of
        JFloat f \<Rightarrow> Inr f
      | JBool b \<Rightarrow> Inr (Fin (if b then 1 else 0))
      | JInt i \<Rightarrow> (case fl (of_int i) of Fin x \<Rightarrow> Inr (Fin x) | _ \<Rightarrow> Inl (RlUncaught ''OverflowError''))
      | JStr s \<Rightarrow> (case parse s of
                    None \<Rightarrow> Inl (RlValue (''could not convert string to float: '' @ repr_str s))
                  | Some f \<Rightarrow> Inr f)
      | _ \<Rightarrow> Inl (RlUncaught ''TypeError''))"

definition reward_score :: "(string \<Rightarrow> pyfloat option) \<Rightarrow> json \<Rightarrow> (rl_exc, pyfloat) result" where
  "reward_score parse v =
     (let bad = Inl (RlValue ''reward value must be numeric or contain a numeric score'')
      in case v of
           JInt _ \<Rightarrow> py_float parse v
         | JFloat _ \<Rightarrow> py_float parse v
         | JBool _ \<Rightarrow> py_float parse v
         | JObj kvs \<Rightarrow>
             (case map_of kvs ''score'' of
                Some x \<Rightarrow> py_float parse x
              | None \<Rightarrow> (case map_of kvs ''value'' of Some x \<Rightarrow> py_float parse x | None \<Rightarrow> bad))
         | _ \<Rightarrow> bad)"

text \<open>\<open>sum\<close> of floats compensates its rounding errors since Python 3.12, the version of the image:
  \<open>s\<close> is the sum so far, \<open>c\<close> what rounding took from it.\<close>

fun sum_loop :: "pyfloat \<Rightarrow> pyfloat \<Rightarrow> pyfloat list \<Rightarrow> pyfloat" where
  "sum_loop s c [] = (if c \<noteq> Fin 0 \<and> isfinite c then fadd s c else s)"
| "sum_loop s c (x # xs) =
     (let t = fadd s x
      in sum_loop t (fadd c (if fle (fabs x) (fabs s) then fadd (fsub s t) x else fadd (fsub x t) s)) xs)"

definition py_sum :: "pyfloat list \<Rightarrow> pyfloat" where
  "py_sum xs = (case xs of [] \<Rightarrow> Fin 0 | x # ys \<Rightarrow> sum_loop x (Fin 0) ys)"

definition weighted_score :: "(string \<Rightarrow> pyfloat option) \<Rightarrow> json \<Rightarrow> (rl_exc, pyfloat) result" where
  "weighted_score parse v =
     rbind (reward_score parse v) (\<lambda>s.
     rbind (py_float parse (case v of JObj kvs \<Rightarrow> get_or kvs ''weight'' (JFloat (Fin 1)) | _ \<Rightarrow> JFloat (Fin 1))) (\<lambda>w.
       Inr (fmul s w)))"

definition trace_reward ::
  "(string \<Rightarrow> pyfloat option) \<Rightarrow> (string \<times> json) list \<Rightarrow> (string \<times> json) list \<Rightarrow> pyfloat \<Rightarrow> (rl_exc, pyfloat) result" where
  "trace_reward parse it rewards resolved =
     (let explicit = get_or it ''reward'' JNull
      in if explicit \<noteq> JNull then reward_score parse explicit
         else if rewards \<noteq> []
         then rbind (traverse (weighted_score parse) (filter (\<lambda>v. v \<noteq> JNull) (map snd rewards)))
                (\<lambda>xs. Inr (py_sum xs))
         else Inr resolved)"

subsection \<open>One trace\<close>

text \<open>\<open>a or b or c\<close>: the first true value, the last one if there is none.\<close>

fun first_true :: "json list \<Rightarrow> json" where
  "first_true [] = JNull"
| "first_true [v] = v"
| "first_true (v # u # vs) = (if truthy v then v else first_true (u # vs))"

definition trace_task_key :: "(string \<times> json) list \<Rightarrow> json" where
  "trace_task_key it =
     (let task = get_or it ''task'' (JObj []);
          task_data = (case task of JObj kvs \<Rightarrow> get_or kvs ''data'' (JObj []) | _ \<Rightarrow> JObj [])
      in first_true
           [get_or it ''task_key'' JNull, get_or it ''task_id'' JNull, get_or it ''name'' JNull,
            case task of JObj kvs \<Rightarrow> get_or kvs ''key'' JNull | _ \<Rightarrow> JNull,
            case task_data of JObj kvs \<Rightarrow> get_or kvs ''task_id'' JNull | _ \<Rightarrow> JNull])"

definition as_mapping :: "nat \<Rightarrow> string \<Rightarrow> json \<Rightarrow> (rl_exc, (string \<times> json) list) result" where
  "as_mapping n what v =
     (case v of JObj kvs \<Rightarrow> Inr kvs | _ \<Rightarrow> Inl (RlUncaught (line_error n (what @ '' must be an object''))))"

definition trace_flags ::
  "(string \<times> json) list \<Rightarrow> (string \<times> json) list \<Rightarrow> (string \<times> json) list \<Rightarrow> string list option" where
  "trace_flags it metrics info =
     (let grader = get_or info ''django_v1'' (JObj []);
          grader_flags = (case grader of JObj kvs \<Rightarrow> get_or kvs ''tripwires'' (JObj []) | _ \<Rightarrow> JObj [])
      in case get_or it ''tripwire_flags'' (get_or metrics ''tripwire_flags'' grader_flags) of
           JObj kvs \<Rightarrow> Some (map fst (filter (\<lambda>(_, fired). truthy fired) kvs))
         | JList vs \<Rightarrow>
             if list_all (\<lambda>v. jstr v \<noteq> None) vs then Some (List.map_filter jstr vs) else None
         | _ \<Rightarrow> None)"

definition supplied_digest_ok :: "(string \<times> json) list \<Rightarrow> string \<Rightarrow> bool" where
  "supplied_digest_ok it digest =
     (let supplied = get_or it ''trace_digest'' JNull in supplied = JNull \<or> supplied = JStr digest)"

definition score_in_range :: "pyfloat \<Rightarrow> bool" where
  "score_in_range x = (fle (Fin 0) x \<and> fle x (Fin 1))"

definition parse_item ::
  "(string \<Rightarrow> pyfloat option) \<Rightarrow> nat \<Rightarrow> (string \<times> json) list \<Rightarrow> (rl_exc, trace_row) result" where
  "parse_item parse n it =
     (let digest = sha256_digest (utf8 (canonical_json (get_or it ''trace'' (JObj it))))
      in case trace_task_key it of
        JStr key \<Rightarrow>
          if blank key then Inl (RlValue (line_error n '' lacks task_key''))
          else
            rbind (as_mapping n '' metrics'' (get_or it ''metrics'' (JObj []))) (\<lambda>metrics.
            rbind (as_mapping n '' rewards'' (get_or it ''rewards'' (JObj []))) (\<lambda>rewards.
            rbind (reward_score parse (get_or rewards ''resolved''
                     (get_or metrics ''resolved'' (get_or it ''reward'' (JFloat (Fin 0)))))) (\<lambda>resolved.
            rbind (trace_reward parse it rewards resolved) (\<lambda>reward.
              if \<not> score_in_range resolved then Inl (RlValue (line_error n '' resolved is out of range''))
              else rbind (as_mapping n '' info'' (get_or it ''info'' (JObj []))) (\<lambda>info.
                case trace_flags it metrics info of
                  None \<Rightarrow> Inl (RlValue (line_error n '' tripwire flags are invalid''))
                | Some flags \<Rightarrow>
                    if flags \<noteq> [] \<and> resolved \<noteq> Fin 0
                    then Inl (RlValue (line_error n '' resolves despite a tripwire''))
                    else if \<not> supplied_digest_ok it digest
                    then Inl (RlValue (line_error n '' digest mismatch''))
                    else Inr \<lparr>tr_task_key = key, tr_digest = digest, tr_reward = reward, tr_metrics = metrics,
                              tr_resolved = resolved, tr_flags = flags\<rparr>)))))
      | _ \<Rightarrow> Inl (RlValue (line_error n '' lacks task_key'')))"

definition parse_line ::
  "(bytes \<Rightarrow> json option) \<Rightarrow> (string \<Rightarrow> pyfloat option) \<Rightarrow> nat \<Rightarrow> bytes \<Rightarrow> (rl_exc, trace_row) result" where
  "parse_line loads parse n line =
     (case loads line of
        None \<Rightarrow> Inl (RlValue (''invalid traces.jsonl line '' @ dec_nat n))
      | Some v \<Rightarrow> rbind (as_mapping n [] v) (parse_item parse n))"

fun parse_lines ::
  "(bytes \<Rightarrow> json option) \<Rightarrow> (string \<Rightarrow> pyfloat option) \<Rightarrow> nat \<Rightarrow> bytes list \<Rightarrow> (rl_exc, trace_row list) result" where
  "parse_lines loads parse n [] = Inr []"
| "parse_lines loads parse n (line # lines) =
     (if blank_bytes line then parse_lines loads parse (Suc n) lines
      else rbind (parse_line loads parse n line) (\<lambda>row.
             rbind (parse_lines loads parse (Suc n) lines) (\<lambda>rows. Inr (row # rows))))"

definition parse_traces ::
  "(bytes \<Rightarrow> json option) \<Rightarrow> (string \<Rightarrow> pyfloat option) \<Rightarrow> bytes \<Rightarrow> (rl_exc, trace_row list) result" where
  "parse_traces loads parse payload =
     rbind (parse_lines loads parse 1 (byte_lines payload)) (\<lambda>rows.
       if rows = [] then Inl (RlValue ''traces.jsonl did not contain any trajectories'') else Inr rows)"

subsection \<open>The Arrow shard\<close>

definition TRACE_SCHEMA :: table_schema where
  "TRACE_SCHEMA =
     \<lparr>schema_fields = map (\<lambda>(name, ty). \<lparr>field_name = name, field_type = ty, field_nullable = False\<rparr>)
        [(''task_key'', ''string''), (''trace_digest'', ''string''), (''reward'', ''double''),
         (''metrics_json'', ''string''), (''resolved'', ''double''), (''tripwire_flags_json'', ''string'')],
      schema_metadata = []\<rparr>"

definition trace_cells :: "trace_row \<Rightarrow> json list" where
  "trace_cells row =
     [JStr (tr_task_key row), JStr (tr_digest row), JFloat (tr_reward row),
      JStr (canonical_json (JObj (tr_metrics row))), JFloat (tr_resolved row),
      JStr (canonical_json (JList (map JStr (tr_flags row))))]"

definition trace_table :: "trace_row list \<Rightarrow> table" where
  "trace_table rows = \<lparr>tbl_schema = TRACE_SCHEMA, tbl_rows = map trace_cells rows\<rparr>"

subsection \<open>What a parsed row is\<close>

definition row_valid :: "trace_row \<Rightarrow> bool" where
  "row_valid row \<longleftrightarrow>
     \<not> blank (tr_task_key row) \<and> is_sha256_digest (tr_digest row) \<and> score_in_range (tr_resolved row)
     \<and> (tr_flags row \<noteq> [] \<longrightarrow> tr_resolved row = Fin 0)"

lemma parse_item_valid:
  assumes "parse_item parse n it = Inr row"
  shows "row_valid row"
proof -
  define digest where "digest = sha256_digest (utf8 (canonical_json (get_or it ''trace'' (JObj it))))"
  obtain key where key: "trace_task_key it = JStr key" "\<not> blank key"
    using assms by (cases "trace_task_key it") (auto simp: parse_item_def Let_def split: if_splits)
  obtain metrics rewards resolved reward info where range: "score_in_range resolved"
    and last: "(case trace_flags it metrics info of
        None \<Rightarrow> Inl (RlValue (line_error n '' tripwire flags are invalid''))
      | Some flags \<Rightarrow>
          if flags \<noteq> [] \<and> resolved \<noteq> Fin 0 then Inl (RlValue (line_error n '' resolves despite a tripwire''))
          else if \<not> supplied_digest_ok it digest then Inl (RlValue (line_error n '' digest mismatch''))
          else Inr \<lparr>tr_task_key = key, tr_digest = digest, tr_reward = reward, tr_metrics = metrics,
                    tr_resolved = resolved, tr_flags = flags\<rparr>) = Inr row"
    using assms unfolding parse_item_def Let_def key digest_def [symmetric] json.case if_not_P [OF key(2)]
      rbind_eq_Inr
    by (elim exE conjE) (simp only: rbind_eq_Inr split: if_splits; blast)
  then obtain flags where "flags \<noteq> [] \<longrightarrow> resolved = Fin 0"
      "row = \<lparr>tr_task_key = key, tr_digest = digest, tr_reward = reward, tr_metrics = metrics,
        tr_resolved = resolved, tr_flags = flags\<rparr>"
    by (cases "trace_flags it metrics info") (auto split: if_splits)
  with key range show ?thesis by (simp add: row_valid_def digest_def)
qed

lemma parse_lines_valid: "parse_lines loads parse n lines = Inr rows \<Longrightarrow> row \<in> set rows \<Longrightarrow> row_valid row"
proof (induction lines arbitrary: n rows)
  case (Cons line lines)
  show ?case
  proof (cases "blank_bytes line")
    case True
    with Cons show ?thesis by auto
  next
    case False
    with Cons.prems(1) obtain x xs where x: "parse_line loads parse n line = Inr x"
      and xs: "parse_lines loads parse (Suc n) lines = Inr xs" "rows = x # xs"
      by (auto simp: result_simps)
    have "row_valid x"
      using x by (auto simp: parse_line_def result_simps split: option.splits dest: parse_item_valid)
    with Cons.IH [OF xs(1)] Cons.prems(2) xs(2) show ?thesis by auto
  qed
qed simp

lemma parse_traces_valid:
  assumes "parse_traces loads parse payload = Inr rows"
  shows "rows \<noteq> []" and "row \<in> set rows \<Longrightarrow> row_valid row"
  using assms parse_lines_valid by (auto simp: parse_traces_def result_simps split: if_splits)

end
