(* ===== verification/Rl_Runs.thy ===== *)
theory Rl_Runs
  imports Rl_Traces Offload
begin

section \<open>Reinforcement learning runs\<close>

text \<open>
  \<open>theorem_control/rl\<close>: the rows of \<open>models.py\<close>, the endpoints of \<open>api.py\<close>, the writing half of \<open>ingest.py\<close>
  and the two Celery tasks of \<open>tasks.py\<close>, over \<open>Artifacts\<close> and the Pod client of \<open>Runpod\<close>. A transaction that locks its row is one
  step; a call of the object store, of RunPod or of the evaluation process acts on the whole world. A task
  keeps working on the row object it claimed. The evaluation process, pyarrow, \<open>json.loads\<close>, \<open>float\<close>, the
  clock, fresh ids and what the database refuses to store are arguments.
\<close>

subsection \<open>Rows and world\<close>

datatype rl_operation = EVAL | PRIME_RL_TRAIN

fun rl_operation_text :: "rl_operation \<Rightarrow> string" where
  "rl_operation_text EVAL = ''eval''"
| "rl_operation_text PRIME_RL_TRAIN = ''prime_rl.train''"

datatype run_status = RunQueued | RunRunning | RunSucceeded | RunFailed | RunCanceled

type_synonym descriptor = "(string \<times> json) list"

record training_run =
  run_id :: uuid
  run_tenant :: uuid
  run_operation :: rl_operation
  run_operation_id :: string
  taskset_ref :: string
  run_config_digest :: string
  config_json :: "(string \<times> json) list"
  image_digest :: string
  pod_id :: string
  run_status :: run_status
  artifact_keys :: "json list"
  artifact_descriptors :: "descriptor list"
  run_error :: string
  run_started :: "time option"
  run_ended :: "time option"
  run_created :: time

record trajectory =
  tj_id :: uuid
  tj_run :: uuid
  tj_task_key :: string
  tj_digest :: string
  tj_reward :: pyfloat
  tj_metrics :: "(string \<times> json) list"
  arrow_shard_key :: string

record verdict =
  vd_trajectory :: uuid
  vd_resolved :: pyfloat
  metric_values :: "(string \<times> json) list"
  tripwire_flags :: "string list"

record 'x rl_world =
  rl_runs :: "training_run list"
  trajectories :: "trajectory list"
  verdicts :: "verdict list"
  rl_queue :: "(rl_operation \<times> uuid) list"
  rl_rest :: 'x

text \<open>What a finished evaluation process leaves: its return code, its standard error, and the files and
  directories (\<open>None\<close>) below its output directory, by the components of their paths.\<close>

record eval_result =
  returncode :: int
  stderr_text :: string
  eval_files :: "(string list \<times> bytes option) list"

record 'x rl_env =
  rl_cfg :: s3_settings
  rl_s3 :: "'x rl_world s3_client"
  rl_ipc :: arrow_ipc
  rl_http :: "'x rl_world runpod_env"
  rl_now :: "'x rl_world \<Rightarrow> time"
  rl_fresh :: "'x rl_world \<Rightarrow> uuid"
  rl_broker_up :: "'x rl_world \<Rightarrow> bool"
  rl_loads :: "bytes \<Rightarrow> json option"
  rl_float :: "string \<Rightarrow> pyfloat option"
  rl_db_takes :: "trace_row list \<Rightarrow> bool"
  rl_eval_process :: "string list \<Rightarrow> 'x rl_world \<Rightarrow> (string, eval_result) result \<times> 'x rl_world"
  rl_eval_directory :: "uuid \<Rightarrow> string"
  rl_runpod_key :: string
  rl_pods_base :: string
  rl_cloud_type :: string
  rl_gpu_type :: string
  rl_deadline :: int
  rl_poll :: pyfloat

definition get_run_row :: "'x rl_world \<Rightarrow> uuid \<Rightarrow> training_run option" where
  "get_run_row w j = row_of run_id (rl_runs w) j"

definition modify_run :: "uuid \<Rightarrow> (training_run \<Rightarrow> training_run) \<Rightarrow> 'x rl_world \<Rightarrow> 'x rl_world" where
  "modify_run j f w = w\<lparr>rl_runs := map (\<lambda>r. if run_id r = j then f r else r) (rl_runs w)\<rparr>"

definition send_rl :: "rl_operation \<Rightarrow> uuid \<Rightarrow> 'x rl_world \<Rightarrow> 'x rl_world" where
  "send_rl oper j w = w\<lparr>rl_queue := rl_queue w @ [(oper, j)]\<rparr>"

definition is_immutable_image_reference :: "string \<Rightarrow> bool" where
  "is_immutable_image_reference value =
     (case rpartition_on (CHR ''@'') value of (img, separator, digest) \<Rightarrow>
        img \<noteq> [] \<and> separator \<and> is_sha256_digest digest)"

subsection \<open>Submission\<close>

definition RL_EVAL_SCOPE :: string where "RL_EVAL_SCOPE = ''rl:eval''"
definition RL_TRAIN_SCOPE :: string where "RL_TRAIN_SCOPE = ''rl:train''"
definition RL_READ_SCOPE :: string where "RL_READ_SCOPE = ''rl:read''"
definition RL_CANCEL_SCOPE :: string where "RL_CANCEL_SCOPE = ''rl:cancel''"

fun rl_scope :: "rl_operation \<Rightarrow> string" where
  "rl_scope EVAL = RL_EVAL_SCOPE"
| "rl_scope PRIME_RL_TRAIN = RL_TRAIN_SCOPE"

record rl_request =
  rlq_operation_id :: string
  rlq_taskset :: string
  rlq_config :: "(string \<times> json) list"
  rlq_image :: string

record rl_submission =
  rls_run :: uuid
  rls_status :: run_status
  rls_digest :: string
  rls_reused :: bool

text \<open>No key \<open>tenant\<close> or \<open>tenant_id\<close> at any depth names another tenant.\<close>

fun no_tenant_substitution :: "uuid \<Rightarrow> json \<Rightarrow> bool" where
  "no_tenant_substitution t (JObj kvs) =
     list_all (\<lambda>(k, v). (k = ''tenant'' \<or> k = ''tenant_id'' \<longrightarrow> py_str v = uuid_str t) \<and> no_tenant_substitution t v) kvs"
| "no_tenant_substitution t (JList vs) = list_all (no_tenant_substitution t) vs"
| "no_tenant_substitution t _ = True"

definition validate_rl_request :: "rl_operation \<Rightarrow> rl_request \<Rightarrow> (http_error, unit) result" where
  "validate_rl_request oper body =
     (if blank (rlq_operation_id body) \<or> 128 < length (rlq_operation_id body)
      then Inl (HttpError 400 ''operation_id must be between 1 and 128 characters'')
      else if blank (rlq_taskset body) \<or> 512 < length (rlq_taskset body)
      then Inl (HttpError 400 ''taskset_ref must be between 1 and 512 characters'')
      else if oper = PRIME_RL_TRAIN \<and> \<not> is_immutable_image_reference (rlq_image body)
      then Inl (HttpError 400 ''training requires an immutable image_digest'')
      else Inr ())"

text \<open>The checks of \<open>_submit\<close> before its transaction.\<close>

definition rl_admits ::
  "api_ctx \<Rightarrow> rl_operation \<Rightarrow> string \<Rightarrow> rl_request \<Rightarrow> (api_exc, uuid) result" where
  "rl_admits c oper authorization body =
     rbind (map_err Http (admit c authorization (rl_scope oper))) (\<lambda>t.
       if \<not> no_tenant_substitution t (JObj (rlq_config body))
       then Inl (Http (HttpError 403 ''payload tenant does not match the machine key''))
       else rbind (map_err Http (validate_rl_request oper body)) (\<lambda>_. Inr t))"

definition existing_run :: "training_run list \<Rightarrow> uuid \<Rightarrow> string \<Rightarrow> training_run option" where
  "existing_run rows t op = newest run_created (filter (\<lambda>r. run_tenant r = t \<and> run_operation_id r = op) rows)"

definition same_run :: "rl_operation \<Rightarrow> rl_request \<Rightarrow> training_run \<Rightarrow> bool" where
  "same_run oper body r =
     (run_operation r = oper \<and> taskset_ref r = rlq_taskset body
      \<and> run_config_digest r = config_digest (rlq_config body) \<and> image_digest r = rlq_image body)"

definition new_run :: "uuid \<Rightarrow> uuid \<Rightarrow> rl_operation \<Rightarrow> rl_request \<Rightarrow> time \<Rightarrow> training_run" where
  "new_run u t oper body created =
     \<lparr>run_id = u, run_tenant = t, run_operation = oper, run_operation_id = rlq_operation_id body,
      taskset_ref = rlq_taskset body, run_config_digest = config_digest (rlq_config body),
      config_json = rlq_config body, image_digest = rlq_image body, pod_id = [], run_status = RunQueued,
      artifact_keys = [], artifact_descriptors = [], run_error = [], run_started = None, run_ended = None,
      run_created = created\<rparr>"

text \<open>\<open>full_clean\<close>: a field that is not \<open>blank=True\<close> refuses an empty value, and \<open>config_json\<close> is one; then
  the lengths, and \<open>clean\<close>.\<close>

definition run_full_clean :: "training_run \<Rightarrow> bool" where
  "run_full_clean r =
     (run_operation_id r \<noteq> [] \<and> length (run_operation_id r) \<le> 128
      \<and> taskset_ref r \<noteq> [] \<and> length (taskset_ref r) \<le> 512
      \<and> config_json r \<noteq> [] \<and> length (run_config_digest r) \<le> 71 \<and> length (image_digest r) \<le> 512
      \<and> is_sha256_digest (run_config_digest r)
      \<and> (run_operation r = PRIME_RL_TRAIN \<longrightarrow> is_immutable_image_reference (image_digest r)))"

definition rl_submission_of :: "training_run \<Rightarrow> bool \<Rightarrow> rl_submission" where
  "rl_submission_of r reused =
     \<lparr>rls_run = run_id r, rls_status = run_status r, rls_digest = run_config_digest r, rls_reused = reused\<rparr>"

text \<open>\<open>full_clean\<close> also refuses a primary key that is taken. The message is sent when the transaction has
  committed: a broker that is down leaves the row behind the exception.\<close>

definition submit_run ::
  "'x rl_env \<Rightarrow> api_ctx \<Rightarrow> rl_operation \<Rightarrow> uuid \<Rightarrow> string \<Rightarrow> rl_request \<Rightarrow> 'x rl_world
   \<Rightarrow> (api_exc, rl_submission) result \<times> 'x rl_world" where
  "submit_run env c oper u authorization body w =
     (case rl_admits c oper authorization body of
        Inl e \<Rightarrow> (Inl e, w)
      | Inr t \<Rightarrow>
          (case existing_run (rl_runs w) t (rlq_operation_id body) of
             Some r \<Rightarrow>
               if \<not> same_run oper body r
               then (Inl (Http (HttpError 409 ''operation_id was already used for another run'')), w)
               else (Inr (rl_submission_of r True), w)
           | None \<Rightarrow>
               let r = new_run u t oper body (rl_now env w);
                   w1 = w\<lparr>rl_runs := rl_runs w @ [r]\<rparr>
               in if \<not> run_full_clean r \<or> u \<in> run_id ` set (rl_runs w) then (Inl (Crash ''ValidationError''), w)
                  else if \<not> json_finite (JObj (config_json r)) then (Inl (Crash ''DataError''), w)
                  else if \<not> rl_broker_up env w1 then (Inl (Crash ''OperationalError''), w1)
                  else (Inr (rl_submission_of r False), send_rl oper u w1)))"

definition submit_eval where
  "submit_eval env c = submit_run env c EVAL"

definition submit_training where
  "submit_training env c = submit_run env c PRIME_RL_TRAIN"

subsection \<open>Reading and canceling a run\<close>

definition tenant_run :: "'x rl_world \<Rightarrow> uuid \<Rightarrow> uuid \<Rightarrow> training_run option" where
  "tenant_run w t j = find (\<lambda>r. run_id r = j \<and> run_tenant r = t) (rl_runs w)"

record artifact_view =
  av_kind :: json
  av_key :: json
  av_digest :: string
  av_content_type :: json
  av_url :: string
  av_schema :: json
  av_rows :: json
  av_bytes :: json

text \<open>A descriptor is verified by reading its object back: an Arrow shard with its schema and row count,
  any other content by its digest. The descriptors were written by \<open>ingest\<close>, so a key and a schema are
  strings and a row count is an integer.\<close>

definition text_field :: "descriptor \<Rightarrow> string \<Rightarrow> string" where
  "text_field d k = (case get_or d k (JStr []) of JStr s \<Rightarrow> s | _ \<Rightarrow> [])"

definition rows_field :: "descriptor \<Rightarrow> int option" where
  "rows_field d = (case get_or d ''rows'' JNull of JInt n \<Rightarrow> Some n | _ \<Rightarrow> None)"

definition read_back ::
  "'x rl_env \<Rightarrow> artifact_store \<Rightarrow> uuid \<Rightarrow> descriptor \<Rightarrow> 'x rl_world \<Rightarrow> (artifact_error, unit) result" where
  "read_back env st t d w =
     (if get_or d ''content_type'' JNull = JStr ''application/vnd.apache.arrow.stream''
      then rbind (read_arrow st (rl_s3 env) (rl_ipc env) t (text_field d ''artifact_key'')
                    (text_field d ''payload_digest'') (text_field d ''schema_json'') (rows_field d) w) (\<lambda>_. Inr ())
      else rbind (get_bytes st (rl_s3 env) t (text_field d ''artifact_key'') w) (\<lambda>payload.
             if sha256_digest payload \<noteq> text_field d ''payload_digest''
             then Inl (ArtifactValidationError ''artifact digest mismatch'') else Inr ()))"

definition verified_artifact ::
  "'x rl_env \<Rightarrow> artifact_store \<Rightarrow> uuid \<Rightarrow> 'x rl_world \<Rightarrow> descriptor \<Rightarrow> (api_exc, artifact_view) result" where
  "verified_artifact env st t w d =
     (let key = text_field d ''artifact_key''; digest = text_field d ''payload_digest'';
          failed = (\<lambda>_. Http (HttpError 503 ''artifact verification failed''))
      in if \<not> is_sha256_digest digest
         then Inl (Http (HttpError 500 ''stored RL artifact descriptor is incomplete''))
         else rbind (map_err failed (read_back env st t d w)) (\<lambda>_.
           case (map_of d ''kind'', map_of d ''content_type'') of
             (Some kind, Some content_type) \<Rightarrow>
               rbind (map_err failed (presign_get st (rl_s3 env) t key)) (\<lambda>url.
                 Inr \<lparr>av_kind = kind, av_key = JStr key, av_digest = digest, av_content_type = content_type,
                      av_url = url, av_schema = get_or d ''schema_json'' JNull,
                      av_rows = get_or d ''rows'' JNull, av_bytes = get_or d ''byte_length'' JNull\<rparr>)
           | _ \<Rightarrow> Inl (Crash ''KeyError'')))"

definition verified_artifacts ::
  "'x rl_env \<Rightarrow> training_run \<Rightarrow> 'x rl_world \<Rightarrow> (api_exc, artifact_view list) result" where
  "verified_artifacts env r w =
     (if artifact_descriptors r = [] then Inr []
      else case from_settings (rl_cfg env) of
             Inl _ \<Rightarrow> Inl (Http (HttpError 503 ''artifact storage unavailable''))
           | Inr st \<Rightarrow> traverse (verified_artifact env st (run_tenant r) w) (artifact_descriptors r))"

record run_view =
  rv_run :: training_run
  rv_artifacts :: "artifact_view list"
  rv_trajectories :: nat

definition get_run ::
  "'x rl_env \<Rightarrow> api_ctx \<Rightarrow> string \<Rightarrow> uuid \<Rightarrow> 'x rl_world \<Rightarrow> (api_exc, run_view) result" where
  "get_run env c authorization j w =
     rbind (map_err Http (admit c authorization RL_READ_SCOPE)) (\<lambda>t.
       case tenant_run w t j of
         None \<Rightarrow> Inl (Http (HttpError 404 ''Not Found''))
       | Some r \<Rightarrow>
           rbind (verified_artifacts env r w) (\<lambda>views.
             Inr \<lparr>rv_run = r, rv_artifacts = views,
                  rv_trajectories = length (filter (\<lambda>q. tj_run q = j) (trajectories w))\<rparr>))"

definition run_closed :: "run_status \<Rightarrow> bool" where
  "run_closed s = (s = RunSucceeded \<or> s = RunFailed \<or> s = RunCanceled)"

text \<open>Whatever the operation of the run, it is the training task that is told.\<close>

definition cancel_run ::
  "'x rl_env \<Rightarrow> api_ctx \<Rightarrow> string \<Rightarrow> uuid \<Rightarrow> 'x rl_world
   \<Rightarrow> (api_exc, uuid \<times> run_status \<times> bool) result \<times> 'x rl_world" where
  "cancel_run env c authorization j w =
     (case map_err Http (admit c authorization RL_CANCEL_SCOPE) of
        Inl e \<Rightarrow> (Inl e, w)
      | Inr t \<Rightarrow>
          (case tenant_run w t j of
             None \<Rightarrow> (Inl (Http (HttpError 404 ''Not Found'')), w)
           | Some r \<Rightarrow>
               if run_closed (run_status r) then (Inr (j, run_status r, True), w)
               else let w1 = modify_run j (\<lambda>q. q\<lparr>run_status := RunCanceled\<rparr>) w
                    in if \<not> rl_broker_up env w1 then (Inl (Crash ''OperationalError''), w1)
                       else (Inr (j, RunCanceled, False), send_rl PRIME_RL_TRAIN j w1)))"

subsection \<open>Claim and finish\<close>

datatype rl_reply = RlReply run_status string

definition claim_run ::
  "'x rl_env \<Rightarrow> uuid \<Rightarrow> 'x rl_world \<Rightarrow> (rl_exc, training_run option) result \<times> 'x rl_world" where
  "claim_run env j w =
     (case get_run_row w j of
        None \<Rightarrow> (Inl (RlUncaught ''DoesNotExist''), w)
      | Some r \<Rightarrow>
          if run_status r = RunCanceled \<or> run_status r = RunSucceeded then (Inr None, w)
          else let w1 = modify_run j (\<lambda>q. q\<lparr>run_status := RunRunning,
                     run_started := Some (case run_started r of Some s \<Rightarrow> s | None \<Rightarrow> rl_now env w),
                     run_error := []\<rparr>) w
               in (Inr (get_run_row w1 j), w1))"

definition finish_run ::
  "'x rl_env \<Rightarrow> uuid \<Rightarrow> run_status \<Rightarrow> string \<Rightarrow> 'x rl_world \<Rightarrow> (rl_exc, rl_reply) result \<times> 'x rl_world" where
  "finish_run env j st msg w =
     (case get_run_row w j of
        None \<Rightarrow> (Inl (RlUncaught ''DoesNotExist''), w)
      | Some r \<Rightarrow>
          let final = (if run_status r = RunCanceled then RunCanceled else st)
          in (Inr (RlReply final msg),
              modify_run j (\<lambda>q. q\<lparr>run_status := final, run_error := msg, run_ended := Some (rl_now env w)\<rparr>) w))"

text \<open>The answer of a task whose row was not to be claimed.\<close>

definition current_reply :: "uuid \<Rightarrow> 'x rl_world \<Rightarrow> (rl_exc, rl_reply) result" where
  "current_reply j w =
     (case get_run_row w j of None \<Rightarrow> Inl (RlUncaught ''DoesNotExist'') | Some r \<Rightarrow> Inr (RlReply (run_status r) []))"

subsection \<open>Ingestion\<close>

text \<open>\<open>update_or_create\<close> of a trajectory by run and digest, then of its verdict. The table takes no id twice.\<close>

definition put_trajectory ::
  "'x rl_env \<Rightarrow> uuid \<Rightarrow> string \<Rightarrow> trace_row \<Rightarrow> 'x rl_world \<Rightarrow> (rl_exc, uuid \<times> 'x rl_world) result" where
  "put_trajectory env j shard row w =
     (case find (\<lambda>q. tj_run q = j \<and> tj_digest q = tr_digest row) (trajectories w) of
        Some q \<Rightarrow>
          Inr (tj_id q, w\<lparr>trajectories := upd_row tj_id (trajectories w)
             (q\<lparr>tj_task_key := tr_task_key row, tj_reward := tr_reward row, tj_metrics := tr_metrics row,
                arrow_shard_key := shard\<rparr>)\<rparr>)
      | None \<Rightarrow>
          if rl_fresh env w \<in> tj_id ` set (trajectories w) then Inl (RlUncaught ''IntegrityError'')
          else Inr (rl_fresh env w, w\<lparr>trajectories := trajectories w @
             [\<lparr>tj_id = rl_fresh env w, tj_run = j, tj_task_key = tr_task_key row, tj_digest = tr_digest row,
               tj_reward = tr_reward row, tj_metrics = tr_metrics row, arrow_shard_key = shard\<rparr>]\<rparr>))"

definition verdict_of :: "uuid \<Rightarrow> trace_row \<Rightarrow> verdict" where
  "verdict_of i row =
     \<lparr>vd_trajectory = i, vd_resolved = tr_resolved row, metric_values = tr_metrics row,
      tripwire_flags = tr_flags row\<rparr>"

definition put_verdict :: "uuid \<Rightarrow> trace_row \<Rightarrow> 'x rl_world \<Rightarrow> 'x rl_world" where
  "put_verdict i row w =
     w\<lparr>verdicts := (if i \<in> vd_trajectory ` set (verdicts w) then upd_row vd_trajectory (verdicts w) (verdict_of i row)
                    else verdicts w @ [verdict_of i row])\<rparr>"

fun put_traces ::
  "'x rl_env \<Rightarrow> uuid \<Rightarrow> string \<Rightarrow> trace_row list \<Rightarrow> 'x rl_world \<Rightarrow> (rl_exc, 'x rl_world) result" where
  "put_traces env j shard [] w = Inr w"
| "put_traces env j shard (row # rows) w =
     rbind (put_trajectory env j shard row w) (\<lambda>(i, w1). put_traces env j shard rows (put_verdict i row w1))"

definition set_descriptor :: "descriptor list \<Rightarrow> string \<Rightarrow> descriptor \<Rightarrow> descriptor list" where
  "set_descriptor ds kind d = filter (\<lambda>x. map_of x ''kind'' \<noteq> Some (JStr kind)) ds @ [d]"

definition keys_of :: "descriptor list \<Rightarrow> (rl_exc, json list) result" where
  "keys_of ds = traverse (\<lambda>d. case map_of d ''artifact_key'' of None \<Rightarrow> Inl (RlUncaught ''KeyError'') | Some k \<Rightarrow> Inr k) ds"

definition shard_descriptor :: "stored_arrow \<Rightarrow> descriptor" where
  "shard_descriptor a =
     [(''kind'', JStr ''trajectories''), (''artifact_key'', JStr (arrow_key a)),
      (''payload_digest'', JStr (arrow_digest a)), (''schema_json'', JStr (arrow_schema a)),
      (''rows'', JInt (int (arrow_rows a))), (''content_type'', JStr ''application/vnd.apache.arrow.stream'')]"

text \<open>The save of both columns, on the row object and in the table.\<close>

definition save_descriptors ::
  "training_run \<Rightarrow> descriptor list \<Rightarrow> 'x rl_world \<Rightarrow> (rl_exc, training_run) result \<times> 'x rl_world" where
  "save_descriptors r ds w =
     (case keys_of ds of
        Inl e \<Rightarrow> (Inl e, w)
      | Inr ks \<Rightarrow>
          (Inr (r\<lparr>artifact_descriptors := ds, artifact_keys := ks\<rparr>),
           modify_run (run_id r) (\<lambda>q. q\<lparr>artifact_descriptors := ds, artifact_keys := ks\<rparr>) w))"

text \<open>The shard is written and read back before the transaction; an error in the transaction undoes all
  of it.\<close>

definition write_shard ::
  "'x rl_env \<Rightarrow> artifact_store \<Rightarrow> training_run \<Rightarrow> bytes \<Rightarrow> trace_row list \<Rightarrow> 'x rl_world
   \<Rightarrow> (artifact_error, stored_arrow) result \<times> 'x rl_world" where
  "write_shard env st r traces rows w =
     (case rl_artifact_key (run_tenant r) (run_id r) ''trajectories.arrow'' (sha256_digest traces) of
        Inl e \<Rightarrow> (Inl e, w)
      | Inr key \<Rightarrow>
        (case write_table st (rl_s3 env) (rl_ipc env) (run_tenant r) key (trace_table rows) w of
           (Inl e, w1) \<Rightarrow> (Inl e, w1)
         | (Inr a, w1) \<Rightarrow>
             (rbind (read_arrow st (rl_s3 env) (rl_ipc env) (run_tenant r) (arrow_key a) (arrow_digest a)
                       (arrow_schema a) (Some (int (arrow_rows a))) w1) (\<lambda>_. Inr a), w1)))"

definition ingest_trajectories ::
  "'x rl_env \<Rightarrow> artifact_store \<Rightarrow> training_run \<Rightarrow> bytes \<Rightarrow> 'x rl_world
   \<Rightarrow> (rl_exc, training_run) result \<times> 'x rl_world" where
  "ingest_trajectories env st r traces w =
     (case parse_traces (rl_loads env) (rl_float env) traces of
        Inl e \<Rightarrow> (Inl e, w)
      | Inr rows \<Rightarrow>
        (case write_shard env st r traces rows w of
           (Inl e, w1) \<Rightarrow> (Inl (RlArtifact e), w1)
         | (Inr a, w1) \<Rightarrow>
             if \<not> rl_db_takes env rows then (Inl (RlUncaught ''DataError''), w1)
             else (case put_traces env (run_id r) (arrow_key a) rows w1 of
                     Inl e \<Rightarrow> (Inl e, w1)
                   | Inr w2 \<Rightarrow>
                     (case save_descriptors r
                             (set_descriptor (artifact_descriptors r) ''trajectories'' (shard_descriptor a)) w2 of
                        (Inl e, _) \<Rightarrow> (Inl e, w1)
                      | (Inr r', w3) \<Rightarrow> (Inr r', w3)))))"

definition content_descriptor :: "string \<Rightarrow> stored_content \<Rightarrow> descriptor" where
  "content_descriptor name a =
     [(''kind'', JStr name), (''artifact_key'', JStr (artifact_key a)), (''payload_digest'', JStr (payload_digest a)),
      (''content_type'', JStr (media_type a)), (''byte_length'', JInt (int (byte_length a)))]"

fun publish_each ::
  "'x rl_env \<Rightarrow> artifact_store \<Rightarrow> training_run \<Rightarrow> (string \<times> bytes \<times> string) list \<Rightarrow> descriptor list \<Rightarrow> 'x rl_world
   \<Rightarrow> (rl_exc, descriptor list) result \<times> 'x rl_world" where
  "publish_each env st r [] ds w = (Inr ds, w)"
| "publish_each env st r ((name, payload, media) # rest) ds w =
     (case write_rl_content st (rl_s3 env) (run_tenant r) (run_id r) name payload media w of
        (Inl e, w1) \<Rightarrow> (Inl (RlArtifact e), w1)
      | (Inr a, w1) \<Rightarrow> publish_each env st r rest (set_descriptor ds name (content_descriptor name a)) w1)"

definition publish_supporting_artifacts ::
  "'x rl_env \<Rightarrow> artifact_store \<Rightarrow> training_run \<Rightarrow> (string \<times> bytes \<times> string) list \<Rightarrow> 'x rl_world
   \<Rightarrow> (rl_exc, training_run) result \<times> 'x rl_world" where
  "publish_supporting_artifacts env st r artifacts w =
     (case publish_each env st r artifacts (artifact_descriptors r) w of
        (Inl e, w1) \<Rightarrow> (Inl e, w1)
      | (Inr ds, w1) \<Rightarrow> save_descriptors r ds w1)"

end
