(* ===== verification/Rl_Tasks.thy ===== *)
theory Rl_Tasks
  imports Rl_Runs
begin

section \<open>The tasks of reinforcement learning runs\<close>

text \<open>
  \<open>theorem_control/rl/tasks.py\<close>: \<open>run_eval\<close> runs the evaluation process and \<open>run_prime_rl_training\<close> a Pod,
  both ingest the traces and publish the other outputs. A task catches the error classes it names and
  records them in the row; any other class (\<open>RlUncaught\<close>) leaves the task as it is.
\<close>

subsection \<open>The evaluation process\<close>

definition eval_option ::
  "(string \<times> json) list \<Rightarrow> string \<times> string \<times> bool \<Rightarrow> (rl_exc, string list) result" where
  "eval_option config o' =
     (case o' of (name, flag, is_text) \<Rightarrow>
      let bad_int = Inl (RlValue (''eval config '' @ name @ '' must be a positive integer''));
          bad_text = Inl (RlValue (''eval config '' @ name @ '' must be a non-empty string''))
      in case get_or config name JNull of
           JNull \<Rightarrow> Inr []
         | JInt n \<Rightarrow> if is_text then bad_text else if n \<le> 0 then bad_int else Inr [flag, dec_int n]
         | JBool b \<Rightarrow> if is_text then bad_text else if \<not> b then bad_int else Inr [flag, ''True'']
         | JStr s \<Rightarrow> if \<not> is_text then bad_int else if blank s then bad_text else Inr [flag, s]
         | _ \<Rightarrow> if is_text then bad_text else bad_int)"

definition eval_options :: "(string \<times> string \<times> bool) list" where
  "eval_options =
     [(''model'', ''-m'', True), (''num_tasks'', ''-n'', False), (''num_rollouts'', ''-r'', False),
      (''max_concurrent'', ''-c'', False)]"

definition eval_command :: "training_run \<Rightarrow> string \<Rightarrow> (rl_exc, string list) result" where
  "eval_command r directory =
     (case get_or (config_json r) ''taskset_id'' (JStr (taskset_ref r)) of
        JStr t \<Rightarrow>
          if blank t then Inl (RlValue ''eval config taskset_id must be a non-empty string'')
          else rbind (traverse (eval_option (config_json r)) eval_options) (\<lambda>os.
                 Inr ([''uv'', ''run'', ''eval'', t, ''-o'', directory, ''--no-push'', ''--no-rich''] @ concat os))
      | _ \<Rightarrow> Inl (RlValue ''eval config taskset_id must be a non-empty string''))"

text \<open>\<open>glob("**/a/b")\<close>: the entries whose path ends so. Reading a directory is an \<open>OSError\<close>.\<close>

definition glob :: "string list \<Rightarrow> (string list \<times> bytes option) list \<Rightarrow> bytes option list" where
  "glob pattern files = map snd (filter (\<lambda>(p, _). suffix pattern p) files)"

definition one_file :: "string \<Rightarrow> (string list \<times> bytes option) list \<Rightarrow> (rl_exc, bytes option) result" where
  "one_file name files =
     (case glob [name] files of [f] \<Rightarrow> Inr f
      | fs \<Rightarrow> Inl (RlRuntime (''eval produced '' @ dec_nat (length fs) @ '' '' @ name @ '' files; expected exactly one'')))"

definition resolved_eval_config :: "(string list \<times> bytes option) list \<Rightarrow> (rl_exc, bytes option) result" where
  "resolved_eval_config files =
     (case glob [''configs'', ''resolved'', ''eval.json''] files of [f] \<Rightarrow> Inr f
      | _ \<Rightarrow> (case glob [''configs'', ''eval.json''] files of [f] \<Rightarrow> Inr f
              | _ \<Rightarrow> Inl (RlRuntime ''eval did not produce exactly one resolved configs/eval.json artifact'')))"

definition read_file :: "bytes option \<Rightarrow> (rl_exc, bytes) result" where
  "read_file f = (case f of None \<Rightarrow> Inl (RlOs ''[Errno 21] Is a directory'') | Some b \<Rightarrow> Inr b)"

definition run_process ::
  "'x rl_env \<Rightarrow> training_run \<Rightarrow> 'x rl_world
   \<Rightarrow> (rl_exc, (string list \<times> bytes option) list) result \<times> 'x rl_world" where
  "run_process env r w =
     (case eval_command r (rl_eval_directory env (run_id r)) of
        Inl e \<Rightarrow> (Inl e, w)
      | Inr command \<Rightarrow>
        (case rl_eval_process env command w of
           (Inl m, w1) \<Rightarrow> (Inl (RlOs m), w1)
         | (Inr res, w1) \<Rightarrow>
             if returncode res \<noteq> 0
             then (Inl (RlRuntime (''uv run eval failed ('' @ dec_int (returncode res) @ ''): '' @ last_chars 2000 (stderr_text res))), w1)
             else (Inr (eval_files res), w1)))"

text \<open>The \<open>try\<close> block up to its return.\<close>

definition attempt_eval ::
  "'x rl_env \<Rightarrow> training_run \<Rightarrow> 'x rl_world \<Rightarrow> (rl_exc, unit) result \<times> 'x rl_world" where
  "attempt_eval env r w =
     (case from_settings (rl_cfg env) of
        Inl e \<Rightarrow> (Inl (RlArtifact e), w)
      | Inr st \<Rightarrow>
        (case run_process env r w of
           (Inl e, w1) \<Rightarrow> (Inl e, w1)
         | (Inr files, w1) \<Rightarrow>
           (case rbind (one_file ''traces.jsonl'' files) read_file of
              Inl e \<Rightarrow> (Inl e, w1)
            | Inr traces \<Rightarrow>
              (case ingest_trajectories env st r traces w1 of
                 (Inl e, w2) \<Rightarrow> (Inl e, w2)
               | (Inr r2, w2) \<Rightarrow>
                 (case rbind (resolved_eval_config files) read_file of
                    Inl e \<Rightarrow> (Inl e, w2)
                  | Inr resolved \<Rightarrow>
                    (case publish_supporting_artifacts env st r2
                            [(''eval-config.json'', resolved, ''application/json'')] w2 of
                       (Inl e, w3) \<Rightarrow> (Inl e, w3)
                     | (Inr _, w3) \<Rightarrow> (Inr (), w3)))))))"

fun uncaught :: "rl_exc \<Rightarrow> bool" where
  "uncaught (RlUncaught _) = True"
| "uncaught _ = False"

definition run_eval ::
  "'x rl_env \<Rightarrow> uuid \<Rightarrow> 'x rl_world \<Rightarrow> (rl_exc, rl_reply) result \<times> 'x rl_world" where
  "run_eval env j w =
     (case claim_run env j w of
        (Inl e, w1) \<Rightarrow> (Inl e, w1)
      | (Inr None, w1) \<Rightarrow> (current_reply j w1, w1)
      | (Inr (Some r), w1) \<Rightarrow>
          (case attempt_eval env r w1 of
             (Inr _, w2) \<Rightarrow> finish_run env j RunSucceeded [] w2
           | (Inl e, w2) \<Rightarrow>
               if uncaught e then (Inl e, w2) else finish_run env j RunFailed (rl_text e) w2))"

subsection \<open>The training Pod\<close>

definition incoming_key :: "training_run \<Rightarrow> string \<Rightarrow> string" where
  "incoming_key r name =
     ''tenants/'' @ uuid_str (run_tenant r) @ ''/rl/'' @ uuid_str (run_id r) @ ''/incoming/'' @ name"

definition training_outputs :: "(string \<times> string) list" where
  "training_outputs =
     [(''traces.jsonl'', ''application/jsonl''), (''reward_curve.csv'', ''text/csv''),
      (''eval_before.json'', ''application/json''), (''eval_after.json'', ''application/json''),
      (''prime_rl.toml'', ''text/plain'')]"

definition upload_entry ::
  "'x rl_env \<Rightarrow> artifact_store \<Rightarrow> training_run \<Rightarrow> string \<times> string \<Rightarrow> (artifact_error, string \<times> json) result" where
  "upload_entry env st r o' =
     (case o' of (name, media) \<Rightarrow>
        rbind (presign_put_content st (rl_s3 env) (run_tenant r) (incoming_key r name) media) (\<lambda>url.
          Inr (name, JObj [(''artifact_key'', JStr (incoming_key r name)), (''content_type'', JStr media),
                           (''upload_url'', JStr url)])))"

definition pod_json :: "json \<Rightarrow> string" where
  "pod_json v = dumps \<lparr>ensure_ascii = True, item_sep = '','', key_sep = '':''\<rparr> v"

definition training_payload ::
  "'x rl_env \<Rightarrow> artifact_store \<Rightarrow> training_run \<Rightarrow> (artifact_error, json) result" where
  "training_payload env st r =
     rbind (traverse (upload_entry env st r) training_outputs) (\<lambda>upload.
       Inr (JObj
         [(''name'', JStr (''theorem-rl-'' @ take 12 (uuid_str (run_id r)))),
          (''imageName'', JStr (image_digest r)),
          (''cloudType'', JStr (rl_cloud_type env)),
          (''computeType'', JStr ''GPU''),
          (''gpuTypeIds'', JList [JStr (rl_gpu_type env)]),
          (''gpuCount'', JInt 1),
          (''containerDiskInGb'', JInt 50),
          (''volumeInGb'', JInt 20),
          (''volumeMountPath'', JStr ''/workspace''),
          (''env'', JObj
             [(''THEOREM_RL_RUN_ID'', JStr (uuid_str (run_id r))),
              (''THEOREM_TASKSET_REF'', JStr (taskset_ref r)),
              (''THEOREM_RL_CONFIG_JSON'', JStr (pod_json (JObj (config_json r)))),
              (''THEOREM_RL_UPLOADS_JSON'', JStr (pod_json (JObj upload)))])]))"

definition pod_client_of :: "'x rl_env \<Rightarrow> (rl_exc, pod_client) result" where
  "pod_client_of env = map_err (\<lambda>e. RlPod (runpod_text e)) (pod_client_init (rl_runpod_key env) (rl_pods_base env))"

definition supporting_sources :: "(string \<times> string \<times> string) list" where
  "supporting_sources =
     [(''reward-curve.csv'', ''reward_curve.csv'', ''text/csv''),
      (''eval-before.json'', ''eval_before.json'', ''application/json''),
      (''eval-after.json'', ''eval_after.json'', ''application/json''),
      (''prime-rl.toml'', ''prime_rl.toml'', ''application/toml'')]"

definition read_training_outputs ::
  "'x rl_env \<Rightarrow> artifact_store \<Rightarrow> training_run \<Rightarrow> 'x rl_world
   \<Rightarrow> (artifact_error, bytes \<times> (string \<times> bytes \<times> string) list) result" where
  "read_training_outputs env st r w =
     rbind (get_bytes st (rl_s3 env) (run_tenant r) (incoming_key r ''traces.jsonl'') w) (\<lambda>traces.
     rbind (traverse (\<lambda>(name, source, media).
              rbind (get_bytes st (rl_s3 env) (run_tenant r) (incoming_key r source) w) (\<lambda>payload.
                Inr (name, payload, media))) supporting_sources) (\<lambda>supporting.
       Inr (traces, supporting)))"

fun delete_incoming ::
  "'x rl_env \<Rightarrow> training_run \<Rightarrow> string list \<Rightarrow> 'x rl_world \<Rightarrow> (rl_exc, unit) result \<times> 'x rl_world" where
  "delete_incoming env r [] w = (Inr (), w)"
| "delete_incoming env r (name # names) w =
     (case delete_artifact (rl_s3 env) (run_tenant r) (incoming_key r name) w of
        (Inl e, w1) \<Rightarrow> (Inl (RlArtifact e), w1)
      | (Inr _, w1) \<Rightarrow> delete_incoming env r names w1)"

text \<open>What follows a Pod that has ended.\<close>

definition collect_outputs ::
  "'x rl_env \<Rightarrow> artifact_store \<Rightarrow> training_run \<Rightarrow> 'x rl_world \<Rightarrow> (rl_exc, unit) result \<times> 'x rl_world" where
  "collect_outputs env st r w =
     (case read_training_outputs env st r w of
        Inl e \<Rightarrow> (Inl (RlArtifact e), w)
      | Inr (traces, supporting) \<Rightarrow>
        (case ingest_trajectories env st r traces w of
           (Inl e, w1) \<Rightarrow> (Inl e, w1)
         | (Inr r1, w1) \<Rightarrow>
           (case publish_supporting_artifacts env st r1 supporting w1 of
              (Inl e, w2) \<Rightarrow> (Inl e, w2)
            | (Inr r2, w2) \<Rightarrow> delete_incoming env r2 (map fst training_outputs) w2)))"

definition run_is_canceled :: "uuid \<Rightarrow> 'x rl_world \<Rightarrow> bool \<times> 'x rl_world" where
  "run_is_canceled j w = (\<exists>r \<in> set (rl_runs w). run_id r = j \<and> run_status r = RunCanceled, w)"

text \<open>How the \<open>try\<close> block ends: canceled, collected, or an error beside the client and the Pod the
  handler then terminates.\<close>

datatype training_end = PodCanceled | Collected | Failed rl_exc "pod_client option" string

definition await_pod ::
  "'x rl_env \<Rightarrow> artifact_store \<Rightarrow> pod_client \<Rightarrow> training_run \<Rightarrow> 'x rl_world \<Rightarrow> (training_end \<times> 'x rl_world) option" where
  "await_pod env st client r w =
     (case pod_wait (rl_http env) client (pod_id r) (rl_deadline env) (rl_poll env)
             (run_is_canceled (run_id r)) (\<lambda>_ w. (Inr (), w)) w of
        None \<Rightarrow> None
      | Some (Inl e, w1) \<Rightarrow> Some (Failed (RlPod (runpod_text e)) (Some client) (pod_id r), w1)
      | Some (Inr state, w1) \<Rightarrow>
          if upper (str_or_empty (map_of state ''desiredStatus'')) = ''CANCELED'' then Some (PodCanceled, w1)
          else (case collect_outputs env st r w1 of
                  (Inl e, w2) \<Rightarrow> Some (Failed e (Some client) (pod_id r), w2)
                | (Inr _, w2) \<Rightarrow> Some (Collected, w2)))"

definition attempt_training ::
  "'x rl_env \<Rightarrow> training_run \<Rightarrow> 'x rl_world \<Rightarrow> (training_end \<times> 'x rl_world) option" where
  "attempt_training env r w =
     (case from_settings (rl_cfg env) of
        Inl e \<Rightarrow> Some (Failed (RlArtifact e) None (pod_id r), w)
      | Inr st \<Rightarrow>
        (case pod_client_of env of
           Inl e \<Rightarrow> Some (Failed e None (pod_id r), w)
         | Inr client \<Rightarrow>
           (case training_payload env st r of
              Inl e \<Rightarrow> Some (Failed (RlArtifact e) (Some client) (pod_id r), w)
            | Inr payload \<Rightarrow>
              (case pod_create (rl_http env) client payload w of
                 (Inl e, w1) \<Rightarrow> Some (Failed (RlPod (runpod_text e)) (Some client) (pod_id r), w1)
               | (Inr pod, w1) \<Rightarrow>
                   await_pod env st client (r\<lparr>pod_id := sub_job_id pod\<rparr>)
                     (modify_run (run_id r) (\<lambda>q. q\<lparr>pod_id := sub_job_id pod\<rparr>) w1)))))"

text \<open>A terminate call whose API error is ignored.\<close>

definition terminate_quietly :: "'x rl_env \<Rightarrow> pod_client option \<Rightarrow> string \<Rightarrow> 'x rl_world \<Rightarrow> 'x rl_world" where
  "terminate_quietly env client pod w =
     (case client of None \<Rightarrow> w
      | Some c \<Rightarrow> if pod = [] then w else snd (pod_terminate (rl_http env) c pod w))"

definition run_prime_rl_training ::
  "'x rl_env \<Rightarrow> uuid \<Rightarrow> 'x rl_world \<Rightarrow> ((rl_exc, rl_reply) result \<times> 'x rl_world) option" where
  "run_prime_rl_training env j w =
     (case get_run_row w j of
        None \<Rightarrow> Some (Inl (RlUncaught ''DoesNotExist''), w)
      | Some existing \<Rightarrow>
          if run_status existing = RunCanceled
          then Some (Inr (RlReply RunCanceled []),
                 (if pod_id existing = [] then w
                  else case pod_client_of env of
                         Inl _ \<Rightarrow> w
                       | Inr client \<Rightarrow> terminate_quietly env (Some client) (pod_id existing) w))
          else (case claim_run env j w of
                  (Inl e, w1) \<Rightarrow> Some (Inl e, w1)
                | (Inr None, w1) \<Rightarrow> Some (current_reply j w1, w1)
                | (Inr (Some r), w1) \<Rightarrow>
                    (case attempt_training env r w1 of
                       None \<Rightarrow> None
                     | Some (PodCanceled, w2) \<Rightarrow> Some (finish_run env j RunCanceled [] w2)
                     | Some (Collected, w2) \<Rightarrow> Some (finish_run env j RunSucceeded [] w2)
                     | Some (Failed e client pod, w2) \<Rightarrow>
                         if uncaught e then Some (Inl e, w2)
                         else Some (finish_run env j RunFailed (rl_text e) (terminate_quietly env client pod w2)))))"

end
