(* ===== verification/Rl_Examples.thy ===== *)
theory Rl_Examples
  imports Rl_Cycle
begin

section \<open>A run of reinforcement learning\<close>

text \<open>
  A world with one queued evaluation run whose process leaves one trace: the witnesses of the properties of
  \<open>Rl_Cycle\<close>, and the run that a malformed trace strands.
\<close>

definition demo_trace :: "(string \<times> json) list" where
  "demo_trace = [(''task_key'', JStr ''t1''), (''reward'', JInt 1)]"

definition demo_trace_row :: trace_row where
  "demo_trace_row =
     \<lparr>tr_task_key = ''t1'', tr_digest = sha256_digest (utf8 (canonical_json (JObj demo_trace))),
      tr_reward = Fin 1, tr_metrics = [], tr_resolved = Fin 1, tr_flags = []\<rparr>"

text \<open>The store is a list of objects, the newest first; the byte 1 is the text of the trace, and also of the
  Arrow stream of its row; the byte 2 is a JSON text that is no object.\<close>

definition rl_bucket :: "(string \<times> bytes) list rl_world s3_client" where
  "rl_bucket =
     \<lparr>put_object = \<lambda>k p m w. (None, w\<lparr>rl_rest := (k, p) # rl_rest w\<rparr>),
      get_object = \<lambda>k w. (case map_of (rl_rest w) k of None \<Rightarrow> Inl (ClientError ''NoSuchKey'' (Some 404))
                           | Some p \<Rightarrow> Inr (Some (int (length p)), p)),
      delete_object = \<lambda>k w. (None, w),
      presigned_url = \<lambda>m k ct e. Inr (''https://'' @ k)\<rparr>"

definition demo_rl_env :: "bytes \<Rightarrow> (string \<times> bytes) list rl_env" where
  "demo_rl_env traces =
     \<lparr>rl_cfg = \<lparr>s3_endpoint_url = ''e'', s3_access_key_id = ''a'', s3_secret_access_key = ''s'', s3_region = ''r'',
        s3_bucket = ''b'', s3_presign_seconds = 900, s3_max_bytes = 1000\<rparr>,
      rl_s3 = rl_bucket,
      rl_ipc = \<lparr>ipc_encode = \<lambda>_. [1], ipc_decode = \<lambda>_. Some (trace_table [demo_trace_row])\<rparr>,
      rl_http = \<lparr>request = \<lambda>_ _ _ w. (NoContent, w), monotonic = \<lambda>_. Fin 0, sleep_for = \<lambda>_ w. w\<rparr>,
      rl_now = \<lambda>_. 5, rl_fresh = \<lambda>w. word_of_nat (length (trajectories w)), rl_broker_up = \<lambda>_. True,
      rl_loads = \<lambda>b. Some (if b = [1] then JObj demo_trace else JList []), rl_float = \<lambda>_. None,
      rl_db_takes = \<lambda>_. True,
      rl_eval_process = \<lambda>_ w. (Inr \<lparr>returncode = 0, stderr_text = [],
        eval_files = [([''traces.jsonl''], Some traces), ([''configs'', ''eval.json''], Some [3])]\<rparr>, w),
      rl_eval_directory = \<lambda>_. ''/tmp/eval'', rl_runpod_key = ''k'', rl_pods_base = ''p'', rl_cloud_type = ''c'',
      rl_gpu_type = ''g'', rl_deadline = 60, rl_poll = Fin 5\<rparr>"

definition demo_run :: "run_status \<Rightarrow> training_run" where
  "demo_run s =
     \<lparr>run_id = 8, run_tenant = 7, run_operation = EVAL, run_operation_id = ''op'', taskset_ref = ''ts'',
      run_config_digest = config_digest [(''model'', JStr ''m'')], config_json = [(''model'', JStr ''m'')],
      image_digest = [], pod_id = [], run_status = s, artifact_keys = [], artifact_descriptors = [],
      run_error = [], run_started = None, run_ended = None, run_created = 1\<rparr>"

definition demo_rl_world :: "run_status \<Rightarrow> (string \<times> bytes) list rl_world" where
  "demo_rl_world s =
     \<lparr>rl_runs = [demo_run s], trajectories = [], verdicts = [], rl_queue = [], rl_rest = []\<rparr>"

lemma demo_calls: "rl_call (demo_rl_env traces) w w' \<Longrightarrow>
    rl_runs w' = rl_runs w \<and> trajectories w' = trajectories w \<and> verdicts w' = verdicts w"
  by (induction rule: rl_call.induct) (simp_all add: demo_rl_env_def rl_bucket_def)

lemma demo_rl_fields [simp]:
  "rl_s3 (demo_rl_env x) = rl_bucket" "rl_loads (demo_rl_env x) b = Some (if b = [1] then JObj demo_trace else JList [])"
  "rl_float (demo_rl_env x) t = None" "rl_db_takes (demo_rl_env x) rows" "rl_now (demo_rl_env x) w = 5"
  "ipc_encode (rl_ipc (demo_rl_env x)) tbl = [1]"
  "ipc_decode (rl_ipc (demo_rl_env x)) b = Some (trace_table [demo_trace_row])"
  "rl_fresh (demo_rl_env x) w = word_of_nat (length (trajectories w))"
  "rl_eval_process (demo_rl_env x) c w = (Inr \<lparr>returncode = 0, stderr_text = [],
        eval_files = [([''traces.jsonl''], Some x), ([''configs'', ''eval.json''], Some [3])]\<rparr>, w)"
  by (simp_all add: demo_rl_env_def)

lemma demo_rl_store:
  "from_settings (rl_cfg (demo_rl_env x)) = Inr \<lparr>bucket = ''b'', presign_seconds = 900, max_bytes = 1000\<rparr>"
  by (simp add: demo_rl_env_def from_settings_def blank_iff py_isspace_def)

lemma demo_parsed: "parse_traces (rl_loads (demo_rl_env x)) (rl_float (demo_rl_env x)) [1] = Inr [demo_trace_row]"
  by (simp add: parse_traces_def byte_lines_def blank_bytes_def parse_line_def as_mapping_def parse_item_def
      trace_task_key_def get_or_def truthy_def blank_iff py_isspace_def reward_score_def py_float_def
      trace_reward_def score_in_range_def trace_flags_def supplied_digest_ok_def demo_trace_row_def demo_trace_def
      fl_double is_double_1 Let_def)

lemma rl_bucket_get:
  assumes "validate_key t k = Inr k" and "int (length p) \<le> max_bytes st"
  shows "get_bytes st rl_bucket t k (w\<lparr>rl_rest := (k, p) # s\<rparr>) = Inr p"
  using assms by (simp add: get_bytes_def rl_bucket_def Let_def)

lemma demo_rl_key:
  assumes "name \<in> {''trajectories.arrow'', ''eval-config.json''}"
  shows "\<exists>k. rl_artifact_key 7 8 name (sha256_digest p) = Inr k \<and> validate_key 7 k = Inr k"
proof -
  obtain k where k: "rl_artifact_key 7 8 name (sha256_digest p) = Inr k"
    using assms by (auto simp: rl_artifact_key_def rl_name_chars_def)
  moreover have "name \<noteq> ''..''" using assms by auto
  ultimately show ?thesis using rl_key_dotdot [OF k] by blast
qed

lemma demo_ingest:
  fixes w :: "(string \<times> bytes) list rl_world"
  assumes "run_id r = 8" "run_tenant r = 7" "artifact_descriptors r = []" "trajectories w = []" "verdicts w = []"
  shows "\<exists>r' w'. ingest_trajectories (demo_rl_env x) \<lparr>bucket = ''b'', presign_seconds = 900, max_bytes = 1000\<rparr> r [1] w = (Inr r', w')
    \<and> length (trajectories w') = 1"
proof -
  let ?st = "\<lparr>bucket = ''b'', presign_seconds = 900, max_bytes = 1000\<rparr>"
  obtain k where k: "rl_artifact_key 7 8 ''trajectories.arrow'' (sha256_digest [1]) = Inr k" "validate_key 7 k = Inr k"
    using demo_rl_key by blast
  define w1 where "w1 = w\<lparr>rl_rest := (k, [1]) # rl_rest w\<rparr>"
  have "put_object rl_bucket k [1] m w = (None, w1)" for m
    by (simp add: rl_bucket_def w1_def)
  moreover have "get_bytes ?st rl_bucket 7 k w1 = Inr [1]"
    unfolding w1_def using k(2) by (rule rl_bucket_get) simp
  ultimately obtain a where a: "write_shard (demo_rl_env x) ?st r [1] [demo_trace_row] w = (Inr a, w1)"
    using k by (simp add: write_shard_def assms write_table_def storage_call_def read_arrow_def decode_arrow_ipc_def
        trace_table_def Let_def)
  have "trajectories w1 = []" "verdicts w1 = []" using assms by (simp_all add: w1_def)
  then show ?thesis
    using assms demo_parsed [of x]
    by (simp add: ingest_trajectories_def a put_trajectory_def put_verdict_def save_descriptors_def keys_of_def
        set_descriptor_def shard_descriptor_def)
qed

lemma demo_rl_ok: "rl_ok (demo_rl_world s)"
  by (simp add: rl_ok_def runs_ok_def ledger_ok_def trajectories_ok_def verdicts_ok_def demo_rl_world_def demo_run_def
      config_digest_def)

lemma demo_rely: "rl_rely (demo_rl_env x)"
  unfolding rl_rely_def by (auto simp: rl_ok_def ledger_ok_def dest: demo_calls)

lemma demo_still: "ledger_still (demo_rl_env x)"
  unfolding ledger_still_def by (auto dest: demo_calls)


subsection \<open>The whole task\<close>

lemma demo_rl_claim:
  assumes "s = RunQueued \<or> s = RunRunning \<or> s = RunFailed"
  shows "claim_run (demo_rl_env x) 8 (demo_rl_world s)
    = (Inr (Some ((demo_run RunRunning)\<lparr>run_started := Some 5\<rparr>)),
       (demo_rl_world s)\<lparr>rl_runs := [(demo_run RunRunning)\<lparr>run_started := Some 5\<rparr>]\<rparr>)"
  using assms by (auto simp: claim_run_def get_run_row_def row_of_def demo_rl_world_def demo_run_def modify_run_def)

lemma demo_process:
  "run_process (demo_rl_env x) ((demo_run s)\<lparr>run_started := t\<rparr>) w
   = (Inr [([''traces.jsonl''], Some x), ([''configs'', ''eval.json''], Some [3])], w)"
  by (simp add: run_process_def eval_command_def demo_run_def get_or_def blank_iff py_isspace_def eval_options_def
      eval_option_def)

lemma demo_files:
  "rbind (one_file ''traces.jsonl'' [([''traces.jsonl''], Some x), ([''configs'', ''eval.json''], Some y)]) read_file = Inr x"
  "rbind (resolved_eval_config [([''traces.jsonl''], Some x), ([''configs'', ''eval.json''], Some y)]) read_file = Inr y"
  by (simp_all add: one_file_def resolved_eval_config_def glob_def read_file_def suffix_to_prefix)

lemma demo_publish_still:
  "length (trajectories (snd (publish_supporting_artifacts (demo_rl_env x) st r artifacts w))) = length (trajectories w)"
proof -
  have each: "length (trajectories (snd (publish_each (demo_rl_env x) st r artifacts ds v))) = length (trajectories v)"
    for ds and v :: "(string \<times> bytes) list rl_world"
  proof (induction artifacts arbitrary: ds v)
    case (Cons a artifacts)
    obtain name payload media where [simp]: "a = (name, payload, media)" by (cases a) auto
    have "trajectories (snd (write_rl_content st rl_bucket (run_tenant r) (run_id r) name payload media v)) = trajectories v"
      by (auto simp: write_rl_content_def Let_def storage_call_def rl_bucket_def split: sum.splits)
    with Cons show ?case by (auto split: prod.splits sum.splits)
  qed simp
  have "trajectories (snd (save_descriptors r ds v)) = trajectories v" for ds and v :: "(string \<times> bytes) list rl_world"
    by (cases "keys_of ds") (simp_all add: save_descriptors_def)
  then show ?thesis
    using each [of "artifact_descriptors r" w]
    by (auto simp: publish_supporting_artifacts_def split: prod.splits sum.splits)
qed

lemma demo_eval_trajectory: "length (trajectories (snd (run_eval (demo_rl_env [1]) 8 (demo_rl_world RunQueued)))) = 1"
proof -
  let ?st = "\<lparr>bucket = ''b'', presign_seconds = 900, max_bytes = 1000\<rparr>"
  let ?r = "(demo_run RunRunning)\<lparr>run_started := Some 5\<rparr>"
  let ?w = "(demo_rl_world RunQueued)\<lparr>rl_runs := [?r]\<rparr>"
  obtain r' w' where ing: "ingest_trajectories (demo_rl_env [1]) ?st ?r [1] ?w = (Inr r', w')"
    and one: "length (trajectories w') = 1"
    using demo_ingest [of ?r ?w "[1]"] by (auto simp: demo_run_def demo_rl_world_def)
  obtain y w2 where at: "attempt_eval (demo_rl_env [1]) ?r ?w = (y, w2)" by fastforce
  have "w2 = snd (publish_supporting_artifacts (demo_rl_env [1]) ?st r' [(''eval-config.json'', [3], ''application/json'')] w')"
    using at by (auto simp: attempt_eval_def demo_rl_store demo_process demo_files ing split: prod.splits sum.splits)
  with one have two: "length (trajectories w2) = 1" by (simp add: demo_publish_still)
  have "trajectories (snd (finish_run (demo_rl_env [1]) 8 st msg w2)) = trajectories w2" for st msg
    by (auto simp: finish_run_def Let_def split: option.splits)
  with two show ?thesis
    by (cases y) (simp_all add: run_eval_def demo_rl_claim at)
qed

theorem rl_ledger_invariant_witness:
  "\<exists>w'. rtranclp (rl_step (demo_rl_env [1])) (demo_rl_world RunQueued) w' \<and> length (trajectories w') = 1 \<and> rl_ok w'"
proof -
  let ?w' = "snd (run_eval (demo_rl_env [1]) 8 (demo_rl_world RunQueued))"
  have "rtranclp (rl_step (demo_rl_env [1])) (demo_rl_world RunQueued) ?w'"
    by (rule r_into_rtranclp) (rule rl_step.eval)
  then show ?thesis
    using rl_ledger_invariant [OF _ demo_rely demo_rl_ok] demo_eval_trajectory by blast
qed


text \<open>The trace \<open>[]\<close> is JSON but no object.\<close>

lemma stranded_example:
  "\<exists>m. run_eval (demo_rl_env [2]) 8 (demo_rl_world RunQueued)
       = (Inl (RlUncaught m), (demo_rl_world RunQueued)\<lparr>rl_runs := [(demo_run RunRunning)\<lparr>run_started := Some 5\<rparr>]\<rparr>)"
proof -
  let ?w = "(demo_rl_world RunQueued)\<lparr>rl_runs := [(demo_run RunRunning)\<lparr>run_started := Some 5\<rparr>]\<rparr>"
  have row: "get_run_row (demo_rl_world RunQueued) 8 = Some (demo_run RunQueued)"
    by (simp add: get_run_row_def row_of_def demo_rl_world_def demo_run_def)
  have bad: "parse_traces (rl_loads (demo_rl_env [2])) (rl_float (demo_rl_env [2])) [2]
      = Inl (RlUncaught (line_error 1 '' must be an object''))"
    by (simp add: parse_traces_def byte_lines_def blank_bytes_def parse_line_def as_mapping_def)
  have still: "get_run_row ?w 8 = get_run_row ?w 8" by simp
  have open_run: "run_status (demo_run RunQueued) \<noteq> RunCanceled" "run_status (demo_run RunQueued) \<noteq> RunSucceeded"
    by (simp_all add: demo_run_def)
  have "claim_run (demo_rl_env [2]) 8 (demo_rl_world RunQueued)
      = (Inr (Some ((demo_run RunRunning)\<lparr>run_started := Some 5\<rparr>)), ?w)"
    by (rule demo_rl_claim) simp
  from malformed_trace_strands_run [OF row open_run this demo_rl_store demo_process demo_files(1) still bad]
  show ?thesis by blast
qed

end
