(* ===== verification/Spec2Isabelle.thy ===== *)
theory Spec2Isabelle
  imports Offload_Table Competence_Cycle Ledger_Examples Layout_Cycle Paddle Rl_Examples
begin

text \<open>
  The control plane of Theorem: a Django application that admits tenants by machine keys, keeps
  their artifacts in an object store, runs their computations on remote workers, and keeps ledgers
  of what was submitted, planned, executed and reviewed. This development models its core in the
  order the code is layered, and proves what its callers rely on.

  \<^bold>\<open>Parts and theories.\<close> \<open>Prelude\<close>: results as sums, tables as row lists, \<open>while True\<close> as a partial
  function into option. \<open>Text\<close>, \<open>Digest\<close>, \<open>Floats\<close>, \<open>Json\<close>: the parts of Python the code uses (string
  methods, UTF-8, UUIDs as 128-bit words; SHA-256 over 32-bit words and HMAC; binary64 arithmetic;
  \<open>json.dumps\<close> and \<open>repr\<close>). \<open>Contracts\<close>: the interfaces several components share, as locales.

  \<open>Admission\<close> is \<open>apps/keys/auth.py\<close>, \<open>mint.py\<close> and the key and tenant models: every endpoint starts
  with \<open>require_machine_key\<close>, the loop over the candidate keys of a bearer token. \<open>Artifacts\<close> is
  \<open>apps/orchestration/artifacts.py\<close>: keys under a tenant prefix, and the read, write, delete and presign
  operations. \<open>Billing\<close> is \<open>apps/billing\<close>: metering and the credit allowance. \<open>Runpod\<close> holds the two
  clients of \<open>apps/orchestration/runpod.py\<close> and \<open>theorem_control/rl/runpod.py\<close> with their polling loops.

  \<open>Offload\<close> is \<open>apps/orchestration/api.py\<close>, \<open>tasks.py\<close>, \<open>models.py\<close>: the job table, its endpoints and the
  tasks that execute a job on RunPod, in R, by a local executor or as a stub; \<open>Offload_Table\<close> has its
  invariant and the properties of the endpoints. \<open>Competence\<close> is \<open>apps/competence/contract.py\<close> and
  \<open>fitter.py\<close>; \<open>Competence_Jobs\<close> is its \<open>api.py\<close> and \<open>tasks.py\<close>, over \<open>Artifacts\<close>; \<open>Competence_Cycle\<close>
  proves their guarantees.

  \<open>Planner\<close> is \<open>apps/extraction/planner.py\<close>; \<open>Ledger\<close> is \<open>tasks.py\<close> and \<open>models.py\<close> of the same
  application with \<open>replan_shard\<close>; \<open>Extraction_Api\<close> and \<open>Reviews\<close> are its \<open>api.py\<close> and \<open>reviews.py\<close>.
  \<open>Shard_Plans\<close> proves the cut, \<open>Plan_Bucket\<close> what a planning leaves in the bucket, \<open>Ledger_Cycle\<close>
  what reconciliation and replanning do, \<open>Fan_Out\<close> the composition of planner, ledger and offload,
  and \<open>Ledger_Examples\<close> applies these properties to concrete tables.

  \<open>Layout_Graph\<close> is \<open>contracts.py\<close> and \<open>policy.py\<close> of \<open>apps/layout\<close>, \<open>Layout_Dot\<close> its \<open>canonical.py\<close> and the
  planning half of \<open>compute_layout\<close>, \<open>Layout_Cache\<close> its \<open>cache.py\<close> and \<open>budget.py\<close>, \<open>Layout_Service\<close> the rest of
  \<open>service.py\<close> with \<open>middleware.py\<close> and \<open>api.py\<close>; \<open>Layout_Cycle\<close> proves what holds over many requests.

  \<open>Elements\<close>, \<open>Parsers\<close>, \<open>Paddle\<close> are \<open>theorem_ml/extract/elements.py\<close>: trees of document elements over a
  text buffer, their validation and headings, and the trees made of the exports of two parsers.

  \<open>Rl_Traces\<close> is the reading half of \<open>theorem_control/rl/ingest.py\<close> (a traces file to rows), \<open>Rl_Runs\<close> is
  \<open>models.py\<close> and \<open>api.py\<close> of the same package, the claim and the finish of a run, and the writing half of
  \<open>ingest.py\<close>; \<open>Rl_Tasks\<close> is \<open>tasks.py\<close>, over \<open>Artifacts\<close> and the Pod client of \<open>Runpod\<close>. \<open>Rl_Cycle\<close> proves
  their guarantees over the step relation \<open>rl_step\<close> (a submission, a cancellation or a delivery), and
  \<open>Rl_Examples\<close> applies them to a concrete run.

  \<^bold>\<open>State.\<close> A database table is the list of its rows, a row is a record with the columns the code
  reads or writes (automatic \<open>updated_at\<close> columns are left out where nothing reads them). The state of
  a component is a record of its tables, of the messages sent to the broker, and of an arbitrary
  rest \<open>'x\<close>; the ledger of extraction is the rest of the offload world, so one world carries both. A
  save names the columns it writes; a transaction that locks its rows is one step. A task that
  works on a row object it loaded keeps working on that object, as the code does.

  \<^bold>\<open>What is a parameter.\<close> The S3 client, the HTTP clients, pyarrow, argon2, the R runtime, the clock,
  random ids, and the broker's ids are fields of an environment record. Calls of the object store and of HTTP act
  on the whole world, so that whatever other processes do while such a call is under way is part of
  it. Files of the repository that the code loads as data (the extraction contract) and settings are
  arguments. Hypotheses about parameters are named definitions: \<open>bucket_view\<close> and \<open>ledger_view\<close> (a
  successful write or delete has its effect and touches no other object), \<open>calls_keep\<close> (a call leaves
  some tables as they are: the row locks of the transaction it is made in), \<open>fresh_ids\<close>, \<open>honest_env\<close>,
  and the like; each property that has one has a witness with concrete functions for it.

  \<^bold>\<open>Errors.\<close> An operation answers a sum: \<open>Inl\<close> an exception of the component's error type, \<open>Inr\<close> the
  value; every raise and early return is a branch. An exception handler is a test on the error.

  \<^bold>\<open>Loops.\<close> Loops over lists are structural recursion. The doubling and halving search of the planner, the
  cut and the request of one page are functions with a measure, as are the queue of the acyclicity test, the
  walk up the parents of an element, the traversal of a Docling document and the search of a free column. The polling loops and the loop over
  the pages of a listing may run forever: they are \<open>while_true\<close>, whose value is \<open>None\<close> then, and
  their termination is proved under the conditions that make the code end (a clock that moves on,
  cursors drawn from a finite set). No fuel is used.

  \<^bold>\<open>What the lemmas show.\<close> Locales state the interfaces: \<open>idempotent_submission\<close>, \<open>clean_submission\<close>
  (offload, competence and extraction endpoints), \<open>guarded_task\<close> (the tasks that must not leave a closed
  row), \<open>digest_publisher\<close>, \<open>exact_publisher\<close> (the write operations of the artifact store), \<open>chunking\<close>
  (the cut by size and the halving of a refused shard), \<open>response_cache\<close> (the caches of layout
  responses), \<open>rl_invariant\<close> (what library calls and row updates keep, every endpoint and task of
  reinforcement learning keeps; interpreted on the ledger's invariant and on a closed run). The properties are numbered C1 and up
  in the text before each theorem: who is admitted; that keys and artifacts stay inside their
  tenant and scope; that submissions are idempotent and quotas hold; that a job row obeys its
  invariant, a success was verified and a cancellation wins; that a fit is published, its cleanup exact and its
  evidence counted once; that a planning writes every passage of its source once, cleans up
  after a failure and ends; that a submission task fans out one offload job per shard, that
  reconciliation writes the fold of the offload jobs, that a refused shard is replaced by a
  partition of its rows, and that finished work is completed by the next sweep; that a layout is
  classified by whether its graph is acyclic, does not depend on the order of its input, is served to the
  tenant that asked for it and is computed once; that the validation of an element tree accepts the forests,
  that building one loses no text, that headings nest as the outline says, and that no labelled item of a
  Docling document is lost; that the ledger of reinforcement learning runs keeps its invariant, that ingestion
  is exact and that a closed run stays closed. Some lemmas state what the code does where that is
  hardly what it means to do: \<open>unplanned_job_failed\<close> (a queued extraction job that a sweep fails),
  \<open>rl_key_dotdot\<close> (the reinforcement learning key \<open>..\<close>), \<open>shared_decision_not_fitted\<close>,
  \<open>late_failure_overwrites\<close> (of a success), \<open>missing_ancestor_key_error\<close>, \<open>malformed_trace_strands_run\<close> and
  \<open>submit_run_error\<close> (a row whose message was never sent).

  \<^bold>\<open>Not modelled.\<close> The rest of the document extraction pipeline (capture, models, spans, claims), the
  rendering service, identity webhooks and the tenant cache, the GPU workers and executors, admin pages, settings, migrations and
  scripts. Of modelled files: the fixture replay of stub mode and the document endpoints of
  extraction. Concurrency is modelled as the interference of library calls, not as an interleaving of
  database statements.
\<close>

end
